(* ===== verification/Base.thy ===== *)
theory Base
  imports Main "HOL-Library.Sublist" "HOL-Library.Char_ord" "HOL-Library.List_Lexorder"
    "HOL-Library.Product_Lexorder"
begin

text \<open>
  Prelude of the development: the Python values and string operations the intent tier computes
  with, and the lemma collections the component theories share.

  Text is \<open>string\<close>, the bytes of its UTF-8 encoding; the case, word and digit classes are the
  ASCII ones, which is the alphabet of every pattern and keyword of the tier. A Python \<open>dict\<close>
  decoded from JSON is the association list of \<open>JObj\<close> (insertion order kept); numbers are the
  integers of Python (no float occurs in the modelled payloads). A raised exception is the
  \<open>Inl\<close> of a sum.
\<close>

named_theorems py_simps \<open>defining equations of the Python string and dict operations\<close>
named_theorems dict_simps \<open>lookup-after-update facts of dicts\<close>

section \<open>Exceptions as sums\<close>

fun bind_res :: "'e + 'a \<Rightarrow> ('a \<Rightarrow> 'e + 'b) \<Rightarrow> 'e + 'b" where
  "bind_res (Inl e) f = Inl e"
| "bind_res (Inr a) f = f a"

fun map_res :: "('a \<Rightarrow> 'b) \<Rightarrow> 'e + 'a \<Rightarrow> 'e + 'b" where
  "map_res f (Inl e) = Inl e"
| "map_res f (Inr a) = Inr (f a)"

fun is_err :: "'e + 'a \<Rightarrow> bool" where
  "is_err (Inl e) = True"
| "is_err (Inr a) = False"

lemma bind_res_Inr_iff [simp]: "bind_res r f = Inr b \<longleftrightarrow> (\<exists>a. r = Inr a \<and> f a = Inr b)"
  by (cases r) auto

lemma bind_res_Inl_iff:
  "bind_res r f = Inl e \<longleftrightarrow> r = Inl e \<or> (\<exists>a. r = Inr a \<and> f a = Inl e)"
  by (cases r) auto

lemma map_res_Inr_iff [simp]: "map_res f r = Inr b \<longleftrightarrow> (\<exists>a. r = Inr a \<and> b = f a)"
  by (cases r) auto

section \<open>Characters\<close>

definition code :: "char \<Rightarrow> int" where
  "code c = of_char c"

definition is_digit :: "char \<Rightarrow> bool" where
  "is_digit c \<longleftrightarrow> 48 \<le> code c \<and> code c \<le> 57"

definition is_lower :: "char \<Rightarrow> bool" where
  "is_lower c \<longleftrightarrow> 97 \<le> code c \<and> code c \<le> 122"

definition is_upper :: "char \<Rightarrow> bool" where
  "is_upper c \<longleftrightarrow> 65 \<le> code c \<and> code c \<le> 90"

definition is_alnum :: "char \<Rightarrow> bool" where
  "is_alnum c \<longleftrightarrow> is_digit c \<or> is_lower c \<or> is_upper c"

text \<open>The class \<open>\w\<close>, and the white space that \<open>\s\<close> and \<open>str.strip\<close> recognise.\<close>

definition is_word :: "char \<Rightarrow> bool" where
  "is_word c \<longleftrightarrow> is_alnum c \<or> code c = 95"

definition is_ws :: "char \<Rightarrow> bool" where
  "is_ws c \<longleftrightarrow> code c = 32 \<or> (9 \<le> code c \<and> code c \<le> 13) \<or> (28 \<le> code c \<and> code c \<le> 31)"

definition is_hex_lower :: "char \<Rightarrow> bool" where
  "is_hex_lower c \<longleftrightarrow> is_digit c \<or> (97 \<le> code c \<and> code c \<le> 102)"

lemmas char_class_defs =
  is_word_def is_alnum_def is_digit_def is_lower_def is_upper_def is_ws_def is_hex_lower_def
  code_def

definition lower_char :: "char \<Rightarrow> char" where
  "lower_char c = (if is_upper c then char_of (code c + 32) else c)"

definition lower :: "string \<Rightarrow> string" where
  "lower s = map lower_char s"

lemma code_range: "0 \<le> code c \<and> code c < 256"
proof -
  have "of_char c = (of_char c mod 256 :: int)" by simp
  then show ?thesis by (metis code_def pos_mod_bound pos_mod_sign zero_less_numeral)
qed

lemma code_char_of: "0 \<le> n \<Longrightarrow> n < 256 \<Longrightarrow> code (char_of n) = n"
  by (simp add: code_def of_char_of)

lemma code_inject: "code c = code d \<longleftrightarrow> c = d"
  by (simp add: code_def)

lemma lower_char_not_upper [simp]: "\<not> is_upper (lower_char c)"
  using code_range [of c]
  by (auto simp: lower_char_def is_upper_def code_char_of)

lemma lower_char_idem [simp]: "lower_char (lower_char c) = lower_char c"
  using lower_char_not_upper [of c] by (simp add: lower_char_def [of "lower_char c"])

lemma lower_idem [simp]: "lower (lower s) = lower s"
  by (simp add: lower_def)

lemma lower_append [simp]: "lower (s @ t) = lower s @ lower t"
  by (simp add: lower_def)

lemma length_lower [simp]: "length (lower s) = length s"
  by (simp add: lower_def)

lemma is_word_lower_char [simp]: "is_word (lower_char c) = is_word c"
  using code_range [of c]
  by (auto simp: lower_char_def is_word_def is_alnum_def is_upper_def is_lower_def is_digit_def
      code_char_of)

section \<open>Strings\<close>

definition nl :: string where "nl = [CHR 0x0A]"
definition squote :: string where "squote = [CHR 0x27]"
definition dquote :: string where "dquote = [CHR 0x22]"

text \<open>The dash of the operator-facing texts (U+2014).\<close>

definition emdash :: string where "emdash = [CHR 0xE2, CHR 0x80, CHR 0x94]"

definition starts_with :: "string \<Rightarrow> string \<Rightarrow> bool" where
  "starts_with p s \<longleftrightarrow> take (length p) s = p"

text \<open>Python's \<open>w in s\<close> on strings.\<close>

fun contains :: "string \<Rightarrow> string \<Rightarrow> bool" where
  "contains w [] = (w = [])"
| "contains w (c # s) = (starts_with w (c # s) \<or> contains w s)"

lemma starts_with_iff: "starts_with p s \<longleftrightarrow> (\<exists>t. s = p @ t)"
  unfolding starts_with_def by (metis append_eq_conv_conj append_take_drop_id)

lemma contains_iff: "contains w s \<longleftrightarrow> (\<exists>a b. s = a @ w @ b)"
proof (induction s)
  case Nil
  then show ?case by simp
next
  case (Cons c s)
  have "(\<exists>a b. c # s = a @ w @ b) \<longleftrightarrow> (\<exists>b. c # s = w @ b) \<or> (\<exists>a b. s = a @ w @ b)"
    by (metis append_Cons append_eq_Cons_conv append_Nil)
  with Cons show ?case by (simp add: starts_with_iff)
qed

definition strip_by :: "(char \<Rightarrow> bool) \<Rightarrow> string \<Rightarrow> string" where
  "strip_by p s = rev (dropWhile p (rev (dropWhile p s)))"

definition strip :: "string \<Rightarrow> string" where
  "strip s = strip_by is_ws s"

definition strip_chars :: "string \<Rightarrow> string \<Rightarrow> string" where
  "strip_chars cs s = strip_by (\<lambda>c. c \<in> set cs) s"

lemma dropWhile_rev_dropWhile:
  "dropWhile p (rev (dropWhile p s)) = [] \<or> \<not> p (last (dropWhile p (rev (dropWhile p s))))"
proof (cases "dropWhile p (rev (dropWhile p s)) = []")
  case False
  let ?t = "rev (dropWhile p s)"
  have "suffix (dropWhile p ?t) ?t" by (rule suffix_dropWhile)
  then obtain u where "?t = u @ dropWhile p ?t" by (auto simp: suffix_def)
  with False have "last (dropWhile p ?t) = last ?t" by (metis last_appendR)
  moreover have ne: "dropWhile p s \<noteq> []" using False by (metis dropWhile.simps(1) rev.simps(1))
  ultimately show ?thesis using hd_dropWhile [OF ne] by (simp add: last_rev)
qed simp

lemma strip_by_idem [simp]: "strip_by p (strip_by p s) = strip_by p s"
proof -
  let ?u = "dropWhile p (rev (dropWhile p s))"
  have "dropWhile p (rev ?u) = rev ?u"
    using dropWhile_rev_dropWhile [of p s] unfolding dropWhile_eq_self_iff hd_rev by blast
  moreover have "dropWhile p ?u = ?u" by simp
  ultimately show ?thesis by (simp add: strip_by_def)
qed

text \<open>\<open>s.split(c)\<close> for a one-character separator, and \<open>sep.join(xs)\<close>.\<close>

fun split_on :: "char \<Rightarrow> string \<Rightarrow> string list" where
  "split_on d [] = [[]]"
| "split_on d (c # s) =
     (if c = d then [] # split_on d s
      else (case split_on d s of [] \<Rightarrow> [[c]] | w # ws \<Rightarrow> (c # w) # ws))"

fun join :: "string \<Rightarrow> string list \<Rightarrow> string" where
  "join sep [] = []"
| "join sep [x] = x"
| "join sep (x # y # ys) = x @ sep @ join sep (y # ys)"

lemma split_on_nonempty [simp]: "split_on d s \<noteq> []"
  by (cases s) (auto split: list.splits)

lemma split_on_no_sep: "w \<in> set (split_on d s) \<Longrightarrow> d \<notin> set w"
proof (induction s arbitrary: w)
  case Nil
  then show ?case by simp
next
  case (Cons c s)
  then show ?case by (cases "split_on d s") (auto split: if_splits)
qed

lemma join_split_on: "join [d] (split_on d s) = s"
proof (induction s)
  case Nil
  then show ?case by simp
next
  case (Cons c s)
  obtain w ws where ws: "split_on d s = w # ws" by (cases "split_on d s") auto
  have "join [d] ((c # w) # ws) = c # join [d] (w # ws)" by (cases ws) auto
  with Cons ws show ?case by (auto simp: Cons.IH)
qed

text \<open>\<open>s.split(c, 1)\<close> of a string that contains \<open>c\<close>: the text before and after the first one.\<close>

definition split_first :: "char \<Rightarrow> string \<Rightarrow> string \<times> string" where
  "split_first d s = (takeWhile (\<lambda>c. c \<noteq> d) s, drop 1 (dropWhile (\<lambda>c. c \<noteq> d) s))"

text \<open>The comma-separated lists of the environment: blank entries dropped, order kept.\<close>

definition split_csv :: "string option \<Rightarrow> string list" where
  "split_csv raw =
     (case raw of None \<Rightarrow> []
      | Some r \<Rightarrow> if r = [] then [] else filter (\<lambda>w. w \<noteq> []) (map strip (split_on CHR '','' r)))"

lemma split_csv_no_blank: "w \<in> set (split_csv raw) \<Longrightarrow> w \<noteq> [] \<and> strip w = w"
  by (auto simp: split_csv_def strip_def split: option.splits if_splits)

text \<open>\<open>len(s)\<close> and \<open>s[:n]\<close> count code points: the bytes that do not continue a UTF-8 sequence.\<close>

definition continues :: "char \<Rightarrow> bool" where
  "continues c \<longleftrightarrow> 128 \<le> code c \<and> code c < 192"

definition char_count :: "string \<Rightarrow> nat" where
  "char_count s = length (filter (\<lambda>c. \<not> continues c) s)"

fun take_chars :: "nat \<Rightarrow> string \<Rightarrow> string" where
  "take_chars n [] = []"
| "take_chars n (c # s) =
     (if continues c then c # take_chars n s
      else if n = 0 then [] else c # take_chars (n - 1) s)"

lemma char_count_take_chars: "char_count (take_chars n s) \<le> n"
  by (induction n s rule: take_chars.induct) (auto simp: char_count_def)

section \<open>Integers as text\<close>

definition digit_char :: "nat \<Rightarrow> char" where
  "digit_char n = char_of (48 + int n)"

fun str_nat :: "nat \<Rightarrow> string" where
  "str_nat n = (if n < 10 then [digit_char n] else str_nat (n div 10) @ [digit_char (n mod 10)])"

declare str_nat.simps [simp del]

definition str_int :: "int \<Rightarrow> string" where
  "str_int i = (if i < 0 then CHR ''-'' # str_nat (nat (- i)) else str_nat (nat i))"

definition digit_val :: "char \<Rightarrow> int" where
  "digit_val c = code c - 48"

fun digits_val :: "int \<Rightarrow> string \<Rightarrow> int" where
  "digits_val acc [] = acc"
| "digits_val acc (c # s) = digits_val (10 * acc + digit_val c) s"

text \<open>
  \<open>int(s)\<close>: surrounding white space and a sign are accepted, and single underscores between
  digits; anything else raises (\<open>None\<close>).
\<close>

fun drop_underscores :: "string \<Rightarrow> string option" where
  "drop_underscores [] = None"
| "drop_underscores [c] = (if is_digit c then Some [c] else None)"
| "drop_underscores (c # d # s) =
     (if \<not> is_digit c then None
      else if d = CHR ''_'' then map_option (Cons c) (drop_underscores s)
      else map_option (Cons c) (drop_underscores (d # s)))"

definition py_int :: "string \<Rightarrow> int option" where
  "py_int s =
     (case strip s of
        [] \<Rightarrow> None
      | c # t \<Rightarrow>
          if c = CHR ''-'' then map_option (\<lambda>ds. - digits_val 0 ds) (drop_underscores t)
          else if c = CHR ''+'' then map_option (digits_val 0) (drop_underscores t)
          else map_option (digits_val 0) (drop_underscores (c # t)))"

lemma digit_char_is_digit: "n < 10 \<Longrightarrow> is_digit (digit_char n)"
  by (simp add: digit_char_def is_digit_def code_char_of)

lemma digit_val_digit_char: "n < 10 \<Longrightarrow> digit_val (digit_char n) = int n"
  by (simp add: digit_char_def digit_val_def code_char_of)

lemma str_nat_digits: "\<forall>c \<in> set (str_nat n). is_digit c"
proof (induction n rule: str_nat.induct)
  case (1 n)
  then show ?case by (subst str_nat.simps) (auto simp: digit_char_is_digit)
qed

lemma str_nat_nonempty [simp]: "str_nat n \<noteq> []"
  by (subst str_nat.simps) simp

lemma digits_val_append: "digits_val a (s @ [c]) = 10 * digits_val a s + digit_val c"
  by (induction s arbitrary: a) auto

lemma digits_val_str_nat: "digits_val 0 (str_nat n) = int n"
proof (induction n rule: str_nat.induct)
  case (1 n)
  show ?case
  proof (cases "n < 10")
    case True
    then show ?thesis by (subst str_nat.simps) (simp add: digit_val_digit_char)
  next
    case False
    with 1 show ?thesis
      by (subst str_nat.simps) (simp add: digits_val_append digit_val_digit_char zdiv_int zmod_int)
  qed
qed

lemma drop_underscores_digits: "s \<noteq> [] \<Longrightarrow> \<forall>c \<in> set s. is_digit c \<Longrightarrow> drop_underscores s = Some s"
proof (induction s rule: drop_underscores.induct)
  case (3 c d s)
  then have "d \<noteq> CHR ''_''" by (auto simp: is_digit_def code_def)
  with 3 show ?case by simp
qed auto

lemma digit_not_ws: "is_digit c \<Longrightarrow> \<not> is_ws c"
  by (auto simp: char_class_defs)

lemma strip_digits: "\<forall>c \<in> set s. is_digit c \<Longrightarrow> strip s = s"
proof -
  assume a: "\<forall>c \<in> set s. is_digit c"
  have "dropWhile is_ws s = s"
    using a digit_not_ws by (cases s) auto
  moreover have "dropWhile is_ws (rev s) = rev s"
    using a digit_not_ws by (cases "rev s") (auto simp: dropWhile_eq_self_iff)
  ultimately show ?thesis by (simp add: strip_def strip_by_def)
qed

theorem py_int_str_nat: "py_int (str_nat n) = Some (int n)"
proof -
  have s: "strip (str_nat n) = str_nat n" by (rule strip_digits [OF str_nat_digits])
  obtain c t where ct: "str_nat n = c # t" by (cases "str_nat n") auto
  have "is_digit c" using str_nat_digits [of n] ct by simp
  then have "c \<noteq> CHR ''-'' \<and> c \<noteq> CHR ''+''" by (auto simp: is_digit_def code_def)
  then have "py_int (str_nat n) = map_option (digits_val 0) (drop_underscores (str_nat n))"
    using s unfolding py_int_def ct by simp
  also have "\<dots> = Some (int n)"
    by (simp add: drop_underscores_digits [OF str_nat_nonempty str_nat_digits] digits_val_str_nat)
  finally show ?thesis .
qed

section \<open>JSON values and Python dicts\<close>

datatype json =
    JNull
  | JBool bool
  | JInt int
  | JStr string
  | JArr "json list"
  | JObj "(string \<times> json) list"

type_synonym dict = "(string \<times> json) list"

text \<open>\<open>d.get(k)\<close> with \<open>None\<close> read as JSON null, \<open>d[k] = v\<close>, and \<open>d.pop(k, None)\<close>.\<close>

definition dget :: "dict \<Rightarrow> string \<Rightarrow> json" where
  "dget d k = (case map_of d k of None \<Rightarrow> JNull | Some v \<Rightarrow> v)"

fun dset :: "string \<Rightarrow> json \<Rightarrow> dict \<Rightarrow> dict" where
  "dset k v [] = [(k, v)]"
| "dset k v ((k', v') # d) = (if k' = k then (k, v) # d else (k', v') # dset k v d)"

definition dpop :: "string \<Rightarrow> dict \<Rightarrow> dict" where
  "dpop k d = filter (\<lambda>(k', v). k' \<noteq> k) d"

lemma map_of_dset [dict_simps]: "map_of (dset k v d) k' = (if k' = k then Some v else map_of d k')"
  by (induction d) auto

lemma map_of_dpop [dict_simps]: "map_of (dpop k d) k' = (if k' = k then None else map_of d k')"
  by (induction d) (auto simp: dpop_def)

lemma dget_dset [dict_simps]: "dget (dset k v d) k' = (if k' = k then v else dget d k')"
  by (simp add: dget_def map_of_dset)

lemma dget_dpop [dict_simps]: "dget (dpop k d) k' = (if k' = k then JNull else dget d k')"
  by (simp add: dget_def map_of_dpop)

lemma keys_dset: "set (map fst (dset k v d)) = insert k (set (map fst d))"
proof (induction d)
  case (Cons p d)
  then show ?case by (cases p) (auto simp del: set_map simp: list.set_map [symmetric])
qed simp

lemma distinct_dset: "distinct (map fst d) \<Longrightarrow> distinct (map fst (dset k v d))"
proof (induction d)
  case (Cons p d)
  obtain k' v' where p: "p = (k', v')" by fastforce
  have "k' \<in> set (map fst (dset k v d)) \<longleftrightarrow> k' = k \<or> k' \<in> set (map fst d)"
    by (simp only: keys_dset) simp
  with Cons show ?case unfolding p by (cases "k' = k") simp_all
qed simp

lemma dset_dset: "dset k v (dset k w d) = dset k v d"
  by (induction d) auto

fun is_obj :: "json \<Rightarrow> bool" where
  "is_obj (JObj d) = True"
| "is_obj _ = False"

text \<open>\<open>x if isinstance(x, dict) else {}\<close>, and the same for lists.\<close>

fun obj_of :: "json \<Rightarrow> dict" where
  "obj_of (JObj d) = d"
| "obj_of _ = []"

fun arr_of :: "json \<Rightarrow> json list" where
  "arr_of (JArr xs) = xs"
| "arr_of _ = []"

fun truthy :: "json \<Rightarrow> bool" where
  "truthy JNull = False"
| "truthy (JBool b) = b"
| "truthy (JInt i) = (i \<noteq> 0)"
| "truthy (JStr s) = (s \<noteq> [])"
| "truthy (JArr xs) = (xs \<noteq> [])"
| "truthy (JObj d) = (d \<noteq> [])"

text \<open>\<open>a or b\<close>.\<close>

definition jor :: "json \<Rightarrow> json \<Rightarrow> json" where
  "jor a b = (if truthy a then a else b)"

text \<open>Python's \<open>repr\<close> of a string: single quotes unless the text has one and no double quote.\<close>

definition hex_digit :: "int \<Rightarrow> char" where
  "hex_digit n = char_of (if n < 10 then 48 + n else 87 + n)"

definition repr_char :: "char \<Rightarrow> char \<Rightarrow> string" where
  "repr_char q c =
     (if c = q \<or> code c = 92 then [CHR 0x5C, c]
      else if code c = 10 then [CHR 0x5C, CHR ''n'']
      else if code c = 13 then [CHR 0x5C, CHR ''r'']
      else if code c = 9 then [CHR 0x5C, CHR ''t'']
      else if code c < 32 \<or> code c = 127
        then [CHR 0x5C, CHR ''x'', hex_digit (code c div 16), hex_digit (code c mod 16)]
      else [c])"

definition repr :: "string \<Rightarrow> string" where
  "repr s =
     (let q = (if CHR 0x27 \<in> set s \<and> CHR 0x22 \<notin> set s then CHR 0x22 else CHR 0x27)
      in q # concat (map (repr_char q) s) @ [q])"

fun json_repr :: "json \<Rightarrow> string" where
  "json_repr JNull = ''None''"
| "json_repr (JBool b) = (if b then ''True'' else ''False'')"
| "json_repr (JInt i) = str_int i"
| "json_repr (JStr s) = repr s"
| "json_repr (JArr xs) = ''['' @ join '', '' (map json_repr xs) @ '']''"
| "json_repr (JObj d) = ''{'' @ join '', '' (map (\<lambda>(k, v). repr k @ '': '' @ json_repr v) d) @ ''}''"

text \<open>\<open>str(x)\<close>.\<close>

fun jstr :: "json \<Rightarrow> string" where
  "jstr (JStr s) = s"
| "jstr j = json_repr j"

text \<open>\<open>str(x or '')\<close>, the idiom every reader of a manifest field uses.\<close>

definition str_or_empty :: "json \<Rightarrow> string" where
  "str_or_empty j = (if truthy j then jstr j else [])"

lemma str_or_empty_JStr [simp]: "str_or_empty (JStr s) = s"
  by (simp add: str_or_empty_def)

lemma str_or_empty_JNull [simp]: "str_or_empty JNull = []"
  by (simp add: str_or_empty_def)

end
