(* ===== verification/Net.thy ===== *)
theory Net
  imports Base
begin

text \<open>
  The prefixes the tier reads with \<open>ipaddress.ip_network(text, strict=False)\<close> and prints with
  \<open>str(network)\<close>: dotted IPv4 with a prefix length, a net mask or a host mask, and IPv6 with
  groups, one \<open>::\<close> and an embedded dotted tail. IPv6 zone identifiers are not read (no prefix of
  the tier carries one). \<open>strict=False\<close> clears the host bits.
\<close>

record ip_net =
  ver :: int
  net_addr :: int
  plen :: int

fun width :: "int \<Rightarrow> nat" where
  "width v = (if v = 4 then 32 else 128)"

definition mask_addr :: "nat \<Rightarrow> int \<Rightarrow> int \<Rightarrow> int" where
  "mask_addr w p a = a - a mod 2 ^ (w - nat p)"

section \<open>Text to network\<close>

text \<open>Option-valued traversal of a list.\<close>

fun all_some :: "'a option list \<Rightarrow> 'a list option" where
  "all_some [] = Some []"
| "all_some (x # xs) =
     (case x of None \<Rightarrow> None | Some a \<Rightarrow> map_option (Cons a) (all_some xs))"

lemma all_some_map_Some [simp]: "all_some (map (\<lambda>x. Some (f x)) xs) = Some (map f xs)"
  by (induction xs) auto

definition parse_octet :: "string \<Rightarrow> int option" where
  "parse_octet s =
     (if s \<noteq> [] \<and> list_all is_digit s \<and> length s \<le> 3 \<and> (length s = 1 \<or> hd s \<noteq> CHR ''0'')
         \<and> digits_val 0 s \<le> 255
      then Some (digits_val 0 s) else None)"

fun from_base :: "int \<Rightarrow> int list \<Rightarrow> int" where
  "from_base b xs = foldl (\<lambda>a x. a * b + x) 0 xs"

definition parse_v4 :: "string \<Rightarrow> int option" where
  "parse_v4 s =
     (let parts = split_on CHR ''.'' s
      in if length parts = 4 then map_option (from_base 256) (all_some (map parse_octet parts)) else None)"

text \<open>A prefix length given in digits.\<close>

definition parse_plen :: "nat \<Rightarrow> string \<Rightarrow> int option" where
  "parse_plen w s =
     (if s \<noteq> [] \<and> list_all is_digit s \<and> digits_val 0 s \<le> int w then Some (digits_val 0 s) else None)"

text \<open>A dotted net mask: ones followed by zeros.\<close>

fun mask_len :: "nat \<Rightarrow> int \<Rightarrow> nat option" where
  "mask_len 0 m = (if m = 2 ^ 32 - 2 ^ 32 then Some 0 else None)"
| "mask_len (Suc n) m = (if m = 2 ^ 32 - 2 ^ (32 - Suc n) then Some (Suc n) else mask_len n m)"

definition parse_mask_v4 :: "string \<Rightarrow> int option" where
  "parse_mask_v4 s =
     (case parse_plen 32 s of
        Some p \<Rightarrow> Some p
      | None \<Rightarrow>
          (case parse_v4 s of
             None \<Rightarrow> None
           | Some m \<Rightarrow>
               (case mask_len 32 m of
                  Some p \<Rightarrow> Some (int p)
                | None \<Rightarrow> map_option int (mask_len 32 (2 ^ 32 - 1 - m)))))"

definition hex_val :: "char \<Rightarrow> int" where
  "hex_val c =
     (if is_digit c then code c - 48 else if is_lower c then code c - 87 else code c - 55)"

definition is_hex :: "char \<Rightarrow> bool" where
  "is_hex c \<longleftrightarrow> is_digit c \<or> (97 \<le> code c \<and> code c \<le> 102) \<or> (65 \<le> code c \<and> code c \<le> 70)"

definition parse_hextet :: "string \<Rightarrow> int option" where
  "parse_hextet s =
     (if s \<noteq> [] \<and> list_all is_hex s \<and> length s \<le> 4 then Some (from_base 16 (map hex_val s)) else None)"

fun to_hex_fuel :: "nat \<Rightarrow> int \<Rightarrow> string" where
  "to_hex_fuel 0 n = []"
| "to_hex_fuel (Suc k) n =
     (if n < 16 then [hex_digit n] else to_hex_fuel k (n div 16) @ [hex_digit (n mod 16)])"

definition to_hex :: "int \<Rightarrow> string" where "to_hex n = to_hex_fuel 32 n"

text \<open>The positions of an empty part strictly inside the list: where \<open>::\<close> stands.\<close>

definition skip_positions :: "string list \<Rightarrow> nat list" where
  "skip_positions ps = filter (\<lambda>i. 0 < i \<and> i < length ps - 1 \<and> ps ! i = []) [0..<length ps]"

definition v6_parts :: "string \<Rightarrow> string list option" where
  "v6_parts s =
     (let ps = split_on CHR '':'' s
      in if length ps < 3 then None
         else if CHR ''.'' \<in> set (last ps)
           then map_option (\<lambda>a. butlast ps @ [to_hex (a div 2 ^ 16), to_hex (a mod 2 ^ 16)])
                  (parse_v4 (last ps))
         else Some ps)"

definition parse_v6_parts :: "string list \<Rightarrow> int option" where
  "parse_v6_parts ps =
     (if 9 < length ps then None
      else case skip_positions ps of
        [] \<Rightarrow>
          if length ps = 8 then map_option (from_base (2 ^ 16)) (all_some (map parse_hextet ps)) else None
      | [i] \<Rightarrow>
          (let hi = (if hd ps = [] then i - 1 else i);
               lo = (if last ps = [] then length ps - i - 2 else length ps - i - 1)
           in if (hd ps = [] \<and> hi \<noteq> 0) \<or> (last ps = [] \<and> lo \<noteq> 0) \<or> 8 < hi + lo + 1 then None
              else
                (case (all_some (map parse_hextet (take hi ps)),
                       all_some (map parse_hextet (drop (length ps - lo) ps))) of
                   (Some h, Some l) \<Rightarrow>
                     Some (from_base (2 ^ 16) (h @ replicate (8 - (hi + lo)) 0 @ l))
                 | _ \<Rightarrow> None))
      | _ \<Rightarrow> None)"

definition parse_v6 :: "string \<Rightarrow> int option" where
  "parse_v6 s = (case v6_parts s of None \<Rightarrow> None | Some ps \<Rightarrow> parse_v6_parts ps)"

definition network_of :: "int \<Rightarrow> int \<Rightarrow> int \<Rightarrow> ip_net" where
  "network_of v a p = \<lparr>ver = v, net_addr = mask_addr (width v) p a, plen = p\<rparr>"

definition net_v4 :: "string \<Rightarrow> string option \<Rightarrow> ip_net option" where
  "net_v4 a m =
     (case (parse_v4 a, case m of None \<Rightarrow> Some 32 | Some t \<Rightarrow> parse_mask_v4 t) of
        (Some x, Some p) \<Rightarrow> Some (network_of 4 x p) | _ \<Rightarrow> None)"

definition net_v6 :: "string \<Rightarrow> string option \<Rightarrow> ip_net option" where
  "net_v6 a m =
     (case (parse_v6 a, case m of None \<Rightarrow> Some 128 | Some t \<Rightarrow> parse_plen 128 t) of
        (Some x, Some p) \<Rightarrow> Some (network_of 6 x p) | _ \<Rightarrow> None)"

text \<open>\<open>ip_network(s, strict=False)\<close>; \<open>None\<close> is its \<open>ValueError\<close>.\<close>

definition ip_network :: "string \<Rightarrow> ip_net option" where
  "ip_network s =
     (case split_on CHR ''/'' s of
        [a] \<Rightarrow> (case net_v4 a None of Some n \<Rightarrow> Some n | None \<Rightarrow> net_v6 a None)
      | [a, m] \<Rightarrow> (case net_v4 a (Some m) of Some n \<Rightarrow> Some n | None \<Rightarrow> net_v6 a (Some m))
      | _ \<Rightarrow> None)"

section \<open>Network to text\<close>

definition str_v4 :: "int \<Rightarrow> string" where
  "str_v4 a =
     join ''.'' (map (\<lambda>x. str_nat (nat x))
       [a div 2 ^ 24 mod 256, a div 2 ^ 16 mod 256, a div 2 ^ 8 mod 256, a mod 256])"

definition hextets :: "int \<Rightarrow> int list" where
  "hextets a = map (\<lambda>k. a div 2 ^ (16 * k) mod 2 ^ 16) (rev [0..<8])"

text \<open>The longest run of zero groups, the first among equals: its start and its length.\<close>

fun run_length :: "int list \<Rightarrow> nat" where
  "run_length [] = 0"
| "run_length (x # xs) = (if x = 0 then Suc (run_length xs) else 0)"

fun best_run :: "nat \<Rightarrow> int list \<Rightarrow> nat \<times> nat" where
  "best_run i [] = (0, 0)"
| "best_run i (x # xs) =
     (let n = run_length (x # xs); r = best_run (Suc i) xs
      in if n \<noteq> 0 \<and> snd r \<le> n then (i, n) else r)"

definition str_v6 :: "int \<Rightarrow> string" where
  "str_v6 a =
     (let hs = hextets a; (i, n) = best_run 0 hs; texts = map to_hex hs
      in if n \<le> 1 then join '':'' texts
         else join '':'' (take i texts) @ ''::'' @ join '':'' (drop (i + n) texts))"

definition str_addr :: "int \<Rightarrow> int \<Rightarrow> string" where
  "str_addr v a = (if v = 4 then str_v4 a else str_v6 a)"

definition str_net :: "ip_net \<Rightarrow> string" where
  "str_net n = str_addr (ver n) (net_addr n) @ ''/'' @ str_nat (nat (plen n))"

section \<open>Well-formed networks\<close>

definition wf_net :: "ip_net \<Rightarrow> bool" where
  "wf_net n \<longleftrightarrow> (ver n = 4 \<or> ver n = 6) \<and> 0 \<le> plen n \<and> plen n \<le> int (width (ver n))
     \<and> 0 \<le> net_addr n \<and> net_addr n < 2 ^ width (ver n)
     \<and> net_addr n mod 2 ^ (width (ver n) - nat (plen n)) = 0"

lemma mask_addr_range: "0 \<le> a \<Longrightarrow> a < 2 ^ w \<Longrightarrow> 0 \<le> mask_addr w p a \<and> mask_addr w p a < 2 ^ w"
proof -
  assume a: "0 \<le> a" "a < 2 ^ w"
  have "a mod 2 ^ (w - nat p) \<le> a" using a by (simp add: zmod_le_nonneg_dividend)
  moreover have "0 \<le> a mod 2 ^ (w - nat p)" by simp
  ultimately show ?thesis using a unfolding mask_addr_def by linarith
qed

lemma mask_addr_mod: "mask_addr w p a mod 2 ^ (w - nat p) = 0"
  by (simp add: mask_addr_def mod_diff_eq)

lemma mask_addr_id: "a mod 2 ^ (w - nat p) = 0 \<Longrightarrow> mask_addr w p a = a"
  by (simp add: mask_addr_def)

lemma parse_octet_range: "parse_octet s = Some x \<Longrightarrow> 0 \<le> x \<and> x \<le> 255"
proof -
  assume p: "parse_octet s = Some x"
  have nn: "0 \<le> acc \<Longrightarrow> \<forall>c \<in> set s. is_digit c \<Longrightarrow> 0 \<le> digits_val acc s" for acc s
    by (induction s arbitrary: acc) (auto simp: digit_val_def is_digit_def)
  from p show ?thesis by (auto simp: parse_octet_def list_all_iff nn split: if_splits)
qed

lemma all_some_SomeD: "all_some (map f xs) = Some ys \<Longrightarrow> list_all2 (\<lambda>x y. f x = Some y) xs ys"
  by (induction xs arbitrary: ys) (auto split: option.splits)

lemma from_base_range:
  assumes "\<forall>x \<in> set xs. 0 \<le> x \<and> x < b" "0 < b"
  shows "0 \<le> from_base b xs \<and> from_base b xs < b ^ length xs"
  using assms(1)
proof (induction xs rule: rev_induct)
  case (snoc x xs)
  let ?a = "from_base b xs"
  from snoc have a: "0 \<le> ?a" "?a + 1 \<le> b ^ length xs" and x: "0 \<le> x" "x < b" by auto
  have "(?a + 1) * b \<le> b ^ length xs * b"
    using a(2) assms(2) by (intro mult_right_mono) auto
  then have "?a * b + x < b ^ length xs * b" using x by (simp add: algebra_simps)
  moreover have "0 \<le> ?a * b + x" using a x assms(2) by simp
  ultimately show ?case by (simp add: mult.commute)
qed simp

lemma parse_v4_range: "parse_v4 s = Some a \<Longrightarrow> 0 \<le> a \<and> a < 2 ^ 32"
proof -
  assume p: "parse_v4 s = Some a"
  then obtain xs where xs: "all_some (map parse_octet (split_on CHR ''.'' s)) = Some xs"
    and len: "length (split_on CHR ''.'' s) = 4" and a: "a = from_base 256 xs"
    by (auto simp: parse_v4_def Let_def split: if_splits)
  have l2: "list_all2 (\<lambda>x y. parse_octet x = Some y) (split_on CHR ''.'' s) xs"
    by (rule all_some_SomeD [OF xs])
  then have "\<forall>x \<in> set xs. 0 \<le> x \<and> x < 256"
    by (fastforce simp: list_all2_conv_all_nth in_set_conv_nth dest: parse_octet_range)
  moreover have "length xs = 4" using l2 len by (simp add: list_all2_lengthD [symmetric])
  ultimately show ?thesis using from_base_range [of xs 256] a by simp
qed

lemma parse_plen_range: "parse_plen w s = Some p \<Longrightarrow> 0 \<le> p \<and> p \<le> int w"
proof -
  assume p: "parse_plen w s = Some p"
  have nn: "0 \<le> acc \<Longrightarrow> \<forall>c \<in> set s. is_digit c \<Longrightarrow> 0 \<le> digits_val acc s" for acc s
    by (induction s arbitrary: acc) (auto simp: digit_val_def is_digit_def)
  from p show ?thesis by (auto simp: parse_plen_def list_all_iff nn split: if_splits)
qed

lemma mask_len_le: "mask_len n m = Some p \<Longrightarrow> p \<le> n"
  by (induction n m rule: mask_len.induct) (fastforce split: if_splits)+

lemma parse_mask_v4_range: "parse_mask_v4 s = Some p \<Longrightarrow> 0 \<le> p \<and> p \<le> 32"
  by (auto simp: parse_mask_v4_def split: option.splits
      dest!: parse_plen_range mask_len_le)

lemma network_of_wf:
  "v = 4 \<or> v = 6 \<Longrightarrow> 0 \<le> a \<Longrightarrow> a < 2 ^ width v \<Longrightarrow> 0 \<le> p \<Longrightarrow> p \<le> int (width v)
   \<Longrightarrow> wf_net (network_of v a p)"
  using mask_addr_range [of a "width v" p] by (simp add: network_of_def wf_net_def mask_addr_mod)

lemma net_v4_wf:
  assumes "net_v4 a m = Some n"
  shows "wf_net n \<and> ver n = 4"
proof -
  obtain x p where x: "parse_v4 a = Some x" and n: "n = network_of 4 x p"
    and p: "p = 32 \<or> (\<exists>t. parse_mask_v4 t = Some p)"
    using assms by (auto simp: net_v4_def split: option.splits)
  have "0 \<le> p \<and> p \<le> 32" using p parse_mask_v4_range by auto
  with parse_v4_range [OF x] have "wf_net (network_of 4 x p)" by (intro network_of_wf) auto
  then show ?thesis by (simp add: n network_of_def)
qed

section \<open>Printing and reading back\<close>

lemma split_on_append: "d \<notin> set w \<Longrightarrow> split_on d (w @ d # s) = w # split_on d s"
  by (induction w) auto

lemma split_on_none: "d \<notin> set w \<Longrightarrow> split_on d w = [w]"
  by (induction w) auto

lemma split_on_join:
  "ws \<noteq> [] \<Longrightarrow> \<forall>w \<in> set ws. d \<notin> set w \<Longrightarrow> split_on d (join [d] ws) = ws"
proof (induction ws rule: induct_list012)
  case (3 x y zs)
  then show ?case by (simp add: split_on_append)
qed (auto simp: split_on_none)

lemma str_nat_no: "\<not> is_digit d \<Longrightarrow> d \<notin> set (str_nat n)"
  using str_nat_digits by blast

lemma length_str_nat: "n < 10 ^ k \<Longrightarrow> 0 < k \<Longrightarrow> length (str_nat n) \<le> k"
proof (induction n arbitrary: k rule: str_nat.induct)
  case (1 n)
  show ?case
  proof (cases "n < 10")
    case True
    with 1(3) show ?thesis by (subst str_nat.simps) auto
  next
    case False
    with 1 obtain j where j: "k = Suc j" "0 < j" by (cases k) (auto, cases "k - 1", auto)
    from 1(2) j have "n div 10 < 10 ^ j" by (simp add: less_mult_imp_div_less)
    with 1(1) False j have "length (str_nat (n div 10)) \<le> j" by auto
    with False j show ?thesis by (subst str_nat.simps) simp
  qed
qed

lemma hd_str_nat: "0 < n \<Longrightarrow> hd (str_nat n) \<noteq> CHR ''0''"
proof (induction n rule: str_nat.induct)
  case (1 n)
  show ?case
  proof (cases "n < 10")
    case True
    with 1(2) have "digit_val (digit_char n) \<noteq> 0" by (simp add: digit_val_digit_char)
    then have "digit_char n \<noteq> CHR ''0''" by (auto simp: digit_val_def code_def)
    with True show ?thesis by (subst str_nat.simps) simp
  next
    case False
    with 1 show ?thesis by (subst str_nat.simps) (simp add: hd_append)
  qed
qed

lemma parse_octet_str_nat: "n < 256 \<Longrightarrow> parse_octet (str_nat n) = Some (int n)"
proof -
  assume n: "n < 256"
  have "length (str_nat n) \<le> 3" using n by (intro length_str_nat) auto
  moreover have "length (str_nat n) = 1 \<or> hd (str_nat n) \<noteq> CHR ''0''"
  proof (cases "n = 0")
    case True
    then show ?thesis by (subst str_nat.simps) simp
  qed (simp add: hd_str_nat)
  ultimately show ?thesis
    using n str_nat_digits [of n] by (auto simp: parse_octet_def digits_val_str_nat list_all_iff)
qed

lemma parse_v4_str_v4:
  assumes "0 \<le> a" "a < 2 ^ 32"
  shows "parse_v4 (str_v4 a) = Some a"
proof -
  let ?xs = "[a div 2 ^ 24 mod 256, a div 2 ^ 16 mod 256, a div 2 ^ 8 mod 256, a mod 256]"
  let ?ws = "map (\<lambda>x. str_nat (nat x)) ?xs"
  have "CHR ''.'' \<notin> set (str_nat n)" for n
    by (rule str_nat_no) (simp add: is_digit_def code_def)
  then have s: "split_on CHR ''.'' (str_v4 a) = ?ws"
    unfolding str_v4_def by (intro split_on_join) auto
  have o: "0 \<le> x \<Longrightarrow> x < 256 \<Longrightarrow> parse_octet (str_nat (nat x)) = Some x" for x
    using parse_octet_str_nat [of "nat x"] by simp
  have r: "all_some (map parse_octet ?ws) = Some ?xs" by (simp add: o)
  define b where "b = a div 256"
  define c where "c = b div 256"
  define d where "d = c div 256"
  have e: "a div 2 ^ 8 = b" "a div 2 ^ 16 = c" "a div 2 ^ 24 = d"
    by (simp_all add: b_def c_def d_def zdiv_zmult2_eq [symmetric])
  have "d mod 256 = d" using assms e(3) [symmetric] by (simp add: div_less_iff_less_mult)
  moreover have "a = b * 256 + a mod 256" "b = c * 256 + b mod 256" "c = d * 256 + c mod 256"
    by (simp_all add: b_def c_def d_def)
  ultimately have "((d mod 256 * 256 + c mod 256) * 256 + b mod 256) * 256 + a mod 256 = a"
    by simp
  then have b: "from_base 256 ?xs = a" unfolding e by simp
  have l: "length ?ws = 4" by simp
  show ?thesis unfolding parse_v4_def s Let_def r by (simp only: l refl if_True option.map b)
qed

lemma parse_plen_str_nat: "n \<le> w \<Longrightarrow> parse_plen w (str_nat n) = Some (int n)"
  using str_nat_digits [of n] by (auto simp: parse_plen_def digits_val_str_nat list_all_iff)

lemma str_v4_no_slash: "CHR ''/'' \<notin> set (str_v4 a)"
proof -
  have "CHR ''/'' \<notin> set (str_nat n)" for n
    by (rule str_nat_no) (simp add: is_digit_def code_def)
  then show ?thesis by (simp add: str_v4_def)
qed

theorem ip_network_str_net:
  assumes "wf_net n" "ver n = 4"
  shows "ip_network (str_net n) = Some n"
proof -
  from assms have a: "0 \<le> net_addr n" "net_addr n < 2 ^ 32" and p: "0 \<le> plen n" "plen n \<le> 32"
    and m: "net_addr n mod 2 ^ (32 - nat (plen n)) = 0" by (auto simp: wf_net_def)
  have "CHR ''/'' \<notin> set (str_nat k)" for k
    by (rule str_nat_no) (simp add: is_digit_def code_def)
  then have s: "split_on CHR ''/'' (str_net n) = [str_v4 (net_addr n), str_nat (nat (plen n))]"
    using assms(2) by (simp add: str_net_def str_addr_def split_on_append split_on_none str_v4_no_slash)
  have "parse_mask_v4 (str_nat (nat (plen n))) = Some (plen n)"
    using p by (simp add: parse_mask_v4_def parse_plen_str_nat)
  then have "net_v4 (str_v4 (net_addr n)) (Some (str_nat (nat (plen n)))) = Some n"
    using a m assms(2) by (simp add: net_v4_def parse_v4_str_v4 network_of_def mask_addr_id)
  then show ?thesis by (simp add: ip_network_def s)
qed

text \<open>The text of an IPv4 network is a fixed point of reading and printing.\<close>

lemma ip_network_v4_wf: "ip_network s = Some n \<Longrightarrow> ver n = 4 \<Longrightarrow> wf_net n"
proof -
  assume s: "ip_network s = Some n" and v: "ver n = 4"
  have "\<not> (\<exists>a m. net_v6 a m = Some n)" using v by (auto simp: net_v6_def network_of_def split: option.splits)
  with s have "\<exists>a m. net_v4 a m = Some n"
    by (auto simp: ip_network_def split: list.splits option.splits)
  then show ?thesis using net_v4_wf by blast
qed

lemma canonical_v4:
  "ip_network s = Some n \<Longrightarrow> ver n = 4 \<Longrightarrow> ip_network (str_net n) = Some n"
  using ip_network_v4_wf ip_network_str_net by blast

end
