(* ===== verification/Intent.thy ===== *)
theory Intent
  imports Net
begin

text \<open>
  The normalized service intent, src/agents/common/schemas/normalized_intent.py: the pydantic
  models as records and \<open>validate_all_or_nothing\<close> as the list of causes it collects, in the
  order it collects them (the method returns \<open>None\<close> for the empty list). The environment
  variable \<open>FABRIC_SPINE_NODES\<close> is an argument. An optional field is an option; a claim of
  \<open>UnsupportedClaims\<close> that is not made is JSON null.
\<close>

record rd_rt =
  rd :: string
  importRT :: "string list"
  exportRT :: "string list"

record address_families =
  ipv4Prefixes :: "string list"
  ipv6Prefixes :: "string list"

record intent_endpoint =
  ep_node :: string
  ep_attachment :: string
  ep_vlan :: "int option"
  ep_vrf :: "string option"
  ep_prefixes :: "string list option"

record anycast_gateway =
  gw_ipVrf :: "string option"
  gatewayIPv4 :: string
  gatewayIPv6 :: string

record unsupported_claims =
  tePolicy :: json
  pseudowireOAM :: json
  controlWord :: json
  multicastVPN :: json
  complexQoS :: json
  serviceChain :: json
  rawCLI :: json

datatype str_or_int = PStr string | PInt int

record acl_rule =
  rule_name :: string
  priority :: int
  action :: string
  protocol :: "str_or_int option"
  sourcePrefix :: "string option"
  destinationPrefix :: "string option"
  sourcePort :: "string option"
  destinationPort :: "string option"
  rule_description :: "string option"

record acl_model =
  acl_name :: "string option"
  stage :: "string option"
  acl_type :: "string option"
  defaultAction :: "string option"
  bindTo :: "string option"
  rules :: "acl_rule list option"

record normalized_intent =
  serviceId :: string
  type_of :: string
  tenant :: string
  rdRt :: "rd_rt option"
  l2vni :: "int option"
  l3vni :: "int option"
  addressFamilies :: "address_families option"
  anycastGateway :: "anycast_gateway option"
  transport :: string
  signalling :: "string option"
  preferredSpine :: "string option"
  endpoints :: "intent_endpoint list"
  vpwsLimitedEquivalence :: "bool option"
  unsupported :: "unsupported_claims option"
  acl :: "acl_model option"

text \<open>Truth of an optional integer and of an optional string.\<close>

fun int_set :: "int option \<Rightarrow> bool" where
  "int_set None = False"
| "int_set (Some i) = (i \<noteq> 0)"

fun str_set :: "string option \<Rightarrow> bool" where
  "str_set None = False"
| "str_set (Some s) = (s \<noteq> [])"

text \<open>\<open>f"{x}"\<close> and \<open>f"{x!r}"\<close> of an optional field.\<close>

fun show_int :: "int option \<Rightarrow> string" where
  "show_int None = ''None''"
| "show_int (Some i) = str_int i"

fun repr_opt :: "string option \<Rightarrow> string" where
  "repr_opt None = ''None''"
| "repr_opt (Some s) = repr s"

definition unsupported_present :: "unsupported_claims \<Rightarrow> string list" where
  "unsupported_present u =
     map fst (filter (\<lambda>(n, v). v \<noteq> JNull)
       [(''tePolicy'', tePolicy u), (''pseudowireOAM'', pseudowireOAM u),
        (''controlWord'', controlWord u), (''multicastVPN'', multicastVPN u),
        (''complexQoS'', complexQoS u), (''serviceChain'', serviceChain u), (''rawCLI'', rawCLI u)])"

text \<open>\<open>cause_if c m\<close>: the cause \<open>m\<close> under the condition \<open>c\<close>.\<close>

definition cause_if :: "bool \<Rightarrow> string \<Rightarrow> string list" where
  "cause_if c m = (if c then [m] else [])"

lemma when_Nil [simp]: "cause_if c m = [] \<longleftrightarrow> \<not> c"
  by (simp add: cause_if_def)

section \<open>Checks common to all constructs\<close>

definition basic_causes :: "bool \<Rightarrow> normalized_intent \<Rightarrow> string list" where
  "basic_causes dup n =
     cause_if (serviceId n = []) ''serviceId: required''
     @ cause_if (tenant n = []) ''tenant: required''
     @ cause_if (type_of n = []) ''type: required''
     @ cause_if dup (''collision: duplicate serviceId '' @ squote @ serviceId n @ squote @ '' in batch'')
     @ (case unsupported n of None \<Rightarrow> []
        | Some u \<Rightarrow> map (\<lambda>c. ''unsupported: '' @ c) (unsupported_present u))
     @ cause_if (endpoints n = []) ''endpoints: at least one endpoint is required''"

definition is_srv6 :: "normalized_intent \<Rightarrow> bool" where
  "is_srv6 n \<longleftrightarrow> transport n = ''srv6''"

definition te_policy :: "normalized_intent \<Rightarrow> bool" where
  "te_policy n = (case unsupported n of None \<Rightarrow> False | Some u \<Rightarrow> tePolicy u \<noteq> JNull)"

definition two_distinct_nodes :: "intent_endpoint list \<Rightarrow> bool" where
  "two_distinct_nodes eps =
     (case eps of [a, b] \<Rightarrow> ep_node a \<noteq> [] \<and> ep_node a \<noteq> ep_node b | _ \<Rightarrow> False)"

definition spine_causes :: "string option \<Rightarrow> normalized_intent \<Rightarrow> string list" where
  "spine_causes spine_env n =
     (case preferredSpine n of None \<Rightarrow> []
      | Some p \<Rightarrow>
          if p \<noteq> [] \<and> \<not> te_policy n \<and> str_set spine_env
          then (let spines = split_csv spine_env
                in cause_if (p \<notin> set spines)
                     (''preferredSpine: unknown '' @ squote @ p @ squote @ '' (site has: ''
                      @ join '', '' spines @ '')''))
          else [])"

definition transport_causes :: "string option \<Rightarrow> normalized_intent \<Rightarrow> string list" where
  "transport_causes spine_env n =
     (if transport n \<notin> {''vxlan'', ''srv6''} then
        [''transport: unsupported '' @ squote @ transport n @ squote @ '' (transports: vxlan, srv6)'']
      else if is_srv6 n then
        cause_if (type_of n \<notin> {''ip-vrf'', ''mac-vrf''}) ''transport: srv6 applies to ip-vrf and mac-vrf only''
        @ cause_if (int_set (l2vni n) \<or> int_set (l3vni n) \<or> rdRt n \<noteq> None)
            ''srv6: identifiers are allocated by the fabric, not supplied''
        @ cause_if (type_of n = ''mac-vrf'' \<and> signalling n = Some ''vpn'')
            ''signalling: mac-vrf over srv6 uses evpn''
        @ cause_if (\<not> two_distinct_nodes (endpoints n))
            ''endpoints: an srv6 service joins exactly two attachments on distinct nodes''
        @ spine_causes spine_env n
      else
        cause_if (signalling n \<noteq> None) ''signalling: only valid with transport srv6''
        @ cause_if (preferredSpine n \<noteq> None \<and> \<not> te_policy n)
            ''preferredSpine: only valid with transport srv6'')"

section \<open>vlan and mac-vrf\<close>

text \<open>The endpoint loop of a bridged construct; \<open>vlan\<close> is the loop's local variable, 0 at first.\<close>

fun vlan_causes :: "string \<Rightarrow> string \<Rightarrow> nat \<Rightarrow> int \<Rightarrow> intent_endpoint list \<Rightarrow> string list" where
  "vlan_causes construct article i vlan [] = []"
| "vlan_causes construct article i vlan (ep # eps) =
     (let here = ''endpoints['' @ str_nat i @ ''].vlan: '' in
      case ep_vlan ep of
        None \<Rightarrow> (here @ ''required for '' @ construct) # vlan_causes construct article (Suc i) vlan eps
      | Some v \<Rightarrow>
          if v = 0 then (here @ ''required for '' @ construct) # vlan_causes construct article (Suc i) vlan eps
          else
            cause_if (4000 < v) (here @ str_int v @ '' is reserved (4001-4094); usable range is 1-4000'')
            @ cause_if (vlan \<noteq> 0 \<and> v \<noteq> vlan)
                (here @ article @ construct @ '' is one bridge domain, so every endpoint must share one vlan (got ''
                 @ str_int vlan @ '' and '' @ str_int v @ '')'')
            @ vlan_causes construct article (Suc i) (if vlan = 0 then v else vlan) eps)"

definition vlan_type_causes :: "normalized_intent \<Rightarrow> string list" where
  "vlan_type_causes n =
     cause_if (\<not> is_srv6 n \<and> int_set (l2vni n))
       ''l2vni: a vlan is local to the node; ask for a mac-vrf to extend it over the fabric''
     @ cause_if (\<not> is_srv6 n \<and> int_set (l3vni n))
       ''l3vni: a vlan carries no routed instance; ask for an ip-vrf, or a mac-vrf with an anycastGateway''
     @ cause_if (\<not> is_srv6 n \<and> rdRt n \<noteq> None)
       ''rdRt: a vlan is not advertised by EVPN and has no route distinguisher or targets''
     @ cause_if (\<not> is_srv6 n \<and> anycastGateway n \<noteq> None)
       ''anycastGateway: only a mac-vrf carries an anycast gateway''
     @ cause_if (endpoints n = []) ''endpoints: vlan requires >=1 endpoint''
     @ vlan_causes ''vlan'' [] 0 0 (endpoints n)"

definition l3vni_in_band :: "int \<Rightarrow> bool" where
  "l3vni_in_band v \<longleftrightarrow> 10000 \<le> v \<and> v \<le> 14094"

definition l3vni_band_cause :: "int option \<Rightarrow> string" where
  "l3vni_band_cause v =
     ''l3vni: '' @ show_int v @ '' has no derivable service VLAN; this fabric renders L3VNIs in 10000-14094''"

definition mac_vrf_causes :: "normalized_intent \<Rightarrow> string list" where
  "mac_vrf_causes n =
     (let min_eps = (if anycastGateway n = None then 2 else 1) in
      cause_if (\<not> is_srv6 n \<and> \<not> int_set (l2vni n)) ''l2vni: required for mac-vrf''
      @ cause_if (\<not> is_srv6 n \<and> rdRt n = None) ''rdRt: required for mac-vrf''
      @ cause_if (\<not> is_srv6 n \<and> length (endpoints n) < min_eps)
          (''endpoints: mac-vrf requires >='' @ str_nat min_eps @ '' endpoints'')
      @ vlan_causes ''mac-vrf'' [] 0 0 (if is_srv6 n then [] else endpoints n)
      @ (if anycastGateway n \<noteq> None \<and> \<not> is_srv6 n then
           cause_if (\<not> int_set (l3vni n))
             ''l3vni: required for a mac-vrf with an anycastGateway (the ip-vrf it routes into)''
           @ cause_if (\<not> l3vni_in_band (case l3vni n of None \<Rightarrow> 0 | Some v \<Rightarrow> v))
               (l3vni_band_cause (l3vni n))
         else cause_if (\<not> is_srv6 n \<and> int_set (l3vni n))
           ''l3vni: a mac-vrf carries an L3VNI only when it declares an anycastGateway''))"

section \<open>ip-vrf\<close>

fun vrf_causes :: "nat \<Rightarrow> intent_endpoint list \<Rightarrow> string list" where
  "vrf_causes i [] = []"
| "vrf_causes i (ep # eps) =
     cause_if (\<not> str_set (ep_vrf ep)) (''endpoints['' @ str_nat i @ ''].vrf: required for ip-vrf'')
     @ vrf_causes (Suc i) eps"

definition has_prefix :: "normalized_intent \<Rightarrow> bool" where
  "has_prefix n =
     (case addressFamilies n of None \<Rightarrow> False
      | Some af \<Rightarrow> ipv4Prefixes af \<noteq> [] \<or> ipv6Prefixes af \<noteq> [])"

definition ip_vrf_causes :: "normalized_intent \<Rightarrow> string list" where
  "ip_vrf_causes n =
     (if is_srv6 n then []
      else
        cause_if (\<not> int_set (l3vni n)) ''l3vni: required for ip-vrf''
        @ cause_if (case l3vni n of None \<Rightarrow> False | Some v \<Rightarrow> \<not> l3vni_in_band v) (l3vni_band_cause (l3vni n))
        @ cause_if (rdRt n = None) ''rdRt: required for ip-vrf''
        @ cause_if (\<not> has_prefix n) ''addressFamilies: at least one prefix is required for ip-vrf''
        @ cause_if (int_set (l2vni n))
            ''l2vni: an ip-vrf carries no bridge domain; ask for a mac-vrf with an anycastGateway to get both''
        @ cause_if (anycastGateway n \<noteq> None)
            ''anycastGateway: belongs to the mac-vrf whose SVI carries it, not to the ip-vrf''
        @ cause_if (endpoints n = []) ''endpoints: ip-vrf requires >=1 endpoint''
        @ vrf_causes 0 (endpoints n))"

section \<open>acl\<close>

definition named_protocols :: "string list" where
  "named_protocols =
     [''any'', ''tcp'', ''udp'', ''icmp'', ''igmp'', ''rsvp'', ''gre'', ''ah'', ''pim'', ''l2tp'']"

text \<open>\<open>str(proto_raw or "").lower()\<close> and \<open>repr(proto_raw)\<close>.\<close>

fun protocol_text :: "str_or_int option \<Rightarrow> string" where
  "protocol_text None = []"
| "protocol_text (Some (PStr s)) = lower s"
| "protocol_text (Some (PInt i)) = (if i = 0 then [] else str_int i)"

fun protocol_repr :: "str_or_int option \<Rightarrow> string" where
  "protocol_repr None = ''None''"
| "protocol_repr (Some (PStr s)) = repr s"
| "protocol_repr (Some (PInt i)) = str_int i"

definition in_range :: "int \<Rightarrow> int \<Rightarrow> int \<Rightarrow> bool" where
  "in_range lo hi x \<longleftrightarrow> lo \<le> x \<and> x \<le> hi"

definition int_in :: "int \<Rightarrow> int \<Rightarrow> string \<Rightarrow> bool" where
  "int_in lo hi s = (case py_int s of None \<Rightarrow> False | Some x \<Rightarrow> in_range lo hi x)"

definition protocol_causes :: "string \<Rightarrow> str_or_int option \<Rightarrow> string list" where
  "protocol_causes here p =
     (let proto = protocol_text p;
          msg = here @ ''.protocol: one of any, tcp, udp, icmp, igmp, rsvp, gre, ah, pim, l2tp or an IP protocol number 0-255 (got ''
                @ protocol_repr p @ '')''
      in cause_if (proto \<noteq> [] \<and> proto \<notin> set named_protocols \<and> \<not> int_in 0 255 proto) msg
         @ cause_if (proto \<in> {''icmpv6'', ''ipv6-icmp''}) msg)"

definition prefix_causes :: "string option \<Rightarrow> string \<Rightarrow> string \<Rightarrow> string option \<Rightarrow> string list" where
  "prefix_causes atype here fld p =
     (case p of None \<Rightarrow> []
      | Some pfx \<Rightarrow>
          if pfx = [] then []
          else
            (case ip_network pfx of
               None \<Rightarrow> [here @ ''.'' @ fld @ '': not a CIDR prefix ('' @ repr pfx @ '')'']
             | Some net \<Rightarrow>
                 cause_if (atype = Some ''l3'' \<and> ver net \<noteq> 4)
                   (here @ ''.'' @ fld @ '': '' @ pfx @ '' is IPv6 but the acl type is l3 (IPv4); use type l3v6'')
                 @ cause_if (atype = Some ''l3v6'' \<and> ver net \<noteq> 6)
                   (here @ ''.'' @ fld @ '': '' @ pfx @ '' is IPv4 but the acl type is l3v6; use type l3'')))"

definition port_causes :: "str_or_int option \<Rightarrow> string \<Rightarrow> string \<Rightarrow> string option \<Rightarrow> string list" where
  "port_causes proto here fld p =
     (case p of None \<Rightarrow> []
      | Some port \<Rightarrow>
          if port = [] then []
          else if protocol_text proto \<notin> {''tcp'', ''udp''} then
            [here @ ''.'' @ fld @ '': L4 ports require protocol tcp or udp (got '' @ protocol_repr proto @ '')'']
          else if CHR ''-'' \<in> set port then
            (let (lo, hi) = split_first CHR ''-'' port in
             case (py_int (strip lo), py_int (strip hi)) of
               (Some l, Some h) \<Rightarrow>
                 if \<not> in_range 0 65535 l \<or> \<not> in_range 0 65535 h
                 then [here @ ''.'' @ fld @ '': not a port range in 0-65535 ('' @ repr port @ '')'']
                 else cause_if (h < l) (here @ ''.'' @ fld @ '': range '' @ repr port @ '' ends below where it starts'')
             | _ \<Rightarrow> [here @ ''.'' @ fld @ '': not a port range in 0-65535 ('' @ repr port @ '')''])
          else cause_if (\<not> int_in 0 65535 port)
                 (here @ ''.'' @ fld @ '': not a port in 0-65535 ('' @ repr port @ '')''))"

text \<open>The rule loop, with the names and priorities seen so far.\<close>

definition name_causes :: "string \<Rightarrow> string list \<Rightarrow> acl_rule \<Rightarrow> string list" where
  "name_causes here seen r =
     (if rule_name r = [] then [here @ ''.name: required'']
      else cause_if (rule_name r \<in> set seen) (here @ ''.name: duplicate rule name '' @ repr (rule_name r)))"

definition priority_causes :: "string \<Rightarrow> int list \<Rightarrow> acl_rule \<Rightarrow> string list" where
  "priority_causes here seen r =
     (if priority r = 1 then
        [here @ ''.priority: 1 is reserved for the default action; usable priorities are 2-65535'']
      else if priority r < 2 \<or> 65535 < priority r then
        [here @ ''.priority: must be 2-65535 (got '' @ str_int (priority r) @ '')'']
      else cause_if (priority r \<in> set seen)
        (here @ ''.priority: '' @ str_int (priority r)
         @ '' is already used by another rule; priorities must be distinct''))"

definition action_causes :: "string \<Rightarrow> acl_rule \<Rightarrow> string list" where
  "action_causes here r =
     cause_if (lower (action r) \<notin> {''permit'', ''deny''})
       (here @ ''.action: required, one of permit, deny (got '' @ repr (action r) @ '')'')"

definition rule_body_causes :: "string option \<Rightarrow> string \<Rightarrow> acl_rule \<Rightarrow> string list" where
  "rule_body_causes atype here r =
     action_causes here r
     @ protocol_causes here (protocol r)
     @ prefix_causes atype here ''sourcePrefix'' (sourcePrefix r)
     @ prefix_causes atype here ''destinationPrefix'' (destinationPrefix r)
     @ port_causes (protocol r) here ''sourcePort'' (sourcePort r)
     @ port_causes (protocol r) here ''destinationPort'' (destinationPort r)"

fun rule_causes :: "string option \<Rightarrow> nat \<Rightarrow> string list \<Rightarrow> int list \<Rightarrow> acl_rule list \<Rightarrow> string list" where
  "rule_causes atype i names prios [] = []"
| "rule_causes atype i names prios (r # rs) =
     (let here = ''acl.rules['' @ str_nat i @ '']'';
          nc = name_causes here names r; pc = priority_causes here prios r
      in nc @ pc @ rule_body_causes atype here r
         @ rule_causes atype (Suc i) (if nc = [] then rule_name r # names else names)
             (if pc = [] then priority r # prios else prios) rs)"

definition acl_model_causes :: "acl_model \<Rightarrow> string list" where
  "acl_model_causes a =
     (let rs = (case rules a of None \<Rightarrow> [] | Some rs \<Rightarrow> rs) in
      cause_if (stage a \<notin> {Some ''ingress'', Some ''egress''})
        (''acl.stage: required, one of ingress, egress (got '' @ repr_opt (stage a) @ '')'')
      @ cause_if (acl_type a \<notin> {Some ''l3'', Some ''l3v6''})
        (''acl.type: required, one of l3, l3v6 (got '' @ repr_opt (acl_type a) @ '')'')
      @ cause_if (str_set (bindTo a) \<and> bindTo a \<noteq> Some ''port'')
        (''acl.bindTo: '' @ repr_opt (bindTo a) @ '' is unsupported; an access list binds to ports'')
      @ (if rs = [] then
           ''acl.rules: at least one rule is required''
           # cause_if (str_set (acl_name a))
               ''acl: a service carries its own rules and its name is a label; provide rules instead of referencing by name''
         else [])
      @ rule_causes (acl_type a) 0 [] [] rs)"

definition acl_causes :: "normalized_intent \<Rightarrow> string list" where
  "acl_causes n =
     cause_if (\<not> is_srv6 n \<and> (int_set (l2vni n) \<or> int_set (l3vni n) \<or> rdRt n \<noteq> None \<or> anycastGateway n \<noteq> None))
       ''acl: an acl binds to ports and carries no VNI, route targets or gateway; attach it to a vlan, mac-vrf or ip-vrf to filter that service''
     @ cause_if (endpoints n = []) ''endpoints: acl requires >=1 endpoint to bind to''
     @ (case acl n of None \<Rightarrow> [] | Some a \<Rightarrow> acl_model_causes a)"

section \<open>The whole validation\<close>

definition type_causes :: "normalized_intent \<Rightarrow> string list" where
  "type_causes n =
     (if type_of n = ''vlan'' then vlan_type_causes n
      else if type_of n = ''mac-vrf'' then mac_vrf_causes n
      else if type_of n = ''ip-vrf'' then ip_vrf_causes n
      else if type_of n = ''acl'' then acl_causes n
      else [''type: unsupported '' @ squote @ type_of n @ squote])"

definition intent_causes :: "string option \<Rightarrow> bool \<Rightarrow> normalized_intent \<Rightarrow> string list" where
  "intent_causes spine_env dup n =
     basic_causes dup n @ transport_causes spine_env n @ type_causes n"

definition validate_all_or_nothing ::
    "string option \<Rightarrow> bool \<Rightarrow> normalized_intent \<Rightarrow> string list option" where
  "validate_all_or_nothing spine_env dup n =
     (let causes = intent_causes spine_env dup n in if causes = [] then None else Some causes)"

definition validation_error_text :: "string list \<Rightarrow> string" where
  "validation_error_text causes = ''validation failed: '' @ join '', '' causes"

section \<open>What a valid intent is\<close>

text \<open>The contract, construct by construct, independent of the order of the checks.\<close>

definition one_bridge_vlan :: "intent_endpoint list \<Rightarrow> bool" where
  "one_bridge_vlan eps \<longleftrightarrow> (\<exists>v. v \<noteq> 0 \<and> v \<le> 4000 \<and> (\<forall>ep \<in> set eps. ep_vlan ep = Some v))"

definition protocol_ok :: "str_or_int option \<Rightarrow> bool" where
  "protocol_ok p \<longleftrightarrow>
     protocol_text p = [] \<or> protocol_text p \<in> set named_protocols \<or> int_in 0 255 (protocol_text p)"

definition prefix_ok :: "string option \<Rightarrow> string option \<Rightarrow> bool" where
  "prefix_ok atype p \<longleftrightarrow>
     \<not> str_set p \<or> (\<exists>net. ip_network (the p) = Some net
       \<and> (atype = Some ''l3'' \<longrightarrow> ver net = 4) \<and> (atype = Some ''l3v6'' \<longrightarrow> ver net = 6))"

definition port_text_ok :: "string \<Rightarrow> bool" where
  "port_text_ok s \<longleftrightarrow>
     (if CHR ''-'' \<in> set s
      then \<exists>l h. py_int (strip (fst (split_first CHR ''-'' s))) = Some l
             \<and> py_int (strip (snd (split_first CHR ''-'' s))) = Some h \<and> 0 \<le> l \<and> l \<le> h \<and> h \<le> 65535
      else int_in 0 65535 s)"

definition port_ok :: "str_or_int option \<Rightarrow> string option \<Rightarrow> bool" where
  "port_ok proto p \<longleftrightarrow>
     \<not> str_set p \<or> (protocol_text proto \<in> {''tcp'', ''udp''} \<and> port_text_ok (the p))"

definition rule_ok :: "string option \<Rightarrow> acl_rule \<Rightarrow> bool" where
  "rule_ok atype r \<longleftrightarrow>
     lower (action r) \<in> {''permit'', ''deny''} \<and> protocol_ok (protocol r)
     \<and> prefix_ok atype (sourcePrefix r) \<and> prefix_ok atype (destinationPrefix r)
     \<and> port_ok (protocol r) (sourcePort r) \<and> port_ok (protocol r) (destinationPort r)"

definition rules_ok :: "string option \<Rightarrow> acl_rule list \<Rightarrow> bool" where
  "rules_ok atype rs \<longleftrightarrow>
     distinct (map rule_name rs) \<and> [] \<notin> rule_name ` set rs
     \<and> distinct (map priority rs) \<and> (\<forall>r \<in> set rs. 2 \<le> priority r \<and> priority r \<le> 65535 \<and> rule_ok atype r)"

definition acl_ok :: "acl_model \<Rightarrow> bool" where
  "acl_ok a \<longleftrightarrow>
     stage a \<in> {Some ''ingress'', Some ''egress''} \<and> acl_type a \<in> {Some ''l3'', Some ''l3v6''}
     \<and> (str_set (bindTo a) \<longrightarrow> bindTo a = Some ''port'')
     \<and> (\<exists>rs. rules a = Some rs \<and> rs \<noteq> [] \<and> rules_ok (acl_type a) rs)"

definition no_identifiers :: "normalized_intent \<Rightarrow> bool" where
  "no_identifiers n \<longleftrightarrow> \<not> int_set (l2vni n) \<and> \<not> int_set (l3vni n) \<and> rdRt n = None"

definition vxlan_ok :: "normalized_intent \<Rightarrow> bool" where
  "vxlan_ok n \<longleftrightarrow>
     type_of n = ''vlan'' \<and> no_identifiers n \<and> anycastGateway n = None \<and> one_bridge_vlan (endpoints n)
   \<or> type_of n = ''mac-vrf'' \<and> int_set (l2vni n) \<and> rdRt n \<noteq> None \<and> one_bridge_vlan (endpoints n)
       \<and> (if anycastGateway n = None then 2 \<le> length (endpoints n) \<and> \<not> int_set (l3vni n)
          else \<exists>v. l3vni n = Some v \<and> l3vni_in_band v)
   \<or> type_of n = ''ip-vrf'' \<and> (\<exists>v. l3vni n = Some v \<and> l3vni_in_band v) \<and> rdRt n \<noteq> None \<and> has_prefix n
       \<and> \<not> int_set (l2vni n) \<and> anycastGateway n = None \<and> (\<forall>ep \<in> set (endpoints n). str_set (ep_vrf ep))
   \<or> type_of n = ''acl'' \<and> no_identifiers n \<and> anycastGateway n = None
       \<and> (\<forall>a. acl n = Some a \<longrightarrow> acl_ok a)"

definition srv6_ok :: "string option \<Rightarrow> normalized_intent \<Rightarrow> bool" where
  "srv6_ok spine_env n \<longleftrightarrow>
     (type_of n = ''ip-vrf'' \<or> type_of n = ''mac-vrf'' \<and> signalling n \<noteq> Some ''vpn'')
     \<and> no_identifiers n \<and> two_distinct_nodes (endpoints n)
     \<and> (str_set (preferredSpine n) \<longrightarrow> str_set spine_env
          \<longrightarrow> the (preferredSpine n) \<in> set (split_csv spine_env))"

definition valid_intent :: "string option \<Rightarrow> normalized_intent \<Rightarrow> bool" where
  "valid_intent spine_env n \<longleftrightarrow>
     serviceId n \<noteq> [] \<and> tenant n \<noteq> [] \<and> endpoints n \<noteq> []
     \<and> (\<forall>u. unsupported n = Some u \<longrightarrow> unsupported_present u = [])
     \<and> (transport n = ''vxlan'' \<and> signalling n = None \<and> preferredSpine n = None \<and> vxlan_ok n
        \<or> transport n = ''srv6'' \<and> srv6_ok spine_env n)"

lemma vlan_causes_from:
  "v \<noteq> 0 \<Longrightarrow> v \<le> 4000 \<Longrightarrow> vlan_causes c a i v eps = [] \<longleftrightarrow> (\<forall>ep \<in> set eps. ep_vlan ep = Some v)"
  by (induction eps arbitrary: i) (auto simp: Let_def split: option.splits)

lemma vlan_causes_Nil: "eps \<noteq> [] \<Longrightarrow> vlan_causes c a i 0 eps = [] \<longleftrightarrow> one_bridge_vlan eps"
  by (cases eps)
    (auto simp: one_bridge_vlan_def Let_def vlan_causes_from split: option.splits if_splits)

lemma vrf_causes_Nil: "vrf_causes i eps = [] \<longleftrightarrow> (\<forall>ep \<in> set eps. str_set (ep_vrf ep))"
  by (induction eps arbitrary: i) auto

lemma icmpv6_not_ok:
  "protocol_text p \<in> {''icmpv6'', ''ipv6-icmp''} \<Longrightarrow> \<not> protocol_ok p"
proof -
  have "py_int ''icmpv6'' = None" "py_int ''ipv6-icmp'' = None" by code_simp+
  then show "protocol_text p \<in> {''icmpv6'', ''ipv6-icmp''} \<Longrightarrow> \<not> protocol_ok p"
    by (auto simp: protocol_ok_def int_in_def named_protocols_def)
qed

lemma protocol_causes_Nil: "protocol_causes here p = [] \<longleftrightarrow> protocol_ok p"
  using icmpv6_not_ok [of p] by (auto simp: protocol_causes_def Let_def protocol_ok_def)

lemma prefix_causes_Nil: "prefix_causes t here f p = [] \<longleftrightarrow> prefix_ok t p"
  by (auto simp: prefix_causes_def prefix_ok_def split: option.splits)

lemma port_causes_Nil: "port_causes q here f p = [] \<longleftrightarrow> port_ok q p"
  by (auto simp: port_causes_def port_ok_def port_text_ok_def split_first_def in_range_def
      split: option.splits)

lemma rule_body_causes_Nil: "rule_body_causes t here r = [] \<longleftrightarrow> rule_ok t r"
  by (simp add: rule_body_causes_def action_causes_def rule_ok_def protocol_causes_Nil
      prefix_causes_Nil port_causes_Nil)

lemma rule_causes_Nil:
  "rule_causes t i ns ps rs = [] \<longleftrightarrow>
     rules_ok t rs \<and> set ns \<inter> rule_name ` set rs = {} \<and> set ps \<inter> priority ` set rs = {}"
proof (induction rs arbitrary: i ns ps)
  case (Cons r rs)
  have n: "name_causes h ns r = [] \<longleftrightarrow> rule_name r \<noteq> [] \<and> rule_name r \<notin> set ns" for h
    by (simp add: name_causes_def)
  have p: "priority_causes h ps r = [] \<longleftrightarrow>
      2 \<le> priority r \<and> priority r \<le> 65535 \<and> priority r \<notin> set ps" for h
    by (auto simp: priority_causes_def)
  show ?case
    by (auto simp: Let_def Cons.IH n p rule_body_causes_Nil rules_ok_def)
qed (simp add: rules_ok_def)

lemma acl_model_causes_Nil: "acl_model_causes a = [] \<longleftrightarrow> acl_ok a"
  by (auto simp: acl_model_causes_def acl_ok_def Let_def rule_causes_Nil split: option.splits)

lemma spine_causes_Nil:
  "spine_causes env n = [] \<longleftrightarrow> te_policy n \<or>
     (str_set (preferredSpine n) \<longrightarrow> str_set env \<longrightarrow> the (preferredSpine n) \<in> set (split_csv env))"
  by (auto simp: spine_causes_def Let_def split: option.splits)

lemmas cause_Nil_simps =
  vlan_causes_Nil vrf_causes_Nil acl_model_causes_Nil spine_causes_Nil

lemma no_te_policy:
  "\<forall>u. unsupported n = Some u \<longrightarrow> unsupported_present u = [] \<Longrightarrow> \<not> te_policy n"
  by (auto simp: te_policy_def unsupported_present_def split: option.splits if_splits)

lemma basic_causes_Nil:
  "basic_causes dup n = [] \<longleftrightarrow> serviceId n \<noteq> [] \<and> tenant n \<noteq> [] \<and> type_of n \<noteq> [] \<and> \<not> dup
     \<and> (\<forall>u. unsupported n = Some u \<longrightarrow> unsupported_present u = []) \<and> endpoints n \<noteq> []"
  by (auto simp: basic_causes_def split: option.splits)

lemma vxlan_type_causes_Nil:
  "endpoints n \<noteq> [] \<Longrightarrow> \<not> is_srv6 n \<Longrightarrow> type_causes n = [] \<longleftrightarrow> vxlan_ok n"
  by (cases "l3vni n"; cases "endpoints n"; cases "anycastGateway n")
    (auto simp: type_causes_def vlan_type_causes_def mac_vrf_causes_def ip_vrf_causes_def
      acl_causes_def vxlan_ok_def no_identifiers_def l3vni_in_band_def Let_def vlan_causes_Nil
      vrf_causes_Nil acl_model_causes_Nil Suc_le_eq simp del: vlan_causes.simps vrf_causes.simps
      split: option.splits)

lemma srv6_type_causes_Nil:
  "is_srv6 n \<Longrightarrow> type_of n \<in> {''ip-vrf'', ''mac-vrf''} \<Longrightarrow> type_causes n = []"
  by (auto simp: type_causes_def mac_vrf_causes_def ip_vrf_causes_def Let_def)

lemma transport_causes_Nil:
  assumes "\<not> te_policy n"
  shows "transport_causes env n = [] \<longleftrightarrow>
     transport n = ''vxlan'' \<and> signalling n = None \<and> preferredSpine n = None
     \<or> transport n = ''srv6'' \<and> srv6_ok env n"
  using assms
  by (auto simp: transport_causes_def is_srv6_def srv6_ok_def no_identifiers_def spine_causes_Nil)

text \<open>The checks accept exactly the valid intents (see \<open>valid_intent\<close>).\<close>

lemma intent_causes_Nil: "intent_causes env False n = [] \<longleftrightarrow> valid_intent env n"
proof (cases "basic_causes False n = []")
  case True
  then have te: "\<not> te_policy n" and eps: "endpoints n \<noteq> []"
    by (auto simp: basic_causes_Nil intro!: no_te_policy)
  have "transport n = ''vxlan'' \<Longrightarrow> type_causes n = [] \<longleftrightarrow> vxlan_ok n"
    using vxlan_type_causes_Nil eps by (simp add: is_srv6_def)
  moreover have "transport n = ''srv6'' \<Longrightarrow> srv6_ok env n \<Longrightarrow> type_causes n = []"
    by (rule srv6_type_causes_Nil) (auto simp: is_srv6_def srv6_ok_def)
  moreover have "basic_causes False n = [] \<longleftrightarrow> serviceId n \<noteq> [] \<and> tenant n \<noteq> [] \<and> type_of n \<noteq> []
     \<and> (\<forall>u. unsupported n = Some u \<longrightarrow> unsupported_present u = []) \<and> endpoints n \<noteq> []"
    by (simp add: basic_causes_Nil)
  ultimately show ?thesis
    using True by (auto simp: intent_causes_def transport_causes_Nil [OF te] valid_intent_def)
next
  case False
  then have "\<not> valid_intent env n"
    by (auto simp: basic_causes_Nil valid_intent_def vxlan_ok_def srv6_ok_def)
  with False show ?thesis by (simp add: intent_causes_def)
qed

end
