(* ===== verification/Schema.thy ===== *)
theory Schema
  imports Intent
begin

text \<open>
  Reading JSON into the pydantic models and dumping them back (\<open>model_validate\<close>,
  \<open>model_dump(mode="json")\<close>) for the access-list rules both schemas share and for
  \<open>NormalizedServiceIntent\<close>. A refusal is the list of pydantic's errors, each the location and
  the kind of the error. Pydantic's lax reading of a string as an int or a bool and the
  wording of its errors are parameters.
\<close>

datatype error_kind = Missing | Extra_forbidden | Invalid | Raised string

type_synonym field_error = "string list \<times> error_kind"

type_synonym 'a checked = "field_error list + 'a"

record lax =
  lax_int :: "string \<Rightarrow> int option"
  lax_bool :: "string \<Rightarrow> bool option"
  kind_msg :: "error_kind \<Rightarrow> string"

fun errs :: "'a checked \<Rightarrow> field_error list" where
  "errs (Inl es) = es"
| "errs (Inr a) = []"

fun ok :: "'a checked \<Rightarrow> 'a" where
  "ok (Inr a) = a"
| "ok (Inl es) = undefined"

definition fail :: "error_kind \<Rightarrow> 'a checked" where
  "fail k = Inl [([], k)]"

text \<open>Errors of a part, located under its key.\<close>

definition located :: "string \<Rightarrow> 'a checked \<Rightarrow> 'a checked" where
  "located k r = (case r of Inl es \<Rightarrow> Inl (map (\<lambda>(p, e). (k # p, e)) es) | Inr a \<Rightarrow> Inr a)"

definition field_req :: "(json \<Rightarrow> 'a checked) \<Rightarrow> string \<Rightarrow> dict \<Rightarrow> 'a checked" where
  "field_req p k d = located k (case map_of d k of None \<Rightarrow> fail Missing | Some v \<Rightarrow> p v)"

definition field_def :: "(json \<Rightarrow> 'a checked) \<Rightarrow> 'a \<Rightarrow> string \<Rightarrow> dict \<Rightarrow> 'a checked" where
  "field_def p a k d = located k (case map_of d k of None \<Rightarrow> Inr a | Some v \<Rightarrow> p v)"

definition extras :: "string list \<Rightarrow> dict \<Rightarrow> field_error list" where
  "extras allowed d = map (\<lambda>(k, v). ([k], Extra_forbidden)) (filter (\<lambda>(k, v). k \<notin> set allowed) d)"

fun is_str :: "json \<Rightarrow> string checked" where
  "is_str (JStr s) = Inr s"
| "is_str _ = fail Invalid"

definition guard :: "('a \<Rightarrow> bool) \<Rightarrow> 'a checked \<Rightarrow> 'a checked" where
  "guard P r = (case r of Inr a \<Rightarrow> if P a then Inr a else fail Invalid | Inl es \<Rightarrow> Inl es)"

definition nonempty_str :: "json \<Rightarrow> string checked" where
  "nonempty_str j = guard (\<lambda>s. s \<noteq> []) (is_str j)"

definition literal :: "string list \<Rightarrow> json \<Rightarrow> string checked" where
  "literal vs j = guard (\<lambda>s. s \<in> set vs) (is_str j)"

fun is_int :: "lax \<Rightarrow> json \<Rightarrow> int checked" where
  "is_int L (JInt i) = Inr i"
| "is_int L (JBool b) = Inr (if b then 1 else 0)"
| "is_int L (JStr s) = (case lax_int L s of Some i \<Rightarrow> Inr i | None \<Rightarrow> fail Invalid)"
| "is_int L _ = fail Invalid"

definition int_within :: "lax \<Rightarrow> int \<Rightarrow> int \<Rightarrow> json \<Rightarrow> int checked" where
  "int_within L lo hi j = guard (in_range lo hi) (is_int L j)"

definition int_from :: "lax \<Rightarrow> int \<Rightarrow> json \<Rightarrow> int checked" where
  "int_from L lo j = guard (\<lambda>i. lo \<le> i) (is_int L j)"

fun is_bool :: "lax \<Rightarrow> json \<Rightarrow> bool checked" where
  "is_bool L (JBool b) = Inr b"
| "is_bool L (JInt i) = (if i = 0 then Inr False else if i = 1 then Inr True else fail Invalid)"
| "is_bool L (JStr s) = (case lax_bool L s of Some b \<Rightarrow> Inr b | None \<Rightarrow> fail Invalid)"
| "is_bool L _ = fail Invalid"

text \<open>\<open>X | None\<close>, \<open>list[X]\<close>, and the union \<open>str | int\<close>.\<close>

definition nullable :: "(json \<Rightarrow> 'a checked) \<Rightarrow> json \<Rightarrow> 'a option checked" where
  "nullable p j = (if j = JNull then Inr None else (case p j of Inr a \<Rightarrow> Inr (Some a) | Inl es \<Rightarrow> Inl es))"

fun list_from :: "(json \<Rightarrow> 'a checked) \<Rightarrow> nat \<Rightarrow> json list \<Rightarrow> 'a list checked" where
  "list_from p i [] = Inr []"
| "list_from p i (j # js) =
     (let r = located (str_nat i) (p j); rs = list_from p (Suc i) js
      in if errs r @ errs rs = [] then Inr (ok r # ok rs) else Inl (errs r @ errs rs))"

fun is_list :: "(json \<Rightarrow> 'a checked) \<Rightarrow> json \<Rightarrow> 'a list checked" where
  "is_list p (JArr js) = list_from p 0 js"
| "is_list p _ = fail Invalid"

fun is_obj_then :: "(dict \<Rightarrow> 'a checked) \<Rightarrow> json \<Rightarrow> 'a checked" where
  "is_obj_then p (JObj d) = p d"
| "is_obj_then p _ = fail Invalid"

fun is_str_or_int :: "lax \<Rightarrow> json \<Rightarrow> str_or_int checked" where
  "is_str_or_int L (JStr s) = Inr (PStr s)"
| "is_str_or_int L (JInt i) = Inr (PInt i)"
| "is_str_or_int L (JBool b) = Inr (PInt (if b then 1 else 0))"
| "is_str_or_int L _ = fail Invalid"

section \<open>Dumping\<close>

fun str_json :: "string option \<Rightarrow> json" where
  "str_json None = JNull"
| "str_json (Some s) = JStr s"

fun int_json :: "int option \<Rightarrow> json" where
  "int_json None = JNull"
| "int_json (Some i) = JInt i"

definition strs_json :: "string list \<Rightarrow> json" where
  "strs_json ss = JArr (map JStr ss)"

fun soi_json :: "str_or_int option \<Rightarrow> json" where
  "soi_json None = JNull"
| "soi_json (Some (PStr s)) = JStr s"
| "soi_json (Some (PInt i)) = JInt i"

definition opt_json :: "('a \<Rightarrow> json) \<Rightarrow> 'a option \<Rightarrow> json" where
  "opt_json f x = (case x of None \<Rightarrow> JNull | Some a \<Rightarrow> f a)"

section \<open>Reading what was dumped\<close>

named_theorems read_back \<open>a parser applied to the dump of a value returns the value\<close>

lemma errs_Nil_iff: "errs r = [] \<Longrightarrow> \<forall>es. r = Inl es \<longrightarrow> es \<noteq> [] \<Longrightarrow> \<exists>a. r = Inr a"
  by (cases r) auto

lemma located_Inr [simp, read_back]: "located k (Inr a) = Inr a"
  by (simp add: located_def)

lemma is_str_JStr [read_back]: "is_str (JStr s) = Inr s" by simp

lemma nonempty_str_JStr [read_back]: "s \<noteq> [] \<Longrightarrow> nonempty_str (JStr s) = Inr s"
  by (simp add: nonempty_str_def guard_def)

lemma literal_JStr [read_back]: "s \<in> set vs \<Longrightarrow> literal vs (JStr s) = Inr s"
  by (simp add: literal_def guard_def)

lemma int_within_JInt [read_back]: "in_range lo hi i \<Longrightarrow> int_within L lo hi (JInt i) = Inr i"
  by (simp add: int_within_def guard_def)

lemma int_from_JInt [read_back]: "lo \<le> i \<Longrightarrow> int_from L lo (JInt i) = Inr i"
  by (simp add: int_from_def guard_def)

lemma nullable_str_json [read_back]:
  "(\<And>s. x = Some s \<Longrightarrow> p (JStr s) = Inr s) \<Longrightarrow> nullable p (str_json x) = Inr x"
  by (cases x) (auto simp: nullable_def)

lemma nullable_int_json [read_back]:
  "(\<And>i. x = Some i \<Longrightarrow> p (JInt i) = Inr i) \<Longrightarrow> nullable p (int_json x) = Inr x"
  by (cases x) (auto simp: nullable_def)

lemma nullable_soi_json [read_back]: "nullable (is_str_or_int L) (soi_json x) = Inr x"
  by (cases x rule: soi_json.cases) (auto simp: nullable_def)

lemma nullable_opt_json [read_back]:
  "(\<And>a. x = Some a \<Longrightarrow> f a \<noteq> JNull \<and> p (f a) = Inr a) \<Longrightarrow> nullable p (opt_json f x) = Inr x"
  by (cases x) (auto simp: nullable_def opt_json_def)

lemma list_from_map: "\<forall>x \<in> set xs. p (f x) = Inr x \<Longrightarrow> list_from p i (map f xs) = Inr xs"
  by (induction xs arbitrary: i) (auto simp: Let_def)

lemma is_list_map [read_back]: "\<forall>x \<in> set xs. p (f x) = Inr x \<Longrightarrow> is_list p (JArr (map f xs)) = Inr xs"
  by (simp add: list_from_map)

lemma is_list_strs [read_back]: "is_list is_str (strs_json ss) = Inr ss"
  by (simp add: strs_json_def list_from_map)

section \<open>What a successful reading says\<close>

text \<open>No parser refuses without an error, so a reading without errors has a value.\<close>

named_theorems proper_intros \<open>the parsers never refuse with an empty list of errors\<close>

definition proper :: "'a checked \<Rightarrow> bool" where
  "proper r \<longleftrightarrow> r \<noteq> Inl []"

lemma errs_Nil: "proper r \<Longrightarrow> errs r = [] \<longleftrightarrow> (\<exists>a. r = Inr a)"
  by (cases r) (auto simp: proper_def)

lemma proper_Inr [proper_intros]: "proper (Inr a)" by (simp add: proper_def)

lemma proper_fail [proper_intros]: "proper (fail k)" by (simp add: proper_def fail_def)

lemma proper_located [proper_intros]: "proper r \<Longrightarrow> proper (located k r)"
  by (auto simp: proper_def located_def split: sum.splits)

lemma proper_req [proper_intros]: "(\<And>j. proper (p j)) \<Longrightarrow> proper (field_req p k d)"
  by (auto simp: field_req_def intro!: proper_intros split: option.splits)

lemma proper_def' [proper_intros]: "(\<And>j. proper (p j)) \<Longrightarrow> proper (field_def p a k d)"
  by (auto simp: field_def_def intro!: proper_intros split: option.splits)

lemma proper_is_str [proper_intros]: "proper (is_str j)"
  by (cases j) (auto intro: proper_intros)

lemma proper_guard [proper_intros]: "proper r \<Longrightarrow> proper (guard P r)"
  by (auto simp: guard_def proper_def fail_def split: sum.splits)

lemma proper_nonempty_str [proper_intros]: "proper (nonempty_str j)"
  by (simp add: nonempty_str_def proper_intros)

lemma proper_literal [proper_intros]: "proper (literal vs j)"
  by (simp add: literal_def proper_intros)

lemma proper_is_int [proper_intros]: "proper (is_int L j)"
  by (cases j) (auto intro: proper_intros split: option.splits)

lemma proper_int_within [proper_intros]: "proper (int_within L lo hi j)"
  by (simp add: int_within_def proper_intros)

lemma proper_int_from [proper_intros]: "proper (int_from L lo j)"
  by (simp add: int_from_def proper_intros)

lemma proper_is_bool [proper_intros]: "proper (is_bool L j)"
  by (cases j) (auto intro: proper_intros split: option.splits)

lemma proper_nullable [proper_intros]: "proper (p j) \<Longrightarrow> proper (nullable p j)"
  by (auto simp: nullable_def proper_def split: sum.splits)

lemma proper_list_from: "(\<And>j. proper (p j)) \<Longrightarrow> proper (list_from p i js)"
  by (induction js arbitrary: i) (auto simp: Let_def proper_def)

lemma proper_is_list [proper_intros]: "(\<And>j. proper (p j)) \<Longrightarrow> proper (is_list p j)"
  by (cases j) (auto intro: proper_intros proper_list_from)

lemma proper_is_obj_then [proper_intros]: "(\<And>d. proper (p d)) \<Longrightarrow> proper (is_obj_then p j)"
  by (cases j) (auto intro: proper_intros)

lemma proper_is_str_or_int [proper_intros]: "proper (is_str_or_int L j)"
  by (cases j) (auto intro: proper_intros)

lemma guard_Inr: "guard P r = Inr a \<longleftrightarrow> r = Inr a \<and> P a"
  by (auto simp: guard_def fail_def split: sum.splits)

lemma located_Inr_iff: "located k r = Inr a \<longleftrightarrow> r = Inr a"
  by (auto simp: located_def split: sum.splits)

lemma nonempty_str_Inr: "nonempty_str j = Inr s \<Longrightarrow> s \<noteq> []"
  by (simp add: nonempty_str_def guard_Inr)

lemma literal_Inr: "literal vs j = Inr s \<Longrightarrow> s \<in> set vs"
  by (simp add: literal_def guard_Inr)

lemma int_within_Inr: "int_within L lo hi j = Inr i \<Longrightarrow> in_range lo hi i"
  by (simp add: int_within_def guard_Inr)

lemma int_from_Inr: "int_from L lo j = Inr i \<Longrightarrow> lo \<le> i"
  by (simp add: int_from_def guard_Inr)

lemma field_req_Inr: "field_req p k d = Inr a \<Longrightarrow> \<exists>j. p j = Inr a"
  by (auto simp: field_req_def located_Inr_iff fail_def split: option.splits)

lemma field_def_Inr: "field_def p a0 k d = Inr a \<Longrightarrow> a = a0 \<or> (\<exists>j. p j = Inr a)"
  by (auto simp: field_def_def located_Inr_iff split: option.splits)

lemma nullable_Inr: "nullable p j = Inr x \<Longrightarrow> x = None \<or> (\<exists>a. x = Some a \<and> p j = Inr a)"
  by (auto simp: nullable_def split: if_splits sum.splits)

lemma list_from_Inr:
  "(\<And>j. proper (p j)) \<Longrightarrow> list_from p i js = Inr xs \<Longrightarrow> list_all2 (\<lambda>j x. p j = Inr x) js xs"
proof (induction js arbitrary: i xs)
  case (Cons j js)
  have pr: "proper (located (str_nat i) (p j))" "proper (list_from p (Suc i) js)"
    using Cons.prems(1) by (auto intro: proper_intros proper_list_from)
  from Cons.prems(2) obtain x ys where "located (str_nat i) (p j) = Inr x"
    "list_from p (Suc i) js = Inr ys" "xs = x # ys"
    by (auto simp: Let_def errs_Nil [OF pr(1)] errs_Nil [OF pr(2)] split: if_splits)
  with Cons show ?case by (auto simp: located_Inr_iff)
qed simp

lemma is_list_Inr:
  assumes "\<And>j. proper (p j)" "is_list p j = Inr xs" "x \<in> set xs"
  shows "\<exists>j'. p j' = Inr x"
proof -
  obtain js where "list_from p 0 js = Inr xs" using assms(2) by (cases j) (auto simp: fail_def)
  then have l: "list_all2 (\<lambda>j x. p j = Inr x) js xs" by (rule list_from_Inr [OF assms(1)])
  from assms(3) obtain k where "k < length xs" "x = xs ! k" by (auto simp: in_set_conv_nth)
  with l have "p (js ! k) = Inr x" by (auto dest: list_all2_nthD2)
  then show ?thesis by blast
qed

lemma is_obj_then_Inr: "is_obj_then p j = Inr x \<Longrightarrow> \<exists>d. p d = Inr x"
  by (cases j) (auto simp: fail_def)

section \<open>Access-list rules (the same model in both schemas)\<close>

definition rule_fields :: "string list" where
  "rule_fields = [''name'', ''priority'', ''action'', ''protocol'', ''sourcePrefix'',
     ''destinationPrefix'', ''sourcePort'', ''destinationPort'', ''description'']"

definition validate_rule :: "lax \<Rightarrow> dict \<Rightarrow> acl_rule checked" where
  "validate_rule L d =
     (let n = field_req nonempty_str ''name'' d;
          p = field_req (int_within L 2 65535) ''priority'' d;
          a = field_req (literal [''permit'', ''deny'']) ''action'' d;
          q = field_def (nullable (is_str_or_int L)) None ''protocol'' d;
          sp = field_def (nullable is_str) None ''sourcePrefix'' d;
          dp = field_def (nullable is_str) None ''destinationPrefix'' d;
          so = field_def (nullable is_str) None ''sourcePort'' d;
          do = field_def (nullable is_str) None ''destinationPort'' d;
          de = field_def (nullable is_str) None ''description'' d;
          es = errs n @ errs p @ errs a @ errs q @ errs sp @ errs dp @ errs so @ errs do @ errs de
                 @ extras rule_fields d
      in if es \<noteq> [] then Inl es
         else Inr \<lparr>rule_name = ok n, priority = ok p, action = ok a, protocol = ok q,
                   sourcePrefix = ok sp, destinationPrefix = ok dp, sourcePort = ok so,
                   destinationPort = ok do, rule_description = ok de\<rparr>)"

definition dump_rule :: "acl_rule \<Rightarrow> json" where
  "dump_rule r = JObj [(''name'', JStr (rule_name r)), (''priority'', JInt (priority r)),
     (''action'', JStr (action r)), (''protocol'', soi_json (protocol r)),
     (''sourcePrefix'', str_json (sourcePrefix r)),
     (''destinationPrefix'', str_json (destinationPrefix r)),
     (''sourcePort'', str_json (sourcePort r)), (''destinationPort'', str_json (destinationPort r)),
     (''description'', str_json (rule_description r))]"

definition wf_rule :: "acl_rule \<Rightarrow> bool" where
  "wf_rule r \<longleftrightarrow> rule_name r \<noteq> [] \<and> in_range 2 65535 (priority r) \<and> action r \<in> {''permit'', ''deny''}"

lemma validate_dump_rule [read_back]:
  "wf_rule r \<Longrightarrow> is_obj_then (validate_rule L) (dump_rule r) = Inr r"
  by (simp add: dump_rule_def validate_rule_def wf_rule_def field_req_def field_def_def extras_def
      rule_fields_def Let_def read_back)

lemma proper_validate_rule [proper_intros]: "proper (validate_rule L d)"
  by (simp add: validate_rule_def Let_def proper_def)

lemma validate_rule_fields:
  "validate_rule L d = Inr r \<Longrightarrow>
     field_req nonempty_str ''name'' d = Inr (rule_name r)
     \<and> field_req (int_within L 2 65535) ''priority'' d = Inr (priority r)
     \<and> field_req (literal [''permit'', ''deny'']) ''action'' d = Inr (action r)"
  by (auto simp: validate_rule_def Let_def errs_Nil proper_intros split: if_splits)

lemma validate_rule_wf: "validate_rule L d = Inr r \<Longrightarrow> wf_rule r"
  by (auto simp: wf_rule_def dest!: validate_rule_fields field_req_Inr nonempty_str_Inr
      literal_Inr int_within_Inr)

end
