(* ===== verification/Intent_Json.thy ===== *)
theory Intent_Json
  imports Schema
begin

text \<open>
  \<open>NormalizedServiceIntent.model_validate\<close> and \<open>model_dump(mode="json")\<close>
  (src/agents/common/schemas/normalized_intent.py), model by model, and the theorem that what is
  dumped reads back: the supervisor, the allocator's memo and the deployer hand each other the
  dump.
\<close>

section \<open>The parts\<close>

definition validate_rd_rt :: "dict \<Rightarrow> rd_rt checked" where
  "validate_rd_rt d =
     (let r = field_req nonempty_str ''rd'' d;
          i = field_def (is_list is_str) [] ''importRT'' d;
          e = field_def (is_list is_str) [] ''exportRT'' d;
          es = errs r @ errs i @ errs e @ extras [''rd'', ''importRT'', ''exportRT''] d
      in if es \<noteq> [] then Inl es else Inr \<lparr>rd = ok r, importRT = ok i, exportRT = ok e\<rparr>)"

definition dump_rd_rt :: "rd_rt \<Rightarrow> json" where
  "dump_rd_rt r = JObj [(''rd'', JStr (rd r)), (''importRT'', strs_json (importRT r)),
     (''exportRT'', strs_json (exportRT r))]"

definition validate_af :: "dict \<Rightarrow> address_families checked" where
  "validate_af d =
     (let a = field_def (is_list is_str) [] ''ipv4Prefixes'' d;
          b = field_def (is_list is_str) [] ''ipv6Prefixes'' d;
          es = errs a @ errs b @ extras [''ipv4Prefixes'', ''ipv6Prefixes''] d
      in if es \<noteq> [] then Inl es else Inr \<lparr>ipv4Prefixes = ok a, ipv6Prefixes = ok b\<rparr>)"

definition dump_af :: "address_families \<Rightarrow> json" where
  "dump_af a = JObj [(''ipv4Prefixes'', strs_json (ipv4Prefixes a)),
     (''ipv6Prefixes'', strs_json (ipv6Prefixes a))]"

definition validate_ep :: "lax \<Rightarrow> dict \<Rightarrow> intent_endpoint checked" where
  "validate_ep L d =
     (let n = field_req nonempty_str ''node'' d;
          a = field_req nonempty_str ''attachment'' d;
          v = field_def (nullable (int_within L 1 4094)) None ''vlan'' d;
          f = field_def (nullable is_str) None ''vrf'' d;
          p = field_def (nullable (is_list is_str)) None ''prefixes'' d;
          es = errs n @ errs a @ errs v @ errs f @ errs p
                 @ extras [''node'', ''attachment'', ''vlan'', ''vrf'', ''prefixes''] d
      in if es \<noteq> [] then Inl es
         else Inr \<lparr>ep_node = ok n, ep_attachment = ok a, ep_vlan = ok v, ep_vrf = ok f,
                   ep_prefixes = ok p\<rparr>)"

definition dump_ep :: "intent_endpoint \<Rightarrow> json" where
  "dump_ep e = JObj [(''node'', JStr (ep_node e)), (''attachment'', JStr (ep_attachment e)),
     (''vlan'', int_json (ep_vlan e)), (''vrf'', str_json (ep_vrf e)),
     (''prefixes'', opt_json strs_json (ep_prefixes e))]"

definition validate_gw :: "dict \<Rightarrow> anycast_gateway checked" where
  "validate_gw d =
     (let v = field_def (nullable is_str) None ''ipVrf'' d;
          a = field_def is_str [] ''gatewayIPv4'' d;
          b = field_def is_str [] ''gatewayIPv6'' d;
          es = errs v @ errs a @ errs b @ extras [''ipVrf'', ''gatewayIPv4'', ''gatewayIPv6''] d
      in if es \<noteq> [] then Inl es
         else Inr \<lparr>gw_ipVrf = ok v, gatewayIPv4 = ok a, gatewayIPv6 = ok b\<rparr>)"

definition dump_gw :: "anycast_gateway \<Rightarrow> json" where
  "dump_gw g = JObj [(''ipVrf'', str_json (gw_ipVrf g)), (''gatewayIPv4'', JStr (gatewayIPv4 g)),
     (''gatewayIPv6'', JStr (gatewayIPv6 g))]"

definition validate_policies :: "lax \<Rightarrow> dict \<Rightarrow> bool checked" where
  "validate_policies L d =
     (let b = field_def (is_bool L) False ''vpwsLimitedEquivalence'' d;
          es = errs b @ extras [''vpwsLimitedEquivalence''] d
      in if es \<noteq> [] then Inl es else Inr (ok b))"

definition dump_policies :: "bool \<Rightarrow> json" where
  "dump_policies b = JObj [(''vpwsLimitedEquivalence'', JBool b)]"

definition claim_names :: "string list" where
  "claim_names = [''tePolicy'', ''pseudowireOAM'', ''controlWord'', ''multicastVPN'', ''complexQoS'',
     ''serviceChain'', ''rawCLI'']"

definition validate_claims :: "dict \<Rightarrow> unsupported_claims checked" where
  "validate_claims d =
     (if extras claim_names d \<noteq> [] then Inl (extras claim_names d)
      else Inr \<lparr>tePolicy = dget d ''tePolicy'', pseudowireOAM = dget d ''pseudowireOAM'',
                controlWord = dget d ''controlWord'', multicastVPN = dget d ''multicastVPN'',
                complexQoS = dget d ''complexQoS'', serviceChain = dget d ''serviceChain'',
                rawCLI = dget d ''rawCLI''\<rparr>)"

definition dump_claims :: "unsupported_claims \<Rightarrow> json" where
  "dump_claims u = JObj [(''tePolicy'', tePolicy u), (''pseudowireOAM'', pseudowireOAM u),
     (''controlWord'', controlWord u), (''multicastVPN'', multicastVPN u),
     (''complexQoS'', complexQoS u), (''serviceChain'', serviceChain u), (''rawCLI'', rawCLI u)]"

definition validate_acl :: "lax \<Rightarrow> dict \<Rightarrow> acl_model checked" where
  "validate_acl L d =
     (let n = field_def (nullable is_str) None ''name'' d;
          s = field_def (nullable (literal [''ingress'', ''egress''])) None ''stage'' d;
          t = field_def (nullable (literal [''l3'', ''l3v6''])) None ''type'' d;
          a = field_def (nullable (literal [''permit'', ''deny''])) None ''defaultAction'' d;
          b = field_def (nullable is_str) None ''bindTo'' d;
          r = field_def (nullable (is_list (is_obj_then (validate_rule L)))) None ''rules'' d;
          es = errs n @ errs s @ errs t @ errs a @ errs b @ errs r
                 @ extras [''name'', ''stage'', ''type'', ''defaultAction'', ''bindTo'', ''rules''] d
      in if es \<noteq> [] then Inl es
         else Inr \<lparr>acl_name = ok n, stage = ok s, acl_type = ok t, defaultAction = ok a,
                   bindTo = ok b, rules = ok r\<rparr>)"

definition dump_acl :: "acl_model \<Rightarrow> json" where
  "dump_acl a = JObj [(''name'', str_json (acl_name a)), (''stage'', str_json (stage a)),
     (''type'', str_json (acl_type a)), (''defaultAction'', str_json (defaultAction a)),
     (''bindTo'', str_json (bindTo a)), (''rules'', opt_json (\<lambda>rs. JArr (map dump_rule rs)) (rules a))]"

section \<open>The intent\<close>

definition intent_fields :: "string list" where
  "intent_fields = [''serviceId'', ''type'', ''tenant'', ''rdRt'', ''l2vni'', ''l3vni'',
     ''addressFamilies'', ''anycastGateway'', ''transport'', ''signalling'', ''preferredSpine'',
     ''endpoints'', ''policies'', ''unsupported'', ''acl'']"

definition validate_intent :: "lax \<Rightarrow> dict \<Rightarrow> normalized_intent checked" where
  "validate_intent L d =
     (let s = field_req nonempty_str ''serviceId'' d;
          t = field_req is_str ''type'' d;
          n = field_req nonempty_str ''tenant'' d;
          r = field_def (nullable (is_obj_then validate_rd_rt)) None ''rdRt'' d;
          l2 = field_def (nullable (int_from L 1)) None ''l2vni'' d;
          l3 = field_def (nullable (int_from L 1)) None ''l3vni'' d;
          af = field_def (nullable (is_obj_then validate_af)) None ''addressFamilies'' d;
          gw = field_def (nullable (is_obj_then validate_gw)) None ''anycastGateway'' d;
          tr = field_def is_str ''vxlan'' ''transport'' d;
          sg = field_def (nullable is_str) None ''signalling'' d;
          ps = field_def (nullable is_str) None ''preferredSpine'' d;
          eps = field_req (is_list (is_obj_then (validate_ep L))) ''endpoints'' d;
          po = field_def (nullable (is_obj_then (validate_policies L))) None ''policies'' d;
          un = field_def (nullable (is_obj_then validate_claims)) None ''unsupported'' d;
          ac = field_def (nullable (is_obj_then (validate_acl L))) None ''acl'' d;
          es = errs s @ errs t @ errs n @ errs r @ errs l2 @ errs l3 @ errs af @ errs gw @ errs tr
                 @ errs sg @ errs ps @ errs eps @ errs po @ errs un @ errs ac @ extras intent_fields d
      in if es \<noteq> [] then Inl es
         else Inr \<lparr>serviceId = ok s, type_of = ok t, tenant = ok n, rdRt = ok r, l2vni = ok l2,
                   l3vni = ok l3, addressFamilies = ok af, anycastGateway = ok gw,
                   transport = ok tr, signalling = ok sg, preferredSpine = ok ps,
                   endpoints = ok eps, vpwsLimitedEquivalence = ok po, unsupported = ok un,
                   acl = ok ac\<rparr>)"

definition dump_intent :: "normalized_intent \<Rightarrow> dict" where
  "dump_intent n =
     [(''serviceId'', JStr (serviceId n)), (''type'', JStr (type_of n)), (''tenant'', JStr (tenant n)),
      (''rdRt'', opt_json dump_rd_rt (rdRt n)), (''l2vni'', int_json (l2vni n)),
      (''l3vni'', int_json (l3vni n)), (''addressFamilies'', opt_json dump_af (addressFamilies n)),
      (''anycastGateway'', opt_json dump_gw (anycastGateway n)),
      (''transport'', JStr (transport n)), (''signalling'', str_json (signalling n)),
      (''preferredSpine'', str_json (preferredSpine n)),
      (''endpoints'', JArr (map dump_ep (endpoints n))),
      (''policies'', opt_json dump_policies (vpwsLimitedEquivalence n)),
      (''unsupported'', opt_json dump_claims (unsupported n)), (''acl'', opt_json dump_acl (acl n))]"

section \<open>What pydantic's constraints guarantee, and reading back\<close>

definition wf_ep :: "intent_endpoint \<Rightarrow> bool" where
  "wf_ep e \<longleftrightarrow> ep_node e \<noteq> [] \<and> ep_attachment e \<noteq> [] \<and> (\<forall>v. ep_vlan e = Some v \<longrightarrow> in_range 1 4094 v)"

definition wf_acl :: "acl_model \<Rightarrow> bool" where
  "wf_acl a \<longleftrightarrow> (\<forall>s. stage a = Some s \<longrightarrow> s \<in> {''ingress'', ''egress''})
     \<and> (\<forall>s. acl_type a = Some s \<longrightarrow> s \<in> {''l3'', ''l3v6''})
     \<and> (\<forall>s. defaultAction a = Some s \<longrightarrow> s \<in> {''permit'', ''deny''})
     \<and> (\<forall>rs. rules a = Some rs \<longrightarrow> (\<forall>r \<in> set rs. wf_rule r))"

definition wf_intent :: "normalized_intent \<Rightarrow> bool" where
  "wf_intent n \<longleftrightarrow> serviceId n \<noteq> [] \<and> tenant n \<noteq> [] \<and> (\<forall>r. rdRt n = Some r \<longrightarrow> rd r \<noteq> [])
     \<and> (\<forall>v. l2vni n = Some v \<longrightarrow> 1 \<le> v) \<and> (\<forall>v. l3vni n = Some v \<longrightarrow> 1 \<le> v)
     \<and> (\<forall>e \<in> set (endpoints n). wf_ep e) \<and> (\<forall>a. acl n = Some a \<longrightarrow> wf_acl a)"

lemmas read_fields = field_req_def field_def_def extras_def Let_def list_from_map

lemma strs_json_not_null [simp]: "strs_json ss \<noteq> JNull"
  by (simp add: strs_json_def)

lemma validate_dump_rd_rt [read_back]:
  "rd r \<noteq> [] \<Longrightarrow> is_obj_then validate_rd_rt (dump_rd_rt r) = Inr r"
  by (simp add: dump_rd_rt_def validate_rd_rt_def read_fields read_back)

lemma validate_dump_af [read_back]: "is_obj_then validate_af (dump_af a) = Inr a"
  by (simp add: dump_af_def validate_af_def read_fields read_back)

lemma validate_dump_ep [read_back]:
  "wf_ep e \<Longrightarrow> is_obj_then (validate_ep L) (dump_ep e) = Inr e"
  by (simp add: dump_ep_def validate_ep_def wf_ep_def read_fields read_back)

lemma validate_dump_gw [read_back]: "is_obj_then validate_gw (dump_gw g) = Inr g"
  by (simp add: dump_gw_def validate_gw_def read_fields read_back)

lemma validate_dump_policies [read_back]:
  "is_obj_then (validate_policies L) (dump_policies b) = Inr b"
  by (simp add: dump_policies_def validate_policies_def read_fields)

lemma validate_dump_claims [read_back]: "is_obj_then validate_claims (dump_claims u) = Inr u"
  by (simp add: dump_claims_def validate_claims_def claim_names_def dget_def read_fields)

lemma validate_dump_acl [read_back]:
  "wf_acl a \<Longrightarrow> is_obj_then (validate_acl L) (dump_acl a) = Inr a"
  by (simp add: dump_acl_def validate_acl_def wf_acl_def read_fields read_back)

lemma dump_not_null [simp]:
  "dump_rd_rt r \<noteq> JNull" "dump_af f \<noteq> JNull" "dump_gw g \<noteq> JNull" "dump_policies b \<noteq> JNull"
  "dump_claims u \<noteq> JNull" "dump_acl a \<noteq> JNull"
  by (simp_all add: dump_rd_rt_def dump_af_def dump_gw_def dump_policies_def dump_claims_def
      dump_acl_def)

lemma validate_dump_intent:
  "wf_intent n \<Longrightarrow> validate_intent L (dump_intent n) = Inr n"
  by (simp add: dump_intent_def validate_intent_def intent_fields_def wf_intent_def read_fields
      read_back)

lemma proper_parts [proper_intros]:
  "proper (validate_rd_rt d)" "proper (validate_af d)" "proper (validate_gw d)"
  "proper (validate_policies L d)" "proper (validate_claims d)" "proper (validate_ep L d)"
  "proper (validate_acl L d)"
  by (simp_all add: proper_def Let_def validate_rd_rt_def validate_af_def validate_gw_def
      validate_policies_def validate_claims_def validate_ep_def validate_acl_def)

lemma field_def_null:
  "field_def (nullable p) None k d = Inr x \<Longrightarrow> x = Some a \<Longrightarrow> \<exists>j. p j = Inr a"
  by (auto dest!: field_def_Inr nullable_Inr)

text \<open>A model is read exactly when each of its fields is, and nothing else is there.\<close>

lemma errs_conv: "(if es \<noteq> [] then Inl es else Inr x) = Inr a \<longleftrightarrow> es = [] \<and> x = a"
  by auto

lemmas model_iff = Let_def errs_conv append_is_Nil_conv

lemma validate_rule_iff:
  "validate_rule L d = Inr x \<longleftrightarrow>
     field_req nonempty_str ''name'' d = Inr (rule_name x)
     \<and> field_req (int_within L 2 65535) ''priority'' d = Inr (priority x)
     \<and> field_req (literal [''permit'', ''deny'']) ''action'' d = Inr (action x)
     \<and> field_def (nullable (is_str_or_int L)) None ''protocol'' d = Inr (protocol x)
     \<and> field_def (nullable is_str) None ''sourcePrefix'' d = Inr (sourcePrefix x)
     \<and> field_def (nullable is_str) None ''destinationPrefix'' d = Inr (destinationPrefix x)
     \<and> field_def (nullable is_str) None ''sourcePort'' d = Inr (sourcePort x)
     \<and> field_def (nullable is_str) None ''destinationPort'' d = Inr (destinationPort x)
     \<and> field_def (nullable is_str) None ''description'' d = Inr (rule_description x)
     \<and> extras rule_fields d = []"
  by (cases x) (auto simp: validate_rule_def model_iff errs_Nil proper_intros)

lemma validate_rd_rt_iff:
  "validate_rd_rt d = Inr x \<longleftrightarrow>
     field_req nonempty_str ''rd'' d = Inr (rd x)
     \<and> field_def (is_list is_str) [] ''importRT'' d = Inr (importRT x)
     \<and> field_def (is_list is_str) [] ''exportRT'' d = Inr (exportRT x)
     \<and> extras [''rd'', ''importRT'', ''exportRT''] d = []"
  by (cases x) (auto simp: validate_rd_rt_def model_iff errs_Nil proper_intros)

lemma validate_af_iff:
  "validate_af d = Inr x \<longleftrightarrow>
     field_def (is_list is_str) [] ''ipv4Prefixes'' d = Inr (ipv4Prefixes x)
     \<and> field_def (is_list is_str) [] ''ipv6Prefixes'' d = Inr (ipv6Prefixes x)
     \<and> extras [''ipv4Prefixes'', ''ipv6Prefixes''] d = []"
  by (cases x) (auto simp: validate_af_def model_iff errs_Nil proper_intros)

lemma validate_ep_iff:
  "validate_ep L d = Inr x \<longleftrightarrow>
     field_req nonempty_str ''node'' d = Inr (ep_node x)
     \<and> field_req nonempty_str ''attachment'' d = Inr (ep_attachment x)
     \<and> field_def (nullable (int_within L 1 4094)) None ''vlan'' d = Inr (ep_vlan x)
     \<and> field_def (nullable is_str) None ''vrf'' d = Inr (ep_vrf x)
     \<and> field_def (nullable (is_list is_str)) None ''prefixes'' d = Inr (ep_prefixes x)
     \<and> extras [''node'', ''attachment'', ''vlan'', ''vrf'', ''prefixes''] d = []"
  by (cases x) (auto simp: validate_ep_def model_iff errs_Nil proper_intros)

lemma validate_gw_iff:
  "validate_gw d = Inr x \<longleftrightarrow>
     field_def (nullable is_str) None ''ipVrf'' d = Inr (gw_ipVrf x)
     \<and> field_def is_str [] ''gatewayIPv4'' d = Inr (gatewayIPv4 x)
     \<and> field_def is_str [] ''gatewayIPv6'' d = Inr (gatewayIPv6 x)
     \<and> extras [''ipVrf'', ''gatewayIPv4'', ''gatewayIPv6''] d = []"
  by (cases x) (auto simp: validate_gw_def model_iff errs_Nil proper_intros)

lemma validate_policies_iff:
  "validate_policies L d = Inr x \<longleftrightarrow>
     field_def (is_bool L) False ''vpwsLimitedEquivalence'' d = Inr x
     \<and> extras [''vpwsLimitedEquivalence''] d = []"
  by (cases x) (auto simp: validate_policies_def model_iff errs_Nil proper_intros)

lemma validate_acl_iff:
  "validate_acl L d = Inr x \<longleftrightarrow>
     field_def (nullable is_str) None ''name'' d = Inr (acl_name x)
     \<and> field_def (nullable (literal [''ingress'', ''egress''])) None ''stage'' d = Inr (stage x)
     \<and> field_def (nullable (literal [''l3'', ''l3v6''])) None ''type'' d = Inr (acl_type x)
     \<and> field_def (nullable (literal [''permit'', ''deny''])) None ''defaultAction'' d = Inr (defaultAction x)
     \<and> field_def (nullable is_str) None ''bindTo'' d = Inr (bindTo x)
     \<and> field_def (nullable (is_list (is_obj_then (validate_rule L)))) None ''rules'' d = Inr (rules x)
     \<and> extras [''name'', ''stage'', ''type'', ''defaultAction'', ''bindTo'', ''rules''] d = []"
  by (cases x) (auto simp: validate_acl_def model_iff errs_Nil proper_intros)

lemma validate_intent_iff:
  "validate_intent L d = Inr x \<longleftrightarrow>
     field_req nonempty_str ''serviceId'' d = Inr (serviceId x)
     \<and> field_req is_str ''type'' d = Inr (type_of x)
     \<and> field_req nonempty_str ''tenant'' d = Inr (tenant x)
     \<and> field_def (nullable (is_obj_then validate_rd_rt)) None ''rdRt'' d = Inr (rdRt x)
     \<and> field_def (nullable (int_from L 1)) None ''l2vni'' d = Inr (l2vni x)
     \<and> field_def (nullable (int_from L 1)) None ''l3vni'' d = Inr (l3vni x)
     \<and> field_def (nullable (is_obj_then validate_af)) None ''addressFamilies'' d = Inr (addressFamilies x)
     \<and> field_def (nullable (is_obj_then validate_gw)) None ''anycastGateway'' d = Inr (anycastGateway x)
     \<and> field_def is_str ''vxlan'' ''transport'' d = Inr (transport x)
     \<and> field_def (nullable is_str) None ''signalling'' d = Inr (signalling x)
     \<and> field_def (nullable is_str) None ''preferredSpine'' d = Inr (preferredSpine x)
     \<and> field_req (is_list (is_obj_then (validate_ep L))) ''endpoints'' d = Inr (endpoints x)
     \<and> field_def (nullable (is_obj_then (validate_policies L))) None ''policies'' d = Inr (vpwsLimitedEquivalence x)
     \<and> field_def (nullable (is_obj_then validate_claims)) None ''unsupported'' d = Inr (unsupported x)
     \<and> field_def (nullable (is_obj_then (validate_acl L))) None ''acl'' d = Inr (acl x)
     \<and> extras intent_fields d = []"
  by (cases x) (auto simp: validate_intent_def model_iff errs_Nil proper_intros)

lemma validate_rd_rt_wf: "validate_rd_rt d = Inr r \<Longrightarrow> rd r \<noteq> []"
proof -
  assume "validate_rd_rt d = Inr r"
  then have "field_req nonempty_str ''rd'' d = Inr (rd r)"
    by (simp add: validate_rd_rt_iff)
  then show ?thesis by (auto dest!: field_req_Inr nonempty_str_Inr)
qed

lemma validate_ep_wf: "validate_ep L d = Inr e \<Longrightarrow> wf_ep e"
proof -
  assume "validate_ep L d = Inr e"
  then have f: "field_req nonempty_str ''node'' d = Inr (ep_node e)"
    "field_req nonempty_str ''attachment'' d = Inr (ep_attachment e)"
    "field_def (nullable (int_within L 1 4094)) None ''vlan'' d = Inr (ep_vlan e)"
    by (simp_all add: validate_ep_iff)
  have "in_range 1 4094 v" if "ep_vlan e = Some v" for v
    using field_def_null [OF f(3) that] by (auto dest!: int_within_Inr)
  with f(1,2) show ?thesis by (auto simp: wf_ep_def dest!: field_req_Inr nonempty_str_Inr)
qed

lemma validate_acl_wf: "validate_acl L d = Inr a \<Longrightarrow> wf_acl a"
proof -
  assume "validate_acl L d = Inr a"
  then have f: "field_def (nullable (literal [''ingress'', ''egress''])) None ''stage'' d = Inr (stage a)"
    "field_def (nullable (literal [''l3'', ''l3v6''])) None ''type'' d = Inr (acl_type a)"
    "field_def (nullable (literal [''permit'', ''deny''])) None ''defaultAction'' d = Inr (defaultAction a)"
    "field_def (nullable (is_list (is_obj_then (validate_rule L)))) None ''rules'' d = Inr (rules a)"
    by (simp_all add: validate_acl_iff)
  have "wf_rule r" if rs: "rules a = Some rs" and r: "r \<in> set rs" for rs r
  proof -
    from field_def_null [OF f(4) rs] obtain j where
      j: "is_list (is_obj_then (validate_rule L)) j = Inr rs" by blast
    have "\<exists>j'. is_obj_then (validate_rule L) j' = Inr r"
      by (rule is_list_Inr [OF _ j r]) (rule proper_intros)+
    then show ?thesis by (auto dest!: is_obj_then_Inr validate_rule_wf)
  qed
  moreover have "s \<in> {''ingress'', ''egress''}" if "stage a = Some s" for s
    using field_def_null [OF f(1) that] by (auto dest!: literal_Inr)
  moreover have "s \<in> {''l3'', ''l3v6''}" if "acl_type a = Some s" for s
    using field_def_null [OF f(2) that] by (auto dest!: literal_Inr)
  moreover have "s \<in> {''permit'', ''deny''}" if "defaultAction a = Some s" for s
    using field_def_null [OF f(3) that] by (auto dest!: literal_Inr)
  ultimately show ?thesis unfolding wf_acl_def by blast
qed

lemma validate_intent_wf: "validate_intent L d = Inr n \<Longrightarrow> wf_intent n"
proof -
  assume "validate_intent L d = Inr n"
  then have f: "field_req nonempty_str ''serviceId'' d = Inr (serviceId n)"
    "field_req nonempty_str ''tenant'' d = Inr (tenant n)"
    "field_def (nullable (is_obj_then validate_rd_rt)) None ''rdRt'' d = Inr (rdRt n)"
    "field_def (nullable (int_from L 1)) None ''l2vni'' d = Inr (l2vni n)"
    "field_def (nullable (int_from L 1)) None ''l3vni'' d = Inr (l3vni n)"
    "field_req (is_list (is_obj_then (validate_ep L))) ''endpoints'' d = Inr (endpoints n)"
    "field_def (nullable (is_obj_then (validate_acl L))) None ''acl'' d = Inr (acl n)"
    by (simp_all add: validate_intent_iff)
  from field_req_Inr [OF f(6)] obtain j where
    j: "is_list (is_obj_then (validate_ep L)) j = Inr (endpoints n)" by blast
  have "wf_ep e" if e: "e \<in> set (endpoints n)" for e
  proof -
    have "\<exists>j'. is_obj_then (validate_ep L) j' = Inr e"
      by (rule is_list_Inr [OF _ j e]) (rule proper_intros)+
    then show ?thesis by (auto dest!: is_obj_then_Inr validate_ep_wf)
  qed
  moreover have "rd r \<noteq> []" if "rdRt n = Some r" for r
    using field_def_null [OF f(3) that] by (auto dest!: is_obj_then_Inr validate_rd_rt_wf)
  moreover have "1 \<le> v" if "l2vni n = Some v" for v
    using field_def_null [OF f(4) that] by (auto dest!: int_from_Inr)
  moreover have "1 \<le> v" if "l3vni n = Some v" for v
    using field_def_null [OF f(5) that] by (auto dest!: int_from_Inr)
  moreover have "wf_acl a" if "acl n = Some a" for a
    using field_def_null [OF f(7) that] by (auto dest!: is_obj_then_Inr validate_acl_wf)
  ultimately show ?thesis
    using f(1,2) by (auto simp: wf_intent_def dest!: field_req_Inr nonempty_str_Inr)
qed

end
