(* ===== verification/Net_V6.thy ===== *)
theory Net_V6
  imports Net
begin

text \<open>
  IPv6 networks read back from the text they are printed as: groups in hexadecimal, the longest run
  of zero groups written as \<open>::\<close>. With the IPv4 case of Net, every well-formed network is the one
  its own text names.
\<close>

section \<open>Groups\<close>

lemma from_base_Cons: "from_base b (x # xs) = x * b ^ length xs + from_base b xs"
proof (induction xs rule: rev_induct)
  case (snoc y ys)
  have "from_base b (x # ys @ [y]) = from_base b (x # ys) * b + y" by simp
  also have "\<dots> = (x * b ^ length ys + from_base b ys) * b + y" by (simp only: snoc.IH)
  also have "\<dots> = x * b ^ length (ys @ [y]) + from_base b (ys @ [y])" by (simp add: algebra_simps)
  finally show ?case .
qed simp

lemma from_base_digits:
  assumes "0 < (b::int)"
  shows "from_base b (map (\<lambda>k. a div b ^ k mod b) (rev [0..<m])) = a mod b ^ m"
proof (induction m)
  case (Suc m)
  have "a mod b ^ Suc m = b ^ m * (a div b ^ m mod b) + a mod b ^ m"
    using assms by (simp only: power_Suc2 zmod_zmult2_eq)
  with Suc show ?case by (simp add: from_base_Cons del: from_base.simps)
qed simp

lemma length_hextets [simp]: "length (hextets a) = 8"
  by (simp add: hextets_def)

lemma hextets_range: "h \<in> set (hextets a) \<Longrightarrow> 0 \<le> h \<and> h < 2 ^ 16"
  by (auto simp: hextets_def)

lemma from_base_hextets:
  assumes "0 \<le> a" "a < 2 ^ 128"
  shows "from_base (2 ^ 16) (hextets a) = a"
proof -
  have pos: "(0::int) < 2 ^ 16" by simp
  have "hextets a = map (\<lambda>k. a div (2 ^ 16) ^ k mod 2 ^ 16) (rev [0..<8])"
    by (simp add: hextets_def power_mult)
  then have "from_base (2 ^ 16) (hextets a) = a mod (2 ^ 16) ^ 8"
    by (simp only: from_base_digits [OF pos])
  then show ?thesis using assms by simp
qed

lemma hex_digit_range:
  assumes "0 \<le> n" "n < 16"
  shows "hex_val (hex_digit n) = n \<and> is_hex (hex_digit n)"
proof -
  have "code (hex_digit n) = (if n < 10 then 48 + n else 87 + n)"
    using assms by (simp add: hex_digit_def code_char_of)
  then show ?thesis
    using assms by (simp add: hex_val_def is_hex_def is_digit_def is_lower_def)
qed

lemma to_hex_fuel_value:
  "0 \<le> n \<Longrightarrow> n < 16 ^ k \<Longrightarrow> from_base 16 (map hex_val (to_hex_fuel k n)) = n \<and> list_all is_hex (to_hex_fuel k n)"
proof (induction k arbitrary: n)
  case (Suc k)
  show ?case
  proof (cases "n < 16")
    case False
    have "n div 16 < 16 ^ k" using Suc.prems by (simp add: int_div_less_self div_less_iff_less_mult mult.commute)
    moreover have "0 \<le> n div 16" using Suc.prems by simp
    ultimately have "from_base 16 (map hex_val (to_hex_fuel k (n div 16))) = n div 16
        \<and> list_all is_hex (to_hex_fuel k (n div 16))" by (rule Suc.IH [rotated])
    with False hex_digit_range [of "n mod 16"] show ?thesis by simp
  qed (use Suc.prems hex_digit_range [of n] in simp)
qed simp

lemma to_hex_fuel_length:
  "0 \<le> n \<Longrightarrow> n < 16 ^ j \<Longrightarrow> 0 < j \<Longrightarrow> length (to_hex_fuel k n) \<le> j"
proof (induction k arbitrary: n j)
  case (Suc k)
  show ?case
  proof (cases "n < 16")
    case False
    with Suc.prems obtain i where j: "j = Suc i" "0 < i"
      by (cases j; cases "j - 1") auto
    then have "n div 16 < 16 ^ i" using Suc.prems
      by (simp add: div_less_iff_less_mult mult.commute)
    with Suc.IH [of "n div 16" i] Suc.prems j False show ?thesis by simp
  qed (use Suc.prems in simp)
qed simp

lemma to_hex_fuel_nonempty: "0 < k \<Longrightarrow> to_hex_fuel k n \<noteq> []"
  by (cases k) auto

lemma to_hex_nonempty [simp]: "to_hex n \<noteq> []"
  by (simp add: to_hex_def to_hex_fuel_nonempty)

lemma parse_hextet_to_hex:
  assumes "0 \<le> h" "h < 2 ^ 16"
  shows "parse_hextet (to_hex h) = Some h"
proof -
  have "h < 16 ^ 32" "h < 16 ^ 4" using assms by simp_all
  then show ?thesis
    using assms to_hex_fuel_value [of h 32] to_hex_fuel_length [of h 4 32]
    by (simp add: parse_hextet_def to_hex_def [symmetric] del: from_base.simps)
qed

lemma to_hex_chars:
  assumes "0 \<le> h" "h < 2 ^ 16"
  shows "\<forall>c \<in> set (to_hex h). is_hex c"
proof -
  have "h < 16 ^ 32" using assms by simp
  then show ?thesis using assms to_hex_fuel_value [of h 32] by (simp add: to_hex_def list_all_iff)
qed

lemma not_hex [simp]: "\<not> is_hex CHR '':''" "\<not> is_hex CHR ''.''" "\<not> is_hex CHR ''/''"
  by (simp_all add: is_hex_def char_class_defs)

section \<open>The longest run of zeros\<close>

lemma run_length_take: "take (run_length xs) xs = replicate (run_length xs) 0 \<and> run_length xs \<le> length xs"
  by (induction xs) auto

lemma best_run_zeros:
  "best_run k xs = (i, n) \<Longrightarrow> n \<noteq> 0 \<Longrightarrow>
     k \<le> i \<and> i - k + n \<le> length xs \<and> take n (drop (i - k) xs) = replicate n 0"
proof (induction k xs arbitrary: i n rule: best_run.induct)
  case (2 k x xs)
  show ?case
  proof (cases "run_length (x # xs) \<noteq> 0 \<and> snd (best_run (Suc k) xs) \<le> run_length (x # xs)")
    case True
    with 2 show ?thesis using run_length_take [of "x # xs"] by (auto simp: Let_def simp del: run_length.simps)
  next
    case False
    with 2 have r: "best_run (Suc k) xs = (i, n)" by (auto simp: Let_def simp del: run_length.simps)
    with "2.IH" [OF refl r "2.prems"(2)] have "Suc k \<le> i" "i - Suc k + n \<le> length xs"
      "take n (drop (i - Suc k) xs) = replicate n 0" by auto
    then show ?thesis by (simp add: drop_Cons' Suc_diff_le)
  qed
qed simp

lemma best_run_split:
  assumes "best_run 0 hs = (i, n)" "n \<noteq> 0"
  shows "hs = take i hs @ replicate n 0 @ drop (i + n) hs" "i + n \<le> length hs"
proof -
  from best_run_zeros [OF assms] have *: "i + n \<le> length hs" "take n (drop i hs) = replicate n 0" by auto
  then show "i + n \<le> length hs" by simp
  have "hs = take i hs @ take n (drop i hs) @ drop n (drop i hs)"
    by (simp only: append_take_drop_id)
  with * show "hs = take i hs @ replicate n 0 @ drop (i + n) hs" by (simp add: add.commute)
qed

section \<open>The text and its parts\<close>

definition v6_texts :: "int \<Rightarrow> string list" where
  "v6_texts a = map to_hex (hextets a)"

lemma v6_texts_chars:
  "t \<in> set (v6_texts a) \<Longrightarrow> t \<noteq> [] \<and> CHR '':'' \<notin> set t \<and> CHR ''.'' \<notin> set t \<and> CHR ''/'' \<notin> set t"
proof -
  assume "t \<in> set (v6_texts a)"
  then obtain h where t: "t = to_hex h" and "h \<in> set (hextets a)" by (auto simp: v6_texts_def)
  then have "\<forall>c \<in> set t. is_hex c" using hextets_range to_hex_chars by blast
  with t show ?thesis using not_hex by auto
qed

lemma all_some_hextets: "set hs \<subseteq> set (hextets a) \<Longrightarrow> all_some (map parse_hextet (map to_hex hs)) = Some hs"
proof (induction hs)
  case (Cons h hs)
  then have "0 \<le> h" "h < 2 ^ 16" using hextets_range by auto
  with Cons show ?case by (simp add: parse_hextet_to_hex)
qed simp

lemma skip_positions_none: "\<forall>p \<in> set ps. p \<noteq> [] \<Longrightarrow> skip_positions ps = []"
  by (auto simp: skip_positions_def filter_empty_conv)

text \<open>The parts of a text with \<open>::\<close>: an empty part where a side has no group.\<close>

definition side :: "string list \<Rightarrow> string list" where
  "side ps = (if ps = [] then [[]] else ps)"

lemma split_join_side: "\<forall>p \<in> set ps. CHR '':'' \<notin> set p \<Longrightarrow> split_on CHR '':'' (join '':'' ps) = side ps"
  by (cases ps) (simp_all add: side_def split_on_join del: join.simps(3))

lemma split_on_glue: "split_on d (s @ d # t) = split_on d s @ split_on d t"
proof (induction s)
  case (Cons c s)
  then show ?case by (cases "split_on d s") auto
qed simp

lemma filter_index:
  assumes "k < n" "\<And>i. i < n \<Longrightarrow> P i \<longleftrightarrow> i = k"
  shows "filter P [0..<n] = [k]"
proof -
  have "filter P [0..<n] = filter (\<lambda>i. i = k) [0..<n]" using assms(2) by (intro filter_cong) auto
  also have "\<dots> = [k]" using assms(1) by (induction n) (auto simp: less_Suc_eq filter_empty_conv)
  finally show ?thesis .
qed

lemma skip_positions_side:
  assumes "\<forall>p \<in> set A. p \<noteq> []" "\<forall>p \<in> set B. p \<noteq> []"
  shows "skip_positions (side A @ [] # side B) = [length (side A)]"
  unfolding skip_positions_def
proof (rule filter_index)
  fix i assume i: "i < length (side A @ [] # side B)"
  let ?ps = "side A @ [] # side B"
  have "?ps ! i = [] \<longleftrightarrow> i = length (side A) \<or> (A = [] \<and> i = 0) \<or> (B = [] \<and> i = length ?ps - 1)"
    using assms i
    by (auto simp: side_def nth_append nth_Cons' split: if_splits)
  then show "0 < i \<and> i < length ?ps - 1 \<and> ?ps ! i = [] \<longleftrightarrow> i = length (side A)"
    by (auto simp: side_def)
qed simp

lemma parse_side:
  assumes A: "\<forall>p \<in> set A. p \<noteq> []" and B: "\<forall>p \<in> set B. p \<noteq> []"
    and len: "length A + length B \<le> 6"
    and h: "all_some (map parse_hextet A) = Some h" and l: "all_some (map parse_hextet B) = Some l"
  shows "parse_v6_parts (side A @ [] # side B)
     = Some (from_base (2 ^ 16) (h @ replicate (8 - (length A + length B)) 0 @ l))"
proof -
  let ?ps = "side A @ [] # side B"
  have hd: "hd ?ps = [] \<longleftrightarrow> A = []" using A by (cases A) (auto simp: side_def)
  have last: "last ?ps = [] \<longleftrightarrow> B = []" using B by (cases B rule: rev_cases) (auto simp: side_def)
  have hi: "(if hd ?ps = [] then length (side A) - 1 else length (side A)) = length A"
    by (simp add: hd) (simp add: side_def)
  have lo: "(if last ?ps = [] then length ?ps - length (side A) - 2 else length ?ps - length (side A) - 1)
      = length B"
    using B by (cases B rule: rev_cases) (simp_all add: last, simp_all add: side_def)
  have ta: "take (length A) ?ps = A" and db: "drop (length ?ps - length B) ?ps = B"
    by (auto simp: side_def)
  have "\<not> 9 < length ?ps" using len by (auto simp: side_def)
  then show ?thesis
    unfolding parse_v6_parts_def Let_def skip_positions_side [OF A B]
    by (simp only: hi lo ta db h l list.case if_False option.case prod.case) (use len hd last in auto)
qed

section \<open>The round trip\<close>

theorem parse_v6_str_v6:
  assumes "0 \<le> a" "a < 2 ^ 128"
  shows "parse_v6 (str_v6 a) = Some a"
proof -
  let ?hs = "hextets a" let ?ts = "v6_texts a"
  note whole = from_base_hextets [OF assms]
  obtain i n where r: "best_run 0 ?hs = (i, n)" by (cases "best_run 0 ?hs")
  show ?thesis
  proof (cases "n \<le> 1")
    case True
    then have s: "str_v6 a = join '':'' ?ts" by (simp add: str_v6_def r v6_texts_def)
    have len: "length ?ts = 8" by (simp add: v6_texts_def)
    then have ne: "?ts \<noteq> []" by auto
    have sp: "split_on CHR '':'' (str_v6 a) = ?ts"
      unfolding s using ne v6_texts_chars by (intro split_on_join) auto
    have "CHR ''.'' \<notin> set (last ?ts)" using v6_texts_chars last_in_set [OF ne] by blast
    then have "v6_parts (str_v6 a) = Some ?ts" by (simp add: v6_parts_def sp len)
    moreover have "all_some (map parse_hextet ?ts) = Some ?hs"
      unfolding v6_texts_def by (rule all_some_hextets [of _ a]) simp
    moreover have "skip_positions ?ts = []" using v6_texts_chars by (intro skip_positions_none) blast
    ultimately show ?thesis
      using whole by (simp add: parse_v6_def parse_v6_parts_def len del: from_base.simps)
  next
    case False
    let ?A = "take i ?ts" and ?B = "drop (i + n) ?ts"
    have n0: "n \<noteq> 0" using False by simp
    note sp = best_run_split [OF r n0]
    have s: "str_v6 a = (join '':'' ?A @ '':'') @ CHR '':'' # join '':'' ?B"
      using False by (simp add: str_v6_def r v6_texts_def Let_def)
    have chars: "\<forall>p \<in> set ?A. p \<noteq> [] \<and> CHR '':'' \<notin> set p" "\<forall>p \<in> set ?B. p \<noteq> [] \<and> CHR '':'' \<notin> set p"
      "\<forall>p \<in> set ?B. CHR ''.'' \<notin> set p"
      using v6_texts_chars by (meson in_set_takeD in_set_dropD)+
    have parts: "split_on CHR '':'' (str_v6 a) = side ?A @ [] # side ?B"
      using chars by (simp add: s split_on_glue split_join_side del: join.simps)
    have lens: "length ?A = i" "length ?B = 8 - (i + n)" using sp(2) by (auto simp: v6_texts_def)
    have "last (side ?A @ [] # side ?B) = [] \<or> last (side ?A @ [] # side ?B) \<in> set ?B"
      using last_in_set [of ?B] by (simp add: side_def del: last_drop)
    then have "CHR ''.'' \<notin> set (last (side ?A @ [] # side ?B))" using chars(3) by auto
    moreover have "3 \<le> length (side ?A @ [] # side ?B)"
      by (auto simp: side_def) (metis One_nat_def Suc_leI length_greater_0_conv add_mono numeral_2_eq_2 one_add_one)+
    ultimately have vp: "v6_parts (str_v6 a) = Some (side ?A @ [] # side ?B)"
      by (simp add: v6_parts_def parts del: length_append)
    have h: "all_some (map parse_hextet ?A) = Some (take i ?hs)"
      unfolding v6_texts_def take_map by (rule all_some_hextets [of _ a]) (auto dest: in_set_takeD)
    have l: "all_some (map parse_hextet ?B) = Some (drop (i + n) ?hs)"
      unfolding v6_texts_def drop_map by (rule all_some_hextets [of _ a]) (auto dest: in_set_dropD)
    have "parse_v6_parts (side ?A @ [] # side ?B)
        = Some (from_base (2 ^ 16) (take i ?hs @ replicate (8 - (length ?A + length ?B)) 0 @ drop (i + n) ?hs))"
      by (rule parse_side) (use chars lens sp(2) False h l in auto)
    moreover have "8 - (length ?A + length ?B) = n" using lens sp(2) by simp
    ultimately show ?thesis
      by (simp only: parse_v6_def vp option.case sp(1) [symmetric] whole)
  qed
qed

lemma str_v6_chars: "CHR ''.'' \<notin> set (str_v6 a) \<and> CHR ''/'' \<notin> set (str_v6 a)"
proof -
  have j: "c \<in> set (join '':'' ps) \<Longrightarrow> c = CHR '':'' \<or> (\<exists>p \<in> set ps. c \<in> set p)" for c ps
    by (induction ps rule: induct_list012) auto
  obtain i n where r: "best_run 0 (hextets a) = (i, n)" by (cases "best_run 0 (hextets a)")
  have "set (str_v6 a) \<subseteq> {CHR '':''} \<union> set (join '':'' (v6_texts a))
      \<union> set (join '':'' (take i (v6_texts a))) \<union> set (join '':'' (drop (i + n) (v6_texts a)))"
    by (auto simp: str_v6_def v6_texts_def Let_def r)
  then show ?thesis using j v6_texts_chars by (fastforce dest: in_set_takeD in_set_dropD)
qed

theorem ip_network_str_net_v6:
  assumes "wf_net n" "ver n = 6"
  shows "ip_network (str_net n) = Some n"
proof -
  from assms have a: "0 \<le> net_addr n" "net_addr n < 2 ^ 128" and p: "0 \<le> plen n" "plen n \<le> 128"
    and m: "net_addr n mod 2 ^ (128 - nat (plen n)) = 0" by (auto simp: wf_net_def)
  have "CHR ''/'' \<notin> set (str_nat k)" for k
    by (rule str_nat_no) (simp add: is_digit_def code_def)
  then have s: "split_on CHR ''/'' (str_net n) = [str_v6 (net_addr n), str_nat (nat (plen n))]"
    using assms(2) str_v6_chars
    by (simp add: str_net_def str_addr_def split_on_append split_on_none)
  have no4: "net_v4 (str_v6 (net_addr n)) t = None" for t
    using str_v6_chars by (simp add: net_v4_def parse_v4_def split_on_none)
  have "parse_plen 128 (str_nat (nat (plen n))) = Some (plen n)"
    using p by (simp add: parse_plen_str_nat)
  then have "net_v6 (str_v6 (net_addr n)) (Some (str_nat (nat (plen n)))) = Some n"
    using a m assms(2) by (simp add: net_v6_def parse_v6_str_v6 network_of_def mask_addr_id)
  then show ?thesis by (simp add: ip_network_def s no4)
qed

section \<open>Every network read is well formed\<close>

lemma parse_hextet_range: "parse_hextet s = Some x \<Longrightarrow> 0 \<le> x \<and> x < 2 ^ 16"
proof -
  assume p: "parse_hextet s = Some x"
  then have s: "list_all is_hex s" "length s \<le> 4" and x: "x = from_base 16 (map hex_val s)"
    by (auto simp: parse_hextet_def split: if_splits)
  have "0 \<le> hex_val c \<and> hex_val c < 16" if "is_hex c" for c
    using that by (auto simp: hex_val_def is_hex_def is_digit_def is_lower_def)
  with s(1) have "0 \<le> x \<and> x < 16 ^ length s"
    using from_base_range [of "map hex_val s" 16] by (simp add: x list_all_iff)
  moreover have "(16::int) ^ length s \<le> 16 ^ 4" using s(2) by (intro power_increasing) auto
  ultimately show ?thesis by simp
qed

lemma all_some_hextets_range:
  assumes "all_some (map parse_hextet ps) = Some xs"
  shows "(\<forall>x \<in> set xs. 0 \<le> x \<and> x < 2 ^ 16) \<and> length xs = length ps"
proof -
  from all_some_SomeD [OF assms] have "list_all2 (\<lambda>p x. parse_hextet p = Some x) ps xs" .
  then show ?thesis
    by (induction rule: list_all2_induct) (auto dest: parse_hextet_range)
qed

lemma hextet_list_range:
  assumes "\<forall>x \<in> set xs. 0 \<le> x \<and> x < 2 ^ 16" "length xs \<le> 8"
  shows "0 \<le> from_base (2 ^ 16) xs \<and> from_base (2 ^ 16) xs < 2 ^ 128"
proof -
  have "0 \<le> from_base (2 ^ 16) xs \<and> from_base (2 ^ 16) xs < (2 ^ 16) ^ length xs"
    using assms(1) by (rule from_base_range) simp
  moreover have "((2::int) ^ 16) ^ length xs \<le> (2 ^ 16) ^ 8" using assms(2) by (intro power_increasing) auto
  ultimately show ?thesis by simp
qed

lemma glued_range:
  assumes "all_some (map parse_hextet (take m ps)) = Some h" "all_some (map parse_hextet (drop k ps)) = Some l"
    and "length ps - k \<le> r" "m + r \<le> 8"
  shows "0 \<le> from_base (2 ^ 16) (h @ replicate (8 - (m + r)) 0 @ l)
    \<and> from_base (2 ^ 16) (h @ replicate (8 - (m + r)) 0 @ l) < 2 ^ 128"
  using all_some_hextets_range [OF assms(1)] all_some_hextets_range [OF assms(2)] assms(3,4)
  by (intro hextet_list_range) auto

lemma parse_v6_parts_range: "parse_v6_parts ps = Some a \<Longrightarrow> 0 \<le> a \<and> a < 2 ^ 128"
proof -
  assume p: "parse_v6_parts ps = Some a"
  show ?thesis
  proof (cases "skip_positions ps")
    case Nil
    with p obtain xs where "length ps = 8" "all_some (map parse_hextet ps) = Some xs" "a = from_base (2 ^ 16) xs"
      by (auto simp: parse_v6_parts_def split: if_splits simp del: from_base.simps)
    then show ?thesis using all_some_hextets_range [of ps xs] hextet_list_range [of xs] by simp
  next
    case (Cons i more)
    define m where "m = (if hd ps = [] then i - 1 else i)"
    define r where "r = (if last ps = [] then length ps - i - 2 else length ps - i - 1)"
    from p Cons obtain h l where "all_some (map parse_hextet (take m ps)) = Some h"
      "all_some (map parse_hextet (drop (length ps - r) ps)) = Some l" "m + r + 1 \<le> 8"
      "a = from_base (2 ^ 16) (h @ replicate (8 - (m + r)) 0 @ l)"
      by (auto simp: parse_v6_parts_def Let_def m_def [symmetric] r_def [symmetric] not_less
          split: if_splits list.splits option.splits simp del: from_base.simps)
    then show ?thesis using glued_range [of m ps h "length ps - r" l r] by simp
  qed
qed

lemma net_v6_wf:
  assumes "net_v6 a m = Some n"
  shows "wf_net n \<and> ver n = 6"
proof -
  obtain x p where x: "parse_v6 a = Some x" and n: "n = network_of 6 x p"
    and p: "p = 128 \<or> (\<exists>t. parse_plen 128 t = Some p)"
    using assms by (auto simp: net_v6_def split: option.splits)
  have "0 \<le> x \<and> x < 2 ^ 128"
    using x parse_v6_parts_range by (auto simp: parse_v6_def split: option.splits)
  moreover have "0 \<le> p \<and> p \<le> 128" using p parse_plen_range [of 128] by auto
  ultimately have "wf_net (network_of 6 x p)" by (intro network_of_wf) auto
  then show ?thesis by (simp add: n network_of_def)
qed

theorem ip_network_wf: "ip_network s = Some n \<Longrightarrow> wf_net n"
  by (auto simp: ip_network_def split: list.splits option.splits dest: net_v4_wf net_v6_wf)

text \<open>The text of any network is a fixed point of reading and printing.\<close>

theorem ip_network_canonical: "ip_network s = Some n \<Longrightarrow> ip_network (str_net n) = Some n"
  using ip_network_wf [of s n] ip_network_str_net [of n] ip_network_str_net_v6 [of n]
  by (auto simp: wf_net_def)

end
