(* ===== verification/Interp.thy ===== *)
theory Interp
  imports Intent_Json Net_V6
begin

text \<open>
  The mapper's output, src/agents/common/schemas/interpretation.py: the construct vocabulary and
  its legacy aliases, \<open>Interpretation\<close> with its field and model validators, and its dump, which
  leaves the unset SRv6 fields out. A model validator that raises ends the reading with its
  message; the field errors are collected.
\<close>

section \<open>The construct vocabulary\<close>

datatype service_type = VLAN | MAC_VRF | IP_VRF | ACL

fun type_value :: "service_type \<Rightarrow> string" where
  "type_value VLAN = ''vlan''"
| "type_value MAC_VRF = ''mac-vrf''"
| "type_value IP_VRF = ''ip-vrf''"
| "type_value ACL = ''acl''"

definition canonical_types :: "(string \<times> service_type) list" where
  "canonical_types =
     [(''vlan'', VLAN), (''macvrf'', MAC_VRF), (''l2vni'', MAC_VRF), (''ipvrf'', IP_VRF),
      (''l3vni'', IP_VRF), (''acl'', ACL), (''accesslist'', ACL), (''vpls'', MAC_VRF),
      (''vpws'', MAC_VRF), (''eline'', MAC_VRF), (''l3vpn'', IP_VRF), (''l2l3irb'', MAC_VRF),
      (''irb'', MAC_VRF)]"

definition type_key :: "string \<Rightarrow> string" where
  "type_key s = filter (\<lambda>c. c \<notin> set ''-_ .+'') (lower s)"

definition fold_type :: "string \<Rightarrow> service_type option" where
  "fold_type s = map_of canonical_types (type_key s)"

section \<open>The models\<close>

record endpoint_intent =
  site_or_node :: string
  attachment :: string
  vlan :: "int option"
  prefixes :: "string list option"

record acl_intent =
  ai_name :: "string option"
  ai_stage :: string
  ai_type :: string
  default_action :: "string option"
  ai_rules :: "acl_rule list"

record gateway_intent =
  gi_ipv4 :: "string option"
  gi_ipv6 :: "string option"

record interp =
  service_id :: string
  service_type :: service_type
  source_service_type :: "string option"
  i_tenant :: string
  i_endpoints :: "endpoint_intent list"
  bandwidth :: "string option"
  sla :: "string option"
  ipv4_prefixes :: "string list"
  ipv6_prefixes :: "string list"
  i_acl :: "acl_intent option"
  anycast_gateway :: "gateway_intent option"
  i_transport :: "string option"
  i_signalling :: "string option"
  preferred_spine :: "string option"
  alternate_spine :: "string option"
  missing_fields :: "string list"
  unsupported_properties :: "string list"

definition is_complete :: "interp \<Rightarrow> bool" where
  "is_complete i \<longleftrightarrow> missing_fields i = [] \<and> unsupported_properties i = []"

section \<open>Validators\<close>

definition validate_endpoint :: "lax \<Rightarrow> dict \<Rightarrow> endpoint_intent checked" where
  "validate_endpoint L d =
     (let n = field_req nonempty_str ''site_or_node'' d;
          a = field_req nonempty_str ''attachment'' d;
          v = field_def (nullable (int_within L 1 4094)) None ''vlan'' d;
          p = field_def (nullable (is_list is_str)) None ''prefixes'' d;
          es = errs n @ errs a @ errs v @ errs p
                 @ extras [''site_or_node'', ''attachment'', ''vlan'', ''prefixes''] d
      in if es \<noteq> [] then Inl es
         else Inr \<lparr>site_or_node = ok n, attachment = ok a, vlan = ok v, prefixes = ok p\<rparr>)"

definition validate_acl_intent :: "lax \<Rightarrow> dict \<Rightarrow> acl_intent checked" where
  "validate_acl_intent L d =
     (let n = field_def (nullable is_str) None ''name'' d;
          s = field_req (literal [''ingress'', ''egress'']) ''stage'' d;
          t = field_req (literal [''l3'', ''l3v6'']) ''type'' d;
          a = field_def (nullable (literal [''permit'', ''deny''])) None ''default_action'' d;
          r = field_req (is_list (is_obj_then (validate_rule L))) ''rules'' d;
          es = errs n @ errs s @ errs t @ errs a @ errs r
                 @ extras [''name'', ''stage'', ''type'', ''default_action'', ''rules''] d
      in if es \<noteq> [] then Inl es
         else Inr \<lparr>ai_name = ok n, ai_stage = ok s, ai_type = ok t, default_action = ok a,
                   ai_rules = ok r\<rparr>)"

definition validate_gateway :: "dict \<Rightarrow> gateway_intent checked" where
  "validate_gateway d =
     (let a = field_def (nullable is_str) None ''ipv4'' d;
          b = field_def (nullable is_str) None ''ipv6'' d;
          es = errs a @ errs b @ extras [''ipv4'', ''ipv6''] d
      in if es \<noteq> [] then Inl es
         else if ok a = None \<and> ok b = None
           then fail (Raised (''anycast_gateway: name at least one of ipv4/ipv6 '' @ emdash
                  @ '' a gateway with no address routes nothing''))
         else Inr \<lparr>gi_ipv4 = ok a, gi_ipv6 = ok b\<rparr>)"

text \<open>The RFC 1123 label \<open>^[a-z0-9]([-a-z0-9]*[a-z0-9])?$\<close>, matched in full.\<close>

definition label_char :: "char \<Rightarrow> bool" where
  "label_char c \<longleftrightarrow> is_digit c \<or> is_lower c"

definition rfc1123 :: "string \<Rightarrow> bool" where
  "rfc1123 s \<longleftrightarrow> s \<noteq> [] \<and> label_char (hd s) \<and> label_char (last s)
     \<and> list_all (\<lambda>c. label_char c \<or> c = CHR ''-'') s"

definition tenant_rfc1123 :: "json \<Rightarrow> string checked" where
  "tenant_rfc1123 j =
     (case is_str j of
        Inl es \<Rightarrow> Inl es
      | Inr v \<Rightarrow> if rfc1123 v then Inr v
                 else fail (Raised (''tenant must be an RFC 1123 label, got '' @ repr v)))"

definition record_source_alias :: "dict \<Rightarrow> dict" where
  "record_source_alias d =
     (case dget d ''service_type'' of
        JStr raw \<Rightarrow>
          if raw \<noteq> [] \<and> \<not> truthy (dget d ''source_service_type'')
          then (case fold_type raw of
                  None \<Rightarrow> d
                | Some t \<Rightarrow>
                    if type_key raw \<noteq> type_key (type_value t)
                    then dset ''source_service_type'' (JStr raw) d else d)
          else d
      | _ \<Rightarrow> d)"

definition fold_service_type :: "json \<Rightarrow> service_type checked" where
  "fold_service_type j =
     (case fold_type (jstr j) of
        Some t \<Rightarrow> Inr t
      | None \<Rightarrow> fail (Raised (''unsupported service_type '' @ json_repr j
                  @ ''; constructs are: vlan, mac-vrf, ip-vrf, acl'')))"

fun valid_prefixes :: "int \<Rightarrow> string list \<Rightarrow> string + string list" where
  "valid_prefixes v [] = Inr []"
| "valid_prefixes v (p # ps) =
     (case ip_network p of
        None \<Rightarrow> Inl (''invalid IPv'' @ str_int v @ '' prefix '' @ repr p)
      | Some n \<Rightarrow>
          if ver n \<noteq> v then Inl (''expected an IPv'' @ str_int v @ '' prefix, got '' @ repr p)
          else map_res (Cons (str_net n)) (valid_prefixes v ps))"

definition prefix_list :: "int \<Rightarrow> json \<Rightarrow> string list checked" where
  "prefix_list v j =
     (case is_list is_str j of
        Inl es \<Rightarrow> Inl es
      | Inr ps \<Rightarrow> (case valid_prefixes v ps of Inl m \<Rightarrow> fail (Raised m) | Inr qs \<Rightarrow> Inr qs))"

definition service_id_str :: "json \<Rightarrow> string checked" where
  "service_id_str j = guard (\<lambda>s. s \<noteq> [] \<and> char_count s \<le> 15) (is_str j)"

definition nonempty_list :: "'a list checked \<Rightarrow> 'a list checked" where
  "nonempty_list r = guard (\<lambda>xs. xs \<noteq> []) r"

definition mutual_exclusion :: "interp \<Rightarrow> string option" where
  "mutual_exclusion i =
     (if missing_fields i \<noteq> [] \<and> unsupported_properties i \<noteq> [] then
        Some (''missing_fields and unsupported_properties are mutually exclusive: name either the missing fields (clarification) or the unsupported properties (rejection), not both (got missing=''
          @ json_repr (strs_json (missing_fields i)) @ '', unsupported=''
          @ json_repr (strs_json (unsupported_properties i)) @ '')'')
      else None)"

definition gateway_scoped :: "interp \<Rightarrow> string option" where
  "gateway_scoped i =
     (if anycast_gateway i \<noteq> None \<and> service_type i \<noteq> MAC_VRF then
        Some (''anycast_gateway: only a mac-vrf carries an anycast gateway (got service_type ''
          @ repr (type_value (service_type i)) @ '')'')
      else None)"

fun interp_rules_error :: "nat \<Rightarrow> acl_rule list \<Rightarrow> string option" where
  "interp_rules_error i [] = None"
| "interp_rules_error i (r # rs) =
     (case protocol r of
        Some (PStr q) \<Rightarrow>
          (let p = lower (strip q); here = ''acl.rules['' @ str_nat i @ ''].protocol: '' in
           if p \<noteq> [] \<and> p \<notin> set named_protocols \<and> \<not> list_all is_digit p then
             Some (here @ ''one of any, tcp, udp, icmp, igmp, rsvp, gre, ah, pim, l2tp or a numeric IP protocol 0-255 (got ''
               @ repr q @ '')'')
           else if p = ''icmpv6'' \<or> p = ''ipv6-icmp'' then
             Some (here @ ''icmpv6 is not supported by the pinned image'')
           else interp_rules_error (Suc i) rs)
      | _ \<Rightarrow> interp_rules_error (Suc i) rs)"

definition acl_required :: "interp \<Rightarrow> string option" where
  "acl_required i =
     (if service_type i = ACL then
        (case i_acl i of
           None \<Rightarrow> Some ''acl: required when service_type == acl''
         | Some a \<Rightarrow> interp_rules_error 0 (ai_rules a))
      else None)"

text \<open>An aliased field is read by its alias, else by its name; the other spelling is extra.\<close>

definition alias_key :: "string \<Rightarrow> string \<Rightarrow> dict \<Rightarrow> string" where
  "alias_key al nm d = (if map_of d al \<noteq> None then al else nm)"

definition interp_fields :: "string list" where
  "interp_fields = [''service_id'', ''service_type'', ''source_service_type'', ''tenant'',
     ''endpoints'', ''bandwidth'', ''sla'', ''ipv4_prefixes'', ''ipv6_prefixes'', ''acl'',
     ''anycast_gateway'', ''transport'', ''signalling'', ''missing_fields'',
     ''unsupported_properties'']"

definition read_interp :: "lax \<Rightarrow> dict \<Rightarrow> interp checked" where
  "read_interp L d =
     (let ps = alias_key ''preferredSpine'' ''preferred_spine'' d;
          as = alias_key ''alternateSpine'' ''alternate_spine'' d;
          s = field_req service_id_str ''service_id'' d;
          t = field_req fold_service_type ''service_type'' d;
          src = field_def (nullable is_str) None ''source_service_type'' d;
          n = field_req tenant_rfc1123 ''tenant'' d;
          e = field_req (\<lambda>j. nonempty_list (is_list (is_obj_then (validate_endpoint L)) j)) ''endpoints'' d;
          b = field_def (nullable is_str) None ''bandwidth'' d;
          l = field_def (nullable is_str) None ''sla'' d;
          p4 = field_def (prefix_list 4) [] ''ipv4_prefixes'' d;
          p6 = field_def (prefix_list 6) [] ''ipv6_prefixes'' d;
          ac = field_def (nullable (is_obj_then (validate_acl_intent L))) None ''acl'' d;
          gw = field_def (nullable (is_obj_then validate_gateway)) None ''anycast_gateway'' d;
          tr = field_def (nullable (literal [''vxlan'', ''srv6''])) None ''transport'' d;
          sg = field_def (nullable (literal [''vpn'', ''evpn''])) None ''signalling'' d;
          pr = field_def (nullable is_str) None ps d;
          al = field_def (nullable is_str) None as d;
          mf = field_def (is_list is_str) [] ''missing_fields'' d;
          up = field_def (is_list is_str) [] ''unsupported_properties'' d;
          es = errs s @ errs t @ errs src @ errs n @ errs e @ errs b @ errs l @ errs p4 @ errs p6
                 @ errs ac @ errs gw @ errs tr @ errs sg @ errs pr @ errs al @ errs mf @ errs up
                 @ extras (ps # as # interp_fields) d
      in if es \<noteq> [] then Inl es
         else Inr \<lparr>service_id = ok s, service_type = ok t, source_service_type = ok src,
                   i_tenant = ok n, i_endpoints = ok e, bandwidth = ok b, sla = ok l,
                   ipv4_prefixes = ok p4, ipv6_prefixes = ok p6, i_acl = ok ac,
                   anycast_gateway = ok gw, i_transport = ok tr, i_signalling = ok sg,
                   preferred_spine = ok pr, alternate_spine = ok al, missing_fields = ok mf,
                   unsupported_properties = ok up\<rparr>)"

definition model_checks :: "interp \<Rightarrow> interp checked" where
  "model_checks i =
     (case mutual_exclusion i of Some m \<Rightarrow> fail (Raised m)
      | None \<Rightarrow> (case gateway_scoped i of Some m \<Rightarrow> fail (Raised m)
         | None \<Rightarrow> (case acl_required i of Some m \<Rightarrow> fail (Raised m) | None \<Rightarrow> Inr i)))"

definition validate_interpretation :: "lax \<Rightarrow> dict \<Rightarrow> interp checked" where
  "validate_interpretation L d =
     (case read_interp L (record_source_alias d) of Inl es \<Rightarrow> Inl es | Inr i \<Rightarrow> model_checks i)"

section \<open>Dumping\<close>

definition opt_field :: "string \<Rightarrow> json option \<Rightarrow> dict" where
  "opt_field k v = (case v of None \<Rightarrow> [] | Some j \<Rightarrow> [(k, j)])"

definition dump_endpoint :: "endpoint_intent \<Rightarrow> json" where
  "dump_endpoint e = JObj ([(''site_or_node'', JStr (site_or_node e)),
     (''attachment'', JStr (attachment e)), (''vlan'', int_json (vlan e))]
     @ opt_field ''prefixes'' (map_option strs_json (prefixes e)))"

definition dump_acl_intent :: "acl_intent \<Rightarrow> json" where
  "dump_acl_intent a = JObj [(''name'', str_json (ai_name a)), (''stage'', JStr (ai_stage a)),
     (''type'', JStr (ai_type a)), (''default_action'', str_json (default_action a)),
     (''rules'', JArr (map dump_rule (ai_rules a)))]"

definition dump_gateway :: "gateway_intent \<Rightarrow> json" where
  "dump_gateway g = JObj [(''ipv4'', str_json (gi_ipv4 g)), (''ipv6'', str_json (gi_ipv6 g))]"

definition dump_interpretation :: "interp \<Rightarrow> dict" where
  "dump_interpretation i =
     [(''service_id'', JStr (service_id i)), (''service_type'', JStr (type_value (service_type i))),
      (''source_service_type'', str_json (source_service_type i)), (''tenant'', JStr (i_tenant i)),
      (''endpoints'', JArr (map dump_endpoint (i_endpoints i))), (''bandwidth'', str_json (bandwidth i)),
      (''sla'', str_json (sla i)), (''ipv4_prefixes'', strs_json (ipv4_prefixes i)),
      (''ipv6_prefixes'', strs_json (ipv6_prefixes i)), (''acl'', opt_json dump_acl_intent (i_acl i)),
      (''anycast_gateway'', opt_json dump_gateway (anycast_gateway i))]
     @ opt_field ''transport'' (map_option JStr (i_transport i))
     @ opt_field ''signalling'' (map_option JStr (i_signalling i))
     @ opt_field ''preferred_spine'' (map_option JStr (preferred_spine i))
     @ opt_field ''alternate_spine'' (map_option JStr (alternate_spine i))
     @ [(''missing_fields'', strs_json (missing_fields i)),
        (''unsupported_properties'', strs_json (unsupported_properties i))]"

section \<open>Reading back a dump\<close>

definition wf_endpoint :: "endpoint_intent \<Rightarrow> bool" where
  "wf_endpoint e \<longleftrightarrow> site_or_node e \<noteq> [] \<and> attachment e \<noteq> []
     \<and> (\<forall>v. vlan e = Some v \<longrightarrow> in_range 1 4094 v)"

definition wf_acl_intent :: "acl_intent \<Rightarrow> bool" where
  "wf_acl_intent a \<longleftrightarrow> ai_stage a \<in> {''ingress'', ''egress''} \<and> ai_type a \<in> {''l3'', ''l3v6''}
     \<and> (\<forall>s. default_action a = Some s \<longrightarrow> s \<in> {''permit'', ''deny''})
     \<and> (\<forall>r \<in> set (ai_rules a). wf_rule r)"

text \<open>A prefix in the form \<open>ipaddress\<close> prints.\<close>

definition canonical_prefix :: "int \<Rightarrow> string \<Rightarrow> bool" where
  "canonical_prefix v p \<longleftrightarrow> (case ip_network p of None \<Rightarrow> False | Some n \<Rightarrow> ver n = v \<and> str_net n = p)"

definition wf_interp :: "interp \<Rightarrow> bool" where
  "wf_interp i \<longleftrightarrow> service_id i \<noteq> [] \<and> char_count (service_id i) \<le> 15 \<and> rfc1123 (i_tenant i)
     \<and> i_endpoints i \<noteq> [] \<and> (\<forall>e \<in> set (i_endpoints i). wf_endpoint e)
     \<and> (\<forall>p \<in> set (ipv4_prefixes i). canonical_prefix 4 p)
     \<and> (\<forall>p \<in> set (ipv6_prefixes i). canonical_prefix 6 p)
     \<and> (\<forall>a. i_acl i = Some a \<longrightarrow> wf_acl_intent a)
     \<and> (\<forall>g. anycast_gateway i = Some g \<longrightarrow> gi_ipv4 g \<noteq> None \<or> gi_ipv6 g \<noteq> None)
     \<and> (\<forall>t. i_transport i = Some t \<longrightarrow> t \<in> {''vxlan'', ''srv6''})
     \<and> (\<forall>t. i_signalling i = Some t \<longrightarrow> t \<in> {''vpn'', ''evpn''})
     \<and> model_checks i = Inr i"

lemma opt_field_simps [simp]:
  "opt_field k None = []" "opt_field k (Some j) = [(k, j)]"
  by (simp_all add: opt_field_def)

lemma nullable_value: "j \<noteq> JNull \<Longrightarrow> nullable p j = map_res Some (p j)"
  by (auto simp: nullable_def split: sum.splits)

lemma validate_dump_endpoint [read_back]:
  "wf_endpoint e \<Longrightarrow> is_obj_then (validate_endpoint L) (dump_endpoint e) = Inr e"
  by (cases "prefixes e")
    (simp_all add: dump_endpoint_def validate_endpoint_def wf_endpoint_def read_fields read_back nullable_value)

lemma validate_dump_acl_intent [read_back]:
  "wf_acl_intent a \<Longrightarrow> is_obj_then (validate_acl_intent L) (dump_acl_intent a) = Inr a"
  by (simp add: dump_acl_intent_def validate_acl_intent_def wf_acl_intent_def read_fields read_back)

lemma validate_dump_gateway [read_back]:
  "gi_ipv4 g \<noteq> None \<or> gi_ipv6 g \<noteq> None \<Longrightarrow> is_obj_then validate_gateway (dump_gateway g) = Inr g"
  by (auto simp: dump_gateway_def validate_gateway_def read_fields read_back)

lemma dump_interp_not_null [simp]: "dump_acl_intent a \<noteq> JNull" "dump_gateway g \<noteq> JNull"
  by (simp_all add: dump_acl_intent_def dump_gateway_def)

lemma valid_prefixes_canonical:
  "\<forall>p \<in> set ps. canonical_prefix v p \<Longrightarrow> valid_prefixes v ps = Inr ps"
  by (induction ps) (auto simp: canonical_prefix_def split: option.splits)

lemma prefix_list_strs [read_back]:
  "\<forall>p \<in> set ps. canonical_prefix v p \<Longrightarrow> prefix_list v (strs_json ps) = Inr ps"
  by (simp add: prefix_list_def read_back valid_prefixes_canonical)

lemma fold_type_value [simp]: "fold_type (type_value t) = Some t"
  by (cases t; simp only: type_value.simps; code_simp)

lemma fold_service_type_value [read_back]: "fold_service_type (JStr (type_value t)) = Inr t"
  by (simp add: fold_service_type_def)

lemma tenant_rfc1123_JStr [read_back]: "rfc1123 s \<Longrightarrow> tenant_rfc1123 (JStr s) = Inr s"
  by (simp add: tenant_rfc1123_def)

lemma service_id_JStr [read_back]:
  "s \<noteq> [] \<Longrightarrow> char_count s \<le> 15 \<Longrightarrow> service_id_str (JStr s) = Inr s"
  by (simp add: service_id_str_def guard_def)

lemma nonempty_list_Inr [read_back]: "xs \<noteq> [] \<Longrightarrow> nonempty_list (Inr xs) = Inr xs"
  by (simp add: nonempty_list_def guard_def)

lemma record_source_alias_dump:
  "record_source_alias (dump_interpretation i) = dump_interpretation i"
  by (simp add: record_source_alias_def dump_interpretation_def dget_def)

lemma map_of_opt_field:
  "map_of (opt_field k v @ d) k' =
     (if k' = k then (case v of None \<Rightarrow> map_of d k' | Some j \<Rightarrow> Some j) else map_of d k')"
  by (cases v) auto

lemma dump_lookups:
  "map_of (dump_interpretation i) ''service_id'' = Some (JStr (service_id i))"
  "map_of (dump_interpretation i) ''service_type'' = Some (JStr (type_value (service_type i)))"
  "map_of (dump_interpretation i) ''source_service_type'' = Some (str_json (source_service_type i))"
  "map_of (dump_interpretation i) ''tenant'' = Some (JStr (i_tenant i))"
  "map_of (dump_interpretation i) ''endpoints'' = Some (JArr (map dump_endpoint (i_endpoints i)))"
  "map_of (dump_interpretation i) ''bandwidth'' = Some (str_json (bandwidth i))"
  "map_of (dump_interpretation i) ''sla'' = Some (str_json (sla i))"
  "map_of (dump_interpretation i) ''ipv4_prefixes'' = Some (strs_json (ipv4_prefixes i))"
  "map_of (dump_interpretation i) ''ipv6_prefixes'' = Some (strs_json (ipv6_prefixes i))"
  "map_of (dump_interpretation i) ''acl'' = Some (opt_json dump_acl_intent (i_acl i))"
  "map_of (dump_interpretation i) ''anycast_gateway'' = Some (opt_json dump_gateway (anycast_gateway i))"
  "map_of (dump_interpretation i) ''missing_fields'' = Some (strs_json (missing_fields i))"
  "map_of (dump_interpretation i) ''unsupported_properties'' = Some (strs_json (unsupported_properties i))"
  by (simp_all add: dump_interpretation_def map_of_opt_field del: map_of_append)

lemma dump_opt_lookups:
  "map_of (dump_interpretation i) ''transport'' = map_option JStr (i_transport i)"
  "map_of (dump_interpretation i) ''signalling'' = map_option JStr (i_signalling i)"
  "map_of (dump_interpretation i) ''preferred_spine'' = map_option JStr (preferred_spine i)"
  "map_of (dump_interpretation i) ''alternate_spine'' = map_option JStr (alternate_spine i)"
  "map_of (dump_interpretation i) ''preferredSpine'' = None"
  "map_of (dump_interpretation i) ''alternateSpine'' = None"
  by (simp_all add: dump_interpretation_def map_of_opt_field del: map_of_append split: option.splits)

lemma extras_dump:
  "extras (''preferred_spine'' # ''alternate_spine'' # interp_fields) (dump_interpretation i) = []"
  by (simp add: extras_def dump_interpretation_def interp_fields_def opt_field_def split: option.splits)

lemma field_def_opt:
  "map_of d k = map_option JStr x \<Longrightarrow> (\<And>s. x = Some s \<Longrightarrow> p (JStr s) = Inr s)
   \<Longrightarrow> field_def (nullable p) None k d = Inr x"
  by (cases x) (auto simp: field_def_def nullable_value)

lemma read_dump_interpretation:
  assumes "wf_interp i"
  shows "read_interp L (dump_interpretation i) = Inr i"
proof -
  let ?d = "dump_interpretation i"
  have k: "alias_key ''preferredSpine'' ''preferred_spine'' ?d = ''preferred_spine''"
    "alias_key ''alternateSpine'' ''alternate_spine'' ?d = ''alternate_spine''"
    by (simp_all add: alias_key_def dump_opt_lookups)
  have o: "field_def (nullable (literal [''vxlan'', ''srv6''])) None ''transport'' ?d = Inr (i_transport i)"
    "field_def (nullable (literal [''vpn'', ''evpn''])) None ''signalling'' ?d = Inr (i_signalling i)"
    "field_def (nullable is_str) None ''preferred_spine'' ?d = Inr (preferred_spine i)"
    "field_def (nullable is_str) None ''alternate_spine'' ?d = Inr (alternate_spine i)"
    using assms by (auto intro!: field_def_opt simp: dump_opt_lookups wf_interp_def read_back)
  have r: "field_req service_id_str ''service_id'' ?d = Inr (service_id i)"
    "field_req fold_service_type ''service_type'' ?d = Inr (service_type i)"
    "field_def (nullable is_str) None ''source_service_type'' ?d = Inr (source_service_type i)"
    "field_req tenant_rfc1123 ''tenant'' ?d = Inr (i_tenant i)"
    "field_req (\<lambda>j. nonempty_list (is_list (is_obj_then (validate_endpoint L)) j)) ''endpoints'' ?d
       = Inr (i_endpoints i)"
    "field_def (nullable is_str) None ''bandwidth'' ?d = Inr (bandwidth i)"
    "field_def (nullable is_str) None ''sla'' ?d = Inr (sla i)"
    "field_def (prefix_list 4) [] ''ipv4_prefixes'' ?d = Inr (ipv4_prefixes i)"
    "field_def (prefix_list 6) [] ''ipv6_prefixes'' ?d = Inr (ipv6_prefixes i)"
    "field_def (nullable (is_obj_then (validate_acl_intent L))) None ''acl'' ?d = Inr (i_acl i)"
    "field_def (nullable (is_obj_then validate_gateway)) None ''anycast_gateway'' ?d
       = Inr (anycast_gateway i)"
    "field_def (is_list is_str) [] ''missing_fields'' ?d = Inr (missing_fields i)"
    "field_def (is_list is_str) [] ''unsupported_properties'' ?d = Inr (unsupported_properties i)"
    using assms
    by (simp_all add: field_req_def field_def_def dump_lookups read_back wf_interp_def list_from_map)
  show ?thesis unfolding read_interp_def Let_def k o r extras_dump by simp
qed

lemma validate_dump_interpretation:
  "wf_interp i \<Longrightarrow> validate_interpretation L (dump_interpretation i) = Inr i"
  by (simp add: validate_interpretation_def record_source_alias_dump read_dump_interpretation)
    (simp add: wf_interp_def)

section \<open>What validation guarantees\<close>

lemma proper_interp_parts [proper_intros]:
  "proper (validate_endpoint L d)" "proper (validate_acl_intent L d)" "proper (validate_gateway d)"
  by (simp_all add: proper_def Let_def validate_endpoint_def validate_acl_intent_def fail_def
      validate_gateway_def)

lemma proper_fold [proper_intros]: "proper (fold_service_type v)"
  by (auto simp: proper_def fold_service_type_def fail_def split: option.splits)

lemma proper_service_id [proper_intros]: "proper (service_id_str v)"
  by (simp add: service_id_str_def proper_intros)

lemma proper_tenant [proper_intros]: "proper (tenant_rfc1123 j)"
  by (cases j) (simp_all add: tenant_rfc1123_def proper_def fail_def)

lemma tenant_rfc1123_Inr: "tenant_rfc1123 v = Inr s \<Longrightarrow> rfc1123 s"
  by (cases "is_str v") (auto simp: tenant_rfc1123_def fail_def split: if_splits)

lemma proper_prefix_list [proper_intros]: "proper (prefix_list v j)"
  using proper_is_list [of is_str j, OF proper_is_str]
  by (auto simp: prefix_list_def proper_def fail_def split: sum.splits)

lemma proper_nonempty_list [proper_intros]: "proper r \<Longrightarrow> proper (nonempty_list r)"
  by (simp add: nonempty_list_def proper_intros)

lemma valid_prefixes_out:
  "valid_prefixes v ps = Inr qs \<Longrightarrow> \<forall>q \<in> set qs. canonical_prefix v q"
proof (induction ps arbitrary: qs)
  case (Cons p ps)
  then obtain n rs where n: "ip_network p = Some n" "ver n = v" and rs: "valid_prefixes v ps = Inr rs"
    and qs: "qs = str_net n # rs" by (auto split: option.splits if_splits)
  have "canonical_prefix v (str_net n)"
    using ip_network_canonical [OF n(1)] n(2) by (simp add: canonical_prefix_def)
  with Cons.IH [OF rs] qs show ?case by simp
qed simp

lemma prefix_list_out: "prefix_list v j = Inr qs \<Longrightarrow> q \<in> set qs \<Longrightarrow> canonical_prefix v q"
  by (auto simp: prefix_list_def fail_def dest: valid_prefixes_out split: sum.splits)

lemma validate_endpoint_wf: "validate_endpoint L d = Inr e \<Longrightarrow> wf_endpoint e"
proof -
  assume "validate_endpoint L d = Inr e"
  then have f: "field_req nonempty_str ''site_or_node'' d = Inr (site_or_node e)"
    "field_req nonempty_str ''attachment'' d = Inr (attachment e)"
    "field_def (nullable (int_within L 1 4094)) None ''vlan'' d = Inr (vlan e)"
    by (auto simp: validate_endpoint_def Let_def errs_Nil proper_intros split: if_splits)
  have "in_range 1 4094 v" if "vlan e = Some v" for v
    using field_def_null [OF f(3) that] by (auto dest!: int_within_Inr)
  with f(1,2) show ?thesis by (auto simp: wf_endpoint_def dest!: field_req_Inr nonempty_str_Inr)
qed

lemma validate_acl_intent_wf: "validate_acl_intent L d = Inr a \<Longrightarrow> wf_acl_intent a"
proof -
  assume "validate_acl_intent L d = Inr a"
  then have f: "field_req (literal [''ingress'', ''egress'']) ''stage'' d = Inr (ai_stage a)"
    "field_req (literal [''l3'', ''l3v6'']) ''type'' d = Inr (ai_type a)"
    "field_def (nullable (literal [''permit'', ''deny''])) None ''default_action'' d = Inr (default_action a)"
    "field_req (is_list (is_obj_then (validate_rule L))) ''rules'' d = Inr (ai_rules a)"
    by (auto simp: validate_acl_intent_def Let_def errs_Nil proper_intros split: if_splits)
  from field_req_Inr [OF f(4)] obtain j where
    j: "is_list (is_obj_then (validate_rule L)) j = Inr (ai_rules a)" by blast
  have "wf_rule r" if r: "r \<in> set (ai_rules a)" for r
  proof -
    have "\<exists>j'. is_obj_then (validate_rule L) j' = Inr r"
      by (rule is_list_Inr [OF _ j r]) (rule proper_intros)+
    then show ?thesis by (auto dest!: is_obj_then_Inr validate_rule_wf)
  qed
  moreover have "s \<in> {''permit'', ''deny''}" if "default_action a = Some s" for s
    using field_def_null [OF f(3) that] by (auto dest!: literal_Inr)
  ultimately show ?thesis
    using f(1,2) by (auto simp: wf_acl_intent_def dest!: field_req_Inr literal_Inr)
qed

lemma validate_gateway_family:
  "validate_gateway d = Inr g \<Longrightarrow> gi_ipv4 g \<noteq> None \<or> gi_ipv6 g \<noteq> None"
  by (auto simp: validate_gateway_def Let_def fail_def split: if_splits)

lemma model_checks_id: "model_checks i = Inr j \<Longrightarrow> j = i"
  by (auto simp: model_checks_def fail_def split: option.splits)

text \<open>The published invariants of a validated interpretation.\<close>

lemma validate_interpretation_checks:
  assumes "validate_interpretation L d = Inr i"
  shows "model_checks i = Inr i" "\<exists>d'. read_interp L d' = Inr i"
  using assms by (auto simp: validate_interpretation_def dest: model_checks_id split: sum.splits)

lemma read_interp_fields:
  assumes "read_interp L d = Inr i"
  shows "\<exists>j. service_id_str j = Inr (service_id i)"
    and "\<exists>j. tenant_rfc1123 j = Inr (i_tenant i)"
    and "\<exists>j. nonempty_list (is_list (is_obj_then (validate_endpoint L)) j) = Inr (i_endpoints i)"
    and "ipv4_prefixes i = [] \<or> (\<exists>j. prefix_list 4 j = Inr (ipv4_prefixes i))"
    and "ipv6_prefixes i = [] \<or> (\<exists>j. prefix_list 6 j = Inr (ipv6_prefixes i))"
    and "i_acl i = Some a \<Longrightarrow> \<exists>j. is_obj_then (validate_acl_intent L) j = Inr a"
    and "anycast_gateway i = Some g \<Longrightarrow> \<exists>j. is_obj_then validate_gateway j = Inr g"
    and "i_transport i = Some t \<Longrightarrow> t \<in> {''vxlan'', ''srv6''}"
    and "i_signalling i = Some t \<Longrightarrow> t \<in> {''vpn'', ''evpn''}"
proof -
  have f: "field_req service_id_str ''service_id'' d = Inr (service_id i)"
    "field_req tenant_rfc1123 ''tenant'' d = Inr (i_tenant i)"
    "field_req (\<lambda>j. nonempty_list (is_list (is_obj_then (validate_endpoint L)) j)) ''endpoints'' d
       = Inr (i_endpoints i)"
    "field_def (prefix_list 4) [] ''ipv4_prefixes'' d = Inr (ipv4_prefixes i)"
    "field_def (prefix_list 6) [] ''ipv6_prefixes'' d = Inr (ipv6_prefixes i)"
    "field_def (nullable (is_obj_then (validate_acl_intent L))) None ''acl'' d = Inr (i_acl i)"
    "field_def (nullable (is_obj_then validate_gateway)) None ''anycast_gateway'' d = Inr (anycast_gateway i)"
    "field_def (nullable (literal [''vxlan'', ''srv6''])) None ''transport'' d = Inr (i_transport i)"
    "field_def (nullable (literal [''vpn'', ''evpn''])) None ''signalling'' d = Inr (i_signalling i)"
    using assms unfolding read_interp_def Let_def
    by (auto simp: errs_Nil proper_intros split: if_splits)
  show "\<exists>j. service_id_str j = Inr (service_id i)" "\<exists>j. tenant_rfc1123 j = Inr (i_tenant i)"
    "\<exists>j. nonempty_list (is_list (is_obj_then (validate_endpoint L)) j) = Inr (i_endpoints i)"
    using f(1-3) by (auto dest: field_req_Inr)
  show "ipv4_prefixes i = [] \<or> (\<exists>j. prefix_list 4 j = Inr (ipv4_prefixes i))"
    using field_def_Inr [OF f(4)] .
  show "ipv6_prefixes i = [] \<or> (\<exists>j. prefix_list 6 j = Inr (ipv6_prefixes i))"
    using field_def_Inr [OF f(5)] .
  show "i_acl i = Some a \<Longrightarrow> \<exists>j. is_obj_then (validate_acl_intent L) j = Inr a"
    by (rule field_def_null [OF f(6)])
  show "anycast_gateway i = Some g \<Longrightarrow> \<exists>j. is_obj_then validate_gateway j = Inr g"
    by (rule field_def_null [OF f(7)])
  show "i_transport i = Some t \<Longrightarrow> t \<in> {''vxlan'', ''srv6''}"
    using field_def_null [OF f(8)] by (auto dest!: literal_Inr)
  show "i_signalling i = Some t \<Longrightarrow> t \<in> {''vpn'', ''evpn''}"
    using field_def_null [OF f(9)] by (auto dest!: literal_Inr)
qed

lemma validate_interpretation_wf:
  assumes v: "validate_interpretation L d = Inr i"
  shows "wf_interp i"
proof -
  from validate_interpretation_checks [OF v] obtain d' where r: "read_interp L d' = Inr i"
    and m: "model_checks i = Inr i" by blast
  note f = read_interp_fields [OF r]
  from f(3) obtain j where nl: "nonempty_list (is_list (is_obj_then (validate_endpoint L)) j) = Inr (i_endpoints i)"
    by blast
  then have l: "is_list (is_obj_then (validate_endpoint L)) j = Inr (i_endpoints i)"
    and ne: "i_endpoints i \<noteq> []" by (auto simp: nonempty_list_def guard_Inr)
  have "wf_endpoint e" if e: "e \<in> set (i_endpoints i)" for e
  proof -
    have "\<exists>j'. is_obj_then (validate_endpoint L) j' = Inr e"
      by (rule is_list_Inr [OF _ l e]) (rule proper_intros)+
    then show ?thesis by (auto dest!: is_obj_then_Inr validate_endpoint_wf)
  qed
  moreover have "service_id i \<noteq> [] \<and> char_count (service_id i) \<le> 15"
    using f(1) by (auto simp: service_id_str_def guard_Inr)
  moreover have "rfc1123 (i_tenant i)"
    using f(2) tenant_rfc1123_Inr by blast
  moreover have "canonical_prefix 4 p" if "p \<in> set (ipv4_prefixes i)" for p
    using f(4) that by (auto dest: prefix_list_out)
  moreover have "canonical_prefix 6 p" if "p \<in> set (ipv6_prefixes i)" for p
    using f(5) that by (auto dest: prefix_list_out)
  moreover have "wf_acl_intent a" if "i_acl i = Some a" for a
    using f(6) [OF that] by (auto dest!: is_obj_then_Inr validate_acl_intent_wf)
  moreover have "gi_ipv4 g \<noteq> None \<or> gi_ipv6 g \<noteq> None" if "anycast_gateway i = Some g" for g
    using f(7) [OF that] by (auto dest!: is_obj_then_Inr dest: validate_gateway_family)
  moreover have "t \<in> {''vxlan'', ''srv6''}" if "i_transport i = Some t" for t by (rule f(8) [OF that])
  moreover have "t \<in> {''vpn'', ''evpn''}" if "i_signalling i = Some t" for t by (rule f(9) [OF that])
  ultimately show ?thesis using ne m unfolding wf_interp_def by blast
qed

end
