(* ===== verification/Json.thy ===== *)
theory Json
  imports Base
begin

text \<open>
  Python's \<open>json\<close> module on the values of the tier: \<open>dumps\<close> with its separators and its ASCII
  escapes, the key-sorted canonical form of graph.py's \<open>canonical_json\<close>, and \<open>loads\<close>. Numbers
  are integers: a text with a fractional or exponent number is outside the model (\<open>loads\<close> gives
  \<open>None\<close> for it as for malformed text).
\<close>

section \<open>Printing\<close>

text \<open>The code points of UTF-8 text.\<close>

fun code_points :: "string \<Rightarrow> int list" where
  "code_points [] = []"
| "code_points (c # s) =
     (if code c < 192 then code c # code_points s
      else if code c < 224 then
        (case s of d # t \<Rightarrow> ((code c - 192) * 64 + (code d - 128)) # code_points t | _ \<Rightarrow> [code c])
      else if code c < 240 then
        (case s of d # e # t \<Rightarrow>
           ((code c - 224) * 4096 + (code d - 128) * 64 + (code e - 128)) # code_points t
         | _ \<Rightarrow> [code c])
      else
        (case s of d # e # f # t \<Rightarrow>
           ((code c - 240) * 262144 + (code d - 128) * 4096 + (code e - 128) * 64 + (code f - 128))
             # code_points t
         | _ \<Rightarrow> [code c]))"

definition hex4 :: "int \<Rightarrow> string" where
  "hex4 n = [hex_digit (n div 4096 mod 16), hex_digit (n div 256 mod 16),
     hex_digit (n div 16 mod 16), hex_digit (n mod 16)]"

definition escape_u :: "int \<Rightarrow> string" where
  "escape_u n = [CHR 0x5C, CHR ''u''] @ hex4 n"

definition escape_point :: "int \<Rightarrow> string" where
  "escape_point p =
     (if p = 34 then [CHR 0x5C, CHR 0x22]
      else if p = 92 then [CHR 0x5C, CHR 0x5C]
      else if p = 10 then [CHR 0x5C, CHR ''n'']
      else if p = 13 then [CHR 0x5C, CHR ''r'']
      else if p = 9 then [CHR 0x5C, CHR ''t'']
      else if p = 8 then [CHR 0x5C, CHR ''b'']
      else if p = 12 then [CHR 0x5C, CHR ''f'']
      else if 32 \<le> p \<and> p \<le> 126 then [char_of p]
      else if p < 65536 then escape_u p
      else escape_u (55296 + (p - 65536) div 1024) @ escape_u (56320 + (p - 65536) mod 1024))"

definition dump_str :: "string \<Rightarrow> string" where
  "dump_str s = dquote @ concat (map escape_point (code_points s)) @ dquote"

fun dumps_with :: "string \<Rightarrow> string \<Rightarrow> json \<Rightarrow> string" where
  "dumps_with isep ksep JNull = ''null''"
| "dumps_with isep ksep (JBool b) = (if b then ''true'' else ''false'')"
| "dumps_with isep ksep (JInt i) = str_int i"
| "dumps_with isep ksep (JStr s) = dump_str s"
| "dumps_with isep ksep (JArr xs) = ''['' @ join isep (map (dumps_with isep ksep) xs) @ '']''"
| "dumps_with isep ksep (JObj d) =
     ''{'' @ join isep (map (\<lambda>(k, v). dump_str k @ ksep @ dumps_with isep ksep v) d) @ ''}''"

definition dumps_compact :: "json \<Rightarrow> string" where
  "dumps_compact j = dumps_with '','' '':'' j"

definition dumps :: "json \<Rightarrow> string" where
  "dumps j = dumps_with '', '' '': '' j"

text \<open>\<open>sort_keys=True\<close>: every object's keys in order.\<close>

fun sort_keys :: "json \<Rightarrow> json" where
  "sort_keys (JArr xs) = JArr (map sort_keys xs)"
| "sort_keys (JObj d) = JObj (sort_key fst (map (\<lambda>(k, v). (k, sort_keys v)) d))"
| "sort_keys j = j"

definition canonical_json :: "json \<Rightarrow> string" where
  "canonical_json j = dumps_compact (sort_keys j)"

section \<open>Reading\<close>

definition skip_ws :: "string \<Rightarrow> string" where
  "skip_ws s = dropWhile (\<lambda>c. code c = 32 \<or> code c = 9 \<or> code c = 10 \<or> code c = 13) s"

definition is_hex_any :: "char \<Rightarrow> bool" where
  "is_hex_any c \<longleftrightarrow> is_hex_lower c \<or> (65 \<le> code c \<and> code c \<le> 70)"

definition hex_any_val :: "char \<Rightarrow> int" where
  "hex_any_val c = (if is_digit c then code c - 48 else if is_lower c then code c - 87 else code c - 55)"

definition utf8_bytes :: "int \<Rightarrow> string" where
  "utf8_bytes p =
     (if p < 128 then [char_of p]
      else if p < 2048 then [char_of (192 + p div 64), char_of (128 + p mod 64)]
      else if p < 65536 then
        [char_of (224 + p div 4096), char_of (128 + p div 64 mod 64), char_of (128 + p mod 64)]
      else [char_of (240 + p div 262144), char_of (128 + p div 4096 mod 64),
            char_of (128 + p div 64 mod 64), char_of (128 + p mod 64)])"

definition read_hex4 :: "string \<Rightarrow> (int \<times> string) option" where
  "read_hex4 s =
     (if 4 \<le> length s \<and> list_all is_hex_any (take 4 s)
      then Some (foldl (\<lambda>a c. a * 16 + hex_any_val c) 0 (take 4 s), drop 4 s) else None)"

text \<open>The escape after a backslash: its text and what follows it.\<close>

definition read_escape :: "string \<Rightarrow> (string \<times> string) option" where
  "read_escape s =
     (case s of
        [] \<Rightarrow> None
      | c # t \<Rightarrow>
          if code c = 34 \<or> code c = 92 \<or> code c = 47 then Some ([c], t)
          else if c = CHR ''n'' then Some ([CHR 0x0A], t)
          else if c = CHR ''r'' then Some ([CHR 0x0D], t)
          else if c = CHR ''t'' then Some ([CHR 0x09], t)
          else if c = CHR ''b'' then Some ([CHR 0x08], t)
          else if c = CHR ''f'' then Some ([CHR 0x0C], t)
          else if c \<noteq> CHR ''u'' then None
          else
            (case read_hex4 t of
               None \<Rightarrow> None
             | Some (p, u) \<Rightarrow>
                 if 55296 \<le> p \<and> p < 56320 \<and> take 2 u = [CHR 0x5C, CHR ''u''] then
                   (case read_hex4 (drop 2 u) of
                      Some (q, v) \<Rightarrow>
                        if 56320 \<le> q \<and> q < 57344
                        then Some (utf8_bytes (65536 + (p - 55296) * 1024 + (q - 56320)), v)
                        else Some (utf8_bytes p, u)
                    | None \<Rightarrow> Some (utf8_bytes p, u))
                 else Some (utf8_bytes p, u)))"

text \<open>The rest of a string literal, after its opening quote.\<close>

fun read_str :: "nat \<Rightarrow> string \<Rightarrow> (string \<times> string) option" where
  "read_str 0 s = None"
| "read_str (Suc n) s =
     (case s of
        [] \<Rightarrow> None
      | c # t \<Rightarrow>
          if code c = 34 then Some ([], t)
          else if code c = 92 then
            (case read_escape t of
               None \<Rightarrow> None
             | Some (w, u) \<Rightarrow> map_option (\<lambda>(v, r). (w @ v, r)) (read_str n u))
          else if code c < 32 then None
          else map_option (\<lambda>(v, r). (c # v, r)) (read_str n t))"

definition read_int :: "string \<Rightarrow> (json \<times> string) option" where
  "read_int s =
     (let neg = (take 1 s = ''-''); t = (if neg then drop 1 s else s);
          ds = takeWhile is_digit t; r = dropWhile is_digit t
      in if ds = [] \<or> (hd ds = CHR ''0'' \<and> tl ds \<noteq> []) \<or> (r \<noteq> [] \<and> hd r \<in> set ''.eE'') then None
         else Some (JInt (if neg then - digits_val 0 ds else digits_val 0 ds), r))"

fun read_val :: "nat \<Rightarrow> string \<Rightarrow> (json \<times> string) option"
and read_items :: "nat \<Rightarrow> string \<Rightarrow> (json list \<times> string) option"
and read_members :: "nat \<Rightarrow> dict \<Rightarrow> string \<Rightarrow> (dict \<times> string) option" where
  "read_val 0 s = None"
| "read_val (Suc n) s =
     (let s = skip_ws s in
      if s = [] then None
      else if code (hd s) = 34 then map_option (\<lambda>(w, r). (JStr w, r)) (read_str (length s) (tl s))
      else if hd s = CHR ''['' then
        (if take 1 (skip_ws (tl s)) = '']'' then Some (JArr [], tl (skip_ws (tl s)))
         else map_option (\<lambda>(xs, r). (JArr xs, r)) (read_items n (tl s)))
      else if hd s = CHR ''{'' then
        (if take 1 (skip_ws (tl s)) = ''}'' then Some (JObj [], tl (skip_ws (tl s)))
         else map_option (\<lambda>(d, r). (JObj d, r)) (read_members n [] (tl s)))
      else if take 4 s = ''null'' then Some (JNull, drop 4 s)
      else if take 4 s = ''true'' then Some (JBool True, drop 4 s)
      else if take 5 s = ''false'' then Some (JBool False, drop 5 s)
      else read_int s)"
| "read_items 0 s = None"
| "read_items (Suc n) s =
     (case read_val n s of
        None \<Rightarrow> None
      | Some (x, r) \<Rightarrow>
          (let r = skip_ws r in
           if take 1 r = '','' then map_option (\<lambda>(xs, q). (x # xs, q)) (read_items n (tl r))
           else if take 1 r = '']'' then Some ([x], tl r) else None))"
| "read_members 0 d s = None"
| "read_members (Suc n) d s =
     (let s = skip_ws s in
      if s = [] \<or> code (hd s) \<noteq> 34 then None
      else
        (case read_str (length s) (tl s) of
           None \<Rightarrow> None
         | Some (k, r) \<Rightarrow>
             (let r = skip_ws r in
              if take 1 r \<noteq> '':'' then None
              else
                (case read_val n (tl r) of
                   None \<Rightarrow> None
                 | Some (v, q) \<Rightarrow>
                     (let q = skip_ws q; d = dset k v d in
                      if take 1 q = '','' then read_members n d (tl q)
                      else if take 1 q = ''}'' then Some (d, tl q) else None)))))"

text \<open>\<open>json.loads\<close>: the fuel is the length of the text, of which each call uses a character.\<close>

definition loads :: "string \<Rightarrow> json option" where
  "loads s =
     (case read_val (Suc (2 * length s)) s of
        None \<Rightarrow> None | Some (j, r) \<Rightarrow> if skip_ws r = [] then Some j else None)"

end
