(* ===== verification/Regex.thy ===== *)
theory Regex
  imports Base
begin

text \<open>
  The part of Python's \<open>re\<close> module the tier uses: backtracking matching of a pattern tree with
  greedy and lazy repetition, word boundaries, one-sided assertions and named groups, and
  \<open>search\<close>, \<open>finditer\<close> and \<open>sub\<close> over it. \<open>run\<close> is the engine, with the alternatives tried in
  the order of \<open>re\<close>; \<open>matches\<close> says declaratively which spans a pattern matches, and
  \<open>run_None_iff\<close> and \<open>run_SomeD\<close> relate the two, so that a property of the tier's keyword
  layers is proved about \<open>matches\<close> and evaluated with \<open>run\<close>.
\<close>

section \<open>Patterns\<close>

datatype rx =
    Eps
  | Chr "char \<Rightarrow> bool"
  | Cat rx rx
  | Alt rx rx
  | Star bool rx        \<comment> \<open>\<open>True\<close>: greedy, \<open>False\<close>: lazy\<close>
  | WordB               \<comment> \<open>word boundary\<close>
  | Bol                 \<comment> \<open>start of the text\<close>
  | Eol                 \<comment> \<open>end of the text\<close>
  | NotAhead rx
  | NotBehind "char \<Rightarrow> bool"
  | Grp string rx

text \<open>A position: the text before it (reversed), the text after it, and the groups captured.\<close>

record pos =
  bef :: string
  aft :: string
  caps :: "(string \<times> string) list"

definition at :: "string \<Rightarrow> pos" where
  "at s = \<lparr>bef = [], aft = s, caps = []\<rparr>"

definition advance :: "pos \<Rightarrow> pos" where
  "advance s = (case aft s of [] \<Rightarrow> s | c # t \<Rightarrow> s\<lparr>bef := c # bef s, aft := t\<rparr>)"

definition is_boundary :: "pos \<Rightarrow> bool" where
  "is_boundary s \<longleftrightarrow>
     (case bef s of [] \<Rightarrow> False | c # _ \<Rightarrow> is_word c) \<noteq> (case aft s of [] \<Rightarrow> False | c # _ \<Rightarrow> is_word c)"

definition capture :: "string \<Rightarrow> pos \<Rightarrow> pos \<Rightarrow> pos" where
  "capture g s t = t\<lparr>caps := (g, take (length (aft s) - length (aft t)) (aft s)) # caps t\<rparr>"

fun star_run :: "((pos \<Rightarrow> pos option) \<Rightarrow> pos \<Rightarrow> pos option) \<Rightarrow> bool \<Rightarrow> nat
    \<Rightarrow> (pos \<Rightarrow> pos option) \<Rightarrow> pos \<Rightarrow> pos option" where
  "star_run f greedy 0 k s = k s"
| "star_run f greedy (Suc n) k s =
     (if greedy then
        (case f (\<lambda>t. if length (aft t) < length (aft s) then star_run f greedy n k t else None) s of
           Some r \<Rightarrow> Some r | None \<Rightarrow> k s)
      else
        (case k s of
           Some r \<Rightarrow> Some r
         | None \<Rightarrow> f (\<lambda>t. if length (aft t) < length (aft s) then star_run f greedy n k t else None) s))"

primrec run :: "rx \<Rightarrow> (pos \<Rightarrow> pos option) \<Rightarrow> pos \<Rightarrow> pos option" where
  "run Eps = (\<lambda>k s. k s)"
| "run (Chr p) = (\<lambda>k s. case aft s of [] \<Rightarrow> None | c # t \<Rightarrow> if p c then k (advance s) else None)"
| "run (Cat a b) = (\<lambda>k s. run a (run b k) s)"
| "run (Alt a b) = (\<lambda>k s. case run a k s of Some r \<Rightarrow> Some r | None \<Rightarrow> run b k s)"
| "run (Star g a) = (\<lambda>k s. star_run (run a) g (length (aft s)) k s)"
| "run WordB = (\<lambda>k s. if is_boundary s then k s else None)"
| "run Bol = (\<lambda>k s. if bef s = [] then k s else None)"
| "run Eol = (\<lambda>k s. if aft s = [] \<or> aft s = nl then k s else None)"
| "run (NotAhead a) = (\<lambda>k s. case run a Some s of Some r \<Rightarrow> None | None \<Rightarrow> k s)"
| "run (NotBehind p) = (\<lambda>k s. case bef s of [] \<Rightarrow> k s | c # _ \<Rightarrow> if p c then None else k s)"
| "run (Grp g a) = (\<lambda>k s. run a (\<lambda>t. k (capture g s t)) s)"

section \<open>What a pattern matches\<close>

inductive iter :: "(pos \<Rightarrow> pos \<Rightarrow> bool) \<Rightarrow> pos \<Rightarrow> pos \<Rightarrow> bool" for R where
  iter_refl: "iter R s s"
| iter_step: "R s t \<Longrightarrow> length (aft t) < length (aft s) \<Longrightarrow> iter R t u \<Longrightarrow> iter R s u"

primrec matches :: "rx \<Rightarrow> pos \<Rightarrow> pos \<Rightarrow> bool" where
  "matches Eps = (\<lambda>s t. t = s)"
| "matches (Chr p) = (\<lambda>s t. aft s \<noteq> [] \<and> p (hd (aft s)) \<and> t = advance s)"
| "matches (Cat a b) = (\<lambda>s t. \<exists>u. matches a s u \<and> matches b u t)"
| "matches (Alt a b) = (\<lambda>s t. matches a s t \<or> matches b s t)"
| "matches (Star g a) = (\<lambda>s t. iter (matches a) s t)"
| "matches WordB = (\<lambda>s t. is_boundary s \<and> t = s)"
| "matches Bol = (\<lambda>s t. bef s = [] \<and> t = s)"
| "matches Eol = (\<lambda>s t. (aft s = [] \<or> aft s = nl) \<and> t = s)"
| "matches (NotAhead a) = (\<lambda>s t. (\<forall>u. \<not> matches a s u) \<and> t = s)"
| "matches (NotBehind p) = (\<lambda>s t. (bef s = [] \<or> \<not> p (hd (bef s))) \<and> t = s)"
| "matches (Grp g a) = (\<lambda>s t. \<exists>u. matches a s u \<and> t = capture g s u)"

inductive_cases iter_stepE: "iter R s u"

text \<open>An engine \<open>f\<close> realises a relation when it fails exactly where every continuation fails.\<close>

definition realises ::
    "((pos \<Rightarrow> pos option) \<Rightarrow> pos \<Rightarrow> pos option) \<Rightarrow> (pos \<Rightarrow> pos \<Rightarrow> bool) \<Rightarrow> bool" where
  "realises f R \<longleftrightarrow>
     (\<forall>k s. f k s = None \<longleftrightarrow> (\<forall>t. R s t \<longrightarrow> k t = None)) \<and>
     (\<forall>k s r. f k s = Some r \<longrightarrow> (\<exists>t. R s t \<and> k t = Some r))"

lemma realises_None: "realises f R \<Longrightarrow> f k s = None \<longleftrightarrow> (\<forall>t. R s t \<longrightarrow> k t = None)"
  by (auto simp: realises_def)

lemma realises_Some: "realises f R \<Longrightarrow> f k s = Some r \<Longrightarrow> \<exists>t. R s t \<and> k t = Some r"
  unfolding realises_def by blast

lemma iter_unfold:
  "iter R s u \<longleftrightarrow> u = s \<or> (\<exists>t. R s t \<and> length (aft t) < length (aft s) \<and> iter R t u)"
  by (metis iter.cases iter.intros)

lemma star_run_None:
  assumes "realises f R"
  shows "length (aft s) \<le> n \<Longrightarrow>
    star_run f g n k s = None \<longleftrightarrow> (\<forall>t. iter R s t \<longrightarrow> k t = None)"
proof (induction n arbitrary: s)
  case 0
  then show ?case using iter_unfold [of R s] by auto
next
  case (Suc n)
  let ?k = "\<lambda>t. if length (aft t) < length (aft s) then star_run f g n k t else None"
  have "f ?k s = None \<longleftrightarrow>
      (\<forall>t. R s t \<longrightarrow> length (aft t) < length (aft s) \<longrightarrow> (\<forall>u. iter R t u \<longrightarrow> k u = None))"
    using Suc realises_None [OF assms, of ?k s] by auto
  then show ?case
    by (subst iter_unfold) (auto split: option.splits)
qed

lemma star_run_Some:
  assumes "realises f R"
  shows "star_run f g n k s = Some r \<Longrightarrow> \<exists>t. iter R s t \<and> k t = Some r"
proof (induction n arbitrary: s)
  case 0
  then show ?case by (auto intro: iter.intros)
next
  case (Suc n)
  let ?k = "\<lambda>t. if length (aft t) < length (aft s) then star_run f g n k t else None"
  from Suc.prems consider "k s = Some r" | "f ?k s = Some r"
    by (auto split: if_splits option.splits)
  then show ?case
  proof cases
    case 1
    then show ?thesis by (auto intro: iter.intros)
  next
    case 2
    then obtain t where "R s t" "?k t = Some r" using realises_Some [OF assms] by blast
    with Suc.IH show ?thesis by (auto split: if_splits intro: iter.intros)
  qed
qed

lemma run_realises: "realises (run r) (matches r)"
proof (induction r)
  case (Cat a b)
  have "run (Cat a b) k s = None \<longleftrightarrow> (\<forall>t. matches (Cat a b) s t \<longrightarrow> k t = None)" for k s
    using realises_None [OF Cat.IH(1)] realises_None [OF Cat.IH(2)] by auto
  moreover have "\<exists>t. matches (Cat a b) s t \<and> k t = Some r" if "run (Cat a b) k s = Some r" for k s r
    using that realises_Some [OF Cat.IH(1)] realises_Some [OF Cat.IH(2)] by fastforce
  ultimately show ?case by (simp only: realises_def) blast
next
  case (Alt a b)
  have "run (Alt a b) k s = None \<longleftrightarrow> (\<forall>t. matches (Alt a b) s t \<longrightarrow> k t = None)" for k s
  proof -
    have "run (Alt a b) k s = None \<longleftrightarrow> run a k s = None \<and> run b k s = None"
      by (auto split: option.splits)
    then show ?thesis
      using realises_None [OF Alt.IH(1)] realises_None [OF Alt.IH(2)] by auto
  qed
  moreover have "\<exists>t. matches (Alt a b) s t \<and> k t = Some r" if "run (Alt a b) k s = Some r" for k s r
    using that realises_Some [OF Alt.IH(1)] realises_Some [OF Alt.IH(2)]
    by (fastforce split: option.splits)
  ultimately show ?case by (simp only: realises_def) blast
next
  case (Star g a)
  then show ?case
    using star_run_None [OF Star] star_run_Some [OF Star]
    unfolding realises_def [of "run (Star g a)"] by simp
next
  case (NotAhead a)
  have *: "run a Some s = None \<longleftrightarrow> (\<forall>u. \<not> matches a s u)" for s
    using realises_None [OF NotAhead, of Some s] by simp
  have "run (NotAhead a) k s = (if \<forall>u. \<not> matches a s u then k s else None)" for k s
    using * [of s] by (auto split: option.splits)
  then show ?case unfolding realises_def by (simp only: matches.simps) auto
next
  case (Grp g a)
  have "run (Grp g a) k s = None \<longleftrightarrow> (\<forall>t. matches (Grp g a) s t \<longrightarrow> k t = None)" for k s
    using realises_None [OF Grp.IH] by auto
  moreover have "\<exists>t. matches (Grp g a) s t \<and> k t = Some r" if "run (Grp g a) k s = Some r" for k s r
    using that realises_Some [OF Grp.IH] by fastforce
  ultimately show ?case by (simp only: realises_def) blast
qed (auto simp: realises_def split: list.splits if_splits)

lemma run_None_iff: "run r k s = None \<longleftrightarrow> (\<forall>t. matches r s t \<longrightarrow> k t = None)"
  by (rule realises_None [OF run_realises])

lemma run_SomeD: "run r k s = Some u \<Longrightarrow> \<exists>t. matches r s t \<and> k t = Some u"
  by (rule realises_Some [OF run_realises])

section \<open>Searching\<close>

text \<open>The first match from a position on: where it starts and where it ends.\<close>

fun search_from :: "rx \<Rightarrow> string \<Rightarrow> string \<Rightarrow> (pos \<times> pos) option" where
  "search_from r b [] =
     (let s = \<lparr>bef = b, aft = [], caps = []\<rparr> in map_option (Pair s) (run r Some s))"
| "search_from r b (c # t) =
     (let s = \<lparr>bef = b, aft = c # t, caps = []\<rparr>
      in case run r Some s of Some e \<Rightarrow> Some (s, e) | None \<Rightarrow> search_from r (c # b) t)"

definition search :: "rx \<Rightarrow> string \<Rightarrow> (pos \<times> pos) option" where
  "search r s = search_from r [] s"

definition found :: "rx \<Rightarrow> string \<Rightarrow> bool" where
  "found r s \<longleftrightarrow> search r s \<noteq> None"

lemma all_splits_Cons:
  "(\<forall>u v. c # t = u @ v \<longrightarrow> P u v) \<longleftrightarrow> P [] (c # t) \<and> (\<forall>u v. t = u @ v \<longrightarrow> P (c # u) v)"
  by (auto simp: Cons_eq_append_conv)

lemma search_from_None_iff:
  "search_from r b s = None \<longleftrightarrow>
     (\<forall>u v t. s = u @ v \<longrightarrow> \<not> matches r \<lparr>bef = rev u @ b, aft = v, caps = []\<rparr> t)"
proof (induction r b s rule: search_from.induct)
  case (1 r b)
  then show ?case by (auto simp: Let_def run_None_iff)
next
  case (2 r b c t)
  let ?s = "\<lparr>bef = b, aft = c # t, caps = []\<rparr>"
  have split: "(\<forall>u v x. c # t = u @ v \<longrightarrow> \<not> matches r \<lparr>bef = rev u @ b, aft = v, caps = []\<rparr> x)
      \<longleftrightarrow> (\<forall>x. \<not> matches r ?s x) \<and>
          (\<forall>u v x. t = u @ v \<longrightarrow> \<not> matches r \<lparr>bef = rev u @ (c # b), aft = v, caps = []\<rparr> x)"
    using all_splits_Cons [of c t "\<lambda>u v. \<forall>x. \<not> matches r \<lparr>bef = rev u @ b, aft = v, caps = []\<rparr> x"]
    by simp
  show ?case
  proof (cases "run r Some ?s")
    case None
    then have "\<forall>x. \<not> matches r ?s x" by (simp add: run_None_iff)
    with None 2 split show ?thesis by (simp add: Let_def)
  next
    case (Some e)
    then have "\<exists>x. matches r ?s x" using run_SomeD by blast
    with Some split show ?thesis by (simp add: Let_def)
  qed
qed

theorem found_iff:
  "found r s \<longleftrightarrow> (\<exists>u v t. s = u @ v \<and> matches r \<lparr>bef = rev u, aft = v, caps = []\<rparr> t)"
  by (auto simp: found_def search_def search_from_None_iff)

lemma foundI: "matches r \<lparr>bef = rev u, aft = v, caps = []\<rparr> t \<Longrightarrow> found r (u @ v)"
  by (auto simp: found_iff)

definition span :: "pos \<Rightarrow> pos \<Rightarrow> string" where
  "span s e = take (length (aft s) - length (aft e)) (aft s)"

text \<open>\<open>m.group(g)\<close> of the first match; a group that did not take part is \<open>None\<close>.\<close>

definition group_of :: "string \<Rightarrow> pos \<Rightarrow> string option" where
  "group_of g e = map_of (caps e) g"

definition search_group :: "rx \<Rightarrow> string \<Rightarrow> string \<Rightarrow> string option" where
  "search_group r g s = (case search r s of None \<Rightarrow> None | Some (_, e) \<Rightarrow> group_of g e)"

text \<open>\<open>finditer\<close>: after an empty match the scan moves on by one character.\<close>

fun find_all_from :: "nat \<Rightarrow> rx \<Rightarrow> string \<Rightarrow> string \<Rightarrow> (pos \<times> pos) list" where
  "find_all_from 0 r b s = []"
| "find_all_from (Suc n) r b s =
     (case search_from r b s of
        None \<Rightarrow> []
      | Some (m, e) \<Rightarrow>
          (m, e) #
          (if length (aft e) < length (aft m) then find_all_from n r (bef e) (aft e)
           else case aft e of [] \<Rightarrow> [] | c # t \<Rightarrow> find_all_from n r (c # bef e) t))"

definition find_all :: "rx \<Rightarrow> string \<Rightarrow> (pos \<times> pos) list" where
  "find_all r s = find_all_from (Suc (length s)) r [] s"

text \<open>\<open>pattern.sub(replacement, s)\<close> for a pattern that never matches the empty text.\<close>

fun sub_from :: "nat \<Rightarrow> rx \<Rightarrow> (pos \<Rightarrow> pos \<Rightarrow> string) \<Rightarrow> string \<Rightarrow> string \<Rightarrow> string" where
  "sub_from 0 r f b s = s"
| "sub_from (Suc n) r f b s =
     (case search_from r b s of
        None \<Rightarrow> s
      | Some (m, e) \<Rightarrow>
          if length (aft e) < length (aft m)
          then take (length s - length (aft m)) s @ f m e @ sub_from n r f (bef e) (aft e)
          else s)"

definition sub :: "rx \<Rightarrow> (pos \<Rightarrow> pos \<Rightarrow> string) \<Rightarrow> string \<Rightarrow> string" where
  "sub r f s = sub_from (length s) r f [] s"

lemma sub_not_found: "\<not> found r s \<Longrightarrow> sub r f s = s"
  by (cases s) (simp_all add: sub_def found_def search_def del: search_from.simps not_None_eq)

section \<open>Building patterns\<close>

definition lit1 :: "char \<Rightarrow> rx" where "lit1 c = Chr (\<lambda>d. d = c)"

fun lit :: "string \<Rightarrow> rx" where
  "lit [] = Eps"
| "lit [c] = Chr (\<lambda>d. d = c)"
| "lit (c # d # s) = Cat (Chr (\<lambda>e. e = c)) (lit (d # s))"

text \<open>A literal under \<open>re.I\<close>, written in lower case.\<close>

fun liti :: "string \<Rightarrow> rx" where
  "liti [] = Eps"
| "liti [c] = Chr (\<lambda>d. lower_char d = c)"
| "liti (c # d # s) = Cat (Chr (\<lambda>e. lower_char e = c)) (liti (d # s))"

fun cat :: "rx list \<Rightarrow> rx" where
  "cat [] = Eps"
| "cat [r] = r"
| "cat (r # q # rs) = Cat r (cat (q # rs))"

fun alts :: "rx list \<Rightarrow> rx" where
  "alts [] = Chr (\<lambda>_. False)"
| "alts [r] = r"
| "alts (r # q # rs) = Alt r (alts (q # rs))"

definition opt :: "rx \<Rightarrow> rx" where "opt r = Alt r Eps"
definition star :: "rx \<Rightarrow> rx" where "star r = Star True r"
definition plus :: "rx \<Rightarrow> rx" where "plus r = Cat r (Star True r)"
definition lazy :: "rx \<Rightarrow> rx" where "lazy r = Star False r"
definition lazy1 :: "rx \<Rightarrow> rx" where "lazy1 r = Cat r (Star False r)"

text \<open>\<open>r{m,n}\<close>, greedy.\<close>

fun upto_times :: "nat \<Rightarrow> rx \<Rightarrow> rx" where
  "upto_times 0 r = Eps"
| "upto_times (Suc n) r = Alt (Cat r (upto_times n r)) Eps"

fun upto_times_lazy :: "nat \<Rightarrow> rx \<Rightarrow> rx" where
  "upto_times_lazy 0 r = Eps"
| "upto_times_lazy (Suc n) r = Alt Eps (Cat r (upto_times_lazy n r))"

fun times :: "nat \<Rightarrow> nat \<Rightarrow> rx \<Rightarrow> rx" where
  "times 0 n r = upto_times n r"
| "times (Suc m) n r = Cat r (times m (n - 1) r)"

definition digit :: rx where "digit = Chr is_digit"
definition ws :: rx where "ws = Chr is_ws"
definition nonws :: rx where "nonws = Chr (\<lambda>c. \<not> is_ws c)"
definition wordc :: rx where "wordc = Chr is_word"
definition dot :: rx where "dot = Chr (\<lambda>c. c \<noteq> CHR 0x0A)"
definition any :: rx where "any = Chr (\<lambda>_. True)"
definition one_of :: "string \<Rightarrow> rx" where "one_of cs = Chr (\<lambda>c. c \<in> set cs)"
definition none_of :: "string \<Rightarrow> rx" where "none_of cs = Chr (\<lambda>c. c \<notin> set cs)"

lemmas rx_defs =
  lit1_def opt_def star_def plus_def lazy_def lazy1_def digit_def ws_def nonws_def wordc_def
  dot_def any_def one_of_def none_of_def

text \<open>Where a literal matches: the text starts with it.\<close>

lemma advance_Cons [simp]: "advance \<lparr>bef = b, aft = c # t, caps = g\<rparr> = \<lparr>bef = c # b, aft = t, caps = g\<rparr>"
  by (simp add: advance_def)

lemma matches_lit:
  "matches (lit w) \<lparr>bef = b, aft = v, caps = g\<rparr> t \<longleftrightarrow>
     (\<exists>x. v = w @ x \<and> t = \<lparr>bef = rev w @ b, aft = x, caps = g\<rparr>)"
proof (induction w arbitrary: b v t rule: lit.induct)
  case (3 c d s)
  show ?case
  proof (cases v)
    case (Cons e v')
    then show ?thesis using 3 [of "c # b" v' t] by auto
  qed simp
qed (case_tac v; auto)+

text \<open>
  A literal between word boundaries is found wherever the text has it as a word of its own.
\<close>

definition word_break :: "string \<Rightarrow> string \<Rightarrow> bool" where
  "word_break u v \<longleftrightarrow> u = [] \<or> v = [] \<or> \<not> is_word (last u) \<or> \<not> is_word (hd v)"

definition wlit :: "string \<Rightarrow> rx" where
  "wlit w = cat [WordB, lit w, WordB]"

theorem found_wlit:
  assumes "w \<noteq> []" "is_word (hd w)" "is_word (last w)"
    and "a = [] \<or> \<not> is_word (last a)" "b = [] \<or> \<not> is_word (hd b)"
  shows "found (wlit w) (a @ w @ b)"
proof -
  let ?s = "\<lparr>bef = rev a, aft = w @ b, caps = []\<rparr>"
  let ?t = "\<lparr>bef = rev w @ rev a, aft = b, caps = []\<rparr>"
  have "is_boundary ?s"
    using assms by (cases w; cases "rev a") (auto simp: is_boundary_def last_rev [symmetric] hd_rev)
  moreover have "is_boundary ?t"
    using assms
    by (cases "rev w"; cases b) (auto simp: is_boundary_def hd_rev [symmetric])
  moreover have "matches (lit w) ?s ?t" by (simp add: matches_lit)
  ultimately have "matches (wlit w) ?s ?t" by (auto simp: wlit_def)
  then show ?thesis by (rule foundI)
qed

end
