(* ===== verification/Redaction.thy ===== *)
theory Redaction
  imports Regex
begin

text \<open>
  Credential redaction, src/agents/common/redaction.py: the pattern table in its order, \<open>redact\<close>
  as one substitution pass per pattern, and \<open>contains_credential\<close>.
\<close>

definition REDACTED_MARKER :: string where "REDACTED_MARKER = ''***REDACTED***''"

definition not_marker :: rx where "not_marker = NotAhead (lit REDACTED_MARKER)"

definition at_least :: "nat \<Rightarrow> rx \<Rightarrow> rx" where
  "at_least n r = Cat (times n n r) (Star True r)"

definition key_char :: rx where "key_char = Chr (\<lambda>c. is_word c \<or> c = CHR ''-'')"

definition label_sep :: "rx \<Rightarrow> rx" where
  "label_sep l = Grp ''1'' (cat [l, star ws, one_of ''=:'', star ws])"

definition secret :: rx where "secret = plus nonws"

text \<open>The replacement texts: the marker, or the kept label halves around it.\<close>

definition keep_label :: "pos \<Rightarrow> pos \<Rightarrow> string" where
  "keep_label m e = (case group_of ''1'' e of None \<Rightarrow> [] | Some g \<Rightarrow> g) @ REDACTED_MARKER
     @ (case group_of ''2'' e of None \<Rightarrow> [] | Some g \<Rightarrow> g)"

definition CREDENTIAL_PATTERNS :: "(rx \<times> (pos \<Rightarrow> pos \<Rightarrow> string)) list" where
  "CREDENTIAL_PATTERNS =
     [(cat [lit ''-----BEGIN '', star (Chr (\<lambda>c. is_upper c \<or> c = CHR '' '')),
            lit ''PRIVATE KEY-----'', lazy any, lit ''-----END '',
            star (Chr (\<lambda>c. is_upper c \<or> c = CHR '' '')), lit ''PRIVATE KEY-----''],
       (\<lambda>m e. ''***REDACTED-PEM***'')),
      (cat [Grp ''1'' (cat [lit ''://'', plus (Chr (\<lambda>c. c \<notin> set '':/@'' \<and> \<not> is_ws c)), lit '':'']),
            not_marker, plus (Chr (\<lambda>c. c \<noteq> CHR ''@'' \<and> \<not> is_ws c)), Grp ''2'' (lit ''@'')],
       keep_label),
      (cat [WordB, alts [lit ''AKIA'', lit ''ASIA''], times 16 16 (Chr (\<lambda>c. is_digit c \<or> is_upper c)), WordB],
       (\<lambda>m e. REDACTED_MARKER)),
      (cat [WordB, alts [lit ''sk'', lit ''pk'', lit ''pk_live'', lit ''sk_live'', lit ''key''], lit ''-'',
            at_least 16 key_char, WordB],
       (\<lambda>m e. REDACTED_MARKER)),
      (cat [label_sep (cat [WordB, alts [liti ''password'', liti ''passwd'', liti ''pwd'']]), not_marker, secret],
       keep_label),
      (cat [label_sep (alts [cat [liti ''api'', opt (one_of ''_-''), liti ''key''], liti ''apikey'']), not_marker, secret],
       keep_label),
      (cat [Grp ''1'' (cat [WordB, liti ''bearer'', plus ws]), not_marker, secret], keep_label),
      (cat [label_sep (alts [liti ''authorization'', liti ''proxy-authorization'']), not_marker, secret],
       keep_label),
      (cat [label_sep (cat [WordB, liti ''token'']), not_marker, secret], keep_label),
      (cat [WordB, lit ''eyJ'', at_least 8 key_char, lit ''.'', at_least 8 key_char, lit ''.'',
            at_least 8 key_char, WordB],
       (\<lambda>m e. REDACTED_MARKER))]"

definition redact :: "string \<Rightarrow> string" where
  "redact text = (if text = [] then text else fold (\<lambda>(r, f) s. sub r f s) CREDENTIAL_PATTERNS text)"

definition redact_prompt :: "string \<Rightarrow> string" where "redact_prompt text = redact text"

definition redact_model_response :: "string \<Rightarrow> string" where "redact_model_response text = redact text"

definition contains_credential :: "string \<Rightarrow> bool" where
  "contains_credential text \<longleftrightarrow> text \<noteq> [] \<and> list_ex (\<lambda>(r, f). found r text) CREDENTIAL_PATTERNS"

lemma fold_sub_clean:
  "\<forall>(r, f) \<in> set ps. \<not> found r s \<Longrightarrow> fold (\<lambda>(r, f) s. sub r f s) ps s = s"
  by (induction ps) (auto simp: sub_not_found)

text \<open>Text without a credential is left as it is.\<close>

lemma redact_clean: "\<not> contains_credential s \<Longrightarrow> redact s = s"
  by (auto simp: redact_def contains_credential_def list_ex_iff intro!: fold_sub_clean)

end
