(* ===== verification/Worker.thy ===== *)
theory Worker
  imports Interp Json Redaction
begin

text \<open>
  What the supervisor does with a worker's reply before anything is routed onward
  (src/agents/supervisors/provisioning/graph/graph.py): the parts of an A2A response, the payload
  (data part first, else the marker in the text), and the validation of the mapper's and the
  allocator's payloads. Also the prompt fences of prompts/system.py.
\<close>

section \<open>Replies\<close>

datatype part = DataPart dict | TextPart string | OtherPart

datatype a2a_obj = Message "part list" | Plain_dict dict | Plain_str string | Plain_other

text \<open>A JSON-RPC envelope carrying an error (its rendered text) or a result, or a bare object.\<close>

datatype worker_result = Rpc_error string | Rpc_result a2a_obj | Bare a2a_obj

definition unavailable_text :: "string \<Rightarrow> string \<Rightarrow> string" where
  "unavailable_text worker cause =
     ''worker '' @ squote @ worker @ squote @ '' is unavailable: '' @ cause"

definition dict_part :: "json \<Rightarrow> part list" where
  "dict_part j =
     (case j of
        JObj d \<Rightarrow>
          (case dget d ''data'' of JObj x \<Rightarrow> [DataPart x] | _ \<Rightarrow> [])
          @ (case dget d ''text'' of JStr t \<Rightarrow> [TextPart t] | _ \<Rightarrow> [])
      | _ \<Rightarrow> [])"

fun obj_parts :: "a2a_obj \<Rightarrow> part list" where
  "obj_parts (Message ps) = filter (\<lambda>p. p \<noteq> OtherPart) ps"
| "obj_parts (Plain_dict d) =
     (case dget d ''parts'' of JArr js \<Rightarrow> concat (map dict_part js) | _ \<Rightarrow> [DataPart d])"
| "obj_parts (Plain_str s) = [TextPart s]"
| "obj_parts Plain_other = []"

fun iter_worker_parts :: "worker_result \<Rightarrow> string \<Rightarrow> string + part list" where
  "iter_worker_parts (Rpc_error e) worker = Inl (unavailable_text worker e)"
| "iter_worker_parts (Rpc_result x) worker = Inr (obj_parts x)"
| "iter_worker_parts (Bare x) worker = Inr (obj_parts x)"

fun first_data :: "part list \<Rightarrow> dict option" where
  "first_data [] = None"
| "first_data (DataPart d # ps) = Some d"
| "first_data (p # ps) = first_data ps"

fun part_texts :: "part list \<Rightarrow> string list" where
  "part_texts [] = []"
| "part_texts (TextPart t # ps) = t # part_texts ps"
| "part_texts (p # ps) = part_texts ps"

definition marker_rx :: "string \<Rightarrow> rx" where
  "marker_rx marker = cat [lit ''<!--'', star ws, lit marker, star ws, lit '':'', star ws,
     Grp ''1'' (lazy any), lit ''-->'']"

definition marker_payload :: "string \<Rightarrow> string \<Rightarrow> dict option" where
  "marker_payload marker text =
     (case search_group (marker_rx marker) ''1'' text of
        None \<Rightarrow> None
      | Some g \<Rightarrow> (case loads (strip g) of Some (JObj d) \<Rightarrow> Some d | _ \<Rightarrow> None))"

definition extract_payload_and_text ::
    "worker_result \<Rightarrow> string \<Rightarrow> string \<Rightarrow> string + dict option \<times> string" where
  "extract_payload_and_text result marker worker =
     map_res (\<lambda>ps.
        let text = join nl (part_texts ps)
        in (case first_data ps of
              Some d \<Rightarrow> (Some d, text)
            | None \<Rightarrow> (marker_payload marker text, text)))
       (iter_worker_parts result worker)"

section \<open>Validation before routing\<close>

fun kind_text :: "lax \<Rightarrow> error_kind \<Rightarrow> string" where
  "kind_text L (Raised m) = ''Value error, '' @ m"
| "kind_text L k = kind_msg L k"

definition error_cause :: "lax \<Rightarrow> field_error \<Rightarrow> string" where
  "error_cause L e =
     (let loc = join ''.'' (fst e)
      in (if loc = [] then ''payload'' else loc) @ '': '' @ kind_text L (snd e))"

definition format_validation_error :: "lax \<Rightarrow> field_error list \<Rightarrow> string" where
  "format_validation_error L es = join ''; '' (take 8 (map (error_cause L) es))"

definition validate_mapper_payload :: "lax \<Rightarrow> dict option \<Rightarrow> string + interp" where
  "validate_mapper_payload L payload =
     (case payload of
        None \<Rightarrow> Inl ''no structured payload found (neither a DataPart nor a well-formed MAPPED_JSON marker)''
      | Some d \<Rightarrow>
          (case validate_interpretation L d of
             Inr i \<Rightarrow> Inr i | Inl es \<Rightarrow> Inl (format_validation_error L es)))"

definition type_mismatch_text :: "interp \<Rightarrow> normalized_intent \<Rightarrow> string" where
  "type_mismatch_text i n =
     ''type mismatch between stages: interpretation service_type='' @ type_value (service_type i)
     @ '', allocator returned type='' @ repr (type_of n) @ '' (data-model.md ''
     @ [CHR 0xC2, CHR 0xA7] @ ''3 contract violation)''"

definition validate_allocator_payload ::
    "lax \<Rightarrow> string option \<Rightarrow> dict option \<Rightarrow> interp \<Rightarrow> string + normalized_intent" where
  "validate_allocator_payload L spine_env payload i =
     (case payload of
        None \<Rightarrow> Inl ''no structured payload found (neither a DataPart nor a well-formed DEPLOYMENT_JSON marker)''
      | Some d \<Rightarrow>
          (case validate_intent L d of
             Inl es \<Rightarrow> Inl (format_validation_error L es)
           | Inr n \<Rightarrow>
               (case validate_all_or_nothing spine_env False n of
                  Some causes \<Rightarrow> Inl (validation_error_text causes)
                | None \<Rightarrow>
                    if type_of n \<noteq> type_value (service_type i) then Inl (type_mismatch_text i n)
                    else Inr n)))"

section \<open>Fences\<close>

definition fence :: "string \<Rightarrow> string \<Rightarrow> string \<Rightarrow> string" where
  "fence kind text nonce =
     ''<<<DATA '' @ kind @ '' nonce='' @ nonce @ '' >>>'' @ nl @ text @ nl
     @ ''<<<END_DATA '' @ kind @ '' nonce='' @ nonce @ '' >>>''"

definition wrap_user_text :: "string \<Rightarrow> string \<Rightarrow> string" where
  "wrap_user_text text nonce = fence ''user_text'' text nonce"

definition wrap_worker_text :: "string \<Rightarrow> string \<Rightarrow> string" where
  "wrap_worker_text text nonce = fence ''worker_text'' text nonce"

section \<open>Facts\<close>

lemma first_data_None: "first_data ps = None \<longleftrightarrow> (\<forall>d. DataPart d \<notin> set ps)"
  by (induction ps rule: first_data.induct) auto

lemma extract_data_first:
  "iter_worker_parts r w = Inr ps \<Longrightarrow> first_data ps = Some d \<Longrightarrow>
   extract_payload_and_text r m w = Inr (Some d, join nl (part_texts ps))"
  by (simp add: extract_payload_and_text_def)

lemma validate_allocator_payload_Inr:
  "validate_allocator_payload L env (Some d) i = Inr n \<Longrightarrow>
     validate_intent L d = Inr n \<and> valid_intent env n \<and> type_of n = type_value (service_type i)"
  by (auto simp: validate_allocator_payload_def validate_all_or_nothing_def Let_def intent_causes_Nil
      split: sum.splits if_splits)

lemma validate_allocator_payload_None: "is_err (validate_allocator_payload L env None i)"
  by (simp add: validate_allocator_payload_def)

lemma validate_mapper_payload_Inr:
  "validate_mapper_payload L p = Inr i \<Longrightarrow> \<exists>d. p = Some d \<and> validate_interpretation L d = Inr i"
  by (auto simp: validate_mapper_payload_def split: option.splits sum.splits)

end
