(* ===== verification/Capability.thy ===== *)
theory Capability
  imports Json
begin

text \<open>
  The live SRv6 capability and the site inventory,
  src/agents/supervisors/provisioning/capability.py. The environment, the mounted token and the
  answer of the API server to the one GET are arguments. A raised exception that leaves
  \<open>read_capability\<close> is \<open>Inl\<close>.
\<close>

record srv6_capability =
  available :: bool
  supported :: "string list"
  verifiable_attachments :: "string list"
  lab_profile :: "string option"
  sonic_image :: "string option"

record site_inventory =
  inv_nodes :: "string list"
  inv_attachments :: "string list"
  inv_spines :: "string list"

record cluster_env =
  env_token :: "string option"
  env_endpoint :: "string option"
  env_verify_tls :: "string option"
  env_ca_bundle :: string
  token_file :: "string option option"   \<comment> \<open>absent, unreadable, or its text\<close>

datatype tls_verify = No_verify | Ca_bundle string

datatype http_answer = Http_error string | Http_reply int "json option"

definition in_cluster_api :: string where
  "in_cluster_api = ''https://kubernetes.default.svc:443''"

definition tls_of :: "cluster_env \<Rightarrow> tls_verify" where
  "tls_of e =
     (let v = lower (case env_verify_tls e of None \<Rightarrow> ''1'' | Some s \<Rightarrow> s)
      in if v \<in> {''1'', ''true'', ''yes''} then Ca_bundle (env_ca_bundle e) else No_verify)"

definition identity :: "cluster_env \<Rightarrow> (string \<times> string \<times> tls_verify) option" where
  "identity e =
     (case env_token e of
        Some t \<Rightarrow>
          if t \<noteq> [] then
            Some (case env_endpoint e of Some u \<Rightarrow> if u \<noteq> [] then u else in_cluster_api
                  | None \<Rightarrow> in_cluster_api, t, tls_of e)
          else
            (case token_file e of
               Some (Some f) \<Rightarrow> if strip f \<noteq> [] then Some (in_cluster_api, strip f, tls_of e) else None
             | _ \<Rightarrow> None)
      | None \<Rightarrow>
          (case token_file e of
             Some (Some f) \<Rightarrow> if strip f \<noteq> [] then Some (in_cluster_api, strip f, tls_of e) else None
           | _ \<Rightarrow> None))"

definition unavailable :: srv6_capability where
  "unavailable = \<lparr>available = False, supported = [], verifiable_attachments = [],
     lab_profile = None, sonic_image = None\<rparr>"

text \<open>\<open>_split_csv(data.get(key))\<close>: a value that is not text has no \<open>split\<close>.\<close>

fun csv_value :: "json \<Rightarrow> string + string list" where
  "csv_value (JStr s) = Inr (split_csv (Some s))"
| "csv_value j = (if truthy j then Inl ''AttributeError: split'' else Inr [])"

fun str_or_none :: "json \<Rightarrow> string option" where
  "str_or_none (JStr s) = (if s = [] then None else Some s)"
| "str_or_none _ = None"

definition capability_of_data :: "dict \<Rightarrow> string + srv6_capability" where
  "capability_of_data data =
     (if dget data ''cap-sai-srv6'' \<noteq> JStr ''true'' then Inr unavailable
      else
        bind_res (csv_value (dget data ''srv6-supported'')) (\<lambda>sup.
        bind_res (csv_value (dget data ''srv6-probe-attachments'')) (\<lambda>att.
        Inr \<lparr>available = True, supported = sup, verifiable_attachments = att,
             lab_profile = str_or_none (dget data ''lab-profile''),
             sonic_image = str_or_none (dget data ''sonic-image'')\<rparr>)))"

definition read_capability :: "cluster_env \<Rightarrow> (string \<Rightarrow> http_answer) \<Rightarrow> string + srv6_capability" where
  "read_capability e get =
     (case identity e of
        None \<Rightarrow> Inr unavailable
      | Some (endpoint, token, verify) \<Rightarrow>
          (case get (rev (dropWhile (\<lambda>c. c = CHR ''/'') (rev endpoint))
                     @ ''/api/v1/namespaces/agentic-netops-system/configmaps/fabric-compat-pins'') of
             Http_error _ \<Rightarrow> Inr unavailable
           | Http_reply status body \<Rightarrow>
               if status div 100 \<noteq> 2 then Inr unavailable
               else
                 (case body of
                    Some (JObj b) \<Rightarrow>
                      (case map_of b ''data'' of
                         Some (JObj data) \<Rightarrow> capability_of_data data
                       | _ \<Rightarrow> Inr unavailable)
                  | _ \<Rightarrow> Inr unavailable)))"

definition normalize_site_name :: "string \<Rightarrow> string" where
  "normalize_site_name s = filter is_alnum (lower s)"

definition keys_of_json_map :: "string option \<Rightarrow> string list" where
  "keys_of_json_map raw =
     (case raw of
        None \<Rightarrow> []
      | Some r \<Rightarrow>
          if strip r = [] then []
          else (case loads r of
                  Some (JObj d) \<Rightarrow> sort (map fst (filter (\<lambda>(k, v). v \<noteq> JStr []) d))
                | _ \<Rightarrow> []))"

definition site_inventory_of :: "string option \<Rightarrow> string option \<Rightarrow> string option \<Rightarrow> site_inventory" where
  "site_inventory_of node_map port_map spine_nodes =
     \<lparr>inv_nodes = keys_of_json_map node_map, inv_attachments = keys_of_json_map port_map,
      inv_spines = sort (split_csv spine_nodes)\<rparr>"

definition knows :: "string list \<Rightarrow> string \<Rightarrow> bool" where
  "knows names want \<longleftrightarrow> list_ex (\<lambda>n. normalize_site_name n = normalize_site_name want) names"

section \<open>Facts\<close>

text \<open>The capability is only ever available on the exact text \<open>"true"\<close> of a successful read.\<close>

lemma read_capability_available:
  assumes "read_capability e get = Inr c" "available c"
  shows "\<exists>url status b data. get url = Http_reply status (Some (JObj b)) \<and> status div 100 = 2
     \<and> map_of b ''data'' = Some (JObj data) \<and> dget data ''cap-sai-srv6'' = JStr ''true''"
  using assms
  by (fastforce simp: read_capability_def capability_of_data_def unavailable_def
      split: option.splits http_answer.splits json.splits prod.splits if_splits)

lemma csv_value_text: "(\<exists>s. j = JStr s) \<or> j = JNull \<Longrightarrow> \<exists>ss. csv_value j = Inr ss"
  by auto

lemma knows_self: "n \<in> set names \<Longrightarrow> knows names n"
  by (auto simp: knows_def list_ex_iff)

lemma knows_lower: "knows names (lower w) = knows names w"
  by (simp add: knows_def normalize_site_name_def)

lemma split_csv_Some_Nil [simp]: "split_csv None = []" "split_csv (Some []) = []"
  by (simp_all add: split_csv_def)

end
