(* ===== verification/Safety_Layer.thy ===== *)
theory Safety_Layer
  imports Regex
begin

text \<open>
  The deterministic text layer of the supervisor (\<open>supervisors/provisioning/graph/graph.py\<close>): the
  keyword families that refuse direct device actions, the unsupported-feature patterns, the
  construct counter, the status and removal commands, the confirmation vocabulary, and the
  classifier's reply parser with its fallback. Each pattern is the tree of the source's regular
  expression; text is lowered exactly where the code lowers it.
\<close>

section \<open>Direct device actions\<close>

datatype family = Access | Config | Protocol | Action

fun family_text :: "family \<Rightarrow> string" where
  "family_text Access = ''direct device access (SSH/CLI/console)''"
| "family_text Config = ''direct configuration write to a device''"
| "family_text Protocol = ''device control protocol (RESTCONF/NETCONF/gNMI)''"
| "family_text Action = ''direct action on a device''"

text \<open>The suffix of a device name, \<open>[a-z0-9-]*\<close>, and the device nouns.\<close>

definition dev_suffix :: rx where
  "dev_suffix = star (Chr (\<lambda>c. is_lower c \<or> is_digit c \<or> c = CHR ''-''))"

definition the_opt :: rx where "the_opt = opt (lit ''the '')"

definition DIRECT_DEVICE_PATTERNS :: "(rx \<times> family) list" where
  "DIRECT_DEVICE_PATTERNS =
    [(wlit ''ssh'', Access),
     (wlit ''scp'', Access),
     (wlit ''telnet'', Access),
     (wlit ''console port'', Access),
     (cat [WordB, lit ''serial '', alts [lit ''console'', lit ''port''], WordB], Access),
     (cat [WordB, lit ''log'', opt (lit '' ''), alts [lit ''in'', lit ''into''], lit '' '',
           opt (lit ''to ''), the_opt,
           alts [lit ''device'', lit ''switch'', lit ''node'', lit ''router'', lit ''leaf''],
           dev_suffix, WordB], Access),
     (cat [WordB, lit ''open'', opt (lit '' ''), opt (lit ''a ''), alts [lit ''shell'', lit ''session''],
           lit '' '', alts [lit ''on'', lit ''to'', lit ''into'', lit ''with''], WordB], Access),
     (wlit ''device session'', Access),
     (cat [WordB, lit ''run'', opt (alts [lit ''s'', lit ''ning'']), lit '' '',
           opt (alts [lit ''a '', lit ''the '']), alts [lit ''command'', lit ''cli'', lit ''script''], lit '' '',
           alts [lit ''on'', lit ''at'', lit ''against'', lit ''on'']], Action),
     (cat [WordB, lit ''exec'', opt (lit ''ute''), opt (lit ''s''), lit '' '',
           opt (alts [lit ''a '', lit ''the '', lit ''a single '']),
           alts [lit ''command'', lit ''cli'', lit ''script''], WordB], Action),
     (cat [WordB, lit ''reboot'', opt (alts [lit ''s'', lit ''ing'']), lit '' '', the_opt,
           alts [lit ''switch'', lit ''device'', lit ''node'', lit ''leaf'', lit ''router''],
           dev_suffix, WordB], Action),
     (cat [WordB, lit ''reload'', opt (alts [lit ''s'', lit ''ing'']), lit '' '', the_opt,
           alts [lit ''switch'', lit ''device'', lit ''node'', lit ''leaf'', lit ''router'', lit ''config''],
           dev_suffix, WordB], Action),
     (cat [WordB, lit ''just '', alts [lit ''fix'', lit ''patch'', lit ''change'', lit ''update'',
           lit ''reboot'', lit ''reload''], WordB], Action),
     (cat [WordB, lit ''directly '', alts [lit ''on'', lit ''to'', lit ''into''], lit '' '', the_opt,
           alts [lit ''device'', lit ''switch'', lit ''node'', lit ''leaf'', lit ''router''],
           dev_suffix, WordB], Action),
     (cat [WordB, lit ''push'', opt (alts [lit ''es'', lit ''ing'']), lit '' '', the_opt,
           lit ''config'', opt (lit ''uration''), WordB], Config),
     (cat [WordB, lit ''config '', alts [lit ''push'', lit ''write''], WordB], Config),
     (cat [WordB, lit ''write'', opt (alts [lit ''s'', lit ''ing'']), lit '' '', the_opt,
           alts [lit ''config'', lit ''configuration'', lit ''vlan'', lit ''interface''], lit '' '',
           alts [lit ''to'', lit ''onto'', lit ''on'']], Config),
     (wlit ''restconf'', Protocol),
     (wlit ''netconf'', Protocol),
     (wlit ''gnmi'', Protocol),
     (cat [WordB, opt (lit ''g''), lit ''rpc dial'', WordB], Protocol),
     (wlit ''snmpset'', Protocol),
     (wlit ''ansible'', Protocol)]"

definition DEFAULT_SUGGESTION :: string where
  "DEFAULT_SUGGESTION =
     ''provision it declaratively instead '' @ emdash
     @ '' e.g. 'extend vlan 100 as a mac-vrf across <siteA> <portA> and <siteB> <portB> for ''
     @ ''tenant <tenant>' or 'give tenant <tenant> an ip-vrf carrying 10.50.0.0/24 on <siteA> ''
     @ ''wan1'. I will map it into an interpretation, allocate from the allocation authority, ''
     @ ''and submit it to the cluster only after your two explicit confirmations.''"

fun device_suggestion :: "family \<Rightarrow> string" where
  "device_suggestion Access =
     ''describe the service you want on that device and I will provision it declaratively ''
     @ emdash
     @ '' e.g. 'extend vlan 100 as a mac-vrf across <siteA> <portA> and <siteB> <portB> for ''
     @ ''tenant <tenant>'. The control plane reconciles the devices; no one logs in for you or ''
     @ ''on your behalf.''"
| "device_suggestion Config =
     ''state the desired service state instead of the configuration write '' @ emdash
     @ '' e.g. 'give tenant <tenant> an ip-vrf carrying 10.50.0.0/24 on <siteA> wan1'. The ''
     @ ''fabric controllers apply the resulting configuration through reconciliation.''"
| "device_suggestion Protocol =
     ''name the service, not the protocol '' @ emdash
     @ '' e.g. 'apply an acl on <siteA> ethernet1 for tenant <tenant>: permit ingress tcp port ''
     @ ''443 from 10.0.0.0/24, deny everything else'. This tier expresses services as ''
     @ ''declarative intent only; device protocols are the control plane's business.''"
| "device_suggestion Action =
     ''state the desired outcome as a service request '' @ emdash
     @ '' e.g. 'provision a vlan 120 on <siteA> ethernet1 for tenant <tenant>'.''"

record detection_hit =
  hit_family :: string
  hit_reason :: string
  hit_suggestion :: string

text \<open>
  \<open>detect_direct_device\<close>: the families in the order of their first matching pattern; the first
  one names the refusal.
\<close>

fun matching_families :: "(rx \<times> family) list \<Rightarrow> string \<Rightarrow> family list \<Rightarrow> family list" where
  "matching_families [] low fams = fams"
| "matching_families ((p, f) # ps) low fams =
     matching_families ps low (if f \<notin> set fams \<and> found p low then fams @ [f] else fams)"

definition detect_direct_device :: "string \<Rightarrow> detection_hit option" where
  "detect_direct_device text =
     (if text = [] then None
      else (case matching_families DIRECT_DEVICE_PATTERNS (lower text) [] of
              [] \<Rightarrow> None
            | f # _ \<Rightarrow> Some \<lparr>hit_family = family_text f,
                              hit_reason = ''the request asks for '' @ family_text f,
                              hit_suggestion = device_suggestion f\<rparr>))"

section \<open>Unsupported features\<close>

definition UNSUPPORTED_FEATURE_PATTERNS :: "(rx \<times> string \<times> string) list" where
  "UNSUPPORTED_FEATURE_PATTERNS =
    [(wlit ''traffic engineering'', ''tePolicy'', ''traffic engineering (TE) policy''),
     (cat [WordB, lit ''te'', one_of ''- '', lit ''policy'', WordB], ''tePolicy'', ''traffic engineering (TE) policy''),
     (cat [WordB, lit ''te'', one_of ''- '', lit ''path'', WordB], ''tePolicy'', ''TE explicit path''),
     (wlit ''explicit path'', ''tePolicy'', ''TE explicit path''),
     (wlit ''sid list'', ''tePolicy'', ''SID list''),
     (cat [WordB, lit ''pin'', opt (lit ''ning''), lit '' the flow'', WordB], ''tePolicy'', ''pinned flow''),
     (wlit ''pseudowire oam'', ''pseudowireOAM'', ''pseudowire OAM''),
     (wlit ''pw oam'', ''pseudowireOAM'', ''pseudowire OAM''),
     (wlit ''control word'', ''pseudowireOAM'', ''pseudowire control word''),
     (wlit ''multicast'', ''multicastVPN'', ''multicast VPN''),
     (wlit ''pim'', ''multicastVPN'', ''PIM multicast''),
     (wlit ''msdp'', ''multicastVPN'', ''MSDP peering''),
     (cat [WordB, lit ''service chain'', star wordc], ''serviceChain'', ''service chaining''),
     (cat [WordB, lit ''chained service'', opt (lit ''s''), WordB], ''serviceChain'', ''chained services''),
     (wlit ''complex qos'', ''complexQoS'', ''complex QoS'')]"

definition UNSUPPORTED_PROPERTY_SUGGESTIONS :: "(string \<times> string) list" where
  "UNSUPPORTED_PROPERTY_SUGGESTIONS =
    [(''tePolicy'',
       ''provision the same endpoints as a plain mac-vrf or ip-vrf '' @ emdash
       @ '' traffic engineering is not expressible in this fabric, but the service itself is ''
       @ ''provisionable without it.''),
     (''pseudowireOAM'',
       ''provision the L2 service as a mac-vrf without OAM '' @ emdash
       @ '' the fabric delivers the L2 connectivity; OAM signaling is not part of the contract.''),
     (''multicastVPN'',
       ''provision the unicast services your multicast use case needs (ip-vrf or mac-vrf between ''
       @ ''the relevant endpoints) '' @ emdash @ '' multicast is not supported.''),
     (''serviceChain'',
       ''provision the individual services as separate declarative requests '' @ emdash
       @ '' chaining is not expressible in this fabric.''),
     (''complexQoS'',
       ''provision the service with a standard SLA class '' @ emdash
       @ '' complex QoS engineering is not part of the contract.'')]"

fun first_unsupported :: "(rx \<times> string \<times> string) list \<Rightarrow> string \<Rightarrow> detection_hit option" where
  "first_unsupported [] low = None"
| "first_unsupported ((p, prop, reason) # ps) low =
     (if found p low
      then Some \<lparr>hit_family = prop,
                 hit_reason = ''unsupported property: '' @ prop @ '' ('' @ reason
                              @ '') has no equivalent in the fabric'',
                 hit_suggestion = (case map_of UNSUPPORTED_PROPERTY_SUGGESTIONS prop of
                                     None \<Rightarrow> DEFAULT_SUGGESTION | Some t \<Rightarrow> t)\<rparr>
      else first_unsupported ps low)"

definition detect_unsupported_feature :: "string \<Rightarrow> detection_hit option" where
  "detect_unsupported_feature text =
     (if text = [] then None else first_unsupported UNSUPPORTED_FEATURE_PATTERNS (lower text))"

section \<open>SRv6 recognition\<close>

definition SRV6_NAME_PATTERNS :: "rx list" where
  "SRV6_NAME_PATTERNS =
    [cat [WordB, liti ''srv6'', WordB],
     cat [WordB, liti ''segment'', one_of '' -'', liti ''routing v6'', WordB],
     cat [WordB, liti ''segment'', one_of '' -'', liti ''routing over ipv6'', WordB]]"

definition names_srv6 :: "string \<Rightarrow> bool" where
  "names_srv6 text \<longleftrightarrow> text \<noteq> [] \<and> list_ex (\<lambda>p. found p text) SRV6_NAME_PATTERNS"

section \<open>Constructs, commands and questions\<close>

text \<open>A vrf construct word: \<open>mac[- ]?vrf\<close>, \<open>ip[- ]?vrf\<close>.\<close>

definition vrf_word :: "string \<Rightarrow> rx" where
  "vrf_word w = cat [liti w, opt (one_of ''- ''), liti ''vrf'']"

definition CONSTRUCT_TOKEN :: rx where
  "CONSTRUCT_TOKEN = cat [WordB, Grp ''1'' (alts [liti ''vlan'', vrf_word ''mac'', vrf_word ''ip'', liti ''acl'']), WordB]"

definition SUPPORTED_CONSTRUCTS :: string where
  "SUPPORTED_CONSTRUCTS = ''vlan, mac-vrf, ip-vrf, acl''"

definition VLAN_AS_ITS_OWN_SERVICE :: rx where
  "VLAN_AS_ITS_OWN_SERVICE =
     cat [WordB, alts [liti ''a'', liti ''an'', liti ''the'', liti ''another'', liti ''new'', liti ''second''],
          plus ws, liti ''vlan'', WordB]"

definition ACL_ATTACHED_TO_A_SERVICE :: rx where
  "ACL_ATTACHED_TO_A_SERVICE =
     cat [WordB, alts [liti ''with'', liti ''bearing'', liti ''carrying'', liti ''including'', liti ''under'', liti ''behind''],
          plus ws, opt (alts [cat [liti ''a'', opt (liti ''n''), plus ws], cat [liti ''the'', plus ws]]),
          upto_times_lazy 2 (Cat (plus wordc) (plus ws)), liti ''acl'', WordB]"

definition construct_words :: "string \<Rightarrow> string list" where
  "construct_words text =
     remdups (map (\<lambda>(m, e). map (\<lambda>c. if c = CHR '' '' then CHR ''-'' else c)
                     (lower (case group_of ''1'' e of None \<Rightarrow> [] | Some g \<Rightarrow> g)))
                  (find_all CONSTRUCT_TOKEN text))"

text \<open>\<open>_find_constructs\<close>, the set as a list without repetitions.\<close>

definition find_constructs :: "string \<Rightarrow> string list" where
  "find_constructs text =
     (if text = [] then []
      else
        let f0 = construct_words text
        in if length f0 < 2 then f0
           else
             let f1 = (if ''vlan'' \<in> set f0 \<and> \<not> found VLAN_AS_ITS_OWN_SERVICE text
                       then removeAll ''vlan'' f0 else f0);
                 f2 = (if ''acl'' \<in> set f1 \<and> 1 < length f1 \<and> found ACL_ATTACHED_TO_A_SERVICE text
                       then removeAll ''acl'' f1 else f1)
             in f2)"

definition DEPLOYMENT_STATUS_QUERY :: rx where
  "DEPLOYMENT_STATUS_QUERY =
     (let subj = alts [lit ''it'', lit ''the deployment'', lit ''the service'', lit ''the network''] in
      alts
       [cat [lit ''status of '', opt (alts [lit ''the '', lit ''my '', lit ''this '', lit ''our '']),
             alts [lit ''deployment'', lit ''deploy'', lit ''provisioning'', lit ''service'', lit ''network'', lit ''request'']],
        cat [alts [lit ''deployment'', lit ''provisioning'', lit ''service'', lit ''network''], lit '' status''],
        cat [lit ''what'', alts [Cat (lit1 CHR 0x27) (lit ''s''), lit '' is'', lit '' was''], lit '' the status''],
        cat [alts [lit ''did'', lit ''has''], lit '' '', subj, lit '' '',
             alts [lit ''deploy'', lit ''converge'', lit ''complete'']],
        cat [lit ''is '', subj, lit '' '',
             alts [lit ''deployed'', lit ''ready'', lit ''up'', lit ''converged'', lit ''done'', lit ''live'']],
        cat [alts [lit ''did'', lit ''has''], lit '' it '',
             alts [lit ''deployed'', lit ''worked'', lit ''succeeded'']]])"

definition detect_deployment_status_query :: "string \<Rightarrow> bool" where
  "detect_deployment_status_query text \<longleftrightarrow> found DEPLOYMENT_STATUS_QUERY (lower text)"

definition FALLBACK_INFORMATIONAL :: rx where
  "FALLBACK_INFORMATIONAL =
     cat [Bol, star ws,
          alts [liti ''what'', liti ''which'', liti ''who'', liti ''where'', liti ''when'', liti ''why'', liti ''how'',
                liti ''can'', liti ''could'', liti ''do'', liti ''does'', liti ''is'', liti ''are'', liti ''show'',
                liti ''list'', liti ''describe'', liti ''explain'', liti ''help''], WordB]"

definition FALLBACK_PROVISION_ACTION :: rx where
  "FALLBACK_PROVISION_ACTION =
     cat [WordB, alts [liti ''provision'', liti ''create'', cat [liti ''set'', star ws, liti ''up''],
                       liti ''deploy'', liti ''add'', liti ''need'', liti ''want'', liti ''extend'', liti ''give'',
                       liti ''apply''], WordB]"

definition FALLBACK_SERVICE_TYPE :: rx where
  "FALLBACK_SERVICE_TYPE =
     cat [WordB, alts [liti ''vlan'', vrf_word ''mac'', vrf_word ''ip'', liti ''acl''], WordB]"

definition detect_provisioning_request :: "string \<Rightarrow> bool" where
  "detect_provisioning_request text \<longleftrightarrow>
     found FALLBACK_PROVISION_ACTION text \<and> found FALLBACK_SERVICE_TYPE text"

text \<open>The status and removal commands of \<open>_supervisor_node\<close>, on the lowered and stripped text.\<close>

definition service_id_rx :: rx where
  "service_id_rx = Grp ''sid'' (times 6 15 (Chr (\<lambda>c. is_lower c \<or> is_digit c \<or> c = CHR ''-'')))"

definition STATUS_OF_SERVICE :: rx where
  "STATUS_OF_SERVICE = cat [lit ''status of '', alts [lit ''service '', Eps], service_id_rx]"

definition REMOVE_SERVICE :: rx where
  "REMOVE_SERVICE = cat [lit ''remove '', alts [lit ''service '', Eps], service_id_rx]"

definition REMOVE_CORRELATION :: rx where
  "REMOVE_CORRELATION =
     cat [lit ''remove '', lazy dot, lit ''correlation'', one_of ''- '', lit ''id'',
          plus (Chr (\<lambda>c. c = CHR '':'' \<or> is_ws c)), Grp ''cid'' (times 16 32 (Chr is_hex_lower))]"

section \<open>Confirmation vocabulary\<close>

definition CONFIRM_WORDS :: "string list" where
  "CONFIRM_WORDS = [''yes'', ''confirm'', ''proceed'', ''go ahead'', ''ok'', ''sure'', ''allocate'', ''deploy'']"

definition DECLINE_WORDS :: "string list" where
  "DECLINE_WORDS = [''no'', ''decline'', ''reject'', ''cancel'', ''stop'', ''abort'']"

definition says_confirm :: "string \<Rightarrow> bool" where
  "says_confirm l \<longleftrightarrow> list_ex (\<lambda>w. contains w l) CONFIRM_WORDS"

definition says_decline :: "string \<Rightarrow> bool" where
  "says_decline l \<longleftrightarrow> list_ex (\<lambda>w. contains w l) DECLINE_WORDS"

section \<open>The classifier's reply\<close>

datatype classification = Provisionable | Informational | Unsupported

fun class_value :: "classification \<Rightarrow> string" where
  "class_value Provisionable = ''provisionable''"
| "class_value Informational = ''informational''"
| "class_value Unsupported = ''unsupported''"

definition classes :: "classification list" where
  "classes = [Provisionable, Informational, Unsupported]"

definition parse_classification :: "string \<Rightarrow> classification option" where
  "parse_classification content =
     (if content = [] then None
      else
        let low = strip_chars (''.!?'' @ dquote @ squote @ '' '') (lower (strip content))
        in (case find (\<lambda>c. class_value c = low) classes of
              Some c \<Rightarrow> Some c
            | None \<Rightarrow> find (\<lambda>c. found (wlit (class_value c)) low) classes))"

definition fallback_classification :: "string \<Rightarrow> classification option" where
  "fallback_classification content =
     (if found FALLBACK_INFORMATIONAL content then Some Informational
      else if found FALLBACK_PROVISION_ACTION content \<and> found FALLBACK_SERVICE_TYPE content
        then Some Provisionable
      else None)"

section \<open>What the layers guarantee\<close>

lemma matching_families_keep: "\<exists>ys. matching_families ps low fams = fams @ ys"
proof (induction ps arbitrary: fams)
  case (Cons pf ps)
  obtain p f where pf: "pf = (p, f)" by fastforce
  show ?case
  proof (cases "f \<notin> set fams \<and> found p low")
    case True
    with Cons.IH [of "fams @ [f]"] show ?thesis by (auto simp: pf)
  next
    case False
    with Cons.IH [of fams] show ?thesis by (auto simp: pf)
  qed
qed simp

lemma matching_families_ConsD:
  "matching_families ps low [] = f # fs \<Longrightarrow>
     \<exists>ps1 p ps2. ps = ps1 @ (p, f) # ps2 \<and> found p low \<and> (\<forall>q \<in> set ps1. \<not> found (fst q) low)"
proof (induction ps)
  case (Cons pf ps)
  obtain p g where pf: "pf = (p, g)" by fastforce
  show ?case
  proof (cases "found p low")
    case True
    obtain ys where "matching_families ps low [g] = g # ys"
      using matching_families_keep [of ps low "[g]"] by auto
    with True Cons.prems have "pf # ps = [] @ (p, f) # ps" by (simp add: pf)
    with True show ?thesis by fastforce
  next
    case False
    with Cons obtain ps1 q ps2 where "ps = ps1 @ (q, f) # ps2" "found q low"
      "\<forall>q \<in> set ps1. \<not> found (fst q) low"
      by (auto simp: pf)
    with False have "pf # ps = (pf # ps1) @ (q, f) # ps2 \<and> found q low
        \<and> (\<forall>q \<in> set (pf # ps1). \<not> found (fst q) low)"
      by (simp add: pf)
    then show ?thesis by blast
  qed
qed simp

lemma matching_families_Nil: "matching_families ps low [] = [] \<longleftrightarrow> (\<forall>q \<in> set ps. \<not> found (fst q) low)"
proof (induction ps)
  case (Cons pf ps)
  obtain p g where pf: "pf = (p, g)" by fastforce
  obtain ys where "matching_families ps low [g] = g # ys"
    using matching_families_keep [of ps low "[g]"] by auto
  with Cons show ?case by (auto simp: pf)
qed simp

lemma detect_direct_device_None_iff:
  "detect_direct_device text = None \<longleftrightarrow>
     text = [] \<or> (\<forall>q \<in> set DIRECT_DEVICE_PATTERNS. \<not> found (fst q) (lower text))"
  by (auto simp: detect_direct_device_def matching_families_Nil [symmetric] split: list.splits)

text \<open>A keyword of the layer surrounded by word breaks, whatever its case.\<close>

lemma found_wlit_lower:
  assumes "lower w' = w" "w \<noteq> []" "is_word (hd w)" "is_word (last w)"
    and "a = [] \<or> \<not> is_word (last a)" "b = [] \<or> \<not> is_word (hd b)"
  shows "found (wlit w) (lower (a @ w' @ b))"
proof -
  have "lower a = [] \<or> \<not> is_word (last (lower a))"
    using assms(5) by (cases a rule: rev_cases) (auto simp: lower_def)
  moreover have "lower b = [] \<or> \<not> is_word (hd (lower b))"
    using assms(6) by (cases b) (auto simp: lower_def)
  ultimately have "found (wlit w) (lower a @ w @ lower b)" using assms by (intro found_wlit) auto
  with assms(1) show ?thesis by simp
qed

definition device_words :: "(string \<times> family) list" where
  "device_words =
    [(''ssh'', Access), (''scp'', Access), (''telnet'', Access), (''console port'', Access),
     (''device session'', Access), (''restconf'', Protocol), (''netconf'', Protocol),
     (''gnmi'', Protocol), (''snmpset'', Protocol), (''ansible'', Protocol)]"

lemma device_words_patterns:
  "(\<lambda>(w, f). (wlit w, f)) ` set device_words \<subseteq> set DIRECT_DEVICE_PATTERNS"
  unfolding device_words_def DIRECT_DEVICE_PATTERNS_def
  by (simp only: list.set image_insert image_empty prod.case insert_subset empty_subsetI insert_iff
      simp_thms)

lemma device_words_words:
  "\<forall>(w, f) \<in> set device_words. w \<noteq> [] \<and> is_word (hd w) \<and> is_word (last w)"
  by code_simp

lemma device_word_detected:
  assumes "lower w' \<in> fst ` set device_words"
    and "a = [] \<or> \<not> is_word (last a)" "b = [] \<or> \<not> is_word (hd b)"
  shows "detect_direct_device (a @ w' @ b) \<noteq> None"
proof -
  from assms(1) obtain f where wf: "(lower w', f) \<in> set device_words" by auto
  then have f: "(wlit (lower w'), f) \<in> set DIRECT_DEVICE_PATTERNS"
    using device_words_patterns by auto
  from wf device_words_words have w: "lower w' \<noteq> []" "is_word (hd (lower w'))" "is_word (last (lower w'))"
    by auto
  from w assms(2,3) have "found (wlit (lower w')) (lower (a @ w' @ b))"
    by (intro found_wlit_lower) auto
  with f have "\<exists>q \<in> set DIRECT_DEVICE_PATTERNS. found (fst q) (lower (a @ w' @ b))" by force
  moreover have "a @ w' @ b \<noteq> []" using w by (auto simp: lower_def)
  ultimately show ?thesis by (simp only: detect_direct_device_None_iff) blast
qed

lemma detect_direct_device_SomeD:
  assumes "detect_direct_device text = Some h"
  shows "\<exists>ps1 p f ps2. DIRECT_DEVICE_PATTERNS = ps1 @ (p, f) # ps2 \<and> found p (lower text)
    \<and> (\<forall>q \<in> set ps1. \<not> found (fst q) (lower text))
    \<and> hit_family h = family_text f \<and> hit_reason h = ''the request asks for '' @ family_text f
    \<and> hit_suggestion h = device_suggestion f"
proof -
  from assms obtain f fs where
    m: "matching_families DIRECT_DEVICE_PATTERNS (lower text) [] = f # fs"
    and h: "h = \<lparr>hit_family = family_text f, hit_reason = ''the request asks for '' @ family_text f,
      hit_suggestion = device_suggestion f\<rparr>"
    by (auto simp: detect_direct_device_def split: if_splits list.splits)
  from matching_families_ConsD [OF m] show ?thesis by (auto simp: h)
qed

lemma first_unsupported_None_iff:
  "first_unsupported ps low = None \<longleftrightarrow> (\<forall>q \<in> set ps. \<not> found (fst q) low)"
  by (induction ps low rule: first_unsupported.induct) auto

lemma first_unsupported_SomeD:
  "first_unsupported ps low = Some h \<Longrightarrow>
     \<exists>q \<in> set ps. found (fst q) low \<and> hit_family h = fst (snd q)
       \<and> hit_suggestion h = (case map_of UNSUPPORTED_PROPERTY_SUGGESTIONS (fst (snd q)) of
                               None \<Rightarrow> DEFAULT_SUGGESTION | Some t \<Rightarrow> t)"
  by (induction ps low rule: first_unsupported.induct) (auto split: if_splits)

text \<open>Every property the layer can name has its own suggestion.\<close>

lemma unsupported_suggestions_cover:
  "q \<in> set UNSUPPORTED_FEATURE_PATTERNS \<Longrightarrow>
     \<exists>t. map_of UNSUPPORTED_PROPERTY_SUGGESTIONS (fst (snd q)) = Some t"
  by (auto simp: UNSUPPORTED_FEATURE_PATTERNS_def UNSUPPORTED_PROPERTY_SUGGESTIONS_def)

lemma parse_classification_words:
  "parse_classification ''provisionable'' = Some Provisionable"
  "parse_classification ''informational'' = Some Informational"
  "parse_classification ''unsupported'' = Some Unsupported"
  by code_simp+

lemma parse_classification_value: "parse_classification (class_value c) = Some c"
  by (cases c) (simp_all only: class_value.simps parse_classification_words)

lemma find_SomeD: "find P xs = Some x \<Longrightarrow> x \<in> set xs \<and> P x"
  by (auto simp: find_Some_iff)

end
