(* ===== verification/Sup_State.thy ===== *)
theory Sup_State
  imports Worker Capability Safety_Layer
begin

text \<open>
  The state, the world and the operator-facing texts of the provisioning supervisor,
  src/agents/supervisors/provisioning/graph/graph.py: \<open>GraphState\<close> with its message reducer, the
  clarification and SRv6 texts, and the refusal core every node uses.

  A node is a function from the state to an outcome: the updated state (or the exception that
  leaves the node) and the trace of its outside effects in order - the audit records it hands to
  common/audit.py and the calls it makes to the model, the workers and the capability reader.
  The model, the workers, the clock, the nonce and the environment are the fields of \<open>world\<close>.
\<close>

section \<open>State\<close>

datatype node = SUPERVISOR | MAPPER | ALLOCATOR | DEPLOYER | REFLECTION | GENERAL_INFO | END

datatype status =
    RECEIVED_REQUEST | VALIDATED | MAPPED | ALLOCATED | APPROVED | PROVISIONING | CONFIGURED
  | VERIFIED | COMPLETED | FAILED | STATUS_UNKNOWN

fun status_value :: "status \<Rightarrow> string" where
  "status_value RECEIVED_REQUEST = ''RECEIVED_REQUEST''"
| "status_value VALIDATED = ''VALIDATED''"
| "status_value MAPPED = ''MAPPED''"
| "status_value ALLOCATED = ''ALLOCATED''"
| "status_value APPROVED = ''APPROVED''"
| "status_value PROVISIONING = ''PROVISIONING''"
| "status_value CONFIGURED = ''CONFIGURED''"
| "status_value VERIFIED = ''VERIFIED''"
| "status_value COMPLETED = ''COMPLETED''"
| "status_value FAILED = ''FAILED''"
| "status_value STATUS_UNKNOWN = ''STATUS_UNKNOWN''"

definition statuses :: "status list" where
  "statuses = [RECEIVED_REQUEST, VALIDATED, MAPPED, ALLOCATED, APPROVED, PROVISIONING, CONFIGURED,
     VERIFIED, COMPLETED, FAILED, STATUS_UNKNOWN]"

text \<open>\<open>extract_status\<close> of common/provisioning_states.py: the first member named in the text.\<close>

definition extract_status :: "string \<Rightarrow> status" where
  "extract_status m =
     (case find (\<lambda>s. contains (status_value s) m) statuses of Some s \<Rightarrow> s | None \<Rightarrow> STATUS_UNKNOWN)"

datatype msg = Human string | AI string | Tool string

datatype pending = Confirm_1 | Confirm_2 | Confirm_remove | Clarify

datatype decided = Confirm | Decline

record decision =
  decided :: decided
  decided_at :: string
  decided_by :: string

datatype tool = Status_tool | Remove_tool

record gstate =
  messages :: "msg list"
  next_node :: node
  iteration_count :: nat
  awaiting_confirmation :: bool
  mapped_parameters :: "string option"
  allocated_resources :: "string option"
  st_missing_fields :: "string list option"
  pending_action :: "pending option"
  correlation_id :: string
  workflow_status :: status
  claimed_ids :: "dict list"
  deadline :: string
  principal :: string
  confirmation_1 :: "decision option"
  confirmation_2 :: "decision option"
  refusal_reason :: "string option"
  suggestion :: "string option"
  st_classification :: "classification option"
  tool_action :: "tool option"
  tool_request :: "string option"
  tool_result :: "string option"
  convergence :: "string option"
  submitted_resources :: "string option"
  submitted_correlation_id :: "string option"

definition filter_tool_messages :: "msg list \<Rightarrow> msg list" where
  "filter_tool_messages ms = filter (\<lambda>m. case m of Tool _ \<Rightarrow> False | _ \<Rightarrow> True) ms"

text \<open>The reducer of \<open>messages\<close>: append, then strip the tool messages.\<close>

definition add_messages :: "msg list \<Rightarrow> gstate \<Rightarrow> gstate" where
  "add_messages ms s = s\<lparr>messages := filter_tool_messages (messages s @ ms)\<rparr>"

definition say :: "string \<Rightarrow> gstate \<Rightarrow> gstate" where
  "say t s = add_messages [AI t] s"

definition last_human :: "gstate \<Rightarrow> string option" where
  "last_human s =
     (case find (\<lambda>m. case m of Human _ \<Rightarrow> True | _ \<Rightarrow> False) (rev (messages s)) of
        Some (Human t) \<Rightarrow> Some t | _ \<Rightarrow> None)"

text \<open>\<open>if not x\<close> of an optional text: absent and empty are the same.\<close>

definition set_text :: "string option \<Rightarrow> string option" where
  "set_text x = (case x of Some t \<Rightarrow> if t = [] then None else Some t | None \<Rightarrow> None)"

section \<open>The world\<close>

datatype reply = Unreachable string | Reply worker_result

text \<open>\<open>datetime.fromisoformat\<close>: an instant with or without a zone, or \<open>ValueError\<close>.\<close>

datatype iso = Aware int | Naive int

record world =
  now :: int
  iso_of :: "int \<Rightarrow> string"
  from_iso :: "string \<Rightarrow> iso option"
  nonce :: string
  thread_id :: string
  model :: "string \<Rightarrow> string option"   \<comment> \<open>the classifier's reply to a fenced text, or its failure\<close>
  mapper :: "string \<Rightarrow> reply"
  allocator :: "string \<Rightarrow> reply"
  deployer :: "string \<Rightarrow> reply"
  capability :: srv6_capability
  inventory :: site_inventory
  spine_nodes :: "string option"
  llm_model :: string
  json_error :: "string \<Rightarrow> string"   \<comment> \<open>the text of the error \<open>json.loads\<close> raises\<close>
  pyd :: lax

datatype audit_kind = A_confirm | A_decline | A_submit | A_refuse

record resource_ref =
  r_apiVersion :: string
  r_kind :: string
  r_namespace :: string
  r_name :: string
  r_uid :: "string option"
  r_ready :: "bool option"

datatype event =
    Audit audit_kind string string string "resource_ref list" "string option"
      \<comment> \<open>kind, correlation id, thread, principal, resources, reason\<close>
  | Ask_model string
  | Call_mapper string
  | Call_allocator string
  | Call_tools tool string     \<comment> \<open>the deployer, asked for a status or a removal\<close>
  | Call_deployer string  \<comment> \<open>the deployer, asked to submit\<close>
  | Read_capability

datatype 'a result = Ok 'a | Crash string

type_synonym outcome = "gstate result \<times> event list"

section \<open>Audit and refusals\<close>

definition MAX_ITERATIONS :: nat where "MAX_ITERATIONS = 3"

definition or_operator :: "string \<Rightarrow> string" where
  "or_operator p = (if p = [] then ''operator'' else p)"

definition corr :: "world \<Rightarrow> gstate \<Rightarrow> string" where
  "corr w s = (if correlation_id s = [] then nonce w else correlation_id s)"

definition audit :: "world \<Rightarrow> gstate \<Rightarrow> audit_kind \<Rightarrow> resource_ref list \<Rightarrow> string \<Rightarrow> event" where
  "audit w s k rs reason = Audit k (corr w s) (thread_id w) (or_operator (principal s)) rs (Some reason)"

definition REFUSAL_EXPLANATION :: string where
  "REFUSAL_EXPLANATION = ''This tier never opens a device session, issues a device command, or writes device configuration. Every change to the fabric flows only through declarative service intent submitted to the cluster API, which the control plane reconciles.''"

definition REFUSAL_SUGGESTION_LEAD :: string where
  "REFUSAL_SUGGESTION_LEAD = ''Try instead:''"

definition build_refusal_message :: "string \<Rightarrow> string \<Rightarrow> string \<Rightarrow> string" where
  "build_refusal_message reason sugg cid =
     ''I can'' @ squote @ ''t do that. '' @ reason @ ''. '' @ REFUSAL_EXPLANATION @ '' ''
     @ REFUSAL_SUGGESTION_LEAD @ '' '' @ sugg @ '' (correlation id: '' @ cid @ '')''"

text \<open>The updates every terminal refusal shares.\<close>

definition failed_with :: "string \<Rightarrow> string \<Rightarrow> gstate \<Rightarrow> gstate" where
  "failed_with reason sugg s =
     s\<lparr>next_node := END, workflow_status := FAILED, refusal_reason := Some reason,
       suggestion := Some sugg, awaiting_confirmation := False, pending_action := None\<rparr>"

definition refuse :: "world \<Rightarrow> gstate \<Rightarrow> string \<Rightarrow> string \<Rightarrow> string \<Rightarrow> outcome" where
  "refuse w s reason sugg stg =
     (Ok (say (build_refusal_message reason sugg (correlation_id s)) (failed_with reason sugg s)),
      [audit w s A_refuse [] (stg @ '': '' @ reason)])"

definition reject_out_of_contract ::
    "world \<Rightarrow> gstate \<Rightarrow> string \<Rightarrow> string \<Rightarrow> string \<Rightarrow> outcome" where
  "reject_out_of_contract w s stg err worker_text =
     (let reason = stg @ '' payload out of contract: '' @ err;
          content = redact_model_response (''The '' @ stg @ '' stage returned a payload that fails schema validation, so it was rejected before any further routing or cluster submission '' @ emdash @ '' nothing was applied: '' @ err @ ''. (correlation id: '' @ correlation_id s @ '')'');
          full = content @ (if worker_text \<noteq> []
                            then nl @ ''[worker summary: '' @ take_chars 400 (redact_model_response worker_text) @ '']''
                            else [])
      in (Ok (say full (failed_with reason DEFAULT_SUGGESTION s)), [audit w s A_refuse [] reason]))"

text \<open>\<open>fromisoformat(deadline) < now(UTC)\<close>: an instant without a zone cannot be compared.\<close>

definition deadline_exceeded :: "world \<Rightarrow> gstate \<Rightarrow> bool result" where
  "deadline_exceeded w s =
     (if deadline s = [] then Ok False
      else (case from_iso w (deadline s) of
              None \<Rightarrow> Ok False
            | Some (Aware t) \<Rightarrow> Ok (t < now w)
            | Some (Naive t) \<Rightarrow> Crash ''TypeError: can't compare offset-naive and offset-aware datetimes''))"

definition bounded_exit :: "world \<Rightarrow> gstate \<Rightarrow> string \<Rightarrow> outcome" where
  "bounded_exit w s why =
     (let reason = ''request bound reached ('' @ why @ ''); no further action taken''
      in (Ok (say (''This request hit its bound ('' @ why @ '') and was stopped without further action. Please rephrase and resend. (correlation id: '' @ correlation_id s @ '')'')
            (failed_with reason DEFAULT_SUGGESTION s)),
          [audit w s A_refuse [] reason]))"

section \<open>SRv6 texts\<close>

definition backtick :: string where "backtick = [CHR 0x60]"

definition SRV6_R4_REASON :: string where
  "SRV6_R4_REASON = ''SRv6 is not available on this lab profile: the capability has not been proven here.''"

definition SRV6_R3_REASON :: string where
  "SRV6_R3_REASON = ''The request names both SRv6 and VXLAN. A service uses one transport; say which.''"

definition SRV6_R5_REASON :: string where
  "SRV6_R5_REASON = ''SRv6 applies to ip-vrf and mac-vrf. A vlan or an acl has no transport.''"

definition restated_variants :: "(string \<times> string) list" where
  "restated_variants = [(''ip-vrf/vpn'', ''ip-vrf over srv6''), (''mac-vrf/evpn'', ''mac-vrf over srv6''),
     (''ip-vrf/evpn'', ''ip-vrf over srv6 with evpn signalling''), (''steering'', ''steering'')]"

definition restated_variant :: "string \<Rightarrow> string" where
  "restated_variant v = (case map_of restated_variants v of Some t \<Rightarrow> t | None \<Rightarrow> v)"

definition restated_supported_list :: "string list \<Rightarrow> string" where
  "restated_supported_list sups = join '', '' (map restated_variant sups)"

definition srv6_r2_reason :: "string \<Rightarrow> string list \<Rightarrow> string" where
  "srv6_r2_reason variant sups =
     (if variant = ''mac-vrf/evpn''
      then backtick @ ''mac-vrf over srv6'' @ backtick @ '' (bridged EVPN over SRv6) is not supported on this image.''
      else backtick @ restated_variant variant @ backtick
        @ '' is not supported on this image. Supported SRv6 services: '' @ backtick
        @ restated_supported_list sups @ backtick @ ''.'')"

definition srv6_r8_reason :: "string \<Rightarrow> string \<Rightarrow> string \<Rightarrow> string" where
  "srv6_r8_reason nd port service =
     backtick @ port @ backtick @ '' on '' @ backtick @ nd @ backtick @ '' already belongs to ''
     @ backtick @ service @ backtick @ ''.''"

definition srv6_r9_reason :: "string \<Rightarrow> string \<Rightarrow> string list \<Rightarrow> string" where
  "srv6_r9_reason nd port verifiable =
     backtick @ port @ backtick @ '' on '' @ backtick @ nd @ backtick
     @ '' has no client to verify traffic from, so an SRv6 service there cannot reach Ready. Attachments that can be verified: ''
     @ backtick @ (if verifiable \<noteq> [] then join '', '' verifiable else ''none'') @ backtick @ ''.''"

definition SRV6_CLARIFICATION_FIELDS :: "string list" where
  "SRV6_CLARIFICATION_FIELDS = [''srv6_construct'', ''srv6_signalling'', ''srv6_other_endpoint'',
     ''srv6_prefix'', ''srv6_vlan'', ''srv6_preferred_spine'']"

definition supported_option :: "string \<Rightarrow> string" where
  "supported_option v =
     (case map_of [(''ip-vrf/vpn'', ''ip-vrf over srv6 (routed)''),
                   (''mac-vrf/evpn'', ''mac-vrf over srv6 (bridged)''),
                   (''ip-vrf/evpn'', ''ip-vrf over srv6 with evpn signalling'')] v of
        Some t \<Rightarrow> t | None \<Rightarrow> restated_variant v)"

definition srv6_clarification_question ::
    "string option \<Rightarrow> string \<Rightarrow> srv6_capability \<Rightarrow> string option" where
  "srv6_clarification_question spine_env fld cap =
     (if fld = ''srv6_construct'' then
        (let options = map supported_option
               (filter (\<lambda>v. v \<in> {''ip-vrf/vpn'', ''mac-vrf/evpn''}) (supported cap))
         in if options = [] then None else Some (''Which SRv6 service: '' @ join '' or '' options @ ''?''))
      else if fld = ''srv6_signalling'' then
        (let options =
               (if ''ip-vrf/evpn'' \<in> set (supported cap) then [''Routed (ip-vrf over srv6 with evpn signalling)''] else [])
               @ (if ''mac-vrf/evpn'' \<in> set (supported cap) then [''bridged (mac-vrf over srv6)''] else [])
         in if options = [] then None else Some (join '' or '' options @ ''?''))
      else if fld = ''srv6_other_endpoint'' then
        Some ''An SRv6 service joins two attachment points. Which node and port is the other end?''
      else if fld = ''srv6_prefix'' then Some ''Which prefix does each side use?''
      else if fld = ''srv6_vlan'' then Some ''Which vlan does the service carry?''
      else if fld = ''srv6_preferred_spine'' then
        (let spines = split_csv spine_env
         in if spines = [] then None else Some (''Which spine is preferred: '' @ join '' or '' spines @ ''?''))
      else None)"

section \<open>Clarification\<close>

definition CLARIFICATION_HINT :: string where
  "CLARIFICATION_HINT =
     '' Constructs: vlan (local broadcast domain), mac-vrf (L2VNI over EVPN), ip-vrf (routed instance with L3VNI), acl (filter bound to service ports) ''
     @ emdash @ '' each between named attachment points for one tenant. Example: '' @ squote
     @ ''Extend vlan 100 as a mac-vrf across leaf01 ethernet2 and leaf02 ethernet2 for tenant acme''
     @ squote @ ''.''"

definition clarification_prompt :: "string list \<Rightarrow> string list \<Rightarrow> string" where
  "clarification_prompt missing questions =
     ''Before I can map this service I need: ''
     @ (if missing = [] then ''required service fields'' else join '', '' missing)
     @ ''. Please restate the full request including those values (no defaults are substituted for service-defining fields).''
     @ concat (map (\<lambda>q. '' '' @ q) questions) @ CLARIFICATION_HINT"

definition redact_unsupplied :: "dict \<Rightarrow> string list \<Rightarrow> dict" where
  "redact_unsupplied i missing = map (\<lambda>(k, v). (k, if k \<in> set missing then JNull else v)) i"

section \<open>Facts\<close>

lemma refuse_state:
  "fst (refuse w s reason sugg stg) = Ok t \<Longrightarrow>
     workflow_status t = FAILED \<and> next_node t = END \<and> pending_action t = None \<and> \<not> awaiting_confirmation t"
  by (auto simp: refuse_def say_def add_messages_def failed_with_def)

lemma status_value_inject: "status_value a = status_value b \<longleftrightarrow> a = b"
  by (cases a; cases b; simp)

end
