(* ===== verification/Sup_Nodes.thy ===== *)
theory Sup_Nodes
  imports Sup_State
begin

text \<open>
  The supervisor, mapper, allocator, reflection and general-info nodes of
  src/agents/supervisors/provisioning/graph/graph.py, whole: every guard and early return in the
  order of the code. (The deployer node is in Sup_Deploy.)
\<close>

section \<open>Routing of a classified request\<close>

definition start_provisioning :: "gstate \<Rightarrow> gstate" where
  "start_provisioning s =
     s\<lparr>next_node := MAPPER, st_classification := Some Provisionable,
       workflow_status := RECEIVED_REQUEST, tool_action := None, tool_request := None,
       tool_result := None, awaiting_confirmation := False, pending_action := None,
       mapped_parameters := None, st_missing_fields := None, allocated_resources := None,
       submitted_resources := None, submitted_correlation_id := None, convergence := None,
       claimed_ids := [], confirmation_1 := None, confirmation_2 := None, refusal_reason := None,
       suggestion := None\<rparr>"

definition provider_unavailable_message :: "string \<Rightarrow> string" where
  "provider_unavailable_message label =
     ''The model provider '' @ squote @ label @ squote @ '' is currently unavailable, so this request cannot be processed right now. Nothing was submitted. Please try again later or switch to a different configured provider.''"

definition provider_label :: "string \<Rightarrow> string" where
  "provider_label m = (let p = takeWhile (\<lambda>c. c \<noteq> CHR ''/'') m in if p = [] then ''LLM'' else p)"

definition model_down :: "world \<Rightarrow> gstate \<Rightarrow> gstate" where
  "model_down w s =
     (let reason = provider_unavailable_message (provider_label (llm_model w))
      in say reason (s\<lparr>next_node := END, st_classification := None, workflow_status := FAILED,
           refusal_reason := Some reason,
           suggestion := Some ''Configure the llm-provider Secret and retry the request.''\<rparr>))"

definition unsupported_class_reason :: string where
  "unsupported_class_reason =
     ''the request is outside the declarative service contract; supported constructs are: ''
     @ SUPPORTED_CONSTRUCTS
     @ '', each provisioned declaratively and only after the two explicit confirmations''"

definition to_general :: "classification option \<Rightarrow> gstate \<Rightarrow> gstate" where
  "to_general c s = s\<lparr>next_node := GENERAL_INFO, st_classification := c\<rparr>"

definition classify_and_route :: "world \<Rightarrow> gstate \<Rightarrow> string \<Rightarrow> outcome" where
  "classify_and_route w s user_content =
     (let fenced = wrap_user_text (redact_prompt user_content) (nonce w); ask = [Ask_model fenced]
      in case model w fenced of
           None \<Rightarrow>
             (case fallback_classification user_content of
                Some Provisionable \<Rightarrow> (Ok (start_provisioning s), ask)
              | Some Informational \<Rightarrow> (Ok (to_general (Some Informational) s), ask)
              | _ \<Rightarrow> (Ok (model_down w s), ask))
         | Some content \<Rightarrow>
             (case parse_classification content of
                Some Provisionable \<Rightarrow> (Ok (start_provisioning s), ask)
              | Some Informational \<Rightarrow> (Ok (to_general (Some Informational) s), ask)
              | Some Unsupported \<Rightarrow>
                  (let (r, ev) = refuse w s unsupported_class_reason DEFAULT_SUGGESTION ''supervisor''
                   in (r, ask @ ev))
              | None \<Rightarrow>
                  (Ok (say ''I could not classify that request. Please rephrase it as a service request (type, the two endpoints, and the tenant) or as a question.''
                        (to_general None s)), ask)))"

section \<open>Status and removal commands\<close>

definition to_tools :: "tool \<Rightarrow> json \<Rightarrow> gstate \<Rightarrow> gstate" where
  "to_tools t req s =
     s\<lparr>next_node := DEPLOYER, tool_action := Some t, tool_request := Some (canonical_json req)\<rparr>"

definition REMOVE_QUESTION :: string where
  "REMOVE_QUESTION = ''Remove this service? Reply '' @ squote @ ''confirm'' @ squote
     @ '' to delete by correlation id, or '' @ squote @ ''decline'' @ squote @ '' to cancel.''"

definition ask_remove :: "json \<Rightarrow> gstate \<Rightarrow> gstate" where
  "ask_remove req s =
     say REMOVE_QUESTION
       (s\<lparr>next_node := END, tool_action := Some Remove_tool, tool_request := Some (canonical_json req),
          awaiting_confirmation := True, pending_action := Some Confirm_remove\<rparr>)"

text \<open>The service id of the allocated intent, when the stored text is an object that has one.\<close>

definition stored_service_id :: "gstate \<Rightarrow> string option" where
  "stored_service_id s =
     (case loads (case set_text (allocated_resources s) of Some t \<Rightarrow> t | None \<Rightarrow> ''{}'') of
        Some (JObj d) \<Rightarrow>
          if truthy (dget d ''serviceId'') then Some (jstr (dget d ''serviceId'')) else None
      | _ \<Rightarrow> None)"

definition status_request :: "gstate \<Rightarrow> string \<Rightarrow> json" where
  "status_request s cid =
     JObj ([(''action'', JStr ''status''), (''correlationId'', JStr cid)]
       @ (case stored_service_id s of Some i \<Rightarrow> [(''serviceId'', JStr i)] | None \<Rightarrow> []))"

definition asks_deployment_status :: "gstate \<Rightarrow> string \<Rightarrow> string option" where
  "asks_deployment_status s u =
     (case (set_text (submitted_resources s), set_text (submitted_correlation_id s)) of
        (Some _, Some cid) \<Rightarrow>
          if detect_deployment_status_query u \<and> \<not> detect_provisioning_request u then Some cid else None
      | _ \<Rightarrow> None)"

section \<open>Confirmation handling\<close>

definition decide :: "world \<Rightarrow> gstate \<Rightarrow> decided \<Rightarrow> decision" where
  "decide w s d = \<lparr>decided = d, decided_at = iso_of w (now w), decided_by = or_operator (principal s)\<rparr>"

definition which_text :: "pending \<Rightarrow> string" where
  "which_text p = (if p = Confirm_1 then ''confirmation_1'' else ''confirmation_2'')"

definition clear_pending :: "gstate \<Rightarrow> gstate" where
  "clear_pending s = s\<lparr>awaiting_confirmation := False, pending_action := None\<rparr>"

definition on_confirm :: "world \<Rightarrow> gstate \<Rightarrow> pending \<Rightarrow> outcome" where
  "on_confirm w s p =
     (if p = Confirm_remove then
        (Ok (clear_pending (s\<lparr>next_node := DEPLOYER\<rparr>)),
         [audit w s A_confirm [] ''remove-service recorded: operator confirmed''])
      else
        (let ev = [audit w s A_confirm [] (which_text p @ '' recorded: operator confirmed'')];
             d = decide w s Confirm
         in if p = Confirm_1
            then (Ok (clear_pending (s\<lparr>next_node := ALLOCATOR, confirmation_1 := Some d\<rparr>)), ev)
            else (Ok (clear_pending (s\<lparr>next_node := DEPLOYER, confirmation_2 := Some d,
                    workflow_status := APPROVED\<rparr>)), ev)))"

definition release_claim :: "string \<Rightarrow> dict \<Rightarrow> dict" where
  "release_claim ts c = dset ''released_at'' (JStr ts) c"

definition on_decline :: "world \<Rightarrow> gstate \<Rightarrow> pending \<Rightarrow> outcome" where
  "on_decline w s p =
     (if p = Confirm_remove then
        (Ok (say (''Understood '' @ emdash @ '' the remove-service request was declined and nothing will be done.'')
              (failed_with ''remove-service declined by operator'' DEFAULT_SUGGESTION s)),
         [audit w s A_decline [] ''remove-service recorded: operator declined''])
      else
        (let d = decide w s Decline
         in (Ok (say (''Understood '' @ emdash @ '' the request was declined at '' @ which_text p
                  @ '' and nothing will be submitted. Any claimed identifiers were released. If you want to change something, start a fresh request.'')
               ((failed_with (which_text p @ '' declined by operator'') DEFAULT_SUGGESTION s)
                  \<lparr>claimed_ids := map (release_claim (iso_of w (now w))) (claimed_ids s),
                   confirmation_1 := if p = Confirm_1 then Some d else confirmation_1 s,
                   confirmation_2 := if p = Confirm_2 then Some d else confirmation_2 s\<rparr>)),
             [audit w s A_decline [] (which_text p @ '' recorded: operator declined; claims released'')])))"

definition re_ask :: "gstate \<Rightarrow> outcome" where
  "re_ask s =
     (Ok (say (''Please answer with '' @ squote @ ''confirm'' @ squote @ '' to proceed or '' @ squote
            @ ''decline'' @ squote @ '' to cancel this request.'')
          (s\<lparr>next_node := END, awaiting_confirmation := True\<rparr>)), [])"

definition on_confirmation :: "world \<Rightarrow> gstate \<Rightarrow> string \<Rightarrow> pending \<Rightarrow> outcome" where
  "on_confirmation w s l p =
     (if says_confirm l then on_confirm w s p
      else if says_decline l then on_decline w s p
      else re_ask s)"

section \<open>The supervisor node\<close>

definition too_many_constructs :: "string \<Rightarrow> string" where
  "too_many_constructs u =
     ''one construct per request; you named: '' @ join '', '' (sort (find_constructs u))
     @ ''. Supported constructs: '' @ SUPPORTED_CONSTRUCTS"

text \<open>The part of the node after the confirmation points: the safety layer, then the classifier.\<close>

definition fresh_request :: "world \<Rightarrow> gstate \<Rightarrow> string \<Rightarrow> outcome" where
  "fresh_request w s u =
     (case detect_direct_device u of
        Some h \<Rightarrow> refuse w s (hit_reason h) (hit_suggestion h) ''supervisor''
      | None \<Rightarrow>
          (case detect_unsupported_feature u of
             Some h \<Rightarrow> refuse w s (hit_reason h) (hit_suggestion h) ''supervisor''
           | None \<Rightarrow>
               if detect_provisioning_request u \<and> detect_deployment_status_query u
               then (Ok (start_provisioning s), [])
               else classify_and_route w s u))"

definition map_outcome :: "(gstate \<Rightarrow> gstate) \<Rightarrow> outcome \<Rightarrow> outcome" where
  "map_outcome f o' = (case o' of (Ok s, ev) \<Rightarrow> (Ok (f s), ev) | (Crash e, ev) \<Rightarrow> (Crash e, ev))"

text \<open>The status and removal commands, recognised before the confirmation points.\<close>

definition user_command :: "gstate \<Rightarrow> string \<Rightarrow> gstate option" where
  "user_command s u =
     (let l = strip (lower u) in
      case asks_deployment_status s u of
        Some cid \<Rightarrow> Some (to_tools Status_tool (status_request s cid) s)
      | None \<Rightarrow>
          (case search_group STATUS_OF_SERVICE ''sid'' l of
             Some sid \<Rightarrow>
               Some (to_tools Status_tool (JObj [(''action'', JStr ''status''), (''serviceId'', JStr sid)]) s)
           | None \<Rightarrow>
               (case search_group REMOVE_SERVICE ''sid'' l of
                  Some sid \<Rightarrow>
                    Some (ask_remove (JObj [(''action'', JStr ''remove''), (''serviceId'', JStr sid)]) s)
                | None \<Rightarrow>
                    (case search_group REMOVE_CORRELATION ''cid'' l of
                       Some cid \<Rightarrow>
                         Some (ask_remove (JObj [(''action'', JStr ''remove''), (''correlationId'', JStr cid)]) s)
                     | None \<Rightarrow> None))))"

definition on_request :: "world \<Rightarrow> gstate \<Rightarrow> string \<Rightarrow> outcome" where
  "on_request w s u =
     (if awaiting_confirmation s
         \<and> pending_action s \<in> {Some Confirm_1, Some Confirm_2, Some Confirm_remove}
      then on_confirmation w s (strip (lower u)) (the (pending_action s))
      else if awaiting_confirmation s \<and> pending_action s = Some Clarify
      then map_outcome clear_pending (classify_and_route w s u)
      else fresh_request w s u)"

definition handle_user :: "world \<Rightarrow> gstate \<Rightarrow> string \<Rightarrow> outcome" where
  "handle_user w s u =
     (if 2 \<le> length (find_constructs u) then
        refuse w s (too_many_constructs u) DEFAULT_SUGGESTION ''supervisor''
      else (case user_command s u of Some t \<Rightarrow> (Ok t, []) | None \<Rightarrow> on_request w s u))"

definition iteration_text :: string where
  "iteration_text = ''iteration bound '' @ str_nat MAX_ITERATIONS @ '' reached''"

definition supervisor_node :: "world \<Rightarrow> gstate \<Rightarrow> outcome" where
  "supervisor_node w s =
     (case deadline_exceeded w s of
        Crash e \<Rightarrow> (Crash e, [])
      | Ok True \<Rightarrow> bounded_exit w s ''wall-clock deadline exceeded''
      | Ok False \<Rightarrow>
          if \<not> awaiting_confirmation s \<and> MAX_ITERATIONS \<le> iteration_count s
          then bounded_exit w s iteration_text
          else (case last_human s of
                  None \<Rightarrow> (Ok (s\<lparr>next_node := GENERAL_INFO\<rparr>), [])
                | Some u \<Rightarrow> handle_user w s u))"

section \<open>The mapper node\<close>

text \<open>
  The worker's summary: its text up to the marker. \<open>worker_text.split("<!--")[0].strip()\<close>.
\<close>

fun before :: "string \<Rightarrow> string \<Rightarrow> string" where
  "before m [] = []"
| "before m (c # s) = (if starts_with m (c # s) then [] else c # before m s)"

definition summary_of :: "string \<Rightarrow> string \<Rightarrow> string" where
  "summary_of worker_text dflt =
     (let t = redact_model_response (strip (before ''<!--'' worker_text))
      in if t = [] then dflt else t)"

definition UNAVAILABLE_MAPPER :: string where
  "UNAVAILABLE_MAPPER = ''The mapper worker is currently unavailable, so the request was not processed (nothing was submitted). Please try again in a moment '' @ emdash @ '' your thread is kept.''"

definition srv6_variant :: "interp \<Rightarrow> string" where
  "srv6_variant i =
     type_value (service_type i) @ ''/''
     @ (case set_text (i_signalling i) of Some t \<Rightarrow> t
        | None \<Rightarrow> if service_type i = IP_VRF then ''vpn'' else ''evpn'')"

definition unknown_spine :: "string \<Rightarrow> string \<Rightarrow> string list \<Rightarrow> string" where
  "unknown_spine fld nm spines =
     fld @ '': unknown '' @ dquote @ nm @ dquote @ '' (site has: '' @ join '', '' spines @ '')''"

text \<open>R7 over the endpoints: the first one naming a node or a port the site does not have.\<close>

fun site_error :: "site_inventory \<Rightarrow> nat \<Rightarrow> endpoint_intent list \<Rightarrow> string option" where
  "site_error site i [] = None"
| "site_error site i (ep # eps) =
     (if inv_nodes site \<noteq> [] \<and> \<not> knows (inv_nodes site) (site_or_node ep) then
        Some (''endpoints['' @ str_nat i @ ''].node: '' @ dquote @ site_or_node ep @ dquote
          @ '' is not a node at this site (site has: '' @ join '', '' (inv_nodes site) @ '')'')
      else if inv_attachments site \<noteq> [] \<and> \<not> knows (inv_attachments site) (attachment ep) then
        Some (''endpoints['' @ str_nat i @ ''].attachment: '' @ dquote @ attachment ep @ dquote
          @ '' is not an attachment point at this site (site has: ''
          @ join '', '' (inv_attachments site) @ '')'')
      else site_error site (Suc i) eps)"

fun unverifiable :: "string list \<Rightarrow> endpoint_intent list \<Rightarrow> string option" where
  "unverifiable vs [] = None"
| "unverifiable vs (ep # eps) =
     (if site_or_node ep @ ''/'' @ attachment ep \<notin> set (map lower vs)
      then Some (srv6_r9_reason (site_or_node ep) (attachment ep) vs) else unverifiable vs eps)"

definition srv6_port_holder :: "string \<Rightarrow> string \<Rightarrow> string option" where
  "srv6_port_holder nd port = None"

fun held_port :: "endpoint_intent list \<Rightarrow> string option" where
  "held_port [] = None"
| "held_port (ep # eps) =
     (case set_text (srv6_port_holder (site_or_node ep) (attachment ep)) of
        Some h \<Rightarrow> Some (srv6_r8_reason (site_or_node ep) (attachment ep) h)
      | None \<Rightarrow> held_port eps)"

text \<open>The refusal ladder R2, R7, R9, R8: the reason of the first rung that refuses.\<close>

fun first_some :: "'a option list \<Rightarrow> 'a option" where
  "first_some [] = None"
| "first_some (None # xs) = first_some xs"
| "first_some (Some a # xs) = Some a"

definition spine_reason :: "site_inventory \<Rightarrow> string \<Rightarrow> string option \<Rightarrow> string option" where
  "spine_reason site fld sp =
     (case set_text sp of
        Some p \<Rightarrow>
          if inv_spines site \<noteq> [] \<and> \<not> knows (inv_spines site) p
          then Some (unknown_spine fld p (inv_spines site)) else None
      | None \<Rightarrow> None)"

definition srv6_guard_reason :: "srv6_capability \<Rightarrow> site_inventory \<Rightarrow> interp \<Rightarrow> string option" where
  "srv6_guard_reason cap site i =
     first_some
       [if srv6_variant i \<notin> set (supported cap)
        then Some (srv6_r2_reason (srv6_variant i) (supported cap)) else None,
        spine_reason site ''preferredSpine'' (preferred_spine i),
        spine_reason site ''alternateSpine'' (alternate_spine i),
        site_error site 0 (i_endpoints i),
        unverifiable (verifiable_attachments cap) (i_endpoints i),
        held_port (i_endpoints i)]"

definition unsupported_reason :: "string list \<Rightarrow> string" where
  "unsupported_reason props =
     (if ''srv6TransportConflict'' \<in> set props then SRV6_R3_REASON
      else if ''srv6UnsupportedConstruct'' \<in> set props then SRV6_R5_REASON
      else ''unsupported properties: '' @ join '', '' props @ '' (no equivalent in the fabric)'')"

definition srv6_questions :: "world \<Rightarrow> interp \<Rightarrow> string list" where
  "srv6_questions w i =
     (if set SRV6_CLARIFICATION_FIELDS \<inter> set (missing_fields i) \<noteq> {}
      then List.map_filter (\<lambda>f. srv6_clarification_question (spine_nodes w) f (capability w)) (missing_fields i)
      else [])"

definition clarify :: "world \<Rightarrow> gstate \<Rightarrow> interp \<Rightarrow> gstate" where
  "clarify w s i =
     say (clarification_prompt (missing_fields i) (srv6_questions w i))
       (s\<lparr>next_node := END, workflow_status := MAPPED,
          mapped_parameters :=
            Some (canonical_json (JObj (redact_unsupplied (dump_interpretation i) (missing_fields i)))),
          st_missing_fields := Some (missing_fields i),
          awaiting_confirmation := True, pending_action := Some Clarify\<rparr>)"

definition mapped :: "gstate \<Rightarrow> interp \<Rightarrow> string \<Rightarrow> gstate" where
  "mapped s i worker_text =
     say (summary_of worker_text ''Interpretation ready.'')
       (s\<lparr>next_node := REFLECTION, workflow_status := MAPPED,
          mapped_parameters := Some (canonical_json (JObj (dump_interpretation i))),
          awaiting_confirmation := True, pending_action := Some Confirm_1\<rparr>)"

definition needs_capability :: "interp \<Rightarrow> bool" where
  "needs_capability i \<longleftrightarrow>
     unsupported_properties i = []
     \<and> (if missing_fields i \<noteq> [] then set SRV6_CLARIFICATION_FIELDS \<inter> set (missing_fields i) \<noteq> {}
        else i_transport i = Some ''srv6'')"

text \<open>What follows a valid interpretation: refusal, clarification, the SRv6 ladder, or confirm_1.\<close>

definition on_interpretation :: "world \<Rightarrow> gstate \<Rightarrow> interp \<Rightarrow> string \<Rightarrow> outcome" where
  "on_interpretation w s i worker_text =
     (if unsupported_properties i \<noteq> [] then
        refuse w s (unsupported_reason (unsupported_properties i)) DEFAULT_SUGGESTION ''mapper''
      else if missing_fields i \<noteq> [] then (Ok (clarify w s i), [])
      else if i_transport i = Some ''srv6'' then
        (case srv6_guard_reason (capability w) (inventory w) i of
           Some m \<Rightarrow> refuse w s m DEFAULT_SUGGESTION ''supervisor''
         | None \<Rightarrow> (Ok (mapped s i worker_text), []))
      else (Ok (mapped s i worker_text), []))"

definition prepend :: "event list \<Rightarrow> outcome \<Rightarrow> outcome" where
  "prepend ev o' = (fst o', ev @ snd o')"

definition call_mapper :: "world \<Rightarrow> gstate \<Rightarrow> string \<Rightarrow> bool \<Rightarrow> outcome" where
  "call_mapper w s u cap_read =
     (let fenced = wrap_user_text (redact_prompt u) (nonce w) in
      prepend [Call_mapper fenced]
        (case mapper w fenced of
           Unreachable _ \<Rightarrow> (Ok (say UNAVAILABLE_MAPPER (s\<lparr>next_node := END\<rparr>)), [])
         | Reply r \<Rightarrow>
             (case extract_payload_and_text r ''MAPPED_JSON'' ''mapper'' of
                Inl e \<Rightarrow> (Crash e, [])
              | Inr (payload, worker_text) \<Rightarrow>
                  (case validate_mapper_payload (pyd w) payload of
                     Inl err \<Rightarrow> reject_out_of_contract w s ''mapper'' err worker_text
                   | Inr i \<Rightarrow>
                       prepend (if needs_capability i \<and> \<not> cap_read then [Read_capability] else [])
                         (on_interpretation w s i worker_text)))))"

definition mapper_node :: "world \<Rightarrow> gstate \<Rightarrow> outcome" where
  "mapper_node w s =
     (case last_human s of
        None \<Rightarrow> reject_out_of_contract w s ''mapper'' ''no user message to map'' []
      | Some u \<Rightarrow>
          if names_srv6 u then
            prepend [Read_capability]
              (if available (capability w) then call_mapper w s u True
               else refuse w s SRV6_R4_REASON DEFAULT_SUGGESTION ''supervisor'')
          else call_mapper w s u False)"

section \<open>The allocator node\<close>

definition UNAVAILABLE_ALLOCATOR :: string where
  "UNAVAILABLE_ALLOCATOR = ''The allocator worker is currently unavailable, so no identifiers were allocated and nothing was submitted. Please confirm again to retry '' @ emdash @ '' your thread is kept.''"

text \<open>\<open>Interpretation.model_validate_json\<close>: text that is not JSON is one error at the payload.\<close>

definition read_mapped :: "lax \<Rightarrow> string \<Rightarrow> interp checked" where
  "read_mapped L t = (case loads t of Some j \<Rightarrow> is_obj_then (validate_interpretation L) j | None \<Rightarrow> fail Invalid)"

definition with_correlation :: "gstate \<Rightarrow> string \<Rightarrow> string" where
  "with_correlation s t =
     (if correlation_id s = [] then t
      else (case loads t of
              Some (JObj d) \<Rightarrow> dumps_compact (JObj (dset ''correlationId'' (JStr (correlation_id s)) d))
            | _ \<Rightarrow> t))"

definition allocated :: "gstate \<Rightarrow> normalized_intent \<Rightarrow> string \<Rightarrow> gstate" where
  "allocated s n worker_text =
     say (summary_of worker_text ''Allocation ready.'')
       (s\<lparr>next_node := REFLECTION, workflow_status := ALLOCATED,
          allocated_resources := Some (canonical_json (JObj (dump_intent n))),
          awaiting_confirmation := True, pending_action := Some Confirm_2\<rparr>)"

definition allocator_node :: "world \<Rightarrow> gstate \<Rightarrow> outcome" where
  "allocator_node w s =
     (case set_text (mapped_parameters s) of
        None \<Rightarrow> reject_out_of_contract w s ''allocator'' ''no interpretation available to allocate'' []
      | Some t \<Rightarrow>
          (case read_mapped (pyd w) t of
             Inl es \<Rightarrow> reject_out_of_contract w s ''allocator''
                         (''stored interpretation invalid: '' @ format_validation_error (pyd w) es) []
           | Inr i \<Rightarrow>
               (let fenced = wrap_worker_text (redact_prompt (with_correlation s t)) (nonce w) in
                prepend [Call_allocator fenced]
                  (case allocator w fenced of
                     Unreachable _ \<Rightarrow> (Ok (say UNAVAILABLE_ALLOCATOR (s\<lparr>next_node := END\<rparr>)), [])
                   | Reply r \<Rightarrow>
                       (case extract_payload_and_text r ''DEPLOYMENT_JSON'' ''allocator'' of
                          Inl e \<Rightarrow> (Crash e, [])
                        | Inr (payload, worker_text) \<Rightarrow>
                            (case validate_allocator_payload (pyd w) (spine_nodes w) payload i of
                               Inl err \<Rightarrow> reject_out_of_contract w s ''allocator'' err worker_text
                             | Inr n \<Rightarrow> (Ok (allocated s n worker_text), [])))))))"

section \<open>Reflection and general info\<close>

definition CONFIRM_1_QUESTION :: string where
  "CONFIRM_1_QUESTION = ''Confirm this interpretation? Reply '' @ squote @ ''confirm'' @ squote
     @ '' to proceed to allocation, or '' @ squote @ ''decline'' @ squote @ '' to cancel.''"

definition CONFIRM_2_QUESTION :: string where
  "CONFIRM_2_QUESTION = ''Deploy this service? Reply '' @ squote @ ''confirm'' @ squote
     @ '' to submit it to the cluster, or '' @ squote @ ''decline'' @ squote
     @ '' to cancel (any claimed identifiers will be released).''"

definition reflection_node :: "world \<Rightarrow> gstate \<Rightarrow> outcome" where
  "reflection_node w s =
     (if awaiting_confirmation s \<and> pending_action s \<in> {Some Confirm_1, Some Confirm_2} then
        (Ok (say (if pending_action s = Some Confirm_1 then CONFIRM_1_QUESTION else CONFIRM_2_QUESTION)
              (s\<lparr>next_node := END\<rparr>)), [])
      else if awaiting_confirmation s \<and> pending_action s = Some Clarify then (Ok (s\<lparr>next_node := END\<rparr>), [])
      else if workflow_status s \<in> {FAILED, COMPLETED} then (Ok (s\<lparr>next_node := END\<rparr>), [])
      else
        (case deadline_exceeded w s of
           Crash e \<Rightarrow> (Crash e, [])
         | Ok True \<Rightarrow> bounded_exit w s ''wall-clock deadline exceeded''
         | Ok False \<Rightarrow>
             if MAX_ITERATIONS \<le> iteration_count s then bounded_exit w s iteration_text
             else (Ok (s\<lparr>next_node := SUPERVISOR, iteration_count := iteration_count s + 1\<rparr>), [])))"

definition GENERAL_TEXT :: "status \<Rightarrow> string" where
  "GENERAL_TEXT st =
     ''I provision declarative network services on the SONiC EVPN/VXLAN fabric: vlan (local L2), mac-vrf (L2 over EVPN), ip-vrf (routed instance) and acl (filter bound to service ports), each between two or more attachment points for a named tenant. The current status of this request thread is ''
     @ status_value st
     @ ''. I never act directly on devices: every change flows through declarative service intent and the two-confirmation pipeline.''"

definition STILL_CONVERGING :: string where
  "STILL_CONVERGING = '' A submission on this thread is still converging; ask '' @ dquote
     @ ''what is the status of the deployment?'' @ dquote
     @ '' and I will resolve its condition from the cluster.''"

definition general_response_node :: "world \<Rightarrow> gstate \<Rightarrow> outcome" where
  "general_response_node w s =
     (let st = workflow_status s;
          text = GENERAL_TEXT st
            @ (if st = PROVISIONING \<and> set_text (submitted_resources s) \<noteq> None then STILL_CONVERGING else [])
      in (Ok (say text (s\<lparr>workflow_status :=
            if st \<in> {FAILED, PROVISIONING, MAPPED, ALLOCATED, APPROVED} then st else COMPLETED\<rparr>)), []))"

end
