(* ===== verification/Sup_Deploy.thy ===== *)
theory Sup_Deploy
  imports Sup_Nodes
begin

text \<open>
  \<open>_deployer_node\<close> of src/agents/supervisors/provisioning/graph/graph.py: the tools path (status
  and removal), the submission preconditions, the deployment envelope, and the reading of the
  deployer's report - a named failure, a list of submitted resources with its convergence
  observations, or an out-of-contract answer.
\<close>

section \<open>Rendering a status report\<close>

definition tri_verdict :: "string \<Rightarrow> json \<Rightarrow> string" where
  "tri_verdict nm j =
     nm @ (if j = JBool True then ''=True'' else if j = JBool False then ''=False'' else ''=<unset>'')"

definition or_text :: "json \<Rightarrow> string \<Rightarrow> string" where
  "or_text j dflt = (if truthy j then jstr j else dflt)"

definition unverified_items :: "json \<Rightarrow> string list" where
  "unverified_items j =
     (case j of
        JArr xs \<Rightarrow>
          map (\<lambda>it. or_text (dget (obj_of it) ''property'') ''property'' @ ''@''
                     @ or_text (dget (obj_of it) ''node'') ''node'') (filter is_obj xs)
      | _ \<Rightarrow> [])"

definition unverified_suffix :: "json \<Rightarrow> string" where
  "unverified_suffix j =
     (if unverified_items j = [] then [] else ''; unverified: '' @ join '', '' (unverified_items j))"

definition resource_text :: "dict \<Rightarrow> string" where
  "resource_text r =
     (let nm = jstr (dget r ''kind'') @ ''/'' @ jstr (dget r ''name'');
          detail = strip (str_or_empty (jor (dget r ''message'') (dget r ''reason'')));
          stype = str_or_empty (dget r ''serviceType'');
          verdicts = tri_verdict ''Ready'' (dget r ''ready'') @ '' '' @ tri_verdict ''Degraded'' (dget r ''degraded'');
          since = str_or_empty (dget r ''lastTransitionTime'')
      in nm @ '' '' @ (if stype \<noteq> [] then ''('' @ stype @ '') '' else []) @ verdicts
         @ (if detail \<noteq> [] then '' '' @ dquote @ detail @ dquote else [])
         @ (if since \<noteq> [] then '' since '' @ since else [])
         @ unverified_suffix (dget r ''unverified''))"

definition status_phase :: "dict \<Rightarrow> string" where
  "status_phase report = or_text (dget report ''phase'') ''Unknown''"

definition status_summary :: "dict \<Rightarrow> string" where
  "status_summary report =
     redact_model_response (strip (status_phase report @ ''. ''
       @ join ''; '' (map (\<lambda>r. resource_text (obj_of r))
                       (filter is_obj (arr_of (dget report ''resources''))))))"

definition phase_to_workflow :: "string \<Rightarrow> status option" where
  "phase_to_workflow p = map_of [(''Deployed'', COMPLETED), (''Failed'', FAILED),
     (''Converging'', PROVISIONING), (''NotFound'', FAILED)] p"

section \<open>The tools path\<close>

definition UNAVAILABLE_TOOLS :: string where
  "UNAVAILABLE_TOOLS = ''The deployer worker is currently unavailable; please try again later.''"

definition resolve_status :: "string \<Rightarrow> string \<Rightarrow> gstate \<Rightarrow> gstate" where
  "resolve_status phase summary s =
     (case phase_to_workflow phase of
        None \<Rightarrow> s
      | Some FAILED \<Rightarrow>
          s\<lparr>workflow_status := FAILED,
            refusal_reason := Some (''deployer resolved the deployment status: '' @ summary),
            suggestion := Some DEFAULT_SUGGESTION\<rparr>
      | Some st \<Rightarrow> s\<lparr>workflow_status := st\<rparr>)"

definition tools_report :: "gstate \<Rightarrow> tool \<Rightarrow> dict \<Rightarrow> string \<Rightarrow> gstate" where
  "tools_report s t payload worker_text =
     (let base = s\<lparr>next_node := END, tool_action := Some t,
                   tool_result := Some (canonical_json (JObj payload))\<rparr>
      in case (t, dget payload ''status'') of
           (Status_tool, JObj report) \<Rightarrow>
             (let summary = status_summary report
              in resolve_status (or_text (dget report ''phase'') []) summary (say summary base))
         | _ \<Rightarrow> say (summary_of worker_text ''Tools result.'') base)"

definition has_key :: "string \<Rightarrow> dict \<Rightarrow> bool" where
  "has_key k d \<longleftrightarrow> map_of d k \<noteq> None"

definition tools_path :: "world \<Rightarrow> gstate \<Rightarrow> tool \<Rightarrow> outcome" where
  "tools_path w s t =
     (let req = (case set_text (tool_request s) of Some r \<Rightarrow> r | None \<Rightarrow> ''{}'');
          fenced = wrap_worker_text (redact_prompt req) (nonce w)
      in prepend [Call_tools t fenced]
           (case deployer w fenced of
              Unreachable _ \<Rightarrow> (Ok (say UNAVAILABLE_TOOLS (s\<lparr>next_node := END\<rparr>)), [])
            | Reply r \<Rightarrow>
                (case extract_payload_and_text r ''SUBMISSION_JSON'' ''deployer'' of
                   Inl e \<Rightarrow> (Crash e, [])
                 | Inr (payload, worker_text) \<Rightarrow>
                     (case payload of
                        Some d \<Rightarrow>
                          if has_key ''status'' d \<or> has_key ''removed'' d
                          then (Ok (tools_report s t d worker_text), [])
                          else reject_out_of_contract w s ''deployer'' ''no contract tools report'' worker_text
                      | None \<Rightarrow> reject_out_of_contract w s ''deployer'' ''no contract tools report'' worker_text))))"

section \<open>Submission: preconditions and envelope\<close>

definition decided_text :: "decision option \<Rightarrow> string" where
  "decided_text c =
     (case c of None \<Rightarrow> ''None'' | Some d \<Rightarrow> (case decided d of Confirm \<Rightarrow> ''confirm'' | Decline \<Rightarrow> ''decline''))"

definition is_confirmed :: "decision option \<Rightarrow> bool" where
  "is_confirmed c = (case c of None \<Rightarrow> False | Some d \<Rightarrow> decided d = Confirm)"

text \<open>The checked intent of the stored text, or the reason the submission is refused.\<close>

definition submission_intent :: "world \<Rightarrow> gstate \<Rightarrow> string + json" where
  "submission_intent w s =
     (if workflow_status s \<noteq> APPROVED then
        Inl (''submission precondition failed: workflow_status is '' @ squote @ status_value (workflow_status s)
          @ squote @ '', not APPROVED '' @ emdash @ '' nothing can be submitted'')
      else if \<not> is_confirmed (confirmation_2 s) then
        Inl (''submission precondition failed: confirmation_2.decided is '' @ squote
          @ decided_text (confirmation_2 s) @ squote @ '', not '' @ squote @ ''confirm'' @ squote @ '' ''
          @ emdash @ '' nothing can be submitted'')
      else
        (case set_text (allocated_resources s) of
           None \<Rightarrow> Inl ''submission precondition failed: no allocated normalized intent to submit''
         | Some t \<Rightarrow>
             (let bad = (\<lambda>r. Inl (''submission precondition failed: the allocated intent is not a valid normalized service intent ('' @ r @ '')''))
              in case loads t of
                   None \<Rightarrow> bad (json_error w t)
                 | Some j \<Rightarrow>
                     (case is_obj_then (validate_intent (pyd w)) j of
                        Inl es \<Rightarrow> bad (format_validation_error (pyd w) es)
                      | Inr n \<Rightarrow> Inr j))))"

definition submit_envelope :: "world \<Rightarrow> gstate \<Rightarrow> json \<Rightarrow> json" where
  "submit_envelope w s intent =
     JObj [(''action'', JStr ''submit''), (''intent'', intent),
       (''context'', JObj [(''correlationId'', JStr (corr w s)), (''threadId'', JStr (thread_id w)),
          (''principal'', JStr (or_operator (principal s)))])]"

section \<open>The deployer's report\<close>

definition describe_observation :: "dict \<Rightarrow> string" where
  "describe_observation ob =
     (let detail = strip (str_or_empty (dget ob ''detail'')); suffix = unverified_suffix (dget ob ''unverified'')
      in or_text (dget ob ''resource'') ''resource''
         @ (if detail \<noteq> [] then '' ('' @ detail @ suffix @ '')''
            else if suffix \<noteq> [] then '' ('' @ dropWhile (\<lambda>c. c \<in> set ''; '') suffix @ '')'' else []))"

definition describe_convergence :: "dict list \<Rightarrow> string" where
  "describe_convergence obs =
     (if obs = [] then ''no resource named'' else join '', '' (map describe_observation obs))"

definition validate_ref :: "lax \<Rightarrow> dict \<Rightarrow> resource_ref checked" where
  "validate_ref L d =
     (let a = field_req nonempty_str ''apiVersion'' d;
          k = field_req nonempty_str ''kind'' d;
          n = field_req nonempty_str ''namespace'' d;
          m = field_req nonempty_str ''name'' d;
          u = field_def (nullable is_str) None ''uid'' d;
          r = field_def (nullable (is_bool L)) None ''ready'' d;
          es = errs a @ errs k @ errs n @ errs m @ errs u @ errs r
                 @ extras [''apiVersion'', ''kind'', ''namespace'', ''name'', ''uid'', ''ready''] d
      in if es \<noteq> [] then Inl es
         else Inr \<lparr>r_apiVersion = ok a, r_kind = ok k, r_namespace = ok n, r_name = ok m,
                   r_uid = ok u, r_ready = ok r\<rparr>)"

definition bool_json :: "bool option \<Rightarrow> json" where
  "bool_json b = (case b of None \<Rightarrow> JNull | Some x \<Rightarrow> JBool x)"

definition dump_ref :: "resource_ref \<Rightarrow> json" where
  "dump_ref r = JObj [(''apiVersion'', JStr (r_apiVersion r)), (''kind'', JStr (r_kind r)),
     (''namespace'', JStr (r_namespace r)), (''name'', JStr (r_name r)),
     (''uid'', str_json (r_uid r)), (''ready'', bool_json (r_ready r))]"

fun validate_refs :: "lax \<Rightarrow> json list \<Rightarrow> resource_ref list checked" where
  "validate_refs L [] = Inr []"
| "validate_refs L (j # js) =
     bind_res (is_obj_then (validate_ref L) j) (\<lambda>r. map_res (Cons r) (validate_refs L js))"

definition ref_name :: "resource_ref \<Rightarrow> string" where
  "ref_name r = r_kind r @ ''/'' @ r_name r"

text \<open>Iterating a JSON value: lists, the keys of an object, the characters of a text.\<close>

fun json_iter :: "json \<Rightarrow> json list option" where
  "json_iter (JArr xs) = Some xs"
| "json_iter (JObj d) = Some (map (\<lambda>(k, v). JStr k) d)"
| "json_iter (JStr s) = Some (map (\<lambda>_. JStr []) (code_points s))"
| "json_iter j = None"

definition cid_suffix :: "string \<Rightarrow> string" where
  "cid_suffix cid = '' (correlation id: '' @ cid @ '')''"

definition failure_text :: "dict \<Rightarrow> string \<Rightarrow> string \<Rightarrow> string \<Rightarrow> string result" where
  "failure_text f phase detail cid =
     (let rb = dget f ''rolledBack''; sv = dget f ''survivors'' in
      case (if truthy rb then json_iter rb else Some [], if truthy sv then json_iter sv else Some []) of
        (Some rolled, Some surv) \<Rightarrow>
          Ok (redact_model_response
               (''The deployment failed during the '' @ phase @ '' phase''
                @ (if truthy (dget f ''resource'') then '' ('' @ jstr (dget f ''resource'') @ '')'' else [])
                @ '': '' @ detail @ ''. Nothing is reported as submitted.''
                @ (if rolled \<noteq> [] then '' '' @ str_nat (length rolled) @ '' resource(s) were rolled back.'' else [])
                @ (if surv \<noteq> []
                   then '' Resources that could not be deleted (rollback survivors): ''
                     @ join '', '' (map (\<lambda>r. jstr (dget (obj_of r) ''kind'') @ ''/'' @ jstr (dget (obj_of r) ''name''))
                                    (filter is_obj surv)) @ ''.''
                   else [])
                @ cid_suffix cid))
      | _ \<Rightarrow> Crash ''TypeError: object is not iterable'')"

definition on_failure_report :: "world \<Rightarrow> gstate \<Rightarrow> dict \<Rightarrow> outcome" where
  "on_failure_report w s f =
     (let phase = or_text (dget f ''phase'') ''transaction'';
          detail = or_text (dget f ''message'') ''deployment transaction failed''
      in ((case failure_text f phase detail (corr w s) of
             Crash e \<Rightarrow> Crash e
           | Ok t \<Rightarrow> Ok (say t (failed_with (''deployer transaction failure during '' @ phase @ '': '' @ detail)
                              DEFAULT_SUGGESTION s))),
          [audit w s A_refuse [] (''deployer reported transaction failure during '' @ phase @ '': '' @ detail)]))"

definition obs_with :: "string \<Rightarrow> json list \<Rightarrow> dict list" where
  "obs_with o' cs = map obj_of (filter (\<lambda>c. is_obj c \<and> dget (obj_of c) ''outcome'' = JStr o') cs)"

definition carried :: "world \<Rightarrow> resource_ref list \<Rightarrow> json list \<Rightarrow> gstate \<Rightarrow> gstate" where
  "carried w refs cs s =
     s\<lparr>next_node := END, submitted_resources := Some (canonical_json (JArr (map dump_ref refs))),
       submitted_correlation_id := Some (corr w s), convergence := Some (canonical_json (JArr cs))\<rparr>"

definition NOT_ROLLED_BACK :: string where
  "NOT_ROLLED_BACK = ''Inspect the resource's Ready condition, correct the intent, and submit a fresh request; the submitted objects were not rolled back.''"

definition submission_outcome :: "world \<Rightarrow> gstate \<Rightarrow> resource_ref list \<Rightarrow> json list \<Rightarrow> gstate" where
  "submission_outcome w s refs cs =
     (let base = carried w refs cs s;
          names = join '', '' (map ref_name refs);
          failed = obs_with ''failed'' cs; timed = obs_with ''timeout'' cs; rdy = obs_with ''ready'' cs
      in if failed \<noteq> [] then
           say (redact_model_response (''Deployment failed. '' @ names @ '' was submitted, but it did not converge: ''
                  @ describe_convergence failed @ ''. The submitted objects remain on the cluster '' @ emdash
                  @ '' nothing was rolled back, because the apply itself succeeded.'' @ cid_suffix (corr w s)))
             (base\<lparr>workflow_status := FAILED,
                refusal_reason := Some (''deployer submitted '' @ names @ '' but convergence failed: ''
                  @ describe_convergence failed),
                suggestion := Some NOT_ROLLED_BACK\<rparr>)
         else if rdy \<noteq> [] \<and> timed = [] then
           say (redact_model_response (''Deployed. '' @ str_nat (length rdy)
                  @ '' resource(s) reached Ready on the fabric: '' @ describe_convergence rdy @ ''.''
                  @ cid_suffix (corr w s)))
             (base\<lparr>workflow_status := COMPLETED, awaiting_confirmation := False, pending_action := None\<rparr>)
         else if timed \<noteq> [] then
           say (redact_model_response (''Submitted '' @ names @ '', still converging when the deployer's watch bound expired: ''
                  @ describe_convergence timed @ ''. Nothing failed '' @ emdash @ '' ask '' @ dquote
                  @ ''what is the status of the deployment?'' @ dquote
                  @ '' on this thread and I will resolve the current condition from the cluster.'' @ cid_suffix (corr w s)))
             (base\<lparr>workflow_status := PROVISIONING\<rparr>)
         else
           say (''Submission report received: '' @ names
                  @ ''. No convergence observation was reported, so the outcome is not yet known '' @ emdash
                  @ '' ask for the status of the deployment to resolve it.'' @ cid_suffix (corr w s))
             (base\<lparr>workflow_status := PROVISIONING\<rparr>))"

definition with_corr :: "world \<Rightarrow> gstate \<Rightarrow> gstate" where
  "with_corr w s = s\<lparr>correlation_id := corr w s\<rparr>"

text \<open>
  The node reads its own copy of the state with the correlation id filled in; the update it
  returns does not carry it.
\<close>

definition reject_deployer :: "world \<Rightarrow> gstate \<Rightarrow> string \<Rightarrow> string \<Rightarrow> outcome" where
  "reject_deployer w s err worker_text =
     map_outcome (\<lambda>t. t\<lparr>correlation_id := correlation_id s\<rparr>)
       (reject_out_of_contract w (with_corr w s) ''deployer'' err worker_text)"

definition on_report :: "world \<Rightarrow> gstate \<Rightarrow> dict option \<Rightarrow> string \<Rightarrow> outcome" where
  "on_report w s payload worker_text =
     (case payload of
        None \<Rightarrow> reject_deployer w s
          ''no contract submission report (expected {submitted: [ResourceRef...]}); nothing was submitted'' worker_text
      | Some d \<Rightarrow>
          (case dget d ''failed'' of
             JObj f \<Rightarrow> on_failure_report w s f
           | _ \<Rightarrow>
               (case dget d ''submitted'' of
                  JArr items \<Rightarrow>
                    (case validate_refs (pyd w) items of
                       Inl es \<Rightarrow> reject_deployer w s
                         (''submission report resources invalid: '' @ format_validation_error (pyd w) es) worker_text
                     | Inr refs \<Rightarrow>
                         (Ok (submission_outcome w s refs (arr_of (dget d ''convergence''))),
                          [audit w s A_submit refs ''deployer submission report'']))
                | _ \<Rightarrow> reject_deployer w s
                    ''no contract submission report (expected {submitted: [ResourceRef...]}); nothing was submitted'' worker_text)))"

definition UNAVAILABLE_DEPLOYER :: string where
  "UNAVAILABLE_DEPLOYER = ''The deployer worker is currently unavailable; nothing was submitted. Please confirm again to retry '' @ emdash @ '' your thread is kept.''"

definition submit_path :: "world \<Rightarrow> gstate \<Rightarrow> outcome" where
  "submit_path w s =
     (case submission_intent w s of
        Inl reason \<Rightarrow> refuse w s reason DEFAULT_SUGGESTION ''deployer''
      | Inr j \<Rightarrow>
          (let fenced = wrap_worker_text (redact_prompt (canonical_json (submit_envelope w s j))) (nonce w)
           in prepend [Call_deployer fenced]
                (case deployer w fenced of
                   Unreachable _ \<Rightarrow> (Ok (say UNAVAILABLE_DEPLOYER (s\<lparr>next_node := END\<rparr>)), [])
                 | Reply r \<Rightarrow>
                     (case extract_payload_and_text r ''SUBMISSION_JSON'' ''deployer'' of
                        Inl e \<Rightarrow> (Crash e, [])
                      | Inr (payload, worker_text) \<Rightarrow> on_report w s payload worker_text))))"

definition deployer_node :: "world \<Rightarrow> gstate \<Rightarrow> outcome" where
  "deployer_node w s =
     (case tool_action s of Some t \<Rightarrow> tools_path w s t | None \<Rightarrow> submit_path w s)"

end
