(* ===== verification/Sup_Graph.thy ===== *)
theory Sup_Graph
  imports Sup_Deploy
begin

text \<open>
  The compiled graph of src/agents/supervisors/provisioning/graph/graph.py (\<open>build_graph\<close>): its
  nodes, its edges, and a run from the entry node to END. LangGraph stops a run after 25 nodes
  (\<open>None\<close>); the worlds of the successive nodes of a run may differ, so time passes and a worker
  may answer differently when it is called again. A turn is a run on the checkpointed state of the
  thread with the request of main.py merged in.
\<close>

fun run_node :: "node \<Rightarrow> world \<Rightarrow> gstate \<Rightarrow> outcome" where
  "run_node SUPERVISOR w s = supervisor_node w s"
| "run_node MAPPER w s = mapper_node w s"
| "run_node ALLOCATOR w s = allocator_node w s"
| "run_node DEPLOYER w s = deployer_node w s"
| "run_node REFLECTION w s = reflection_node w s"
| "run_node GENERAL_INFO w s = general_response_node w s"
| "run_node END w s = (Ok s, [])"

definition failed_or_reflection :: "gstate \<Rightarrow> node" where
  "failed_or_reflection s = (if workflow_status s = FAILED then END else REFLECTION)"

text \<open>The conditional edges; \<open>None\<close> is a \<open>next_node\<close> the edge's map does not hold.\<close>

definition pick :: "node set \<Rightarrow> node \<Rightarrow> node option" where
  "pick ns n = (if n \<in> ns then Some n else None)"

fun edge :: "node \<Rightarrow> gstate \<Rightarrow> node option" where
  "edge SUPERVISOR s = pick {MAPPER, ALLOCATOR, DEPLOYER, GENERAL_INFO, END} (next_node s)"
| "edge MAPPER s = Some (failed_or_reflection s)"
| "edge ALLOCATOR s = Some (failed_or_reflection s)"
| "edge DEPLOYER s = pick {REFLECTION, END} (next_node s)"
| "edge REFLECTION s = pick {SUPERVISOR, END} (next_node s)"
| "edge GENERAL_INFO s = Some END"
| "edge END s = Some END"

fun run_graph :: "(nat \<Rightarrow> world) \<Rightarrow> nat \<Rightarrow> node \<Rightarrow> gstate \<Rightarrow> outcome option" where
  "run_graph W n END s = Some (Ok s, [])"
| "run_graph W 0 nd s = None"
| "run_graph W (Suc n) nd s =
     (case run_node nd (W n) s of
        (Crash e, ev) \<Rightarrow> Some (Crash e, ev)
      | (Ok t, ev) \<Rightarrow>
          (case edge nd t of
             None \<Rightarrow> Some (Crash ''KeyError'', ev)
           | Some nd' \<Rightarrow> map_option (prepend ev) (run_graph W n nd' t)))"

definition RECURSION_LIMIT :: nat where "RECURSION_LIMIT = 25"

text \<open>
  One request on a thread (main.py): the seed is merged into the checkpointed state, the prompt
  through the message reducer.
\<close>

record request =
  rq_prompt :: string
  rq_correlation_id :: string
  rq_principal :: string
  rq_deadline :: string

definition seed :: "request \<Rightarrow> gstate \<Rightarrow> gstate" where
  "seed rq s =
     add_messages [Human (rq_prompt rq)]
       (s\<lparr>correlation_id := rq_correlation_id rq, principal := rq_principal rq,
          workflow_status := RECEIVED_REQUEST, deadline := rq_deadline rq\<rparr>)"

definition turn :: "(nat \<Rightarrow> world) \<Rightarrow> request \<Rightarrow> gstate \<Rightarrow> outcome option" where
  "turn W rq s = run_graph W RECURSION_LIMIT SUPERVISOR (seed rq s)"

definition new_thread :: gstate where
  "new_thread = \<lparr>messages = [], next_node = END, iteration_count = 0, awaiting_confirmation = False,
     mapped_parameters = None, allocated_resources = None, st_missing_fields = None,
     pending_action = None, correlation_id = [], workflow_status = RECEIVED_REQUEST,
     claimed_ids = [], deadline = [], principal = ''operator'', confirmation_1 = None,
     confirmation_2 = None, refusal_reason = None, suggestion = None, st_classification = None,
     tool_action = None, tool_request = None, tool_result = None, convergence = None,
     submitted_resources = None, submitted_correlation_id = None\<rparr>"

text \<open>The states of a thread between its turns. A turn that crashed leaves no state here.\<close>

inductive thread_state :: "gstate \<Rightarrow> bool" where
  new: "thread_state new_thread"
| next_turn: "thread_state s \<Longrightarrow> turn W rq s = Some (Ok t, ev) \<Longrightarrow> thread_state t"

section \<open>What a node may change\<close>

named_theorems sup_simps \<open>the record updates the nodes make, as projections\<close>

lemma add_messages_simps [simp]:
  "next_node (add_messages ms s) = next_node s" "workflow_status (add_messages ms s) = workflow_status s"
  "awaiting_confirmation (add_messages ms s) = awaiting_confirmation s"
  "pending_action (add_messages ms s) = pending_action s"
  "iteration_count (add_messages ms s) = iteration_count s"
  "tool_action (add_messages ms s) = tool_action s"
  "confirmation_1 (add_messages ms s) = confirmation_1 s"
  "confirmation_2 (add_messages ms s) = confirmation_2 s"
  "correlation_id (add_messages ms s) = correlation_id s"
  "mapped_parameters (add_messages ms s) = mapped_parameters s"
  "allocated_resources (add_messages ms s) = allocated_resources s"
  "submitted_resources (add_messages ms s) = submitted_resources s"
  "submitted_correlation_id (add_messages ms s) = submitted_correlation_id s"
  "deadline (add_messages ms s) = deadline s"
  by (simp_all add: add_messages_def)

lemma say_simps [simp]:
  "next_node (say t s) = next_node s" "workflow_status (say t s) = workflow_status s"
  "awaiting_confirmation (say t s) = awaiting_confirmation s"
  "pending_action (say t s) = pending_action s" "iteration_count (say t s) = iteration_count s"
  "tool_action (say t s) = tool_action s" "confirmation_1 (say t s) = confirmation_1 s"
  "confirmation_2 (say t s) = confirmation_2 s" "correlation_id (say t s) = correlation_id s"
  "mapped_parameters (say t s) = mapped_parameters s"
  "allocated_resources (say t s) = allocated_resources s"
  "submitted_resources (say t s) = submitted_resources s"
  "submitted_correlation_id (say t s) = submitted_correlation_id s"
  "deadline (say t s) = deadline s"
  by (simp_all add: say_def)

lemma failed_with_simps [simp]:
  "next_node (failed_with r g s) = END" "workflow_status (failed_with r g s) = FAILED"
  "awaiting_confirmation (failed_with r g s) = False" "pending_action (failed_with r g s) = None"
  "iteration_count (failed_with r g s) = iteration_count s"
  "tool_action (failed_with r g s) = tool_action s"
  "confirmation_1 (failed_with r g s) = confirmation_1 s"
  "confirmation_2 (failed_with r g s) = confirmation_2 s"
  "mapped_parameters (failed_with r g s) = mapped_parameters s"
  "allocated_resources (failed_with r g s) = allocated_resources s"
  by (simp_all add: failed_with_def)

text \<open>
  Outcomes by what holds of the state they end in (when they do not crash) and of every event.
\<close>

definition post :: "outcome \<Rightarrow> (gstate \<Rightarrow> bool) \<Rightarrow> (event \<Rightarrow> bool) \<Rightarrow> bool" where
  "post o' P E \<longleftrightarrow> (\<forall>t. fst o' = Ok t \<longrightarrow> P t) \<and> (\<forall>e \<in> set (snd o'). E e)"

lemma post_Ok [simp]: "post (Ok t, ev) P E \<longleftrightarrow> P t \<and> (\<forall>e \<in> set ev. E e)"
  by (simp add: post_def)

lemma post_Crash [simp]: "post (Crash e, ev) P E \<longleftrightarrow> (\<forall>e \<in> set ev. E e)"
  by (simp add: post_def)

lemma post_prepend [simp]: "post (prepend ev o') P E \<longleftrightarrow> (\<forall>e \<in> set ev. E e) \<and> post o' P E"
  by (auto simp: post_def prepend_def)

lemma post_map_outcome: "post (map_outcome f o') P E \<longleftrightarrow> post o' (\<lambda>t. P (f t)) E"
  by (cases o' rule: prod.exhaust; cases "fst o'") (auto simp: post_def map_outcome_def)

lemma post_refuse [simp]:
  "post (refuse w s r g st) P E \<longleftrightarrow>
     P (say (build_refusal_message r g (correlation_id s)) (failed_with r g s))
     \<and> E (audit w s A_refuse [] (st @ '': '' @ r))"
  by (simp add: refuse_def)

lemma post_bounded_exit:
  "post (bounded_exit w s why) P E \<longleftrightarrow>
     P (say (''This request hit its bound ('' @ why @ '') and was stopped without further action. Please rephrase and resend. (correlation id: '' @ correlation_id s @ '')'')
         (failed_with (''request bound reached ('' @ why @ ''); no further action taken'') DEFAULT_SUGGESTION s))
     \<and> E (audit w s A_refuse [] (''request bound reached ('' @ why @ ''); no further action taken''))"
  by (simp add: bounded_exit_def Let_def)

end
