(* ===== verification/Sup_Facts.thy ===== *)
theory Sup_Facts
  imports Sup_Graph
begin

text \<open>
  The facts of the supervisor graph: what each node can do to the fields that guard a submission,
  that a submission needs both confirmations, that removal needs its own, that every run ends
  within the bound of LangGraph, and that a refusal ends it.
\<close>


text \<open>The events of a submission: the call that asks for it and the audit record of its report.\<close>

fun is_submit :: "event \<Rightarrow> bool" where
  "is_submit (Audit A_submit c t p rs r) = True"
| "is_submit (Call_deployer x) = True"
| "is_submit e = False"

lemma is_submit_audit [simp]: "is_submit (audit w s k rs r) \<longleftrightarrow> k = A_submit"
  by (cases k) (simp_all add: audit_def)

definition cannot_submit :: "node \<Rightarrow> gstate \<Rightarrow> bool" where
  "cannot_submit nd s \<longleftrightarrow> workflow_status s \<noteq> APPROVED
     \<and> (nd = SUPERVISOR \<longrightarrow> \<not> (awaiting_confirmation s \<and> pending_action s = Some Confirm_2))"

lemma classify_post:
  "(\<And>c. P (to_general c s)) \<Longrightarrow> (\<And>c t. P (say t (to_general c s))) \<Longrightarrow> P (start_provisioning s)
   \<Longrightarrow> P (model_down w s) \<Longrightarrow> (\<And>t r g. P (say t (failed_with r g s))) \<Longrightarrow> (\<And>t. E (Ask_model t))
   \<Longrightarrow> (\<And>r. E (audit w s A_refuse [] r)) \<Longrightarrow> post (classify_and_route w s u) P E"
  by (auto simp: classify_and_route_def Let_def refuse_def split: option.splits classification.splits)

lemma start_simps [simp]:
  "next_node (start_provisioning s) = MAPPER" "workflow_status (start_provisioning s) = RECEIVED_REQUEST"
  "awaiting_confirmation (start_provisioning s) = False" "pending_action (start_provisioning s) = None"
  "iteration_count (start_provisioning s) = iteration_count s" "tool_action (start_provisioning s) = None"
  "confirmation_1 (start_provisioning s) = None" "confirmation_2 (start_provisioning s) = None"
  by (simp_all add: start_provisioning_def)

lemma model_down_simps [simp]:
  "next_node (model_down w s) = END" "workflow_status (model_down w s) = FAILED"
  "awaiting_confirmation (model_down w s) = awaiting_confirmation s"
  "pending_action (model_down w s) = pending_action s" "tool_action (model_down w s) = tool_action s"
  "iteration_count (model_down w s) = iteration_count s"
  by (simp_all add: model_down_def Let_def)

lemma to_general_simps [simp]:
  "next_node (to_general c s) = GENERAL_INFO" "workflow_status (to_general c s) = workflow_status s"
  "awaiting_confirmation (to_general c s) = awaiting_confirmation s"
  "pending_action (to_general c s) = pending_action s" "tool_action (to_general c s) = tool_action s"
  "iteration_count (to_general c s) = iteration_count s"
  by (simp_all add: to_general_def)

lemma tools_simps [simp]:
  "next_node (to_tools t q s) = DEPLOYER" "workflow_status (to_tools t q s) = workflow_status s"
  "tool_action (to_tools t q s) = Some t"
  "next_node (ask_remove q s) = END" "workflow_status (ask_remove q s) = workflow_status s"
  "pending_action (ask_remove q s) = Some Confirm_remove" "tool_action (ask_remove q s) = Some Remove_tool"
  "next_node (clear_pending s) = next_node s" "workflow_status (clear_pending s) = workflow_status s"
  "pending_action (clear_pending s) = None" "awaiting_confirmation (clear_pending s) = False"
  "tool_action (clear_pending s) = tool_action s"
  by (simp_all add: to_tools_def ask_remove_def clear_pending_def)

lemma fresh_request_post:
  "(\<And>c. P (to_general c s)) \<Longrightarrow> (\<And>c t. P (say t (to_general c s))) \<Longrightarrow> P (start_provisioning s)
   \<Longrightarrow> P (model_down w s) \<Longrightarrow> (\<And>t r g. P (say t (failed_with r g s))) \<Longrightarrow> (\<And>t. E (Ask_model t))
   \<Longrightarrow> (\<And>r. E (audit w s A_refuse [] r)) \<Longrightarrow> post (fresh_request w s u) P E"
  by (auto simp: fresh_request_def refuse_def intro!: classify_post split: option.splits)

definition confirms_second :: "gstate \<Rightarrow> bool" where
  "confirms_second s \<longleftrightarrow> awaiting_confirmation s \<and> pending_action s = Some Confirm_2
     \<and> (\<exists>u. last_human s = Some u \<and> says_confirm (strip (lower u)))"

lemma user_command_cases:
  "user_command s u = Some t \<Longrightarrow> (\<exists>q. t = to_tools Status_tool q s) \<or> (\<exists>q. t = ask_remove q s)"
  by (auto simp: user_command_def Let_def split: option.splits)

lemma on_request_post:
  assumes "\<And>p. awaiting_confirmation s \<Longrightarrow> pending_action s = Some p \<Longrightarrow> p \<noteq> Clarify
       \<Longrightarrow> post (on_confirmation w s (strip (lower u)) p) P E"
    "awaiting_confirmation s \<Longrightarrow> pending_action s = Some Clarify
       \<Longrightarrow> post (classify_and_route w s u) (\<lambda>t. P (clear_pending t)) E"
    "\<not> (awaiting_confirmation s \<and> pending_action s \<noteq> None) \<Longrightarrow> post (fresh_request w s u) P E"
  shows "post (on_request w s u) P E"
proof (cases "awaiting_confirmation s \<and> pending_action s \<noteq> None")
  case True
  then obtain p where p: "awaiting_confirmation s" "pending_action s = Some p" by auto
  with assms(1) [OF p] assms(2) show ?thesis
    by (cases p) (simp_all add: on_request_def post_map_outcome)
next
  case False
  with assms(3) show ?thesis by (auto simp: on_request_def)
qed

lemma handle_user_post:
  assumes "\<And>q. P (to_tools Status_tool q s)" "\<And>q. P (ask_remove q s)"
    "\<And>t r g. P (say t (failed_with r g s))" "\<And>r. E (audit w s A_refuse [] r)"
    "user_command s u = None \<Longrightarrow> post (on_request w s u) P E"
  shows "post (handle_user w s u) P E"
proof (cases "user_command s u")
  case None
  with assms show ?thesis by (simp add: handle_user_def)
next
  case (Some t)
  with user_command_cases [OF Some] assms show ?thesis by (auto simp: handle_user_def)
qed

lemma supervisor_post:
  assumes "\<And>t r g. P (say t (failed_with r g s))" "\<And>r. E (audit w s A_refuse [] r)"
    "P (s\<lparr>next_node := GENERAL_INFO\<rparr>)"
    "\<And>u. last_human s = Some u \<Longrightarrow> post (handle_user w s u) P E"
  shows "post (supervisor_node w s) P E"
  using assms
  by (auto simp: supervisor_node_def post_bounded_exit split: result.splits bool.splits option.splits)

lemma on_confirmation_post:
  assumes "says_confirm l \<Longrightarrow> post (on_confirm w s p) P E"
    "\<not> says_confirm l \<Longrightarrow> says_decline l \<Longrightarrow> post (on_decline w s p) P E"
    "\<not> says_confirm l \<Longrightarrow> \<not> says_decline l \<Longrightarrow> post (re_ask s) P E"
  shows "post (on_confirmation w s l p) P E"
  using assms by (simp add: on_confirmation_def)

lemma supervisor_confirms:
  assumes "workflow_status s \<noteq> APPROVED"
  shows "post (supervisor_node w s)
     (\<lambda>t. workflow_status t \<noteq> APPROVED
        \<or> confirms_second s \<and> next_node t = DEPLOYER \<and> allocated_resources t = allocated_resources s
          \<and> tool_action t = tool_action s)
     (\<lambda>e. \<not> is_submit e)"
proof (rule supervisor_post)
  fix u assume u: "last_human s = Some u"
  let ?P = "\<lambda>t. workflow_status t \<noteq> APPROVED
        \<or> confirms_second s \<and> next_node t = DEPLOYER \<and> allocated_resources t = allocated_resources s
          \<and> tool_action t = tool_action s"
  have r: "post (on_request w s u) ?P (\<lambda>e. \<not> is_submit e)"
  proof (rule on_request_post)
    fix p assume p: "awaiting_confirmation s" "pending_action s = Some p" "p \<noteq> Clarify"
    show "post (on_confirmation w s (strip (lower u)) p) ?P (\<lambda>e. \<not> is_submit e)"
    proof (rule on_confirmation_post)
      assume "says_confirm (strip (lower u))"
      with p u show "post (on_confirm w s p) ?P (\<lambda>e. \<not> is_submit e)"
        using assms by (cases p) (auto simp: on_confirm_def Let_def clear_pending_def confirms_second_def)
    qed (use assms in \<open>auto simp: on_decline_def re_ask_def Let_def\<close>)
  qed (use assms in \<open>auto intro!: classify_post fresh_request_post\<close>)
  show "post (handle_user w s u) ?P (\<lambda>e. \<not> is_submit e)"
    by (rule handle_user_post) (use assms r in auto)
qed (use assms in auto)

section \<open>Submission\<close>

lemma clarify_simps [simp]:
  "workflow_status (clarify w s i) = MAPPED" "next_node (clarify w s i) = END"
  "pending_action (clarify w s i) = Some Clarify" "tool_action (clarify w s i) = tool_action s"
  "workflow_status (mapped s i t) = MAPPED" "next_node (mapped s i t) = REFLECTION"
  "pending_action (mapped s i t) = Some Confirm_1" "tool_action (mapped s i t) = tool_action s"
  "workflow_status (allocated s n t) = ALLOCATED" "next_node (allocated s n t) = REFLECTION"
  "pending_action (allocated s n t) = Some Confirm_2" "tool_action (allocated s n t) = tool_action s"
  "confirmation_1 (allocated s n t) = confirmation_1 s"
  "iteration_count (allocated s n t) = iteration_count s" "iteration_count (mapped s i t) = iteration_count s"
  "iteration_count (clarify w s i) = iteration_count s"
  by (simp_all add: clarify_def mapped_def allocated_def)

lemma reject_post:
  "(\<And>t r. P (say t (failed_with r DEFAULT_SUGGESTION s))) \<Longrightarrow> (\<And>r. E (audit w s A_refuse [] r))
   \<Longrightarrow> post (reject_out_of_contract w s stg err wt) P E"
  by (simp add: reject_out_of_contract_def Let_def)

lemma call_mapper_post:
  "(\<And>t. P (say t (s\<lparr>next_node := END\<rparr>))) \<Longrightarrow> (\<And>i. P (clarify w s i)) \<Longrightarrow> (\<And>i t. P (mapped s i t))
   \<Longrightarrow> (\<And>t r g. P (say t (failed_with r g s))) \<Longrightarrow> (\<And>t. E (Call_mapper t)) \<Longrightarrow> E Read_capability
   \<Longrightarrow> (\<And>r. E (audit w s A_refuse [] r)) \<Longrightarrow> post (call_mapper w s u c) P E"
  by (auto simp: call_mapper_def Let_def on_interpretation_def intro!: reject_post
      split: reply.splits sum.splits option.splits)

lemma mapper_post:
  "(\<And>t. P (say t (s\<lparr>next_node := END\<rparr>))) \<Longrightarrow> (\<And>i. P (clarify w s i)) \<Longrightarrow> (\<And>i t. P (mapped s i t))
   \<Longrightarrow> (\<And>t r g. P (say t (failed_with r g s))) \<Longrightarrow> (\<And>t. E (Call_mapper t)) \<Longrightarrow> E Read_capability
   \<Longrightarrow> (\<And>r. E (audit w s A_refuse [] r)) \<Longrightarrow> post (mapper_node w s) P E"
  by (auto simp: mapper_node_def intro!: reject_post call_mapper_post split: option.splits)

lemma allocator_post:
  "(\<And>t. P (say t (s\<lparr>next_node := END\<rparr>))) \<Longrightarrow> (\<And>n t. P (allocated s n t))
   \<Longrightarrow> (\<And>t r g. P (say t (failed_with r g s))) \<Longrightarrow> (\<And>t. E (Call_allocator t))
   \<Longrightarrow> (\<And>r. E (audit w s A_refuse [] r)) \<Longrightarrow> post (allocator_node w s) P E"
  by (auto simp: allocator_node_def Let_def intro!: reject_post
      split: reply.splits sum.splits option.splits)

lemma reflection_post:
  "(\<And>t. P (say t (s\<lparr>next_node := END\<rparr>))) \<Longrightarrow> P (s\<lparr>next_node := END\<rparr>)
   \<Longrightarrow> (\<And>t r g. P (say t (failed_with r g s)))
   \<Longrightarrow> (\<not> (awaiting_confirmation s \<and> pending_action s \<in> {Some Confirm_1, Some Confirm_2, Some Clarify})
        \<Longrightarrow> iteration_count s < MAX_ITERATIONS
        \<Longrightarrow> P (s\<lparr>next_node := SUPERVISOR, iteration_count := iteration_count s + 1\<rparr>))
   \<Longrightarrow> (\<And>r. E (audit w s A_refuse [] r)) \<Longrightarrow> post (reflection_node w s) P E"
  by (auto simp: reflection_node_def post_bounded_exit split: result.splits bool.splits)

lemma tools_post:
  "(\<And>t. P (say t (s\<lparr>next_node := END\<rparr>))) \<Longrightarrow> (\<And>d x. P (tools_report s t d x))
   \<Longrightarrow> (\<And>t r g. P (say t (failed_with r g s))) \<Longrightarrow> (\<And>x. E (Call_tools t x))
   \<Longrightarrow> (\<And>r. E (audit w s A_refuse [] r)) \<Longrightarrow> post (tools_path w s t) P E"
  by (auto simp: tools_path_def Let_def intro!: reject_post split: reply.splits sum.splits option.splits)

lemma submission_intent_Inr:
  "submission_intent w s = Inr j \<longleftrightarrow> workflow_status s = APPROVED \<and> is_confirmed (confirmation_2 s)
     \<and> (\<exists>t n. set_text (allocated_resources s) = Some t \<and> loads t = Some j
          \<and> is_obj_then (validate_intent (pyd w)) j = Inr n)"
  by (auto simp: submission_intent_def Let_def split: option.splits sum.splits)

lemma deployer_not_approved:
  "workflow_status s \<noteq> APPROVED \<Longrightarrow>
     post (deployer_node w s) (\<lambda>t. True) (\<lambda>e. \<not> is_submit e)"
proof -
  assume a: "workflow_status s \<noteq> APPROVED"
  then have "\<exists>r. submission_intent w s = Inl r" by (simp add: submission_intent_def)
  then show ?thesis
    by (auto simp: deployer_node_def submit_path_def intro!: tools_post split: option.splits)
qed

lemma tools_report_next [simp]: "next_node (tools_report s t d x) = END"
  by (auto simp: tools_report_def Let_def resolve_status_def split: tool.splits json.splits option.splits status.splits)

lemma carried_next [simp]: "next_node (carried w r c s) = END"
  by (simp add: carried_def)

lemma submission_outcome_next [simp]: "next_node (submission_outcome w s refs cs) = END"
  by (simp add: submission_outcome_def Let_def)

lemma reject_deployer_post:
  "(\<And>t r c. P (say t (failed_with r DEFAULT_SUGGESTION (s\<lparr>correlation_id := c\<rparr>))\<lparr>correlation_id := correlation_id s\<rparr>))
   \<Longrightarrow> (\<And>r. E (audit w (with_corr w s) A_refuse [] r))
   \<Longrightarrow> post (reject_deployer w s err wt) P E"
  by (auto simp: reject_deployer_def post_map_outcome with_corr_def intro!: reject_post)

lemma submit_path_end: "post (submit_path w s) (\<lambda>t. next_node t = END) (\<lambda>_. True)"
  by (auto simp: submit_path_def on_report_def on_failure_report_def Let_def post_def reject_deployer_def
      reject_out_of_contract_def map_outcome_def refuse_def prepend_def
      split: sum.splits reply.splits option.splits json.splits result.splits)

lemma deployer_end: "post (deployer_node w s) (\<lambda>t. next_node t = END) (\<lambda>_. True)"
  using submit_path_end [of w s]
  by (auto simp: deployer_node_def intro!: tools_post split: option.splits)

section \<open>Invariants of a run\<close>

lemma run_graph_Suc:
  "nd \<noteq> END \<Longrightarrow> run_graph W (Suc n) nd s =
     (case run_node nd (W n) s of
        (Crash e, ev) \<Rightarrow> Some (Crash e, ev)
      | (Ok t, ev) \<Rightarrow>
          (case edge nd t of None \<Rightarrow> Some (Crash ''KeyError'', ev)
           | Some nd' \<Rightarrow> map_option (prepend ev) (run_graph W n nd' t)))"
  by (cases nd) auto

lemma run_graph_END [simp]: "run_graph W n END s = Some (Ok s, [])"
  by (cases n) auto

text \<open>
  A property of the node to run and its state that every node keeps along the edges holds at the
  end, and the events are as the nodes allow.
\<close>

lemma run_invariant:
  assumes step: "\<And>nd s w. I nd s \<Longrightarrow> nd \<noteq> END \<Longrightarrow>
      post (run_node nd w s) (\<lambda>t. \<forall>nd'. edge nd t = Some nd' \<longrightarrow> I nd' t) E"
  shows "I nd s \<Longrightarrow> run_graph W n nd s = Some r \<Longrightarrow> post r (I END) E"
proof (induction n arbitrary: nd s r)
  case 0
  then show ?case by (cases nd) auto
next
  case (Suc n)
  show ?case
  proof (cases "nd = END")
    case False
    obtain o1 ev1 where o1: "run_node nd (W n) s = (o1, ev1)" by fastforce
    have p: "post (o1, ev1) (\<lambda>t. \<forall>nd'. edge nd t = Some nd' \<longrightarrow> I nd' t) E"
      using step [OF Suc.prems(1) False, of "W n"] o1 by simp
    show ?thesis
    proof (cases o1)
      case (Ok t)
      show ?thesis
      proof (cases "edge nd t")
        case (Some nd')
        with Suc.prems(2) o1 Ok obtain q where q: "run_graph W n nd' t = Some q" "r = prepend ev1 q"
          by (auto simp: run_graph_Suc [OF False])
        from p Ok Some have "I nd' t" by simp
        from Suc.IH [OF this q(1)] q(2) p Ok show ?thesis by simp
      qed (use Suc.prems o1 Ok p in \<open>auto simp: run_graph_Suc [OF False]\<close>)
    qed (use Suc.prems o1 p in \<open>auto simp: run_graph_Suc [OF False]\<close>)
  qed (use Suc.prems in \<open>auto simp: post_def\<close>)
qed

lemma cannot_submit_step:
  assumes "nd = END \<or> cannot_submit nd s"
  shows "post (run_node nd w s)
     (\<lambda>t. \<forall>nd'. edge nd t = Some nd' \<longrightarrow> nd' = END \<or> cannot_submit nd' t) (\<lambda>e. \<not> is_submit e)"
proof (cases nd)
  case SUPERVISOR
  have "workflow_status s \<noteq> APPROVED" "\<not> confirms_second s"
    using assms SUPERVISOR by (auto simp: cannot_submit_def confirms_second_def)
  with supervisor_confirms [of s w] show ?thesis
    unfolding SUPERVISOR by (auto simp: post_def pick_def cannot_submit_def)
next
  case MAPPER
  with assms show ?thesis by (auto intro!: mapper_post simp: failed_or_reflection_def cannot_submit_def)
next
  case ALLOCATOR
  with assms show ?thesis by (auto intro!: allocator_post simp: failed_or_reflection_def cannot_submit_def)
next
  case DEPLOYER
  have "workflow_status s \<noteq> APPROVED" using assms DEPLOYER by (simp add: cannot_submit_def)
  with deployer_not_approved [of s w] deployer_end [of w s] show ?thesis
    unfolding DEPLOYER by (auto simp: post_def pick_def split: if_splits)
next
  case REFLECTION
  with assms show ?thesis by (auto intro!: reflection_post simp: pick_def cannot_submit_def)
next
  case GENERAL_INFO
  with assms show ?thesis by (simp add: general_response_node_def Let_def)
qed simp

section \<open>The second confirmation\<close>

text \<open>What the checkpointed state holds when a turn submits from it.\<close>

definition submittable :: "gstate \<Rightarrow> bool" where
  "submittable s \<longleftrightarrow> tool_action s = None
     \<and> (\<exists>t j L n. set_text (allocated_resources s) = Some t \<and> loads t = Some j
          \<and> is_obj_then (validate_intent L) j = Inr n)"

lemma deployer_submits: "post (deployer_node w s) (\<lambda>_. True) (\<lambda>e. is_submit e \<longrightarrow> submittable s)"
proof (cases "\<exists>t. tool_action s = Some t")
  case True
  then show ?thesis by (auto simp: deployer_node_def intro!: tools_post)
next
  case False
  then have n: "tool_action s = None" by simp
  show ?thesis
  proof (cases "submission_intent w s")
    case (Inl r)
    then show ?thesis using n by (simp add: deployer_node_def submit_path_def)
  next
    case (Inr j)
    then have "submittable s" using n by (auto simp: submission_intent_Inr submittable_def)
    then show ?thesis by (simp add: post_def)
  qed
qed

lemma submission_run:
  assumes s: "workflow_status s \<noteq> APPROVED" and r: "run_graph W n SUPERVISOR s = Some (r, ev)"
    and e: "e \<in> set ev" "is_submit e"
  shows "confirms_second s \<and> submittable s"
proof -
  define I where "I nd t \<longleftrightarrow> nd = END \<or> (nd = SUPERVISOR \<and> t = s) \<or> cannot_submit nd t
     \<or> confirms_second s \<and> nd = DEPLOYER \<and> allocated_resources t = allocated_resources s
       \<and> tool_action t = tool_action s" for nd t
  define E where "E e \<longleftrightarrow> (is_submit e \<longrightarrow> confirms_second s \<and> submittable s)" for e
  have "post (run_node nd w t) (\<lambda>u. \<forall>nd'. edge nd u = Some nd' \<longrightarrow> I nd' u) E"
    if I: "I nd t" and nE: "nd \<noteq> END" for nd t w
  proof -
    consider "nd = SUPERVISOR" "t = s" | "cannot_submit nd t"
      | "confirms_second s" "nd = DEPLOYER" "allocated_resources t = allocated_resources s"
        "tool_action t = tool_action s"
      using I nE by (auto simp: I_def)
    then show ?thesis
    proof cases
      case 1
      with supervisor_confirms [OF s, of w] show ?thesis
        by (auto simp: post_def I_def E_def pick_def cannot_submit_def)
    next
      case 2
      with cannot_submit_step [of nd t w] show ?thesis by (auto simp: post_def I_def E_def)
    next
      case 3
      then have "submittable t \<longrightarrow> submittable s" by (simp add: submittable_def)
      with 3 deployer_submits [of w t] deployer_end [of w t] show ?thesis
        by (auto simp: post_def I_def E_def pick_def)
    qed
  qed
  from run_invariant [of I E SUPERVISOR s W n "(r, ev)", OF this _ r] have "\<forall>e \<in> set ev. E e"
    by (simp add: I_def post_def)
  with e show ?thesis unfolding E_def by blast
qed

section \<open>Every run ends\<close>

text \<open>Nodes left to run, at most: three per round, and a round per iteration still allowed.\<close>

fun nodes_left :: "node \<Rightarrow> gstate \<Rightarrow> nat" where
  "nodes_left END s = 0"
| "nodes_left SUPERVISOR s = 3 + 3 * (MAX_ITERATIONS - iteration_count s)"
| "nodes_left REFLECTION s = 1 + 3 * (MAX_ITERATIONS - iteration_count s)"
| "nodes_left nd s = 2 + 3 * (MAX_ITERATIONS - iteration_count s)"

lemma iteration_simps [simp]:
  "iteration_count (to_tools t q s) = iteration_count s" "iteration_count (ask_remove q s) = iteration_count s"
  "iteration_count (clear_pending s) = iteration_count s"
  by (simp_all add: to_tools_def ask_remove_def clear_pending_def)

lemma supervisor_keeps_count:
  "post (supervisor_node w s) (\<lambda>t. iteration_count t = iteration_count s) (\<lambda>_. True)"
proof (rule supervisor_post)
  fix u
  have r: "post (on_request w s u) (\<lambda>t. iteration_count t = iteration_count s) (\<lambda>_. True)"
    by (rule on_request_post)
      (auto simp: on_confirm_def on_decline_def re_ask_def Let_def
        intro!: on_confirmation_post classify_post fresh_request_post)
  show "post (handle_user w s u) (\<lambda>t. iteration_count t = iteration_count s) (\<lambda>_. True)"
    by (rule handle_user_post) (use r in auto)
qed auto

lemma node_decreases:
  assumes "nd \<noteq> END"
  shows "post (run_node nd w s)
     (\<lambda>t. \<forall>nd'. edge nd t = Some nd' \<longrightarrow> nodes_left nd' t < nodes_left nd s) (\<lambda>_. True)"
proof (cases nd)
  case SUPERVISOR
  with supervisor_keeps_count [of w s] show ?thesis by (auto simp: post_def pick_def)
next
  case MAPPER
  then show ?thesis by (auto intro!: mapper_post simp: failed_or_reflection_def)
next
  case ALLOCATOR
  then show ?thesis by (auto intro!: allocator_post simp: failed_or_reflection_def)
next
  case DEPLOYER
  with deployer_end [of w s] show ?thesis by (auto simp: post_def pick_def split: if_splits)
next
  case REFLECTION
  then show ?thesis by (auto intro!: reflection_post simp: pick_def)
next
  case GENERAL_INFO
  then show ?thesis by (simp add: general_response_node_def Let_def)
qed (use assms in simp)

lemma run_ends: "nodes_left nd s \<le> n \<Longrightarrow> run_graph W n nd s \<noteq> None"
proof (induction n arbitrary: nd s)
  case 0
  then show ?case by (cases nd) auto
next
  case (Suc n)
  show ?case
  proof (cases "nd = END")
    case False
    obtain o1 ev1 where o1: "run_node nd (W n) s = (o1, ev1)" by fastforce
    have "run_graph W n nd' t \<noteq> None" if "o1 = Ok t" "edge nd t = Some nd'" for t nd'
    proof -
      have "nodes_left nd' t < nodes_left nd s"
        using node_decreases [OF False, of "W n" s] o1 that by (simp add: post_def)
      with Suc.prems show ?thesis by (intro Suc.IH) simp
    qed
    with o1 show ?thesis
      by (auto simp: run_graph_Suc [OF False] prepend_def split: result.splits option.splits)
  qed simp
qed

section \<open>The state of a thread between turns\<close>

text \<open>
  At a confirmation point of the provisioning pipeline no removal is left over, the second point
  is only reached over a recorded first confirmation, and a removal's point never leads to a
  submission (a tool action is set).
\<close>

definition thread_ok :: "gstate \<Rightarrow> bool" where
  "thread_ok s \<longleftrightarrow>
     (pending_action s \<in> {Some Confirm_1, Some Confirm_2} \<longrightarrow> tool_action s \<noteq> Some Remove_tool)
     \<and> (pending_action s = Some Confirm_2 \<longrightarrow> is_confirmed (confirmation_1 s))
     \<and> (pending_action s = Some Confirm_remove \<longrightarrow> tool_action s \<noteq> None)"

definition confirms_remove :: "gstate \<Rightarrow> bool" where
  "confirms_remove s \<longleftrightarrow> awaiting_confirmation s \<and> pending_action s = Some Confirm_remove
     \<and> (\<exists>u. last_human s = Some u \<and> says_confirm (strip (lower u)))"

definition node_ok :: "bool \<Rightarrow> node \<Rightarrow> gstate \<Rightarrow> bool" where
  "node_ok removing nd s \<longleftrightarrow> thread_ok s
     \<and> (nd \<in> {SUPERVISOR, MAPPER, ALLOCATOR, REFLECTION} \<longrightarrow> pending_action s \<noteq> Some Confirm_remove)
     \<and> (nd = MAPPER \<longrightarrow> tool_action s = None)
     \<and> (nd = ALLOCATOR \<longrightarrow> tool_action s \<noteq> Some Remove_tool \<and> is_confirmed (confirmation_1 s))
     \<and> (nd = DEPLOYER \<longrightarrow> removing \<or> tool_action s \<noteq> Some Remove_tool)"

fun is_removal :: "event \<Rightarrow> bool" where
  "is_removal (Call_tools Remove_tool x) = True"
| "is_removal e = False"

lemma is_removal_audit [simp]: "\<not> is_removal (audit w s k rs r)"
  by (simp add: audit_def)

lemma confirmation_simps [simp]:
  "confirmation_1 (to_tools t q s) = confirmation_1 s" "confirmation_1 (ask_remove q s) = confirmation_1 s"
  "confirmation_1 (clear_pending s) = confirmation_1 s" "confirmation_1 (to_general c s) = confirmation_1 s"
  "confirmation_1 (model_down w s) = confirmation_1 s" "confirmation_1 (clarify w s i) = confirmation_1 s"
  "confirmation_1 (mapped s i y) = confirmation_1 s"
  "pending_action (to_tools t q s) = pending_action s"
  by (simp_all add: to_tools_def ask_remove_def clear_pending_def to_general_def model_down_def
      clarify_def mapped_def Let_def)

lemma tools_report_simps [simp]:
  "pending_action (tools_report s t d x) = pending_action s"
  "tool_action (tools_report s t d x) = Some t"
  "confirmation_1 (tools_report s t d x) = confirmation_1 s"
  by (auto simp: tools_report_def Let_def resolve_status_def split: tool.splits json.splits option.splits status.splits)

lemma submission_outcome_simps [simp]:
  "tool_action (submission_outcome w s refs cs) = tool_action s"
  "confirmation_1 (submission_outcome w s refs cs) = confirmation_1 s"
  "pending_action (submission_outcome w s refs cs) \<in> {None, pending_action s}"
  by (auto simp: submission_outcome_def Let_def carried_def)

lemma thread_ok_simps [simp]:
  "thread_ok (say x s) = thread_ok s" "thread_ok (failed_with r g s)"
  "thread_ok (s\<lparr>next_node := n\<rparr>) = thread_ok s" "thread_ok (to_general c s) = thread_ok s"
  "thread_ok (start_provisioning s)" "thread_ok (model_down w s) = thread_ok s"
  "thread_ok (ask_remove q s)" "thread_ok (clear_pending s)" "thread_ok (clarify w s i)"
  "thread_ok (mapped s i x) \<longleftrightarrow> tool_action s \<noteq> Some Remove_tool"
  "thread_ok (allocated s n' x) \<longleftrightarrow> tool_action s \<noteq> Some Remove_tool \<and> is_confirmed (confirmation_1 s)"
  "thread_ok (s\<lparr>next_node := n, iteration_count := k\<rparr>) = thread_ok s"
  "thread_ok (s\<lparr>next_node := n, awaiting_confirmation := b\<rparr>) = thread_ok s"
  "thread_ok (s\<lparr>workflow_status := st\<rparr>) = thread_ok s"
  "thread_ok (s\<lparr>correlation_id := cid\<rparr>) = thread_ok s"
  by (simp_all add: thread_ok_def)

lemma thread_ok_status [simp]: "thread_ok s \<Longrightarrow> thread_ok (to_tools Status_tool q s)"
  by (simp add: thread_ok_def)

lemma thread_ok_report [simp]: "thread_ok s \<Longrightarrow> tool_action s = Some t \<Longrightarrow> thread_ok (tools_report s t d x)"
  by (simp add: thread_ok_def)

lemma node_ok_simps [simp]:
  "node_ok b MAPPER s \<longleftrightarrow> thread_ok s \<and> pending_action s \<noteq> Some Confirm_remove \<and> tool_action s = None"
  "node_ok b ALLOCATOR s \<longleftrightarrow> thread_ok s \<and> pending_action s \<noteq> Some Confirm_remove
     \<and> tool_action s \<noteq> Some Remove_tool \<and> is_confirmed (confirmation_1 s)"
  "node_ok b DEPLOYER s \<longleftrightarrow> thread_ok s \<and> (b \<or> tool_action s \<noteq> Some Remove_tool)"
  "node_ok b SUPERVISOR s \<longleftrightarrow> thread_ok s \<and> pending_action s \<noteq> Some Confirm_remove"
  "node_ok b REFLECTION s \<longleftrightarrow> thread_ok s \<and> pending_action s \<noteq> Some Confirm_remove"
  "node_ok b GENERAL_INFO s \<longleftrightarrow> thread_ok s" "node_ok b END s \<longleftrightarrow> thread_ok s"
  by (auto simp: node_ok_def)

lemma submission_outcome_thread [simp]: "thread_ok s \<Longrightarrow> thread_ok (submission_outcome w s refs cs)"
  using submission_outcome_simps(3) [of w s refs cs] by (auto simp: thread_ok_def)

lemma reject_deployer_thread: "post (reject_deployer w s err wt) thread_ok (\<lambda>e. \<not> is_removal e)"
  by (rule reject_deployer_post) auto

lemma on_failure_thread: "post (on_failure_report w s f) thread_ok (\<lambda>e. \<not> is_removal e)"
  by (auto simp: on_failure_report_def Let_def split: result.splits)

lemma on_report_thread:
  "thread_ok s \<Longrightarrow> post (on_report w s p x) thread_ok (\<lambda>e. \<not> is_removal e)"
  by (auto simp: on_report_def reject_deployer_thread on_failure_thread
      split: sum.splits option.splits json.splits)

lemma submit_path_thread:
  "thread_ok s \<Longrightarrow> post (submit_path w s) thread_ok (\<lambda>e. \<not> is_removal e)"
  by (auto simp: submit_path_def Let_def on_report_thread split: sum.splits reply.splits)

lemma deployer_thread:
  assumes "node_ok b DEPLOYER s"
  shows "post (deployer_node w s) thread_ok (\<lambda>e. is_removal e \<longrightarrow> b)"
proof (cases "tool_action s")
  case None
  then show ?thesis
    using submit_path_thread [of s w] assms by (auto simp: deployer_node_def post_def)
next
  case (Some t)
  then show ?thesis
    using assms by (cases t) (auto simp: deployer_node_def intro!: tools_post)
qed

lemma supervisor_thread:
  assumes s: "thread_ok s"
  shows "post (supervisor_node w s)
     (\<lambda>t. next_node t \<noteq> SUPERVISOR \<and> next_node t \<noteq> REFLECTION \<longrightarrow> node_ok (confirms_remove s) (next_node t) t)
     (\<lambda>e. \<not> is_removal e)"
proof (rule supervisor_post)
  fix u assume u: "last_human s = Some u"
  let ?P = "\<lambda>t. next_node t \<noteq> SUPERVISOR \<and> next_node t \<noteq> REFLECTION \<longrightarrow> node_ok (confirms_remove s) (next_node t) t"
  have r: "post (on_request w s u) ?P (\<lambda>e. \<not> is_removal e)"
  proof (rule on_request_post)
    fix p assume p: "awaiting_confirmation s" "pending_action s = Some p" "p \<noteq> Clarify"
    show "post (on_confirmation w s (strip (lower u)) p) ?P (\<lambda>e. \<not> is_removal e)"
    proof (rule on_confirmation_post)
      assume c: "says_confirm (strip (lower u))"
      show "post (on_confirm w s p) ?P (\<lambda>e. \<not> is_removal e)"
      proof (cases p)
        case Confirm_remove
        with p u c have "confirms_remove s" by (auto simp: confirms_remove_def)
        with Confirm_remove show ?thesis by (simp add: on_confirm_def)
      qed (use p s in \<open>auto simp: on_confirm_def Let_def is_confirmed_def decide_def clear_pending_def thread_ok_def\<close>)
    qed (use s in \<open>auto simp: on_decline_def re_ask_def Let_def thread_ok_def\<close>)
  qed (use s in \<open>auto intro!: classify_post fresh_request_post\<close>)
  show "post (handle_user w s u) ?P (\<lambda>e. \<not> is_removal e)"
    by (rule handle_user_post) (use s r in auto)
qed (use s in auto)

lemma node_thread:
  assumes ok: "node_ok b nd s" and nd: "nd \<noteq> END" "nd \<noteq> SUPERVISOR"
  shows "post (run_node nd w s) (\<lambda>t. \<forall>nd'. edge nd t = Some nd' \<longrightarrow> node_ok b nd' t) (\<lambda>e. is_removal e \<longrightarrow> b)"
proof (cases nd)
  case DEPLOYER
  have "post (deployer_node w s) thread_ok (\<lambda>e. is_removal e \<longrightarrow> b)"
    using ok unfolding DEPLOYER by (rule deployer_thread)
  then show ?thesis using deployer_end [of w s] unfolding DEPLOYER by (auto simp: post_def pick_def split: if_splits)
next
  case MAPPER
  with ok show ?thesis by (auto intro!: mapper_post simp: failed_or_reflection_def)
next
  case ALLOCATOR
  with ok show ?thesis by (auto intro!: allocator_post simp: failed_or_reflection_def)
next
  case REFLECTION
  with ok show ?thesis by (auto intro!: reflection_post simp: pick_def)
next
  case GENERAL_INFO
  with ok show ?thesis by (simp add: general_response_node_def Let_def)
qed (use nd in simp_all)

lemma turn_thread:
  assumes s: "thread_ok s" and r: "run_graph W n SUPERVISOR s = Some r"
  shows "post r thread_ok (\<lambda>e. is_removal e \<longrightarrow> confirms_remove s)"
proof -
  define I where "I nd t \<longleftrightarrow> (nd = SUPERVISOR \<and> t = s) \<or> node_ok (confirms_remove s) nd t" for nd t
  have "post (run_node nd w t) (\<lambda>u. \<forall>nd'. edge nd u = Some nd' \<longrightarrow> I nd' u)
      (\<lambda>e. is_removal e \<longrightarrow> confirms_remove s)" if I: "I nd t" and nE: "nd \<noteq> END" for nd t w
  proof (cases "nd = SUPERVISOR")
    case True
    have t: "thread_ok t" "confirms_remove t \<longrightarrow> confirms_remove s"
      using I s True by (auto simp: I_def confirms_remove_def)
    have "node_ok (confirms_remove t) nd' u \<Longrightarrow> node_ok (confirms_remove s) nd' u" for nd' u
      using t(2) by (auto simp: node_ok_def)
    with supervisor_thread [OF t(1), of w] show ?thesis
      unfolding True by (fastforce simp: post_def I_def pick_def split: if_splits)
  next
    case False
    with I have "node_ok (confirms_remove s) nd t" by (simp add: I_def)
    from node_thread [OF this nE False, of w] show ?thesis by (auto simp: post_def I_def)
  qed
  from run_invariant [of I _ SUPERVISOR s W n r, OF this _ r] show ?thesis
    by (auto simp: I_def post_def)
qed

lemma seed_thread [simp]: "thread_ok (seed rq s) = thread_ok s"
  by (simp add: seed_def thread_ok_def)

lemma thread_state_ok: "thread_state s \<Longrightarrow> thread_ok s"
proof (induction rule: thread_state.induct)
  case new
  then show ?case by (simp add: thread_ok_def new_thread_def)
next
  case (next_turn s W rq t ev)
  from turn_thread [of "seed rq s" W RECURSION_LIMIT "(Ok t, ev)"] next_turn show ?case
    by (simp add: turn_def)
qed

section \<open>What the confirmation points stand on\<close>

text \<open>The state after the mapper: only a complete interpretation that validates asks for confirm_1.\<close>

definition first_point :: "world \<Rightarrow> gstate \<Rightarrow> bool" where
  "first_point w t \<longleftrightarrow> (\<exists>d i. validate_interpretation (pyd w) d = Inr i \<and> is_complete i
     \<and> mapped_parameters t = Some (canonical_json (JObj (dump_interpretation i)))
     \<and> (i_transport i \<noteq> Some ''srv6'' \<or> srv6_guard_reason (capability w) (inventory w) i = None))"

lemma on_interpretation_confirms:
  assumes "validate_interpretation (pyd w) d = Inr i"
  shows "post (on_interpretation w s i x) (\<lambda>t. pending_action t = Some Confirm_1 \<longrightarrow> first_point w t) (\<lambda>_. True)"
proof -
  have f: "first_point w (mapped s i x)"
    if "is_complete i" "i_transport i \<noteq> Some ''srv6'' \<or> srv6_guard_reason (capability w) (inventory w) i = None"
  proof -
    have "mapped_parameters (mapped s i x) = Some (canonical_json (JObj (dump_interpretation i)))"
      by (simp add: mapped_def)
    then show ?thesis unfolding first_point_def using assms that by blast
  qed
  show ?thesis by (auto simp: on_interpretation_def is_complete_def f split: option.splits)
qed

lemma mapper_confirms:
  assumes "pending_action s \<noteq> Some Confirm_1"
  shows "post (mapper_node w s) (\<lambda>t. pending_action t = Some Confirm_1 \<longrightarrow> first_point w t) (\<lambda>_. True)"
proof -
  have c: "post (call_mapper w s u b) (\<lambda>t. pending_action t = Some Confirm_1 \<longrightarrow> first_point w t) (\<lambda>_. True)" for u b
    using assms
    by (auto simp: call_mapper_def Let_def intro!: reject_post on_interpretation_confirms
        dest!: validate_mapper_payload_Inr split: reply.splits sum.splits)
  show ?thesis by (auto simp: mapper_node_def c intro!: reject_post split: option.splits)
qed

text \<open>The state after the allocator: only a valid intent of the confirmed construct asks for confirm_2.\<close>

definition second_point :: "world \<Rightarrow> gstate \<Rightarrow> gstate \<Rightarrow> bool" where
  "second_point w s t \<longleftrightarrow> (\<exists>x i n d. set_text (mapped_parameters s) = Some x \<and> read_mapped (pyd w) x = Inr i
     \<and> validate_intent (pyd w) d = Inr n \<and> valid_intent (spine_nodes w) n
     \<and> type_of n = type_value (service_type i)
     \<and> allocated_resources t = Some (canonical_json (JObj (dump_intent n))))"

lemma allocator_confirms:
  assumes "pending_action s \<noteq> Some Confirm_2"
  shows "post (allocator_node w s) (\<lambda>t. pending_action t = Some Confirm_2 \<longrightarrow> second_point w s t) (\<lambda>_. True)"
proof -
  have f: "second_point w s (allocated s n y)"
    if x: "set_text (mapped_parameters s) = Some x" and i: "read_mapped (pyd w) x = Inr i"
      and n: "validate_allocator_payload (pyd w) (spine_nodes w) p i = Inr n" for x i p n y
  proof -
    obtain d where d: "p = Some d" using n by (cases p) (simp_all add: validate_allocator_payload_def)
    have "allocated_resources (allocated s n y) = Some (canonical_json (JObj (dump_intent n)))"
      by (simp add: allocated_def)
    then show ?thesis
      unfolding second_point_def using validate_allocator_payload_Inr [of "pyd w" "spine_nodes w" d i n] x i n d by blast
  qed
  show ?thesis
    using assms
    by (auto simp: allocator_node_def Let_def f intro!: reject_post split: option.splits reply.splits sum.splits)
qed

section \<open>Refusals\<close>

text \<open>A request that is not an answer: nothing is awaited and no command is recognised.\<close>

definition plain_request :: "world \<Rightarrow> gstate \<Rightarrow> string \<Rightarrow> bool" where
  "plain_request w s u \<longleftrightarrow> last_human s = Some u \<and> deadline_exceeded w s = Ok False
     \<and> \<not> awaiting_confirmation s \<and> iteration_count s < MAX_ITERATIONS
     \<and> length (find_constructs u) < 2 \<and> user_command s u = None"

lemma plain_request_fresh: "plain_request w s u \<Longrightarrow> supervisor_node w s = fresh_request w s u"
  by (simp add: plain_request_def supervisor_node_def handle_user_def on_request_def)

lemma run_refused:
  "supervisor_node (W n) s = refuse w s r g st \<Longrightarrow>
   run_graph W (Suc n) SUPERVISOR s
     = Some (Ok (say (build_refusal_message r g (correlation_id s)) (failed_with r g s)),
             [audit w s A_refuse [] (st @ '': '' @ r)])"
  by (simp add: refuse_def pick_def prepend_def)

lemma run_ends_at_supervisor:
  "supervisor_node (W n) s = (Ok t, ev) \<Longrightarrow> next_node t = END \<Longrightarrow>
   run_graph W (Suc n) SUPERVISOR s = Some (Ok t, ev)"
  by (simp add: pick_def prepend_def)

lemma turn_ends_at_supervisor:
  "supervisor_node (W 24) (seed rq s) = (Ok t, ev) \<Longrightarrow> next_node t = END \<Longrightarrow>
   turn W rq s = Some (Ok t, ev)"
  using run_ends_at_supervisor [of W 24 "seed rq s" t ev] by (simp add: turn_def RECURSION_LIMIT_def)

lemma exhausted_thread:
  assumes "MAX_ITERATIONS \<le> iteration_count s" "\<not> awaiting_confirmation s" "deadline_exceeded (W n) s = Ok False"
  shows "\<exists>t. run_graph W (Suc n) SUPERVISOR s
      = Some (Ok t, [audit (W n) s A_refuse [] (''request bound reached ('' @ iteration_text @ ''); no further action taken'')])
    \<and> workflow_status t = FAILED \<and> iteration_count t = iteration_count s \<and> \<not> awaiting_confirmation t"
  using assms by (simp add: supervisor_node_def bounded_exit_def pick_def prepend_def Let_def)

end
