(* ===== verification/Sup_Demo.thy ===== *)
theory Sup_Demo
  imports Sup_Facts
begin

text \<open>
  Concrete worlds, threads and requests the supervisor's properties are exercised on.
\<close>


definition demo_lax :: lax where
  "demo_lax = \<lparr>lax_int = py_int, lax_bool = (\<lambda>_. None), kind_msg = (\<lambda>_. ''invalid'')\<rparr>"

definition demo_world :: "(string \<Rightarrow> reply) \<Rightarrow> world" where
  "demo_world dep = \<lparr>now = 0, iso_of = str_int, from_iso = (\<lambda>_. None), nonce = ''n'', thread_id = ''t'',
     model = (\<lambda>_. Some ''provisionable''), mapper = (\<lambda>_. Unreachable []), allocator = (\<lambda>_. Unreachable []),
     deployer = dep, capability = unavailable,
     inventory = \<lparr>inv_nodes = [], inv_attachments = [], inv_spines = []\<rparr>, spine_nodes = None,
     llm_model = ''openai/x'', json_error = (\<lambda>_. ''bad json''), pyd = demo_lax\<rparr>"

definition demo_request :: "string \<Rightarrow> request" where
  "demo_request p = \<lparr>rq_prompt = p, rq_correlation_id = ''c'', rq_principal = ''op'', rq_deadline = []\<rparr>"

definition demo_intent :: dict where
  "demo_intent = [(''endpoints'', JArr []), (''serviceId'', JStr ''a''), (''tenant'', JStr ''a''), (''type'', JStr ''acl'')]"

definition demo_approved :: gstate where
  "demo_approved = new_thread\<lparr>awaiting_confirmation := True, pending_action := Some Confirm_2,
     confirmation_1 := Some \<lparr>decided = Confirm, decided_at = ''0'', decided_by = ''op''\<rparr>,
     allocated_resources := Some (canonical_json (JObj demo_intent))\<rparr>"

definition demo_removing :: gstate where
  "demo_removing = new_thread\<lparr>awaiting_confirmation := True, pending_action := Some Confirm_remove,
     tool_action := Some Remove_tool\<rparr>"

definition demo_reply :: "dict \<Rightarrow> string \<Rightarrow> reply" where
  "demo_reply d x = Reply (Bare (Message [DataPart d]))"

lemma confirm_text:
  "find_constructs ''confirm'' = []" "strip (lower ''confirm'') = ''confirm''" "says_confirm ''confirm''"
  "search_group STATUS_OF_SERVICE ''sid'' ''confirm'' = None" "search_group REMOVE_SERVICE ''sid'' ''confirm'' = None"
  "search_group REMOVE_CORRELATION ''cid'' ''confirm'' = None"
  by code_simp+

lemma demo_intent_reads:
  "loads (canonical_json (JObj demo_intent)) = Some (JObj demo_intent)"
  "canonical_json (JObj demo_intent) \<noteq> []"
  "\<not> is_err (is_obj_then (validate_intent demo_lax) (JObj demo_intent))"
  by code_simp+

lemmas demo_defs = demo_world_def demo_request_def demo_approved_def demo_removing_def demo_reply_def new_thread_def

lemma demo_supervisor:
  assumes "deadline s = []" "awaiting_confirmation s" "last_human s = Some ''confirm''"
    "pending_action s = Some p" "p \<noteq> Clarify" "submitted_resources s = None"
  shows "supervisor_node w s = on_confirm w s p"
  using assms
  by (cases p) (simp_all add: supervisor_node_def deadline_exceeded_def handle_user_def confirm_text
      user_command_def asks_deployment_status_def set_text_def on_request_def on_confirmation_def)

lemma last_human_seed [simp]: "last_human (seed rq s) = Some (rq_prompt rq)"
  by (simp add: seed_def add_messages_def last_human_def filter_tool_messages_def)

lemma seed_simps [simp]:
  "deadline (seed rq s) = rq_deadline rq" "awaiting_confirmation (seed rq s) = awaiting_confirmation s"
  "pending_action (seed rq s) = pending_action s" "submitted_resources (seed rq s) = submitted_resources s"
  "workflow_status (seed rq s) = RECEIVED_REQUEST" "tool_action (seed rq s) = tool_action s"
  "allocated_resources (seed rq s) = allocated_resources s" "iteration_count (seed rq s) = iteration_count s"
  by (simp_all add: seed_def)

text \<open>A confirmed turn that leads to the deployer, in one step.\<close>

lemma demo_turn:
  assumes "on_confirm w (seed rq s) p = (Ok t, ev)" "next_node t = DEPLOYER"
    "deployer_node w t = (Ok u, ev')" "next_node u = END"
    "rq_deadline rq = []" "rq_prompt rq = ''confirm''" "awaiting_confirmation s"
    "pending_action s = Some p" "p \<noteq> Clarify" "submitted_resources s = None"
  shows "turn (\<lambda>_. w) rq s = Some (Ok u, ev @ ev')"
proof -
  have "supervisor_node w (seed rq s) = (Ok t, ev)"
    using demo_supervisor [of "seed rq s" p w] assms by simp
  with assms show ?thesis
    by (simp add: turn_def RECURSION_LIMIT_def numeral_eq_Suc pick_def prepend_def)
qed

lemma demo_submission:
  "\<exists>u ev. turn (\<lambda>_. demo_world (demo_reply [(''submitted'', JArr [])])) (demo_request ''confirm'') demo_approved
     = Some (Ok u, ev) \<and> Audit A_submit ''c'' ''t'' ''op'' [] (Some ''deployer submission report'') \<in> set ev"
proof -
  let ?w = "demo_world (demo_reply [(''submitted'', JArr [])])"
  obtain n where n: "is_obj_then (validate_intent demo_lax) (JObj demo_intent) = Inr n"
    using demo_intent_reads(3) by (cases "is_obj_then (validate_intent demo_lax) (JObj demo_intent)") auto
  obtain t ev where t: "on_confirm ?w (seed (demo_request ''confirm'') demo_approved) Confirm_2 = (Ok t, ev)"
    by (simp add: on_confirm_def Let_def)
  then have t': "t = clear_pending ((seed (demo_request ''confirm'') demo_approved)\<lparr>next_node := DEPLOYER,
      confirmation_2 := Some (decide ?w (seed (demo_request ''confirm'') demo_approved) Confirm),
      workflow_status := APPROVED\<rparr>)" by (simp add: on_confirm_def Let_def)
  have s: "submission_intent ?w t = Inr (JObj demo_intent)"
    unfolding submission_intent_Inr t'
    using demo_intent_reads n
    by (auto simp: clear_pending_def is_confirmed_def decide_def demo_approved_def set_text_def demo_world_def)
  have tool: "tool_action t = None" by (simp add: t' demo_approved_def new_thread_def)
  obtain u ev' where u: "deployer_node ?w t = (Ok u, ev')" "next_node u = END"
    "audit ?w t A_submit [] ''deployer submission report'' \<in> set ev'"
    using s tool
    by (auto simp: deployer_node_def submit_path_def demo_world_def demo_reply_def Let_def prepend_def
        extract_payload_and_text_def on_report_def dget_def)
  have a: "audit ?w t A_submit [] ''deployer submission report''
      = Audit A_submit ''c'' ''t'' ''op'' [] (Some ''deployer submission report'')"
    by (simp add: audit_def corr_def or_operator_def t' clear_pending_def seed_def add_messages_def
        demo_request_def demo_world_def)
  have "turn (\<lambda>_. ?w) (demo_request ''confirm'') demo_approved = Some (Ok u, ev @ ev')"
    by (rule demo_turn [OF t _ u(1,2)]) (simp_all add: t' clear_pending_def demo_request_def demo_approved_def new_thread_def)
  with u(3) show ?thesis unfolding a by auto
qed

lemma demo_removal:
  "\<exists>u ev x. turn (\<lambda>_. demo_world (demo_reply [(''removed'', JArr [])])) (demo_request ''confirm'') demo_removing
     = Some (Ok u, ev) \<and> Call_tools Remove_tool x \<in> set ev"
proof -
  let ?w = "demo_world (demo_reply [(''removed'', JArr [])])"
  let ?t = "clear_pending ((seed (demo_request ''confirm'') demo_removing)\<lparr>next_node := DEPLOYER\<rparr>)"
  obtain ev where t: "on_confirm ?w (seed (demo_request ''confirm'') demo_removing) Confirm_remove = (Ok ?t, ev)"
    by (simp add: on_confirm_def Let_def)
  have tool: "tool_action ?t = Some Remove_tool" by (simp add: demo_removing_def)
  obtain u ev' x where u: "deployer_node ?w ?t = (Ok u, ev')" "next_node u = END" "Call_tools Remove_tool x \<in> set ev'"
    using tool
    by (auto simp: deployer_node_def tools_path_def demo_world_def demo_reply_def Let_def prepend_def
        extract_payload_and_text_def has_key_def)
  have "turn (\<lambda>_. ?w) (demo_request ''confirm'') demo_removing = Some (Ok u, ev @ ev')"
    by (rule demo_turn [OF t _ u(1,2)]) (simp_all add: clear_pending_def demo_request_def demo_removing_def new_thread_def)
  with u(3) show ?thesis by auto
qed

lemma mapper_outage_run:
  "(case turn (\<lambda>_. demo_world (\<lambda>_. Unreachable [])) (demo_request ''vlan'') new_thread of
     Some (Ok t, ev) \<Rightarrow> workflow_status t = FAILED \<and> iteration_count t = 3 \<and> \<not> awaiting_confirmation t \<and> length ev = 7 | _ \<Rightarrow> False)"
  by code_simp

definition demo_interpretation :: dict where
  "demo_interpretation = [(''service_id'', JStr ''svc''), (''service_type'', JStr ''VLAN''),
     (''tenant'', JStr ''acme''),
     (''endpoints'', JArr [JObj [(''site_or_node'', JStr ''leaf01''), (''attachment'', JStr ''eth1''), (''vlan'', JInt 130)]])]"

definition demo_mapping_world :: world where
  "demo_mapping_world = (demo_world (\<lambda>_. Unreachable []))\<lparr>mapper := demo_reply demo_interpretation\<rparr>"

definition demo_asking :: gstate where
  "demo_asking = new_thread\<lparr>messages := [Human ''vlan'']\<rparr>"

lemma demo_mapping:
  "(case mapper_node demo_mapping_world demo_asking of
     (Ok t, ev) \<Rightarrow> pending_action t = Some Confirm_1 | _ \<Rightarrow> False)"
  by code_simp

definition demo_vlan_intent :: dict where
  "demo_vlan_intent = [(''serviceId'', JStr ''svc''), (''type'', JStr ''vlan''), (''tenant'', JStr ''acme''),
     (''endpoints'', JArr [JObj [(''node'', JStr ''leaf01''), (''attachment'', JStr ''eth1''), (''vlan'', JInt 130)]])]"

definition demo_allocating_world :: world where
  "demo_allocating_world = (demo_world (\<lambda>_. Unreachable []))\<lparr>allocator := demo_reply demo_vlan_intent\<rparr>"

definition demo_mapped :: gstate where
  "demo_mapped = new_thread\<lparr>mapped_parameters := Some (canonical_json (JObj demo_interpretation))\<rparr>"

lemma demo_mapped_reads:
  "\<not> is_err (read_mapped demo_lax (canonical_json (JObj demo_interpretation)))"
  "canonical_json (JObj demo_interpretation) \<noteq> []"
  "(case read_mapped demo_lax (canonical_json (JObj demo_interpretation)) of
      Inr i \<Rightarrow> service_type i = VLAN \<and> \<not> is_err (validate_allocator_payload demo_lax None (Some demo_vlan_intent) i)
    | Inl _ \<Rightarrow> True)"
  by code_simp+

lemma demo_allocating:
  "\<exists>t ev. allocator_node demo_allocating_world demo_mapped = (Ok t, ev) \<and> pending_action t = Some Confirm_2"
proof -
  obtain i where i: "read_mapped demo_lax (canonical_json (JObj demo_interpretation)) = Inr i"
    using demo_mapped_reads(1) by (cases "read_mapped demo_lax (canonical_json (JObj demo_interpretation))") auto
  obtain n where n: "validate_allocator_payload demo_lax None (Some demo_vlan_intent) i = Inr n"
    using demo_mapped_reads(3) i by (cases "validate_allocator_payload demo_lax None (Some demo_vlan_intent) i") auto
  have e: "extract_payload_and_text (Bare (Message [DataPart demo_vlan_intent])) ''DEPLOYMENT_JSON'' ''allocator''
      = Inr (Some demo_vlan_intent, [])"
    by code_simp
  show ?thesis
    using demo_mapped_reads(2) i n e
    by (simp add: allocator_node_def demo_mapped_def demo_allocating_world_def demo_world_def demo_reply_def
        set_text_def Let_def prepend_def allocated_def)
qed

lemma demo_mapped_type:
  "mapped_parameters demo_mapped = Some x \<Longrightarrow>
   read_mapped (pyd demo_allocating_world) x = Inr i \<Longrightarrow> service_type i = VLAN"
  using demo_mapped_reads(3) by (auto simp: demo_mapped_def demo_allocating_world_def demo_world_def)

definition demo_claiming :: gstate where
  "demo_claiming = demo_approved\<lparr>claimed_ids := [[(''pool'', JStr ''vlan'')]]\<rparr>"

end
