(* ===== verification/Supervisor.thy ===== *)
theory Supervisor
  imports Sup_Demo
begin

text \<open>
  The properties of the provisioning supervisor: what a turn of a thread can and cannot do.
\<close>

text \<open>
  C1. A submission needs both confirmations. Whatever the model and the workers answer, a turn on
  a thread calls the deployer for a submission, or records one, only when the thread was waiting
  at the second confirmation point over a recorded first confirmation, the operator's reply says
  confirm, no tool request is pending, and the stored intent is JSON that validates as a
  \<open>NormalizedServiceIntent\<close>.
\<close>

theorem submission_needs_both_confirmations:
  assumes "thread_ok s" "turn W rq s = Some (r, ev)" "e \<in> set ev" "is_submit e"
  shows "awaiting_confirmation s \<and> pending_action s = Some Confirm_2
    \<and> says_confirm (strip (lower (rq_prompt rq))) \<and> is_confirmed (confirmation_1 s) \<and> submittable s"
proof -
  from assms(2) have "run_graph W RECURSION_LIMIT SUPERVISOR (seed rq s) = Some (r, ev)"
    by (simp add: turn_def)
  from submission_run [OF _ this assms(3,4)] have c: "confirms_second (seed rq s)" "submittable (seed rq s)"
    by simp_all
  then have "submittable s" by (simp add: submittable_def)
  with c(1) assms(1) show ?thesis by (auto simp: confirms_second_def thread_ok_def)
qed

theorem submission_needs_both_confirmations_witness:
  "\<exists>W rq s r ev e. turn W rq s = Some (r, ev) \<and> e \<in> set ev \<and> is_submit e
     \<and> pending_action s = Some Confirm_2 \<and> submittable s"
proof -
  obtain u ev where t: "turn (\<lambda>_. demo_world (demo_reply [(''submitted'', JArr [])])) (demo_request ''confirm'') demo_approved
     = Some (Ok u, ev)" "Audit A_submit ''c'' ''t'' ''op'' [] (Some ''deployer submission report'') \<in> set ev"
    using demo_submission by blast
  have ok: "thread_ok demo_approved" by (simp add: thread_ok_def demo_approved_def new_thread_def is_confirmed_def)
  have e: "is_submit (Audit A_submit ''c'' ''t'' ''op'' [] (Some ''deployer submission report''))" by simp
  from submission_needs_both_confirmations [OF ok t e] t e show ?thesis by blast
qed

text \<open>
  C2. A removal needs its own confirmation: a turn asks the deployer to remove only when the
  thread was waiting for the removal's confirmation and the reply says confirm.
\<close>

theorem removal_needs_confirmation:
  assumes "thread_ok s" "turn W rq s = Some (r, ev)" "e \<in> set ev" "is_removal e"
  shows "awaiting_confirmation s \<and> pending_action s = Some Confirm_remove
    \<and> says_confirm (strip (lower (rq_prompt rq)))"
proof -
  from assms(2) have "run_graph W RECURSION_LIMIT SUPERVISOR (seed rq s) = Some (r, ev)"
    by (simp add: turn_def)
  from turn_thread [OF _ this] assms have "confirms_remove (seed rq s)" by (auto simp: post_def)
  then show ?thesis by (auto simp: confirms_remove_def)
qed

theorem removal_needs_confirmation_witness:
  "\<exists>W rq s r ev e. turn W rq s = Some (r, ev) \<and> e \<in> set ev \<and> is_removal e
     \<and> pending_action s = Some Confirm_remove"
proof -
  obtain u ev x where t: "turn (\<lambda>_. demo_world (demo_reply [(''removed'', JArr [])])) (demo_request ''confirm'') demo_removing
     = Some (Ok u, ev)" "Call_tools Remove_tool x \<in> set ev"
    using demo_removal by blast
  have ok: "thread_ok demo_removing" by (simp add: thread_ok_def demo_removing_def new_thread_def)
  have e: "is_removal (Call_tools Remove_tool x)" by simp
  from removal_needs_confirmation [OF ok t e] t e show ?thesis by blast
qed

text \<open>
  C3. Every state a thread can be in between turns is consistent: at a confirmation point of the
  pipeline no removal is pending, the second point stands over a recorded first confirmation, and
  the removal's point has a tool request.
\<close>

theorem thread_states_consistent:
  assumes "thread_state s"
  shows "thread_ok s"
  using assms by (rule thread_state_ok)

theorem thread_states_consistent_witness:
  "\<exists>s. thread_state s \<and> s \<noteq> new_thread \<and> thread_ok s"
proof -
  obtain t ev where t: "turn (\<lambda>_. demo_world (\<lambda>_. Unreachable [])) (demo_request ''vlan'') new_thread = Some (Ok t, ev)"
    "workflow_status t = FAILED"
    using mapper_outage_run by (auto split: option.splits prod.splits result.splits)
  have "thread_state t" by (rule thread_state.next_turn [OF thread_state.new t(1)])
  moreover have "t \<noteq> new_thread" using t(2) by (auto simp: new_thread_def)
  ultimately show ?thesis using thread_states_consistent [of t] by blast
qed

text \<open>
  C4. Every turn ends: whatever the state, the model and the workers answer, a run reaches END or
  an exception before LangGraph's bound of 25 nodes (twelve are enough).
\<close>

theorem every_turn_ends: "turn W rq s \<noteq> None"
  unfolding turn_def RECURSION_LIMIT_def by (rule run_ends) (simp add: MAX_ITERATIONS_def)

text \<open>
  C5. The first confirmation is asked only for a complete, validated interpretation, whose dump is
  what the thread keeps; an SRv6 one has passed the ladder of variant, site, verifiable
  attachments and free ports.
\<close>

theorem first_confirmation_is_validated:
  assumes "mapper_node w s = (Ok t, ev)" "pending_action t = Some Confirm_1" "pending_action s \<noteq> Some Confirm_1"
  shows "\<exists>d i. validate_interpretation (pyd w) d = Inr i \<and> missing_fields i = [] \<and> unsupported_properties i = []
     \<and> mapped_parameters t = Some (canonical_json (JObj (dump_interpretation i)))
     \<and> (i_transport i \<noteq> Some ''srv6'' \<or> srv6_guard_reason (capability w) (inventory w) i = None)"
  using mapper_confirms [OF assms(3), of w] assms(1,2)
  by (auto simp: post_def first_point_def is_complete_def)

theorem first_confirmation_is_validated_witness:
  "\<exists>t ev d i. mapper_node demo_mapping_world demo_asking = (Ok t, ev)
     \<and> validate_interpretation (pyd demo_mapping_world) d = Inr i
     \<and> mapped_parameters t = Some (canonical_json (JObj (dump_interpretation i)))"
proof -
  obtain t ev where t: "mapper_node demo_mapping_world demo_asking = (Ok t, ev)" "pending_action t = Some Confirm_1"
    using demo_mapping by (auto split: prod.splits result.splits)
  have "pending_action demo_asking \<noteq> Some Confirm_1" by (simp add: demo_asking_def new_thread_def)
  from first_confirmation_is_validated [OF t this] t(1) show ?thesis by blast
qed

text \<open>
  C6. The second confirmation is asked only for an intent that validates as a
  \<open>NormalizedServiceIntent\<close> with no violated rule, of the construct the operator confirmed first;
  its canonical JSON is what the thread keeps and what the deployer will be sent.
\<close>

theorem second_confirmation_is_validated:
  assumes "allocator_node w s = (Ok t, ev)" "pending_action t = Some Confirm_2" "pending_action s \<noteq> Some Confirm_2"
  shows "\<exists>x i d n. mapped_parameters s = Some x \<and> read_mapped (pyd w) x = Inr i
     \<and> validate_intent (pyd w) d = Inr n \<and> valid_intent (spine_nodes w) n
     \<and> type_of n = type_value (service_type i)
     \<and> allocated_resources t = Some (canonical_json (JObj (dump_intent n)))"
  using allocator_confirms [OF assms(3), of w] assms(1,2)
  by (auto simp: post_def second_point_def set_text_def split: option.splits if_splits)

theorem second_confirmation_is_validated_witness:
  "\<exists>t ev d n. allocator_node demo_allocating_world demo_mapped = (Ok t, ev)
     \<and> validate_intent (pyd demo_allocating_world) d = Inr n \<and> type_of n = ''vlan''
     \<and> allocated_resources t = Some (canonical_json (JObj (dump_intent n)))"
proof -
  obtain t ev where t: "allocator_node demo_allocating_world demo_mapped = (Ok t, ev)" "pending_action t = Some Confirm_2"
    using demo_allocating by blast
  have p: "pending_action demo_mapped \<noteq> Some Confirm_2" by (simp add: demo_mapped_def new_thread_def)
  obtain x i d n where x: "mapped_parameters demo_mapped = Some x" "read_mapped (pyd demo_allocating_world) x = Inr i"
    "validate_intent (pyd demo_allocating_world) d = Inr n" "type_of n = type_value (service_type i)"
    "allocated_resources t = Some (canonical_json (JObj (dump_intent n)))"
    using second_confirmation_is_validated [OF t p] by blast
  from demo_mapped_type x(1,2) have "service_type i = VLAN" by simp
  with x t(1) show ?thesis by auto
qed



text \<open>
  The SRv6 gate is closed by default: a request that names SRv6 is refused by the mapper node
  unless the capability is known to be available; the mapper worker is not called and nothing is
  mapped.
\<close>

theorem srv6_gate_closed:
  assumes "last_human s = Some u" "names_srv6 u" "\<not> available (capability w)"
  shows "\<exists>t. mapper_node w s = (Ok t, [Read_capability, audit w s A_refuse [] (''supervisor: '' @ SRV6_R4_REASON)])
     \<and> workflow_status t = FAILED \<and> next_node t = END \<and> mapped_parameters t = mapped_parameters s"
  using assms by (simp add: mapper_node_def prepend_def refuse_def)

theorem srv6_gate_closed_witness:
  "\<exists>t ev. mapper_node (demo_world (\<lambda>_. Unreachable [])) (seed (demo_request ''an SRv6 ip-vrf'') new_thread) = (Ok t, ev)
     \<and> workflow_status t = FAILED"
proof -
  have n: "names_srv6 ''an SRv6 ip-vrf''" by code_simp
  have l: "last_human (seed (demo_request ''an SRv6 ip-vrf'') new_thread) = Some ''an SRv6 ip-vrf''"
    by (simp add: demo_request_def)
  have c: "\<not> available (capability (demo_world (\<lambda>_. Unreachable [])))"
    by (simp add: demo_world_def unavailable_def)
  from srv6_gate_closed [OF l n c] show ?thesis by blast
qed

text \<open>
  C8. Declining at the second point submits nothing and releases every claim: a reply that
  declines ends the turn with one audit record, the request failed, the decision recorded, and
  every claim of the thread marked with the time of its release.
\<close>

theorem decline_releases_claims:
  assumes "deadline_exceeded (W 24) (seed rq s) = Ok False" "length (find_constructs (rq_prompt rq)) < 2"
    "user_command (seed rq s) (rq_prompt rq) = None"
    "awaiting_confirmation s" "pending_action s = Some Confirm_2"
    "says_decline (strip (lower (rq_prompt rq)))" "\<not> says_confirm (strip (lower (rq_prompt rq)))"
  shows "\<exists>t x. turn W rq s = Some (Ok t, [audit (W 24) (seed rq s) A_decline [] x])
     \<and> workflow_status t = FAILED \<and> \<not> awaiting_confirmation t
     \<and> map_option decided (confirmation_2 t) = Some Decline
     \<and> length (claimed_ids t) = length (claimed_ids s)
     \<and> (\<forall>c \<in> set (claimed_ids t). dget c ''released_at'' = JStr (iso_of (W 24) (now (W 24))))"
proof -
  have "supervisor_node (W 24) (seed rq s) = on_decline (W 24) (seed rq s) Confirm_2"
    using assms by (simp add: supervisor_node_def handle_user_def on_request_def on_confirmation_def)
  then obtain t x where "supervisor_node (W 24) (seed rq s) = (Ok t, [audit (W 24) (seed rq s) A_decline [] x])"
    "next_node t = END" "workflow_status t = FAILED" "\<not> awaiting_confirmation t"
    "claimed_ids t = map (release_claim (iso_of (W 24) (now (W 24)))) (claimed_ids s)"
    "confirmation_2 t = Some (decide (W 24) (seed rq s) Decline)"
    by (simp add: on_decline_def Let_def say_def add_messages_def seed_def)
  then show ?thesis using turn_ends_at_supervisor [of W rq s t] by (auto simp: decide_def release_claim_def dict_simps)
qed

theorem decline_releases_claims_witness:
  "\<exists>t x. turn (\<lambda>_. demo_world (\<lambda>_. Unreachable [])) (demo_request ''decline'') demo_claiming = Some (Ok t, [x])
     \<and> workflow_status t = FAILED \<and> length (claimed_ids t) = 1"
proof -
  let ?w = "demo_world (\<lambda>_. Unreachable [])" let ?rq = "demo_request ''decline''"
  have h: "deadline_exceeded ?w (seed ?rq demo_claiming) = Ok False"
    by (simp add: deadline_exceeded_def demo_request_def)
  have t: "length (find_constructs (rq_prompt ?rq)) < 2" "user_command (seed ?rq demo_claiming) (rq_prompt ?rq) = None"
    "says_decline (strip (lower (rq_prompt ?rq)))" "\<not> says_confirm (strip (lower (rq_prompt ?rq)))"
    by code_simp+
  have s: "awaiting_confirmation demo_claiming" "pending_action demo_claiming = Some Confirm_2"
    "length (claimed_ids demo_claiming) = 1"
    by (simp_all add: demo_claiming_def demo_approved_def)
  from decline_releases_claims [where W = "\<lambda>_. ?w", OF h t(1,2) s(1,2) t(3,4)] s(3) show ?thesis by auto
qed

text \<open>
  A thread whose iteration counter has reached its bound stays refused: whatever is asked,
  when no confirmation is awaited the turn ends at the bound with one audit record, and the counter
  is left where it was, so the next turn meets the same bound.
\<close>

theorem exhausted_thread_refuses:
  assumes "MAX_ITERATIONS \<le> iteration_count s" "\<not> awaiting_confirmation s"
    "deadline_exceeded (W 24) (seed rq s) = Ok False"
  shows "\<exists>t x. turn W rq s = Some (Ok t, [audit (W 24) (seed rq s) A_refuse [] x])
     \<and> workflow_status t = FAILED \<and> iteration_count t = iteration_count s \<and> \<not> awaiting_confirmation t"
proof -
  have "\<exists>t. run_graph W (Suc 24) SUPERVISOR (seed rq s)
      = Some (Ok t, [audit (W 24) (seed rq s) A_refuse [] (''request bound reached ('' @ iteration_text @ ''); no further action taken'')])
    \<and> workflow_status t = FAILED \<and> iteration_count t = iteration_count (seed rq s) \<and> \<not> awaiting_confirmation t"
    by (rule exhausted_thread) (use assms in simp_all)
  then show ?thesis by (auto simp: turn_def RECURSION_LIMIT_def)
qed

theorem exhausted_thread_refuses_witness:
  "\<exists>s t x. thread_state s \<and> turn (\<lambda>_. demo_world (\<lambda>_. Unreachable [])) (demo_request ''vlan'') s = Some (Ok t, [x])
     \<and> workflow_status t = FAILED \<and> iteration_count t = 3"
proof -
  let ?W = "\<lambda>_. demo_world (\<lambda>_. Unreachable [])" let ?rq = "demo_request ''vlan''"
  obtain s ev where s: "turn ?W ?rq new_thread = Some (Ok s, ev)" "iteration_count s = 3" "\<not> awaiting_confirmation s"
    using mapper_outage_run by (auto split: option.splits prod.splits result.splits)
  have b: "MAX_ITERATIONS \<le> iteration_count s" using s(2) by (simp add: MAX_ITERATIONS_def)
  have d: "deadline_exceeded (demo_world (\<lambda>_. Unreachable [])) (seed ?rq s) = Ok False"
    by (simp add: deadline_exceeded_def demo_request_def)
  from exhausted_thread_refuses [where W = ?W, OF b s(3) d] s(2)
  show ?thesis using thread_state.next_turn [OF thread_state.new s(1)] by auto
qed

text \<open>
  The confirmation vocabulary is read as substrings, confirmations first: at the second point
  the reply "no, do not deploy it" approves the submission.
\<close>

theorem negated_reply_approves:
  "\<exists>t. on_confirmation w s (strip (lower ''No, do not deploy it'')) Confirm_2
       = (Ok t, [audit w s A_confirm [] ''confirmation_2 recorded: operator confirmed''])
     \<and> workflow_status t = APPROVED \<and> next_node t = DEPLOYER
     \<and> map_option decided (confirmation_2 t) = Some Confirm"
proof -
  have "says_confirm (strip (lower ''No, do not deploy it''))" by code_simp
  then show ?thesis
    by (simp add: on_confirmation_def on_confirm_def Let_def which_text_def clear_pending_def decide_def)
qed

end
