(* ===== verification/Http_Api.thy ===== *)
theory Http_Api
  imports Sup_Graph
begin

text \<open>
  The HTTP surface of the supervisor, src/agents/supervisors/provisioning/main.py: the identity of a
  request, the NDJSON stream over the updates of the graph, and the health and configuration routes.
  What LangGraph yields for a node is a \<open>node_update\<close>: the keys the node returned, with their
  values; a key that is absent or None is \<open>None\<close>. A chunk is its JSON object.
\<close>

section \<open>The request\<close>

record prompt_request =
  pr_prompt :: string
  pr_thread_id :: "string option"
  pr_principal :: "string option"

text \<open>Fresh identifiers, the deadline, and the correlation id the checkpoint of a thread holds.\<close>

record http_env =
  fresh_correlation :: string
  fresh_thread :: string
  http_deadline :: string
  checkpointed :: "string \<Rightarrow> string option"
  api_json_error :: "string \<Rightarrow> string"

definition correlation_for :: "http_env \<Rightarrow> prompt_request \<Rightarrow> string" where
  "correlation_for E p =
     (let known = (case set_text (pr_thread_id p) of Some th \<Rightarrow> checkpointed E th | None \<Rightarrow> None)
      in case set_text known of Some c \<Rightarrow> c | None \<Rightarrow> fresh_correlation E)"

definition thread_for :: "http_env \<Rightarrow> prompt_request \<Rightarrow> string" where
  "thread_for E p = (case set_text (pr_thread_id p) of Some th \<Rightarrow> th | None \<Rightarrow> fresh_thread E)"

definition principal_for :: "prompt_request \<Rightarrow> string" where
  "principal_for p = (case set_text (pr_principal p) of Some u \<Rightarrow> u | None \<Rightarrow> ''operator'')"

definition request_of :: "http_env \<Rightarrow> prompt_request \<Rightarrow> request" where
  "request_of E p = \<lparr>rq_prompt = pr_prompt p, rq_correlation_id = correlation_for E p,
     rq_principal = principal_for p, rq_deadline = http_deadline E\<rparr>"

section \<open>Updates\<close>

record node_update =
  up_node :: node
  up_messages :: "msg list"
  up_status :: "status option"
  up_pending :: "pending option"
  up_missing :: "string list option"
  up_mapped :: "string option"
  up_allocated :: "string option"
  up_tool_result :: "string option"
  up_tool_action :: "tool option"
  up_convergence :: "string option"
  up_submitted :: "string option"
  up_reason :: "string option option"
  up_suggestion :: "string option option"

text \<open>What the generator keeps between updates: \<open>last\<close>, the final message, and its suppression.\<close>

record stream_acc =
  sa_status :: status
  sa_reason :: "string option"
  sa_suggestion :: "string option"
  sa_message :: string
  sa_suppress :: bool

definition stream_start :: stream_acc where
  "stream_start = \<lparr>sa_status = RECEIVED_REQUEST, sa_reason = None, sa_suggestion = None, sa_message = [],
     sa_suppress = False\<rparr>"

fun msg_content :: "msg \<Rightarrow> string" where
  "msg_content (Human t) = t"
| "msg_content (AI t) = t"
| "msg_content (Tool t) = t"

fun last_content :: "string \<Rightarrow> msg list \<Rightarrow> string" where
  "last_content t [] = t"
| "last_content t (m # ms) =
     last_content (if strip (msg_content m) \<noteq> [] then strip (msg_content m) else t) ms"

definition absorb :: "node_update \<Rightarrow> stream_acc \<Rightarrow> stream_acc" where
  "absorb u a =
     a\<lparr>sa_status := (case up_status u of Some st \<Rightarrow> st | None \<Rightarrow> sa_status a),
       sa_reason := (case up_reason u of Some r \<Rightarrow> r | None \<Rightarrow> sa_reason a),
       sa_suggestion := (case up_suggestion u of Some g \<Rightarrow> g | None \<Rightarrow> sa_suggestion a),
       sa_message := last_content (sa_message a) (up_messages u)\<rparr>"

section \<open>Chunks\<close>

definition status_json :: "status \<Rightarrow> json" where
  "status_json st = JStr (status_value st)"

definition first_chunk :: "string \<Rightarrow> dict" where
  "first_chunk th = [(''type'', JStr ''status''), (''status'', status_json RECEIVED_REQUEST),
     (''stage'', JStr ''supervisor''), (''thread_id'', JStr th)]"

definition clarification_chunk :: "status \<Rightarrow> string list \<Rightarrow> dict" where
  "clarification_chunk st missing = [(''type'', JStr ''clarification_request''), (''stage'', JStr ''mapper''),
     (''status'', status_json st), (''missing_fields'', strs_json missing),
     (''prompt'', JStr (clarification_prompt missing []))]"

definition stage_chunk :: "string \<Rightarrow> status \<Rightarrow> json \<Rightarrow> dict" where
  "stage_chunk stg st payload = [(''type'', JStr ''stage''), (''stage'', JStr stg), (''status'', status_json st),
     (''payload'', payload)]"

definition confirmation_chunk :: "string \<Rightarrow> string \<Rightarrow> dict" where
  "confirmation_chunk stg prompt = [(''type'', JStr ''confirmation_request''), (''stage'', JStr stg),
     (''prompt'', JStr prompt), (''refusable'', JBool True)]"

definition ASK_INTERPRETATION :: string where
  "ASK_INTERPRETATION = ''Confirm this interpretation? Reply '' @ squote @ ''confirm'' @ squote
     @ '' to proceed to allocation, or '' @ squote @ ''decline'' @ squote @ '' to cancel.''"

definition ASK_DEPLOY :: string where
  "ASK_DEPLOY = ''Deploy this service? Reply '' @ squote @ ''confirm'' @ squote
     @ '' to submit it to the cluster, or '' @ squote @ ''decline'' @ squote @ '' to cancel.''"

definition ASK_REMOVE :: string where
  "ASK_REMOVE = ''Remove this service? Reply '' @ squote @ ''confirm'' @ squote @ '' to proceed or ''
     @ squote @ ''decline'' @ squote @ '' to cancel.''"

definition tool_value :: "tool option \<Rightarrow> string" where
  "tool_value t = (case t of None \<Rightarrow> [] | Some Status_tool \<Rightarrow> ''status'' | Some Remove_tool \<Rightarrow> ''remove'')"

definition tools_chunk :: "status \<Rightarrow> tool option \<Rightarrow> json \<Rightarrow> dict" where
  "tools_chunk st t r = [(''type'', JStr ''stage''), (''stage'', JStr ''deployer-tools''),
     (''tool'', JStr (tool_value t)), (''result'', r), (''status'', status_json st)]"

definition deployer_chunk :: "status \<Rightarrow> json \<Rightarrow> json \<Rightarrow> dict" where
  "deployer_chunk st submitted conv =
     [(''type'', JStr ''stage''), (''stage'', JStr ''deployer''), (''status'', status_json st)]
     @ (if truthy submitted \<or> truthy conv
        then [(''payload'', JObj [(''submitted'', submitted), (''convergence'', conv)])] else [])"

definition verdict_of :: "string \<Rightarrow> string" where
  "verdict_of o' =
     (case map_of [(''ready'', ''converged''), (''failed'', ''failed to converge''),
                   (''timeout'', ''still converging at the watch bound'')] o' of
        Some v \<Rightarrow> v | None \<Rightarrow> if o' \<noteq> [] then o' else ''observed'')"

definition progress_chunk :: "status \<Rightarrow> dict \<Rightarrow> dict" where
  "progress_chunk st ob =
     (let detail = strip (str_or_empty (dget ob ''detail''));
          message = or_text (dget ob ''resource'') ''resource'' @ '' ''
            @ verdict_of (str_or_empty (dget ob ''outcome''))
            @ (if detail \<noteq> [] then '': '' @ detail else [])
      in [(''type'', JStr ''progress''), (''stage'', JStr ''deployer''), (''status'', status_json st),
          (''message'', JStr (redact message)), (''details'', JObj ob)])"

text \<open>\<open>reason.split(" ", 1)[0].rstrip(":")\<close>, after the three named prefixes.\<close>

definition responsible_stage_from_reason :: "string \<Rightarrow> string" where
  "responsible_stage_from_reason reason =
     (if starts_with ''mapper payload out of contract'' reason then ''mapper''
      else if starts_with ''allocator payload out of contract'' reason then ''allocator''
      else if starts_with ''deployer payload out of contract'' reason then ''deployer''
      else if contains '': '' reason
        then rev (dropWhile (\<lambda>c. c = CHR '':'') (rev (takeWhile (\<lambda>c. c \<noteq> CHR '' '') reason)))
      else ''supervisor'')"

definition error_chunk :: "string \<Rightarrow> string \<Rightarrow> dict" where
  "error_chunk reason sugg = [(''type'', JStr ''error''), (''stage'', JStr (responsible_stage_from_reason reason)),
     (''status'', status_json FAILED), (''reason'', JStr (redact reason)), (''suggestion'', JStr (redact sugg))]"

definition crash_chunk :: "string \<Rightarrow> dict" where
  "crash_chunk x = [(''type'', JStr ''error''), (''stage'', JStr ''supervisor''), (''status'', status_json FAILED),
     (''reason'', JStr (redact (''internal error: '' @ x)))]"

definition final_chunk :: "stream_acc \<Rightarrow> dict" where
  "final_chunk a = [(''type'', JStr ''final''), (''status'', status_json (sa_status a))]
     @ (if sa_message a \<noteq> [] \<and> \<not> sa_suppress a then [(''message'', JStr (redact (sa_message a)))] else [])"

definition text_or_default :: "string option \<Rightarrow> string \<Rightarrow> string" where
  "text_or_default x dflt = (case set_text x of Some t \<Rightarrow> t | None \<Rightarrow> dflt)"

section \<open>The generator\<close>

datatype flow = Next stream_acc | Raised string

text \<open>\<open>json.loads(x or dflt)\<close>, raising or with the value of the \<open>except\<close>.\<close>

definition loads_or_raise :: "(string \<Rightarrow> string) \<Rightarrow> string option \<Rightarrow> string \<Rightarrow> string + json" where
  "loads_or_raise err x dflt =
     (case loads (text_or_default x dflt) of Some j \<Rightarrow> Inr j | None \<Rightarrow> Inl (err (text_or_default x dflt)))"

definition loads_or_empty :: "string option \<Rightarrow> string \<Rightarrow> json \<Rightarrow> json" where
  "loads_or_empty x dflt v = (case loads (text_or_default x dflt) of Some j \<Rightarrow> j | None \<Rightarrow> v)"

text \<open>A stage payload with the question that follows it.\<close>

definition ask_stage :: "(string \<Rightarrow> string) \<Rightarrow> string \<Rightarrow> string \<Rightarrow> string option \<Rightarrow> stream_acc \<Rightarrow> dict list \<times> flow" where
  "ask_stage err stg question payload a =
     (case loads_or_raise err payload ''{}'' of
        Inl x \<Rightarrow> ([], Raised x)
      | Inr j \<Rightarrow> ([stage_chunk stg (sa_status a) j, confirmation_chunk stg question], Next (a\<lparr>sa_suppress := True\<rparr>)))"

definition not_iterable :: "json \<Rightarrow> string" where
  "not_iterable j = squote @ (case j of JNull \<Rightarrow> ''NoneType'' | JBool _ \<Rightarrow> ''bool'' | _ \<Rightarrow> ''int'') @ squote
     @ '' object is not iterable''"

definition outcome_chunks :: "node_update \<Rightarrow> stream_acc \<Rightarrow> dict list \<times> flow" where
  "outcome_chunks u a =
     (let conv = loads_or_empty (up_convergence u) ''[]'' (JArr []);
          submitted = loads_or_empty (up_submitted u) ''[]'' (JArr []);
          stg = deployer_chunk (sa_status a) submitted conv
      in case json_iter conv of
           None \<Rightarrow> ([stg], Raised (not_iterable conv))
         | Some obs \<Rightarrow>
             (stg # map (\<lambda>ob. progress_chunk (sa_status a) (obj_of ob)) (filter is_obj obs), Next a))"

text \<open>
  One update of the graph. It names one node, so the \<open>break\<close> on a failed status, which leaves the loop
  over the nodes of the update, goes on with the next update like the branches before it.
\<close>

definition on_update :: "(string \<Rightarrow> string) \<Rightarrow> node_update \<Rightarrow> stream_acc \<Rightarrow> dict list \<times> flow" where
  "on_update err u a0 =
     (let a = absorb u a0; st = sa_status a in
      if up_node u = MAPPER \<and> st = MAPPED then
        (if up_pending u = Some Clarify
         then ([clarification_chunk st (case up_missing u of Some ms \<Rightarrow> ms | None \<Rightarrow> [])],
               Next (a\<lparr>sa_suppress := True\<rparr>))
         else ask_stage err ''mapper'' ASK_INTERPRETATION (up_mapped u) a)
      else if up_node u = ALLOCATOR \<and> st = ALLOCATED then
        ask_stage err ''allocator'' ASK_DEPLOY (up_allocated u) a
      else if up_node u = DEPLOYER \<and> set_text (up_tool_result u) \<noteq> None then
        ([tools_chunk st (up_tool_action u) (loads_or_empty (up_tool_result u) ''{}'' (JObj []))], Next a)
      else if up_node u = DEPLOYER \<and> st \<in> {PROVISIONING, COMPLETED, FAILED} then outcome_chunks u a
      else if up_node u = SUPERVISOR \<and> up_pending u = Some Confirm_remove then
        ([confirmation_chunk ''deployer'' ASK_REMOVE], Next a)
      else ([], Next a))"

text \<open>The loop over the updates; the graph may end in an exception after them.\<close>

fun consume :: "(string \<Rightarrow> string) \<Rightarrow> node_update list \<Rightarrow> string option \<Rightarrow> stream_acc \<Rightarrow>
    dict list \<times> (string + stream_acc)" where
  "consume err [] exn a = ([], case exn of None \<Rightarrow> Inr a | Some x \<Rightarrow> Inl x)"
| "consume err (u # us) exn a =
     (case on_update err u a of
        (cs, Next a1) \<Rightarrow> (case consume err us exn a1 of (ds, r) \<Rightarrow> (cs @ ds, r))
      | (cs, Raised x) \<Rightarrow> (cs, Inl x))"

definition closing_chunk :: "string + stream_acc \<Rightarrow> dict" where
  "closing_chunk r =
     (case r of
        Inl x \<Rightarrow> crash_chunk x
      | Inr a \<Rightarrow>
          if sa_status a = FAILED
          then error_chunk (text_or_default (sa_reason a) ''request failed'') (text_or_default (sa_suggestion a) [])
          else final_chunk a)"

definition with_correlation_id :: "string \<Rightarrow> dict \<Rightarrow> dict" where
  "with_correlation_id cid d = (if has_key ''correlation_id'' d then d else d @ [(''correlation_id'', JStr cid)])"

definition stream_chunks :: "http_env \<Rightarrow> prompt_request \<Rightarrow> node_update list \<Rightarrow> string option \<Rightarrow> dict list" where
  "stream_chunks E p us exn =
     (case consume (api_json_error E) us exn stream_start of
        (cs, r) \<Rightarrow> map (with_correlation_id (correlation_for E p))
                      (first_chunk (thread_for E p) # cs @ [closing_chunk r]))"

text \<open>The body of the response: one line of JSON per chunk.\<close>

definition ndjson :: "dict list \<Rightarrow> string" where
  "ndjson cs = concat (map (\<lambda>c. dumps (JObj c) @ nl) cs)"

section \<open>Health and configuration\<close>

text \<open>What the probe of a worker gives: a status code, or an exception.\<close>

definition probe_text :: "int option \<Rightarrow> string" where
  "probe_text r = (case r of None \<Rightarrow> ''unreachable''
     | Some n \<Rightarrow> if n = 200 then ''ok'' else ''error:'' @ str_int n)"

definition health_check :: dict where
  "health_check = [(''status'', JStr ''ok'')]"

definition connectivity_health :: "string \<Rightarrow> string \<Rightarrow> (string \<times> string) list \<Rightarrow> (string \<Rightarrow> int option) \<Rightarrow> int \<times> dict" where
  "connectivity_health tp endpoint workers get =
     (let probes = map (\<lambda>(w, e). (w, probe_text (get (e @ ''/v1/health'')))) workers;
          st = (if list_all (\<lambda>(w, v). v = ''ok'') probes then ''ok'' else ''degraded'')
      in (if st \<noteq> ''ok'' then 503 else 200,
          [(''status'', JStr st), (''transport'', JStr tp), (''endpoint'', JStr endpoint),
           (''workers'', JObj (map (\<lambda>(w, v). (w, JStr v)) probes))]))"

definition get_config :: "string \<Rightarrow> string \<Rightarrow> dict" where
  "get_config tp endpoint = [(''transport'', JStr (map (\<lambda>c. if is_lower c then char_of (code c - 32) else c) tp)),
     (''endpoint'', JStr endpoint)]"

text \<open>The suggested prompts: the file is absent, unreadable with the text of the exception, or its text.\<close>

datatype prompts_file = No_file | Unreadable string | File_text string

definition is_text :: "json \<Rightarrow> bool" where
  "is_text j = (case j of JStr _ \<Rightarrow> True | _ \<Rightarrow> False)"

definition get_prompts :: "prompts_file \<Rightarrow> (int \<times> string) + json list" where
  "get_prompts f =
     (case f of
        No_file \<Rightarrow> Inl (404, ''suggested_prompts.json not found'')
      | Unreadable x \<Rightarrow> Inl (500, ''Failed to load prompts: '' @ x)
      | File_text t \<Rightarrow>
          (case loads t of
             None \<Rightarrow> Inl (500, ''Invalid JSON in suggested_prompts.json'')
           | Some (JArr xs) \<Rightarrow>
               if list_all is_text xs then Inr xs
               else Inl (500, ''suggested_prompts.json must be a JSON array of strings'')
           | Some _ \<Rightarrow> Inl (500, ''suggested_prompts.json must be a JSON array of strings'')))"

end
