(* ===== verification/Manifest.thy ===== *)
theory Manifest
  imports Sup_Deploy
begin

text \<open>
  The request and the manifests of a deployment, src/agents/provisioning/deployer/submit.py: the
  named transaction error, the deployment envelope, and the validation, stamping and ordering of
  the manifests the translator returns. An exception that leaves a function is \<open>Inl\<close>.
\<close>

section \<open>Named failures\<close>

record transaction_error =
  te_phase :: string
  te_resource :: "string option"
  te_text :: string
  te_rolled_back :: "resource_ref list"
  te_survivors :: "resource_ref list"

text \<open>A named phase failure, or any other exception by its text.\<close>

datatype failure = Named transaction_error | Other string

fun failure_str :: "failure \<Rightarrow> string" where
  "failure_str (Named e) = te_text e"
| "failure_str (Other t) = t"

definition transaction_error_of ::
    "string \<Rightarrow> string \<Rightarrow> string option \<Rightarrow> resource_ref list \<Rightarrow> resource_ref list \<Rightarrow> transaction_error" where
  "transaction_error_of phase m res rolled surv =
     \<lparr>te_phase = phase, te_resource = res,
      te_text = phase @ '' failed''
        @ (case set_text res of Some r \<Rightarrow> '' for '' @ r | None \<Rightarrow> []) @ '': '' @ m,
      te_rolled_back = rolled, te_survivors = surv\<rparr>"

definition named :: "string \<Rightarrow> string \<Rightarrow> string option \<Rightarrow> failure" where
  "named phase m res = Named (transaction_error_of phase m res [] [])"

definition error_report :: "transaction_error \<Rightarrow> dict" where
  "error_report e =
     [(''phase'', JStr (te_phase e)), (''resource'', str_json (te_resource e)),
      (''message'', JStr (te_text e)), (''rolledBack'', JArr (map dump_ref (te_rolled_back e))),
      (''survivors'', JArr (map dump_ref (te_survivors e)))]"

definition resource_identity :: "dict \<Rightarrow> string" where
  "resource_identity m =
     or_text (dget m ''kind'') ''<unknown>'' @ ''/''
     @ or_text (dget (obj_of (dget m ''metadata'')) ''name'') ''<unnamed>''"

section \<open>The request\<close>

record deploy_context =
  dc_correlation :: string
  dc_thread :: string
  dc_principal :: string

record envelope =
  env_intent :: dict
  env_context :: deploy_context

definition correlation_ok :: "string \<Rightarrow> bool" where
  "correlation_ok c \<longleftrightarrow> length c = 32 \<and> list_all is_hex_lower c"

definition validate_context :: "deploy_context \<Rightarrow> failure + unit" where
  "validate_context c =
     (if \<not> correlation_ok (dc_correlation c) then
        Inl (named ''request-validation'' ''correlationId must be exactly 32 lowercase hexadecimal characters'' None)
      else if strip (dc_thread c) = [] then
        Inl (named ''request-validation'' ''threadId is required'' None)
      else if strip (dc_principal c) = [] then
        Inl (named ''request-validation'' ''principal is required'' None)
      else Inr ())"

text \<open>\<open>sha\<close> is the hexadecimal SHA-256 of a text.\<close>

definition bare_intent_context :: "(string \<Rightarrow> string) \<Rightarrow> dict \<Rightarrow> deploy_context" where
  "bare_intent_context sha intent =
     \<lparr>dc_correlation = take 32 (sha (dumps_compact (sort_keys (JObj intent)))),
      dc_thread = ''bare-intent:'' @ or_text (dget intent ''serviceId'') ''unknown'',
      dc_principal = ''compat-direct''\<rparr>"

definition DATA_FENCE :: rx where
  "DATA_FENCE =
     cat [lit ''<<<DATA worker_text'', star (Chr (\<lambda>c. c \<noteq> CHR ''>'')), lit ''>>>'', lit nl,
          Grp ''1'' (lazy any), lit nl,
          lit ''<<<END_DATA worker_text'', star (Chr (\<lambda>c. c \<noteq> CHR ''>'')), lit ''>>>'']"

definition unfence :: "string \<Rightarrow> string" where
  "unfence t = (case search_group DATA_FENCE ''1'' t of Some g \<Rightarrow> g | None \<Rightarrow> t)"

definition context_keys :: "string list" where
  "context_keys = [''correlationId'', ''threadId'', ''principal'']"

definition missing_context :: "dict \<Rightarrow> string list" where
  "missing_context c = filter (\<lambda>k. strip (str_or_empty (dget c k)) = []) context_keys"

definition envelope_of :: "dict \<Rightarrow> dict \<Rightarrow> failure + envelope option" where
  "envelope_of intent c =
     (if missing_context c \<noteq> [] then
        Inl (named ''request-validation''
          (''deployment envelope context is missing '' @ join '', '' (missing_context c)) None)
      else
        (let ctx = \<lparr>dc_correlation = strip (jstr (dget c ''correlationId'')),
                    dc_thread = strip (jstr (dget c ''threadId'')),
                    dc_principal = strip (jstr (dget c ''principal''))\<rparr>
         in map_res (\<lambda>_. Some \<lparr>env_intent = intent, env_context = ctx\<rparr>) (validate_context ctx)))"

definition is_submission :: "dict \<Rightarrow> bool" where
  "is_submission d \<longleftrightarrow> lower (strip (str_or_empty (dget d ''action''))) = ''submit''
     \<or> (has_key ''intent'' d \<and> has_key ''context'' d)"

text \<open>\<open>Inr None\<close>: the text is not a submission.\<close>

definition parse_deployment_envelope :: "(string \<Rightarrow> string) \<Rightarrow> string \<Rightarrow> failure + envelope option" where
  "parse_deployment_envelope sha text =
     (case loads (unfence text) of
        Some (JObj d) \<Rightarrow>
          if is_submission d then
            (case dget d ''intent'' of
               JObj intent \<Rightarrow>
                 (case dget d ''context'' of
                    JObj c \<Rightarrow> envelope_of intent c
                  | _ \<Rightarrow> Inl (named ''request-validation'' (''deployment envelope field '' @ squote @ ''context''
                            @ squote @ '' must be an object'') None))
             | _ \<Rightarrow> Inl (named ''request-validation'' (''deployment envelope field '' @ squote @ ''intent''
                       @ squote @ '' must be an object'') None))
          else if has_key ''serviceId'' d \<and> has_key ''type'' d \<and> has_key ''tenant'' d
          then Inr (Some \<lparr>env_intent = d, env_context = bare_intent_context sha d\<rparr>)
          else Inr None
      | _ \<Rightarrow> Inr None)"

section \<open>The manifests\<close>

definition INTENT_NAMESPACE :: string where "INTENT_NAMESPACE = ''agentic-netops-intent''"
definition CORRELATION_LABEL :: string where "CORRELATION_LABEL = ''agentic-netops.io/correlation-id''"
definition TIER_LABEL :: string where "TIER_LABEL = ''agentic-netops.io/tier''"
definition THREAD_ANNOTATION :: string where "THREAD_ANNOTATION = ''agentic-netops.io/intent-thread-id''"
definition PRINCIPAL_ANNOTATION :: string where "PRINCIPAL_ANNOTATION = ''agentic-netops.io/intent-principal''"
definition SUBMITTED_AT_ANNOTATION :: string where "SUBMITTED_AT_ANNOTATION = ''agentic-netops.io/intent-submitted-at''"

definition RESOURCE_PATHS :: "((string \<times> string) \<times> string) list" where
  "RESOURCE_PATHS = [((''network.kubenet.dev/v1alpha1'', ''Network''), ''networks''),
     ((''agentic-netops.io/v1alpha1'', ''SRv6Service''), ''srv6services'')]"

definition allowed :: "string \<Rightarrow> string \<Rightarrow> bool" where
  "allowed a k \<longleftrightarrow> map_of RESOURCE_PATHS (a, k) \<noteq> None"

definition dns_subdomain :: "string \<Rightarrow> bool" where
  "dns_subdomain s \<longleftrightarrow> s \<noteq> [] \<and> label_char (hd s) \<and> label_char (last s)
     \<and> list_all (\<lambda>c. label_char c \<or> c = CHR ''-'' \<or> c = CHR ''.'') s"

definition setdefault :: "string \<Rightarrow> json \<Rightarrow> dict \<Rightarrow> dict" where
  "setdefault k v d = (if has_key k d then d else dset k v d)"

definition invalid_manifest :: "string \<Rightarrow> string \<Rightarrow> failure" where
  "invalid_manifest m res = named ''manifest-validation'' m (Some res)"

text \<open>The metadata as the deployer owns it: its namespace, no server fields, the request's marks.\<close>

definition owned_metadata :: "dict \<Rightarrow> dict" where
  "owned_metadata md =
     setdefault ''annotations'' (JObj []) (setdefault ''labels'' (JObj [])
       (fold dpop [''uid'', ''resourceVersion'', ''generation'', ''managedFields'']
         (dset ''namespace'' (JStr INTENT_NAMESPACE) md)))"

definition stamp :: "deploy_context \<Rightarrow> string \<Rightarrow> dict \<Rightarrow> dict \<Rightarrow> dict \<Rightarrow> dict" where
  "stamp ctx ts md labels annotations =
     dset ''annotations''
       (JObj (dset SUBMITTED_AT_ANNOTATION (JStr ts)
         (dset PRINCIPAL_ANNOTATION (JStr (dc_principal ctx))
           (dset THREAD_ANNOTATION (JStr (dc_thread ctx)) annotations))))
       (dset ''labels''
         (JObj (dset TIER_LABEL (JStr ''intent'')
           (dset CORRELATION_LABEL (JStr (dc_correlation ctx)) labels))) md)"

fun hashable :: "json \<Rightarrow> bool" where
  "hashable (JArr xs) = False"
| "hashable (JObj d) = False"
| "hashable _ = True"

type_synonym identity3 = "string \<times> string \<times> string"

definition prepare_manifest ::
    "deploy_context \<Rightarrow> string \<Rightarrow> identity3 list \<Rightarrow> json \<Rightarrow> failure + identity3 \<times> dict" where
  "prepare_manifest ctx ts seen raw =
     (case raw of
        JObj m \<Rightarrow>
          if \<not> hashable (dget m ''apiVersion'') \<or> \<not> hashable (dget m ''kind'') then
            Inl (Other ''TypeError: unhashable type'')
          else
            (case (dget m ''apiVersion'', dget m ''kind'') of
               (JStr a, JStr k) \<Rightarrow>
                 if \<not> allowed a k then
                   Inl (invalid_manifest (''resource '' @ a @ ''/'' @ k @ '' is outside the deployer allow-list'')
                     (resource_identity m))
                 else
                   (case dget m ''metadata'' of
                      JObj md \<Rightarrow>
                        (case dget md ''name'' of
                           JStr n \<Rightarrow>
                             if 253 < char_count n \<or> \<not> dns_subdomain n then
                               Inl (invalid_manifest ''metadata.name is not a valid DNS subdomain'' (resource_identity m))
                             else if \<not> is_obj (dget m ''spec'') then
                               Inl (invalid_manifest ''spec must be an object'' (k @ ''/'' @ n))
                             else if (a, k, n) \<in> set seen then
                               Inl (invalid_manifest ''duplicate resource in translated bundle'' (k @ ''/'' @ n))
                             else
                               (let md' = owned_metadata md in
                                case (dget md' ''labels'', dget md' ''annotations'') of
                                  (JObj ls, JObj as) \<Rightarrow>
                                    Inr ((a, k, n), dset ''metadata'' (JObj (stamp ctx ts md' ls as)) m)
                                | _ \<Rightarrow> Inl (invalid_manifest ''metadata labels/annotations must be objects'' (k @ ''/'' @ n)))
                         | _ \<Rightarrow> Inl (invalid_manifest ''metadata.name is not a valid DNS subdomain'' (resource_identity m)))
                    | _ \<Rightarrow> Inl (invalid_manifest ''metadata must be an object'' (resource_identity m)))
             | (ja, jk) \<Rightarrow>
                 Inl (invalid_manifest (''resource '' @ jstr ja @ ''/'' @ jstr jk @ '' is outside the deployer allow-list'')
                   (resource_identity m)))
      | _ \<Rightarrow> Inl (named ''manifest-validation'' ''translator returned a non-object manifest'' None))"

fun prepare_manifests ::
    "deploy_context \<Rightarrow> string \<Rightarrow> identity3 list \<Rightarrow> json list \<Rightarrow> failure + dict list" where
  "prepare_manifests ctx ts seen [] = Inr []"
| "prepare_manifests ctx ts seen (j # js) =
     bind_res (prepare_manifest ctx ts seen j)
       (\<lambda>(i, m). map_res (Cons m) (prepare_manifests ctx ts (i # seen) js))"

text \<open>The order of the apply: namespace, kind, name; a stable sort.\<close>

definition apply_key :: "dict \<Rightarrow> string \<times> string \<times> string" where
  "apply_key m =
     (let md = obj_of (dget m ''metadata'')
      in (str_or_empty (dget md ''namespace''), str_or_empty (dget m ''kind''), str_or_empty (dget md ''name'')))"

definition deterministic_apply_order :: "dict list \<Rightarrow> dict list" where
  "deterministic_apply_order ms = sort_key apply_key ms"

definition validate_and_stamp :: "deploy_context \<Rightarrow> string \<Rightarrow> json list \<Rightarrow> failure + dict list" where
  "validate_and_stamp ctx ts js =
     bind_res (validate_context ctx) (\<lambda>_.
     bind_res (prepare_manifests ctx ts [] js) (\<lambda>ms.
       if ms = [] then Inl (named ''manifest-validation'' ''translator returned an empty manifest bundle'' None)
       else Inr (deterministic_apply_order ms)))"

section \<open>What the bundle is\<close>

definition metadata_of :: "dict \<Rightarrow> dict" where
  "metadata_of m = obj_of (dget m ''metadata'')"

definition label_of :: "dict \<Rightarrow> string \<Rightarrow> json" where
  "label_of m k = dget (obj_of (dget (metadata_of m) ''labels'')) k"

definition annotation_of :: "dict \<Rightarrow> string \<Rightarrow> json" where
  "annotation_of m k = dget (obj_of (dget (metadata_of m) ''annotations'')) k"

definition identity_of :: "dict \<Rightarrow> identity3" where
  "identity_of m = (jstr (dget m ''apiVersion''), jstr (dget m ''kind''), jstr (dget (metadata_of m) ''name''))"

text \<open>A manifest the deployer may send: of an allowed kind, in the tier's namespace, marked with the request.\<close>

definition well_stamped :: "deploy_context \<Rightarrow> string \<Rightarrow> dict \<Rightarrow> bool" where
  "well_stamped ctx ts m \<longleftrightarrow>
     (\<exists>a k n. dget m ''apiVersion'' = JStr a \<and> dget m ''kind'' = JStr k \<and> allowed a k
        \<and> dget (metadata_of m) ''name'' = JStr n \<and> dns_subdomain n \<and> char_count n \<le> 253)
     \<and> is_obj (dget m ''spec'')
     \<and> dget (metadata_of m) ''namespace'' = JStr INTENT_NAMESPACE
     \<and> label_of m CORRELATION_LABEL = JStr (dc_correlation ctx) \<and> label_of m TIER_LABEL = JStr ''intent''
     \<and> annotation_of m THREAD_ANNOTATION = JStr (dc_thread ctx)
     \<and> annotation_of m PRINCIPAL_ANNOTATION = JStr (dc_principal ctx)
     \<and> annotation_of m SUBMITTED_AT_ANNOTATION = JStr ts"

lemmas mark_defs =
  CORRELATION_LABEL_def TIER_LABEL_def THREAD_ANNOTATION_def PRINCIPAL_ANNOTATION_def
  SUBMITTED_AT_ANNOTATION_def

lemma dget_setdefault: "dget (setdefault k v d) k' = (if k' = k \<and> \<not> has_key k d then v else dget d k')"
  by (simp add: setdefault_def dict_simps)

lemma owned_metadata_simps:
  "dget (owned_metadata md) ''name'' = dget md ''name''"
  "dget (owned_metadata md) ''namespace'' = JStr INTENT_NAMESPACE"
  by (simp_all add: owned_metadata_def dget_setdefault dict_simps)

lemma dget_stamp:
  "dget (stamp ctx ts md ls as) k =
     (if k = ''annotations'' then JObj (dset SUBMITTED_AT_ANNOTATION (JStr ts)
         (dset PRINCIPAL_ANNOTATION (JStr (dc_principal ctx))
           (dset THREAD_ANNOTATION (JStr (dc_thread ctx)) as)))
      else if k = ''labels'' then JObj (dset TIER_LABEL (JStr ''intent'')
           (dset CORRELATION_LABEL (JStr (dc_correlation ctx)) ls))
      else dget md k)"
  by (simp add: stamp_def dict_simps)

lemma prepare_manifest_Inr:
  assumes "prepare_manifest ctx ts seen j = Inr (i, m)"
  shows "well_stamped ctx ts m \<and> identity_of m = i \<and> i \<notin> set seen"
proof -
  from assms obtain m0 a k md n ls as where
    "j = JObj m0" "dget m0 ''apiVersion'' = JStr a" "dget m0 ''kind'' = JStr k" "allowed a k"
    "dget md ''name'' = JStr n" "dns_subdomain n" "\<not> 253 < char_count n" "is_obj (dget m0 ''spec'')"
    "(a, k, n) \<notin> set seen" "i = (a, k, n)"
    "m = dset ''metadata'' (JObj (stamp ctx ts (owned_metadata md) ls as)) m0"
    by (auto simp: prepare_manifest_def Let_def split: json.split_asm if_split_asm)
  then show ?thesis
    by (simp add: well_stamped_def identity_of_def metadata_of_def label_of_def annotation_of_def
        dict_simps dget_stamp owned_metadata_simps) (simp add: mark_defs)
qed

lemma prepare_manifests_Inr:
  "prepare_manifests ctx ts seen js = Inr ms \<Longrightarrow>
     length ms = length js \<and> (\<forall>m \<in> set ms. well_stamped ctx ts m)
     \<and> distinct (map identity_of ms) \<and> set (map identity_of ms) \<inter> set seen = {}"
proof (induction js arbitrary: seen ms)
  case (Cons j js)
  then obtain i m ms' where m: "prepare_manifest ctx ts seen j = Inr (i, m)"
    and r: "prepare_manifests ctx ts (i # seen) js = Inr ms'" "ms = m # ms'" by auto
  from prepare_manifest_Inr [OF m] Cons.IH [OF r(1)] r(2) show ?case by auto
qed simp

text \<open>Every prepared bundle: stamped, without duplicates, in the order of the apply.\<close>

lemma validate_and_stamp_Inr:
  assumes "validate_and_stamp ctx ts js = Inr ms"
  shows "length ms = length js \<and> ms \<noteq> [] \<and> (\<forall>m \<in> set ms. well_stamped ctx ts m)
    \<and> distinct (map identity_of ms) \<and> sorted (map apply_key ms)"
proof -
  obtain ms' where p: "prepare_manifests ctx ts [] js = Inr ms'" and m: "ms = sort_key apply_key ms'" "ms' \<noteq> []"
    using assms by (auto simp: validate_and_stamp_def deterministic_apply_order_def split: if_splits)
  have "distinct (map identity_of ms) = distinct (map identity_of ms')"
    by (simp add: m(1) distinct_map)
  moreover have "length ms = length ms'" by (simp add: m(1))
  moreover from this m(2) have "ms \<noteq> []" by auto
  moreover have "set ms = set ms'" "sorted (map apply_key ms)" by (simp_all add: m(1))
  ultimately show ?thesis using prepare_manifests_Inr [OF p] by simp
qed

lemma apply_order_idem: "sorted (map apply_key ms) \<Longrightarrow> deterministic_apply_order ms = ms"
  by (simp add: deterministic_apply_order_def sort_key_id_if_sorted)

end
