(* ===== verification/Transaction.thy ===== *)
theory Transaction
  imports Manifest
begin

text \<open>
  The deployment transaction of src/agents/provisioning/deployer/submit.py over the client it is
  given (\<open>IntentAPI\<close>): dry run of the whole bundle, the access-list pre-flight, the ordered apply
  with its rollback, and the convergence watch of src/agents/provisioning/deployer/watch.py. The
  operations of the client act on a state of any type; a raised exception is its text (\<open>Inl\<close>).
\<close>

section \<open>The client\<close>

record 's intent_api =
  api_dry_run :: "dict \<Rightarrow> 's \<Rightarrow> (string + dict) \<times> 's"
  api_apply :: "dict \<Rightarrow> 's \<Rightarrow> (string + dict) \<times> 's"
  api_get :: "resource_ref \<Rightarrow> 's \<Rightarrow> (string + dict option) \<times> 's"
  api_list :: "string \<Rightarrow> 's \<Rightarrow> (string + dict list) \<times> 's"
  api_networks :: "'s \<Rightarrow> (string + dict list) \<times> 's"
  api_delete :: "resource_ref \<Rightarrow> 's \<Rightarrow> (string + bool) \<times> 's"

text \<open>What the deployer takes from outside: pydantic's readers and the text of its errors.\<close>

record deploy_world =
  dw_lax :: lax
  dw_pyd_text :: "field_error list \<Rightarrow> string"
  dw_time :: string   \<comment> \<open>the submission time, rendered\<close>

definition ref_from_object :: "deploy_world \<Rightarrow> dict \<Rightarrow> string + resource_ref" where
  "ref_from_object W d =
     (let md = obj_of (dget d ''metadata'') in
      case validate_ref (dw_lax W)
             [(''apiVersion'', JStr (str_or_empty (dget d ''apiVersion''))),
              (''kind'', JStr (str_or_empty (dget d ''kind''))),
              (''namespace'', JStr (or_text (dget md ''namespace'') INTENT_NAMESPACE)),
              (''name'', JStr (str_or_empty (dget md ''name''))),
              (''uid'', if truthy (dget md ''uid'') then JStr (jstr (dget md ''uid'')) else JNull),
              (''ready'', JNull)] of
        Inl es \<Rightarrow> Inl (dw_pyd_text W es)
      | Inr r \<Rightarrow> Inr r)"

section \<open>Dry run and pre-flight\<close>

fun dry_run_all :: "'s intent_api \<Rightarrow> dict list \<Rightarrow> 's \<Rightarrow> (failure + dict list) \<times> 's" where
  "dry_run_all A [] s = (Inr [], s)"
| "dry_run_all A (m # ms) s =
     (case api_dry_run A m s of
        (Inl e, s1) \<Rightarrow> (Inl (named ''dry-run'' e (Some (resource_identity m))), s1)
      | (Inr d, s1) \<Rightarrow> (let (r, s2) = dry_run_all A ms s1 in (map_res (Cons d) r, s2)))"

text \<open>Who binds an access list to a port at a stage: \<open>(port, stage)\<close> to \<open>(service, list)\<close>.\<close>

type_synonym holders = "string \<times> string \<Rightarrow> (string \<times> string) option"

definition spec_ports :: "dict \<Rightarrow> string list" where
  "spec_ports sp =
     filter (\<lambda>p. p \<noteq> []) (map (\<lambda>a. str_or_empty (dget (obj_of a) ''attachment''))
       (filter is_obj (arr_of (dget sp ''attachments''))))"

definition spec_lists :: "dict \<Rightarrow> (string \<times> string) list" where
  "spec_lists sp =
     filter (\<lambda>(st, n). st \<in> {''ingress'', ''egress''})
       (map (\<lambda>a. (lower (str_or_empty (dget (obj_of a) ''stage'')), str_or_empty (dget (obj_of a) ''name'')))
         (filter is_obj (arr_of (dget sp ''accessLists''))))"

text \<open>The bindings of one object, list by list and port by port.\<close>

definition bindings :: "dict \<Rightarrow> (string \<times> string \<times> string) list" where
  "bindings obj =
     (let sp = obj_of (dget obj ''spec'')
      in concat (map (\<lambda>(st, n). map (\<lambda>p. (p, st, n)) (spec_ports sp)) (spec_lists sp)))"

definition object_name :: "dict \<Rightarrow> string" where
  "object_name obj = str_or_empty (dget (obj_of (dget obj ''metadata'')) ''name'')"

definition register_bindings :: "string \<Rightarrow> (string \<times> string \<times> string) list \<Rightarrow> holders \<Rightarrow> holders" where
  "register_bindings svc bs H = fold (\<lambda>(p, st, n) h. h((p, st) := Some (svc, n))) bs H"

definition existing_holders :: "dict list \<Rightarrow> holders" where
  "existing_holders objs = fold (\<lambda>ob. register_bindings (object_name ob) (bindings ob)) objs (\<lambda>_. None)"

definition binding_refused :: "string \<Rightarrow> string \<Rightarrow> string \<times> string \<Rightarrow> failure" where
  "binding_refused p st h =
     named ''pre-flight''
       (''refuse_acl_port_binding: port '' @ p @ '' already bound to an ACL at '' @ st @ '' stage by service ''
        @ fst h @ '' (acl '' @ snd h @ ''); refusing to bind a second ACL'') None"

text \<open>The bindings of a manifest no one holds, or the refusal of the first one another service holds.\<close>

fun own_bindings ::
    "holders \<Rightarrow> string \<Rightarrow> (string \<times> string \<times> string) list \<Rightarrow> failure + (string \<times> string \<times> string) list" where
  "own_bindings H svc [] = Inr []"
| "own_bindings H svc ((p, st, n) # bs) =
     (case H (p, st) of
        Some h \<Rightarrow>
          if fst h = svc then own_bindings H svc bs else Inl (binding_refused p st h)
      | None \<Rightarrow> map_res (Cons (p, st, n)) (own_bindings H svc bs))"

definition is_network :: "dict \<Rightarrow> bool" where
  "is_network m \<longleftrightarrow> dget m ''apiVersion'' = JStr ''network.kubenet.dev/v1alpha1'' \<and> dget m ''kind'' = JStr ''Network''"

fun check_bindings :: "holders \<Rightarrow> dict list \<Rightarrow> failure + unit" where
  "check_bindings H [] = Inr ()"
| "check_bindings H (m # ms) =
     (if \<not> is_network m then check_bindings H ms
      else bind_res (own_bindings H (object_name m) (bindings m))
             (\<lambda>bs. check_bindings (register_bindings (object_name m) bs H) ms))"

definition preflight_acl_binding :: "'s intent_api \<Rightarrow> dict list \<Rightarrow> 's \<Rightarrow> (failure + unit) \<times> 's" where
  "preflight_acl_binding A ms s =
     (case api_networks A s of
        (Inl e, s1) \<Rightarrow> (Inl (named ''pre-flight'' (''could not list existing Networks: '' @ e) None), s1)
      | (Inr objs, s1) \<Rightarrow> (check_bindings (existing_holders objs) ms, s1))"

section \<open>Apply and rollback\<close>

text \<open>Reading the references of the listed objects; the first one that does not validate escapes.\<close>

fun refs_from_objects :: "deploy_world \<Rightarrow> dict list \<Rightarrow> string + resource_ref list" where
  "refs_from_objects W [] = Inr []"
| "refs_from_objects W (d # ds) =
     bind_res (ref_from_object W d) (\<lambda>r. map_res (Cons r) (refs_from_objects W ds))"

definition ref_key :: "resource_ref \<Rightarrow> string \<times> string \<times> string" where
  "ref_key r = (r_namespace r, r_kind r, r_name r)"

fun delete_all ::
    "'s intent_api \<Rightarrow> resource_ref list \<Rightarrow> 's \<Rightarrow> (resource_ref list \<times> resource_ref list) \<times> 's" where
  "delete_all A [] s = (([], []), s)"
| "delete_all A (r # rs) s =
     (let (d, s1) = api_delete A r s; ((del, surv), s2) = delete_all A rs s1
      in if d = Inr True then ((r # del, surv), s2) else ((del, r # surv), s2))"

definition rollback_by_selector ::
    "deploy_world \<Rightarrow> 's intent_api \<Rightarrow> string \<Rightarrow> 's \<Rightarrow> (failure + resource_ref list \<times> resource_ref list) \<times> 's" where
  "rollback_by_selector W A cid s =
     (case api_list A cid s of
        (Inl e, s1) \<Rightarrow> (Inl (named ''rollback'' (''could not enumerate rollback set: '' @ e) None), s1)
      | (Inr objs, s1) \<Rightarrow>
          (case refs_from_objects W objs of
             Inl e \<Rightarrow> (Inl (Other e), s1)
           | Inr refs \<Rightarrow> (let (p, s2) = delete_all A (sort_key ref_key refs) s1 in (Inr p, s2))))"

text \<open>What a failed apply raises after its rollback.\<close>

definition apply_failed ::
    "deploy_world \<Rightarrow> 's intent_api \<Rightarrow> string \<Rightarrow> dict \<Rightarrow> string \<Rightarrow> resource_ref list \<Rightarrow> 's \<Rightarrow> failure \<times> 's" where
  "apply_failed W A cid m e submitted s =
     (case rollback_by_selector W A cid s of
        (Inl (Named x), s1) \<Rightarrow>
          (Named (transaction_error_of ''apply'' (e @ ''; rollback also failed: '' @ te_text x)
             (Some (resource_identity m)) [] submitted), s1)
      | (Inl (Other x), s1) \<Rightarrow> (Other x, s1)
      | (Inr (rolled, surv), s1) \<Rightarrow>
          (Named (transaction_error_of ''apply'' (e @ (if surv \<noteq> [] then ''; rollback incomplete'' else []))
             (Some (resource_identity m)) rolled surv), s1))"

fun apply_loop ::
    "deploy_world \<Rightarrow> 's intent_api \<Rightarrow> string \<Rightarrow> resource_ref list \<Rightarrow> dict list \<Rightarrow> 's
       \<Rightarrow> (failure + resource_ref list) \<times> 's" where
  "apply_loop W A cid submitted [] s = (Inr submitted, s)"
| "apply_loop W A cid submitted (m # ms) s =
     (let (r, s1) = api_apply A m s in
      case bind_res r (ref_from_object W) of
        Inl e \<Rightarrow> (let (f, s2) = apply_failed W A cid m e submitted s1 in (Inl f, s2))
      | Inr ref \<Rightarrow> apply_loop W A cid (submitted @ [ref]) ms s1)"

definition apply_all ::
    "deploy_world \<Rightarrow> 's intent_api \<Rightarrow> string \<Rightarrow> dict list \<Rightarrow> 's \<Rightarrow> (failure + resource_ref list) \<times> 's" where
  "apply_all W A cid ms s = apply_loop W A cid [] (deterministic_apply_order ms) s"

end
