(* ===== verification/Kube.thy ===== *)
theory Kube
  imports Transaction
begin

text \<open>
  \<open>KubernetesIntentClient\<close> of src/agents/provisioning/deployer/submit.py: the client of the
  transaction over HTTP. \<open>http\<close> sends a request to the API server and returns its answer, or the
  text of the exception of the HTTP library.
\<close>

datatype http_method = PATCH | GET | DELETE | POST

record http_request =
  hq_method :: http_method
  hq_url :: string
  hq_params :: "(string \<times> string) list"
  hq_body :: json

text \<open>The body: its JSON, or the text of the error reading it as JSON raises; and its text.\<close>

record http_response =
  hr_status :: int
  hr_json :: "string + json"
  hr_text :: string

type_synonym 's http = "http_request \<Rightarrow> 's \<Rightarrow> (string + http_response) \<times> 's"

definition FIELD_MANAGER :: string where "FIELD_MANAGER = ''agentic-netops-intent-deployer''"

text \<open>\<open>urllib.parse.quote(s, safe='')\<close>.\<close>

definition unreserved :: "char \<Rightarrow> bool" where
  "unreserved c \<longleftrightarrow> is_alnum c \<or> c \<in> {CHR ''_'', CHR ''.'', CHR ''-'', CHR ''~''}"

definition upper_hex :: "int \<Rightarrow> char" where
  "upper_hex n = char_of (if n < 10 then 48 + n else 55 + n)"

definition quote_url :: "string \<Rightarrow> string" where
  "quote_url s =
     concat (map (\<lambda>c. if unreserved c then [c]
       else [CHR ''%'', upper_hex (code c div 16), upper_hex (code c mod 16)]) s)"

definition plural_of :: "string \<Rightarrow> string \<Rightarrow> failure + string" where
  "plural_of a k =
     (case map_of RESOURCE_PATHS (a, k) of
        Some p \<Rightarrow> Inr p
      | None \<Rightarrow> Inl (named ''manifest-validation''
                 (''resource '' @ a @ ''/'' @ k @ '' is outside the deployer allow-list'') None))"

definition collection_url :: "string \<Rightarrow> string \<Rightarrow> string \<Rightarrow> string + string" where
  "collection_url endpoint a k =
     (if CHR ''/'' \<notin> set a then Inl ''not enough values to unpack (expected 2, got 1)''
      else
        (let (grp, ver) = split_first CHR ''/'' a in
         case plural_of a k of
           Inl f \<Rightarrow> Inl (failure_str f)
         | Inr p \<Rightarrow> Inr (endpoint @ ''/apis/'' @ quote_url grp @ ''/'' @ quote_url ver
                       @ ''/namespaces/'' @ quote_url INTENT_NAMESPACE @ ''/'' @ p)))"

definition object_url :: "string \<Rightarrow> string \<Rightarrow> string \<Rightarrow> string \<Rightarrow> string + string" where
  "object_url endpoint a k n = map_res (\<lambda>c. c @ ''/'' @ quote_url n) (collection_url endpoint a k)"

definition api_error :: "http_response \<Rightarrow> string" where
  "api_error r =
     (case hr_json r of
        Inr (JObj b) \<Rightarrow>
          take_chars 600 (jstr (jor (jor (dget b ''message'') (dget b ''reason'')) (JObj b)))
      | _ \<Rightarrow>
          (let t = take_chars 600 (strip (hr_text r))
           in if t \<noteq> [] then t else ''HTTP '' @ str_int (hr_status r)))"

definition ok_status :: "http_response \<Rightarrow> bool" where
  "ok_status r \<longleftrightarrow> hr_status r div 100 = 2"

definition status_error :: "http_response \<Rightarrow> string" where
  "status_error r = ''HTTP '' @ str_int (hr_status r) @ '': '' @ api_error r"

definition server_side_apply :: "string \<Rightarrow> 's http \<Rightarrow> bool \<Rightarrow> dict \<Rightarrow> 's \<Rightarrow> (string + dict) \<times> 's" where
  "server_side_apply endpoint http dry m s =
     (case object_url endpoint (jstr (dget m ''apiVersion'')) (jstr (dget m ''kind''))
             (jstr (dget (obj_of (dget m ''metadata'')) ''name'')) of
        Inl e \<Rightarrow> (Inl e, s)
      | Inr u \<Rightarrow>
          (case http \<lparr>hq_method = PATCH, hq_url = u,
                  hq_params = (''fieldManager'', FIELD_MANAGER) # (if dry then [(''dryRun'', ''All'')] else []),
                  hq_body = JObj m\<rparr> s of
             (Inl x, s1) \<Rightarrow> (Inl (''Kubernetes API request failed: '' @ x), s1)
           | (Inr r, s1) \<Rightarrow>
               ((if \<not> ok_status r then Inl (status_error r)
                 else (case hr_json r of
                         Inl x \<Rightarrow> Inl x
                       | Inr (JObj b) \<Rightarrow> Inr b
                       | Inr _ \<Rightarrow> Inl ''Kubernetes API returned a non-object response'')), s1)))"

definition get_request :: "string \<Rightarrow> (string \<times> string) list \<Rightarrow> http_request" where
  "get_request u ps = \<lparr>hq_method = GET, hq_url = u, hq_params = ps, hq_body = JNull\<rparr>"

definition kube_get :: "string \<Rightarrow> 's http \<Rightarrow> resource_ref \<Rightarrow> 's \<Rightarrow> (string + dict option) \<times> 's" where
  "kube_get endpoint http r s =
     (case object_url endpoint (r_apiVersion r) (r_kind r) (r_name r) of
        Inl e \<Rightarrow> (Inl e, s)
      | Inr u \<Rightarrow>
          (case http (get_request u []) s of
             (Inl x, s1) \<Rightarrow> (Inl x, s1)
           | (Inr p, s1) \<Rightarrow>
               ((if hr_status p = 404 then Inr None
                 else if \<not> ok_status p then Inl (status_error p)
                 else (case hr_json p of
                         Inl x \<Rightarrow> Inl x
                       | Inr (JObj b) \<Rightarrow> Inr (Some b)
                       | Inr _ \<Rightarrow> Inr None)), s1)))"

text \<open>The objects of a list answer: the object items of its \<open>items\<close>; \<open>Inl\<close> when they cannot be iterated.\<close>

definition list_items :: "json \<Rightarrow> string + dict list" where
  "list_items j =
     (case j of
        JObj b \<Rightarrow>
          (if has_key ''items'' b
           then (case json_iter (dget b ''items'') of
                   Some xs \<Rightarrow> Inr (map obj_of (filter is_obj xs))
                 | None \<Rightarrow> Inl ''TypeError: object is not iterable'')
           else Inr [])
      | _ \<Rightarrow> Inr [])"

definition list_kind ::
    "string \<Rightarrow> 's http \<Rightarrow> (string \<times> string) list \<Rightarrow> string \<times> string \<Rightarrow> 's \<Rightarrow> (string + dict list) \<times> 's" where
  "list_kind endpoint http ps ak s =
     (case collection_url endpoint (fst ak) (snd ak) of
        Inl e \<Rightarrow> (Inl e, s)
      | Inr u \<Rightarrow>
          (case http (get_request u ps) s of
             (Inl x, s1) \<Rightarrow> (Inl x, s1)
           | (Inr p, s1) \<Rightarrow>
               ((if hr_status p = 404 then Inr []
                 else if \<not> ok_status p
                   then Inl (''list '' @ fst ak @ ''/'' @ snd ak @ '': '' @ status_error p)
                 else (case hr_json p of Inl x \<Rightarrow> Inl x | Inr j \<Rightarrow> list_items j)), s1)))"

fun list_kinds ::
    "string \<Rightarrow> 's http \<Rightarrow> (string \<times> string) list \<Rightarrow> (string \<times> string) list \<Rightarrow> 's
       \<Rightarrow> (string + dict list) \<times> 's" where
  "list_kinds endpoint http ps [] s = (Inr [], s)"
| "list_kinds endpoint http ps (ak # aks) s =
     (case list_kind endpoint http ps ak s of
        (Inl e, s1) \<Rightarrow> (Inl e, s1)
      | (Inr xs, s1) \<Rightarrow> (let (r, s2) = list_kinds endpoint http ps aks s1 in (map_res (\<lambda>ys. xs @ ys) r, s2)))"

definition allowed_kinds :: "(string \<times> string) list" where
  "allowed_kinds = sort (map fst RESOURCE_PATHS)"

definition kube_list :: "string \<Rightarrow> 's http \<Rightarrow> string \<Rightarrow> 's \<Rightarrow> (string + dict list) \<times> 's" where
  "kube_list endpoint http cid s =
     list_kinds endpoint http [(''labelSelector'', CORRELATION_LABEL @ ''='' @ cid)] allowed_kinds s"

definition kube_networks :: "string \<Rightarrow> 's http \<Rightarrow> 's \<Rightarrow> (string + dict list) \<times> 's" where
  "kube_networks endpoint http s =
     list_kind endpoint http [] (''network.kubenet.dev/v1alpha1'', ''Network'') s"

definition kube_delete :: "string \<Rightarrow> 's http \<Rightarrow> resource_ref \<Rightarrow> 's \<Rightarrow> (string + bool) \<times> 's" where
  "kube_delete endpoint http r s =
     (case object_url endpoint (r_apiVersion r) (r_kind r) (r_name r) of
        Inl e \<Rightarrow> (Inl e, s)
      | Inr u \<Rightarrow>
          (case http \<lparr>hq_method = DELETE, hq_url = u, hq_params = [],
                  hq_body = JObj [(''kind'', JStr ''DeleteOptions''), (''apiVersion'', JStr ''v1''),
                    (''propagationPolicy'', JStr ''Background'')]\<rparr> s of
             (Inl x, s1) \<Rightarrow> (Inl x, s1)
           | (Inr p, s1) \<Rightarrow> (Inr (hr_status p = 404 \<or> ok_status p), s1)))"

definition kube_api :: "string \<Rightarrow> 's http \<Rightarrow> 's intent_api" where
  "kube_api endpoint http =
     \<lparr>api_dry_run = server_side_apply endpoint http True,
      api_apply = server_side_apply endpoint http False,
      api_get = kube_get endpoint http,
      api_list = kube_list endpoint http,
      api_networks = kube_networks endpoint http,
      api_delete = kube_delete endpoint http\<rparr>"

end
