(* ===== verification/Kuid.thy ===== *)
theory Kuid
  imports Kube
begin

text \<open>
  The allocation client, src/agents/provisioning/allocator/kuid.py: claims of the KUID API, the wait
  for their status, the release by correlation id, and the Kubernetes leases the client falls back
  to. An operation acts on the state of the world and may raise; None is a wait whose fuel ran out.
\<close>

section \<open>Errors and effects\<close>

text \<open>The three exceptions of the module, and any other by its text.\<close>

datatype kuid_error = Api string | Collision string | Exhaustion string | Uncaught string

type_synonym ('s, 'a) eff = "'s \<Rightarrow> ((kuid_error + 'a) \<times> 's) option"

definition ret :: "'a \<Rightarrow> ('s, 'a) eff" where
  "ret a s = Some (Inr a, s)"

definition throw :: "kuid_error \<Rightarrow> ('s, 'a) eff" where
  "throw e s = Some (Inl e, s)"

definition lift :: "kuid_error + 'a \<Rightarrow> ('s, 'a) eff" where
  "lift r s = Some (r, s)"

fun bind_eff :: "('s, 'a) eff \<Rightarrow> ('a \<Rightarrow> ('s, 'b) eff) \<Rightarrow> ('s, 'b) eff" where
  "bind_eff m f s =
     (case m s of
        None \<Rightarrow> None
      | Some (Inl e, s1) \<Rightarrow> Some (Inl e, s1)
      | Some (Inr a, s1) \<Rightarrow> f a s1)"

text \<open>The world: the transport, the clock in milliseconds, sleeping, and fresh UUIDs.\<close>

record 's kuid_world =
  kw_http :: "'s http"
  kw_now :: "'s \<Rightarrow> int \<times> 's"
  kw_sleep :: "int \<Rightarrow> 's \<Rightarrow> 's"
  kw_uuid :: "'s \<Rightarrow> string \<times> 's"

text \<open>The configuration: the endpoint, the fallback, the indices with their ranges, and the ASN.\<close>

record kuid_config =
  kc_endpoint :: string
  kc_fallback :: string
  kc_l2vni_index :: string
  kc_l3vni_index :: string
  kc_vlan_index :: string
  kc_extcomm_index :: string
  kc_l2vni :: "int \<times> int"
  kc_l3vni :: "int \<times> int"
  kc_vlan :: "int \<times> int"
  kc_extcomm :: "int \<times> int"
  kc_asn :: string

section \<open>Names and URLs\<close>

definition CLIENT_V4_POOL :: string where "CLIENT_V4_POOL = ''srv6-client-v4''"

definition KUID_NAMESPACE :: string where "KUID_NAMESPACE = ''kuid-system''"

definition claim_name :: "string \<Rightarrow> string \<Rightarrow> string list \<Rightarrow> string" where
  "claim_name pool cid parts =
     (let n = join ''-'' ([pool, ''claim'', cid] @ parts)
      in if 63 < char_count n then strip_chars ''-.'' (take_chars 63 n) else n)"

definition rstrip_slash :: "string \<Rightarrow> string" where
  "rstrip_slash s = rev (dropWhile (\<lambda>c. c = CHR ''/'') (rev s))"

definition kuid_url :: "kuid_config \<Rightarrow> string \<Rightarrow> string \<Rightarrow> string" where
  "kuid_url C grp plural =
     rstrip_slash (kc_endpoint C)
     @ (if grp = [] then ''/api/v1/namespaces/'' @ KUID_NAMESPACE @ ''/'' @ plural
        else ''/apis/'' @ grp @ ''/v1alpha1/namespaces/'' @ KUID_NAMESPACE @ ''/'' @ plural)"

definition lease_url :: "kuid_config \<Rightarrow> string" where
  "lease_url C =
     rstrip_slash (kc_endpoint C) @ ''/apis/coordination.k8s.io/v1/namespaces/'' @ KUID_NAMESPACE @ ''/leases''"

definition classify_http_error :: "int \<Rightarrow> string \<Rightarrow> kuid_error" where
  "classify_http_error n text =
     (let low = lower text in
      if n = 409 \<and> (contains ''already exists'' low \<or> contains ''conflict'' low) then Collision text
      else if n \<in> {409, 422, 429} \<and> (contains ''exhaust'' low \<or> contains ''no available'' low) then Exhaustion text
      else Api (''kuid api error '' @ str_int n @ '': '' @ take_chars 300 text))"

section \<open>Reading JSON\<close>

text \<open>\<open>x.get\<close> needs a dict; \<open>x or {}\<close>.\<close>

definition as_dict :: "json \<Rightarrow> kuid_error + dict" where
  "as_dict j = (case j of JObj d \<Rightarrow> Inr d | _ \<Rightarrow> Inl (Uncaught ''AttributeError: object has no attribute get''))"

definition dict_or_empty :: "json \<Rightarrow> kuid_error + dict" where
  "dict_or_empty j = (if truthy j then as_dict j else Inr [])"

definition items_or_raise :: "json \<Rightarrow> kuid_error + json list" where
  "items_or_raise j =
     (case json_iter j of Some xs \<Rightarrow> Inr xs | None \<Rightarrow> Inl (Uncaught ''TypeError: object is not iterable''))"

text \<open>\<open>x.get(k, d)\<close>.\<close>

definition get_default :: "dict \<Rightarrow> string \<Rightarrow> json \<Rightarrow> json" where
  "get_default d k j = (if has_key k d then dget d k else j)"

definition claim_id :: "json \<Rightarrow> string \<Rightarrow> kuid_error + int" where
  "claim_id claim what =
     bind_res (as_dict claim) (\<lambda>c. bind_res (dict_or_empty (dget c ''status'')) (\<lambda>st.
       let v = (if dget st ''id'' \<noteq> JNull then dget st ''id''
                else jor (dget st ''value'') (jor (dget st ''allocated'') (dget st ''assigned'')))
       in case v of
            JInt n \<Rightarrow> Inr n
          | JBool b \<Rightarrow> Inr (if b then 1 else 0)
          | _ \<Rightarrow>
              (case py_int (jstr v) of
                 Some n \<Rightarrow> Inr n
               | None \<Rightarrow> Inl (Api (what @ '' claim has no numeric id: '' @ json_repr v)))))"

section \<open>Requests\<close>

definition send :: "'s kuid_world \<Rightarrow> http_method \<Rightarrow> string \<Rightarrow> (string \<times> string) list \<Rightarrow> json \<Rightarrow> ('s, http_response) eff" where
  "send K meth url ps body s =
     (case kw_http K \<lparr>hq_method = meth, hq_url = url, hq_params = ps, hq_body = body\<rparr> s of
        (Inl x, s1) \<Rightarrow> Some (Inl (Uncaught x), s1)
      | (Inr r, s1) \<Rightarrow> Some (Inr r, s1))"

text \<open>A response that has to be 2xx, and its body as JSON.\<close>

definition expect_ok :: "http_response \<Rightarrow> kuid_error + unit" where
  "expect_ok r = (if ok_status r then Inr () else Inl (classify_http_error (hr_status r) (hr_text r)))"

definition body_json :: "http_response \<Rightarrow> kuid_error + json" where
  "body_json r = (case hr_json r of Inr j \<Rightarrow> Inr j | Inl x \<Rightarrow> Inl (Uncaught x))"

definition read_ok :: "http_response \<Rightarrow> kuid_error + json" where
  "read_ok r = bind_res (expect_ok r) (\<lambda>_. body_json r)"

definition claim_body :: "string \<Rightarrow> string \<Rightarrow> json \<Rightarrow> string \<Rightarrow> string \<Rightarrow> json" where
  "claim_body grp kind spec cid nm =
     JObj [(''apiVersion'', JStr (if grp = [] then ''v1'' else grp @ ''/v1alpha1'')), (''kind'', JStr kind),
       (''metadata'', JObj [(''name'', JStr nm), (''namespace'', JStr KUID_NAMESPACE),
          (''labels'', JObj [(CORRELATION_LABEL, JStr cid)])]),
       (''spec'', spec)]"

text \<open>\<open>nm\<close> empty: the name is made of a fresh UUID.\<close>

definition create_claim ::
    "'s kuid_world \<Rightarrow> kuid_config \<Rightarrow> string \<Rightarrow> string \<Rightarrow> string \<Rightarrow> json \<Rightarrow> string \<Rightarrow> string \<Rightarrow> ('s, json) eff" where
  "create_claim K C grp plural kind spec cid nm s =
     (let (nm', s1) = (if nm \<noteq> [] then (nm, s) else (let (u, t) = kw_uuid K s in (''claim-'' @ take 12 u, t)))
      in bind_eff (send K POST (kuid_url C grp plural) [] (claim_body grp kind spec cid nm')) (\<lambda>r. lift (read_ok r)) s1)"

section \<open>The wait for a claim\<close>

fun ready_condition :: "json list \<Rightarrow> kuid_error + bool" where
  "ready_condition [] = Inr False"
| "ready_condition (j # js) =
     bind_res (as_dict j) (\<lambda>c.
       if dget c ''type'' = JStr ''Ready'' \<and> jstr (dget c ''status'') = ''True'' then Inr True
       else ready_condition js)"

definition claim_phase :: "dict \<Rightarrow> kuid_error + string" where
  "claim_phase st =
     (case jor (dget st ''phase'') (jor (dget st ''state'') (JStr [])) of
        JStr p \<Rightarrow> Inr (lower p)
      | _ \<Rightarrow> Inl (Uncaught ''AttributeError: object has no attribute lower''))"

definition claim_ready :: "dict \<Rightarrow> kuid_error + bool" where
  "claim_ready st =
     (if dget st ''id'' \<noteq> JNull then Inr True
      else
        bind_res (items_or_raise (jor (dget st ''conditions'') (JArr []))) (\<lambda>cs.
        bind_res (ready_condition cs) (\<lambda>b.
          if b then Inr True
          else bind_res (claim_phase st) (\<lambda>p.
            Inr (p \<in> {''allocated'', ''bound'', ''ready'', ''succeeded''}
                 \<or> has_key ''value'' st \<or> has_key ''allocated'' st \<or> has_key ''assigned'' st)))))"

text \<open>Whether a read claim is final.\<close>

definition claim_final :: "json \<Rightarrow> kuid_error + bool" where
  "claim_final j = bind_res (as_dict j) (\<lambda>d. bind_res (dict_or_empty (dget d ''status'')) claim_ready)"

definition WAIT_TIMEOUT :: int where "WAIT_TIMEOUT = 20000"
definition WAIT_POLL :: int where "WAIT_POLL = 500"

definition not_ready :: "string \<Rightarrow> json \<Rightarrow> kuid_error" where
  "not_ready nm lst =
     Api (''claim '' @ nm @ '' did not become ready within 20.0s (last observed status: ''
       @ json_repr (dget (obj_of lst) ''status'') @ '')'')"

fun wait_loop ::
    "nat \<Rightarrow> 's kuid_world \<Rightarrow> string \<Rightarrow> string \<Rightarrow> int \<Rightarrow> json \<Rightarrow> ('s, json) eff" where
  "wait_loop 0 K url nm dl lst s = None"
| "wait_loop (Suc n) K url nm dl lst s =
     (let (t, s1) = kw_now K s in
      if t < dl then
        bind_eff (send K GET url [] JNull) (\<lambda>r.
          bind_eff (lift (read_ok r)) (\<lambda>j.
            bind_eff (lift (claim_final j)) (\<lambda>b s2.
              if b then Some (Inr j, s2)
              else wait_loop n K url nm dl j (kw_sleep K WAIT_POLL s2)))) s1
      else Some (Inl (not_ready nm lst), s1))"

text \<open>\<open>wait_fuel\<close> rounds of half a second are more than the twenty seconds a wait lasts.\<close>

definition wait_fuel :: nat where "wait_fuel = 42"

definition wait_for_claim :: "'s kuid_world \<Rightarrow> kuid_config \<Rightarrow> string \<Rightarrow> string \<Rightarrow> string \<Rightarrow> ('s, json) eff" where
  "wait_for_claim K C grp plural nm s =
     (let (t, s1) = kw_now K s
      in wait_loop wait_fuel K (kuid_url C grp plural @ ''/'' @ nm) nm (t + WAIT_TIMEOUT) JNull s1)"

section \<open>The client prefix of an attachment\<close>

definition ip_claim :: "'s kuid_world \<Rightarrow> kuid_config \<Rightarrow> string \<Rightarrow> string \<Rightarrow> ('s, json) eff" where
  "ip_claim K C cid nm =
     create_claim K C ''ipam.be.kuid.dev'' ''ipclaims'' ''IPClaim''
       (JObj [(''index'', JStr CLIENT_V4_POOL), (''createPrefix'', JBool True), (''prefixLength'', JInt 24)]) cid nm"

text \<open>The correlation id an existing claim is held by, when it is another's.\<close>

definition claim_holder :: "json \<Rightarrow> kuid_error + json" where
  "claim_holder j =
     bind_res (as_dict j) (\<lambda>d.
     bind_res (as_dict (get_default d ''metadata'' (JObj []))) (\<lambda>m.
     map_res (\<lambda>ls. dget ls CORRELATION_LABEL) (dict_or_empty (dget m ''labels''))))"

definition held_by_other :: "string \<Rightarrow> string \<Rightarrow> json \<Rightarrow> kuid_error + unit" where
  "held_by_other cid nm h =
     (if h \<noteq> JNull \<and> h \<noteq> JStr cid
      then Inl (Collision (''claim '' @ nm @ '' already held by correlation id '' @ json_repr h)) else Inr ())"

definition claimed_prefix :: "string \<Rightarrow> json \<Rightarrow> kuid_error + json" where
  "claimed_prefix nm final =
     bind_res (as_dict final) (\<lambda>d. bind_res (dict_or_empty (dget d ''status'')) (\<lambda>st.
       if truthy (dget st ''prefix'') then Inr (dget st ''prefix'')
       else Inl (Api (''claim '' @ nm @ '' reported ready without an allocated prefix (last observed status: ''
              @ json_repr (dget d ''status'') @ '')''))))"

definition allocate_client_prefix :: "'s kuid_world \<Rightarrow> kuid_config \<Rightarrow> string \<Rightarrow> string \<Rightarrow> ('s, json) eff" where
  "allocate_client_prefix K C cid att =
     (let nm = claim_name CLIENT_V4_POOL cid [att];
          url = kuid_url C ''ipam.be.kuid.dev'' ''ipclaims'' @ ''/'' @ nm
      in bind_eff (send K GET url [] JNull) (\<lambda>r.
         bind_eff
           (if hr_status r = 404 then bind_eff (ip_claim K C cid nm) (\<lambda>_. ret ())
            else if ok_status r
            then lift (bind_res (body_json r) (\<lambda>j. bind_res (claim_holder j) (held_by_other cid nm)))
            else lift (Inl (classify_http_error (hr_status r) (hr_text r))))
           (\<lambda>_. bind_eff (wait_for_claim K C ''ipam.be.kuid.dev'' ''ipclaims'' nm) (\<lambda>j. lift (claimed_prefix nm j)))))"

end
