(* ===== verification/Credentials.thy ===== *)
theory Credentials
  imports Kuid
begin

text \<open>
  Where the agents find the cluster, their token and the certificates they verify with:
  \<open>_resolve_identity\<close> of src/agents/provisioning/allocator/kuid.py, \<open>resolve_k8s_identity\<close> of
  src/agents/common/audit.py, and the constructor of the deployer's client over it
  (src/agents/provisioning/deployer/submit.py). The environment and the files are an argument.
\<close>

record process_env =
  pe_var :: "string \<Rightarrow> string option"
  pe_file :: "string \<Rightarrow> string option option"   \<comment> \<open>absent, unreadable, or its text\<close>

definition getenv :: "process_env \<Rightarrow> string \<Rightarrow> string \<Rightarrow> string" where
  "getenv E k dflt = (case pe_var E k of Some v \<Rightarrow> v | None \<Rightarrow> dflt)"

definition SA_TOKEN_FILE :: string where
  "SA_TOKEN_FILE = ''/var/run/secrets/kubernetes.io/serviceaccount/token''"

definition SA_CACERT_FILE :: string where
  "SA_CACERT_FILE = ''/var/run/secrets/kubernetes.io/serviceaccount/ca.crt''"

text \<open>What httpx verifies with: nothing, the default trust store, or a bundle.\<close>

datatype tls_trust = Trust_all | Default_store | Bundle string

definition trust :: "bool \<Rightarrow> string option \<Rightarrow> tls_trust" where
  "trust verify ca =
     (if \<not> verify then Trust_all
      else case set_text ca of None \<Rightarrow> Default_store | Some p \<Rightarrow> Bundle p)"

definition verify_wanted :: "process_env \<Rightarrow> bool" where
  "verify_wanted E \<longleftrightarrow>
     lower (getenv E ''AGENTIC_NETOPS_VERIFY_TLS'' ''1'') \<in> {''1'', ''true'', ''yes''}"

definition mounted :: "process_env \<Rightarrow> string \<Rightarrow> bool" where
  "mounted E f \<longleftrightarrow> pe_file E f \<noteq> None"

section \<open>The allocator\<close>

record kuid_identity =
  ki_endpoint :: string
  ki_token :: "string option"
  ki_verify_tls :: bool
  ki_ca_bundle :: "string option"

definition ki_verify :: "kuid_identity \<Rightarrow> tls_trust" where
  "ki_verify i = trust (ki_verify_tls i) (ki_ca_bundle i)"

definition resolve_identity :: "process_env \<Rightarrow> string \<Rightarrow> kuid_identity" where
  "resolve_identity E default_endpoint =
     \<lparr>ki_endpoint = getenv E ''KUID_API_ENDPOINT'' default_endpoint,
      ki_token = (case set_text (pe_var E ''AGENTIC_NETOPS_BEARER_TOKEN'') of
          Some t \<Rightarrow> Some t
        | None \<Rightarrow> (case pe_file E SA_TOKEN_FILE of Some (Some f) \<Rightarrow> set_text (Some (strip f)) | _ \<Rightarrow> None)),
      ki_verify_tls = verify_wanted E,
      ki_ca_bundle = (case set_text (pe_var E ''AGENTIC_NETOPS_CA_BUNDLE'') of
          Some p \<Rightarrow> Some p
        | None \<Rightarrow> if mounted E SA_CACERT_FILE then Some SA_CACERT_FILE else None)\<rparr>"

definition kuid_headers :: "kuid_identity \<Rightarrow> (string \<times> string) list" where
  "kuid_headers i =
     (''Content-Type'', ''application/json'')
     # (case set_text (ki_token i) of Some t \<Rightarrow> [(''Authorization'', ''Bearer '' @ t)] | None \<Rightarrow> [])"

section \<open>The audit and the deployer\<close>

record k8s_identity =
  k8_endpoint :: string
  k8_token :: string
  k8_verify_tls :: bool
  k8_ca_bundle :: "string option"

definition k8_verify :: "k8s_identity \<Rightarrow> tls_trust" where
  "k8_verify i = trust (k8_verify_tls i) (k8_ca_bundle i)"

definition ca_bundle :: "process_env \<Rightarrow> string option" where
  "ca_bundle E =
     (case set_text (pe_var E ''AGENTIC_NETOPS_CA_BUNDLE'') of
        Some p \<Rightarrow> Some p
      | None \<Rightarrow> if mounted E SA_CACERT_FILE then Some SA_CACERT_FILE else None)"

definition resolve_k8s_identity :: "process_env \<Rightarrow> k8s_identity option" where
  "resolve_k8s_identity E =
     (case (set_text (pe_var E ''AGENTIC_NETOPS_API_ENDPOINT''), set_text (pe_var E ''AGENTIC_NETOPS_BEARER_TOKEN'')) of
        (Some u, Some t) \<Rightarrow>
          Some \<lparr>k8_endpoint = u, k8_token = t, k8_verify_tls = verify_wanted E, k8_ca_bundle = ca_bundle E\<rparr>
      | _ \<Rightarrow>
          (case pe_file E SA_TOKEN_FILE of
             Some (Some f) \<Rightarrow>
               if strip f \<noteq> [] then
                 Some \<lparr>k8_endpoint = in_cluster_api, k8_token = strip f, k8_verify_tls = verify_wanted E,
                       k8_ca_bundle = ca_bundle E\<rparr>
               else None
           | _ \<Rightarrow> None))"

text \<open>The constructor of the deployer's client: the endpoint, the header and the trust it works with.\<close>

definition kube_client :: "process_env \<Rightarrow> failure + string \<times> (string \<times> string) \<times> tls_trust" where
  "kube_client E =
     (case resolve_k8s_identity E of
        None \<Rightarrow> Inl (named ''cluster-identity'' ''no Kubernetes service-account token is available'' None)
      | Some i \<Rightarrow>
          Inr (rstrip_slash (k8_endpoint i), (''Authorization'', ''Bearer '' @ k8_token i), k8_verify i))"

section \<open>Facts\<close>

lemma set_text_Some [simp]: "set_text x = Some t \<longleftrightarrow> x = Some t \<and> t \<noteq> []"
  by (cases x) (auto simp: set_text_def)

lemma trust_all [simp]: "trust v ca = Trust_all \<longleftrightarrow> \<not> v"
  by (simp add: trust_def split: option.split)

text \<open>The three clients of one process trust the same.\<close>

lemma k8_fields:
  "resolve_k8s_identity E = Some i \<Longrightarrow>
     k8_verify_tls i = verify_wanted E \<and> k8_ca_bundle i = ca_bundle E \<and> k8_token i \<noteq> []"
  by (auto simp: resolve_k8s_identity_def split: option.splits if_splits)

lemma same_trust:
  "ki_verify (resolve_identity E d) = trust (verify_wanted E) (ca_bundle E)"
  "resolve_k8s_identity E = Some i \<Longrightarrow> k8_verify i = trust (verify_wanted E) (ca_bundle E)"
  "kube_client E = Inr (u, h, v) \<Longrightarrow> v = trust (verify_wanted E) (ca_bundle E)"
  by (simp only: ki_verify_def resolve_identity_def ca_bundle_def kuid_identity.simps)
    (auto simp: k8_verify_def kube_client_def dest: k8_fields split: option.splits)

lemma verified_unless_configured:
  "pe_var E ''AGENTIC_NETOPS_VERIFY_TLS'' = None \<Longrightarrow> trust (verify_wanted E) ca \<noteq> Trust_all"
  by (simp add: verify_wanted_def getenv_def lower_def lower_char_def code_def is_upper_def)

end
