(* ===== verification/Audit_Log.thy ===== *)
theory Audit_Log
  imports Credentials
begin

text \<open>
  Audit emission, src/agents/common/audit.py and src/agents/common/schemas/audit.py: the record with
  its shape rules, the process sink with its optional file, and the Kubernetes event. The transport,
  the file and the clock are fields of \<open>audit_env\<close>; the span event, which only reaches the tracing
  library, is left out.
\<close>

section \<open>The record\<close>

record audit_record =
  ar_type :: audit_kind
  ar_correlation :: string
  ar_thread :: string
  ar_principal :: string
  ar_at :: string
  ar_resources :: "resource_ref list"
  ar_reason :: "string option"

fun audit_type_value :: "audit_kind \<Rightarrow> string" where
  "audit_type_value A_confirm = ''confirm''"
| "audit_type_value A_decline = ''decline''"
| "audit_type_value A_submit = ''submit''"
| "audit_type_value A_refuse = ''refuse''"

text \<open>The constraints of the fields, which \<open>model_validate\<close> checks.\<close>

definition ref_valid :: "resource_ref \<Rightarrow> bool" where
  "ref_valid r \<longleftrightarrow> r_apiVersion r \<noteq> [] \<and> r_kind r \<noteq> [] \<and> r_namespace r \<noteq> [] \<and> r_name r \<noteq> []"

definition record_valid :: "audit_record \<Rightarrow> bool" where
  "record_valid a \<longleftrightarrow> correlation_ok (ar_correlation a) \<and> ar_thread a \<noteq> [] \<and> ar_principal a \<noteq> []
     \<and> list_all ref_valid (ar_resources a)"

definition validate_event_shape :: "audit_record \<Rightarrow> string list" where
  "validate_event_shape a =
     (if ar_type a \<in> {A_refuse, A_decline} \<and> ar_resources a \<noteq> []
      then [''event_type='' @ repr (audit_type_value (ar_type a)) @ '' must carry no resources (got ''
            @ str_nat (length (ar_resources a)) @ '')'']
      else [])
     @ (if ar_type a = A_submit \<and> ar_resources a = []
        then [''event_type='' @ squote @ ''submit'' @ squote @ '' requires the submitted resources''] else [])"

datatype audit_error = Not_valid | Bad_shape "string list" | Sink_failed string

definition build_audit_event :: "audit_kind \<Rightarrow> string \<Rightarrow> string \<Rightarrow> string \<Rightarrow> string \<Rightarrow> resource_ref list \<Rightarrow>
    string option \<Rightarrow> audit_error + audit_record" where
  "build_audit_event ty cid th pr when refs reason =
     (let a = \<lparr>ar_type = ty, ar_correlation = cid, ar_thread = th, ar_principal = pr, ar_at = when,
               ar_resources = refs, ar_reason = reason\<rparr>
      in if record_valid a then Inr a else Inl Not_valid)"

definition dump_audit :: "audit_record \<Rightarrow> json" where
  "dump_audit a = JObj [(''event_type'', JStr (audit_type_value (ar_type a))),
     (''correlation_id'', JStr (ar_correlation a)), (''thread_id'', JStr (ar_thread a)),
     (''principal'', JStr (ar_principal a)), (''at'', JStr (ar_at a)),
     (''resources'', JArr (map dump_ref (ar_resources a))), (''reason'', str_json (ar_reason a))]"

section \<open>The environment and the sink\<close>

text \<open>The file operation appends the JSON of a record as a line, or fails with the text of an \<open>OSError\<close>.\<close>

record 's audit_env =
  ae_identity :: "k8s_identity option"
  ae_http :: "'s http"
  ae_path :: "string option"
  ae_append :: "string \<Rightarrow> json \<Rightarrow> 's \<Rightarrow> string option \<times> 's"
  ae_now_ts :: string
  ae_now_micro :: string
  ae_host :: string

record 's audit_state =
  sink_events :: "audit_record list"
  sink_world :: 's

definition by_correlation :: "string \<Rightarrow> 's audit_state \<Rightarrow> audit_record list" where
  "by_correlation cid S = filter (\<lambda>e. ar_correlation e = cid) (sink_events S)"

definition sink_record :: "'s audit_env \<Rightarrow> audit_record \<Rightarrow> 's audit_state \<Rightarrow> string option \<times> 's audit_state" where
  "sink_record E a S =
     (let S1 = S\<lparr>sink_events := sink_events S @ [a]\<rparr> in
      case ae_path E of
        None \<Rightarrow> (None, S1)
      | Some p \<Rightarrow>
          (case ae_append E p (dump_audit a) (sink_world S1) of
             (x, s1) \<Rightarrow> (x, S1\<lparr>sink_world := s1\<rparr>)))"

section \<open>The Kubernetes event\<close>

definition EVENT_REASON_BY_TYPE :: "audit_kind \<Rightarrow> string" where
  "EVENT_REASON_BY_TYPE k =
     (case k of A_confirm \<Rightarrow> ''Confirm'' | A_decline \<Rightarrow> ''Decline'' | A_submit \<Rightarrow> ''Submit'' | A_refuse \<Rightarrow> ''Refuse'')"

definition EVENT_KIND_BY_TYPE :: "audit_kind \<Rightarrow> string" where
  "EVENT_KIND_BY_TYPE k = (if k \<in> {A_confirm, A_submit} then ''Normal'' else ''Warning'')"

text \<open>\<open>f"{seq:04d}"\<close>.\<close>

definition pad4 :: "nat \<Rightarrow> string" where
  "pad4 n = replicate (4 - length (str_nat n)) (CHR ''0'') @ str_nat n"

definition event_name :: "string \<Rightarrow> audit_kind \<Rightarrow> nat \<Rightarrow> string" where
  "event_name cid k n = cid @ ''-'' @ audit_type_value k @ ''-'' @ pad4 n"

definition event_message :: "audit_record \<Rightarrow> string" where
  "event_message a =
     (let rs = join '', '' (map ref_name (ar_resources a)) in
      redact (''intent-tier audit: type='' @ audit_type_value (ar_type a) @ '' principal='' @ ar_principal a
        @ '' thread='' @ ar_thread a @ '' resources=['' @ (if rs = [] then ''none'' else rs) @ '']''
        @ (case set_text (ar_reason a) of Some r \<Rightarrow> '' reason='' @ r | None \<Rightarrow> [])))"

definition event_manifest :: "'s audit_env \<Rightarrow> audit_record \<Rightarrow> nat \<Rightarrow> dict" where
  "event_manifest E a n =
     [(''apiVersion'', JStr ''v1''), (''kind'', JStr ''Event''),
      (''metadata'', JObj [(''name'', JStr (event_name (ar_correlation a) (ar_type a) n)),
         (''namespace'', JStr INTENT_NAMESPACE),
         (''labels'', JObj [(CORRELATION_LABEL, JStr (ar_correlation a)), (TIER_LABEL, JStr ''intent'')])]),
      (''involvedObject'', JObj [(''apiVersion'', JStr ''v1''), (''kind'', JStr ''ServiceRequest''),
         (''namespace'', JStr INTENT_NAMESPACE), (''name'', JStr (ar_thread a))]),
      (''reason'', JStr (EVENT_REASON_BY_TYPE (ar_type a))), (''message'', JStr (event_message a)),
      (''type'', JStr (EVENT_KIND_BY_TYPE (ar_type a))), (''action'', JStr (EVENT_REASON_BY_TYPE (ar_type a))),
      (''reportingInstance'', JStr (ae_host E)), (''firstTimestamp'', JStr (ae_now_ts E)),
      (''lastTimestamp'', JStr (ae_now_ts E)), (''eventTime'', JStr (ae_now_micro E)), (''count'', JInt 1),
      (''source'', JObj [(''component'', JStr ''intent-tier''), (''host'', JStr (ae_host E))]),
      (''reportingComponent'', JStr ''intent-tier'')]"

definition events_url :: "k8s_identity \<Rightarrow> string" where
  "events_url i = rstrip_slash (k8_endpoint i) @ ''/api/v1/namespaces/'' @ INTENT_NAMESPACE @ ''/events''"

text \<open>The result says whether the API server accepted the event; the objects posted are returned too.\<close>

definition emit_kubernetes_event :: "'s audit_env \<Rightarrow> audit_record \<Rightarrow> nat \<Rightarrow> 's \<Rightarrow> bool \<times> dict list \<times> 's" where
  "emit_kubernetes_event E a n s =
     (case ae_identity E of
        None \<Rightarrow> (False, [], s)
      | Some i \<Rightarrow>
          (let m = event_manifest E a n in
           case ae_http E \<lparr>hq_method = POST, hq_url = events_url i, hq_params = [], hq_body = JObj m\<rparr> s of
             (Inr r, s1) \<Rightarrow> (ok_status r, [m], s1)
           | (Inl x, s1) \<Rightarrow> (False, [m], s1)))"

section \<open>Emission\<close>

definition redacted_reason :: "audit_record \<Rightarrow> audit_record" where
  "redacted_reason a = a\<lparr>ar_reason := map_option redact (set_text (ar_reason a))\<rparr>"

definition emit_audit_event :: "'s audit_env \<Rightarrow> audit_record \<Rightarrow> 's audit_state \<Rightarrow>
    (audit_error + audit_record) \<times> dict list \<times> 's audit_state" where
  "emit_audit_event E a S =
     (if validate_event_shape a \<noteq> [] then (Inl (Bad_shape (validate_event_shape a)), [], S)
      else if \<not> record_valid a then (Inl Not_valid, [], S)
      else
        (let e = redacted_reason a in
         case sink_record E e S of
           (Some x, S1) \<Rightarrow> (Inl (Sink_failed x), [], S1)
         | (None, S1) \<Rightarrow>
             (case emit_kubernetes_event E e (length (by_correlation (ar_correlation e) S1)) (sink_world S1) of
                (accepted, ms, s2) \<Rightarrow> (Inr e, ms, S1\<lparr>sink_world := s2\<rparr>))))"

text \<open>\<open>reset_audit_sink\<close>: a new sink takes the place of the old one, as in a new process.\<close>

definition sink_reset :: "'s audit_state \<Rightarrow> 's audit_state" where
  "sink_reset S = S\<lparr>sink_events := []\<rparr>"

text \<open>A history of a process: the emissions in order, each in its environment, and the posted events.\<close>

fun emissions :: "('s audit_env \<times> audit_record) list \<Rightarrow> 's audit_state \<Rightarrow> dict list \<times> 's audit_state" where
  "emissions [] S = ([], S)"
| "emissions ((E, a) # xs) S =
     (case emit_audit_event E a S of
        (r, ms, S1) \<Rightarrow> (case emissions xs S1 of (ns, S2) \<Rightarrow> (ms @ ns, S2)))"

end
