(* ===== verification/Audit_Facts.thy ===== *)
theory Audit_Facts
  imports Audit_Log Sup_Facts
begin

text \<open>
  What the audit keeps: the exact effect of one emission on the sink, distinct names of the Kubernetes
  events of a process, and the shape of the records the supervisor hands over.
\<close>

section \<open>Event names\<close>

lemma digits_val_zeros: "digits_val 0 (replicate k (CHR ''0'') @ s) = digits_val 0 s"
  by (induction k) (simp_all add: digit_val_def code_def)

lemma digits_val_pad4 [simp]: "digits_val 0 (pad4 n) = int n"
  by (simp add: pad4_def digits_val_zeros digits_val_str_nat)

lemma pad4_inject [simp]: "pad4 m = pad4 n \<longleftrightarrow> m = n"
  by (metis digits_val_pad4 of_nat_eq_iff)

lemma event_name_inject:
  assumes "length c = length c'" "event_name c k n = event_name c' k' n'"
  shows "c = c' \<and> k = k' \<and> n = n'"
  using assms by (cases k; cases k') (auto simp: event_name_def)

definition names_of :: "dict list \<Rightarrow> json list" where
  "names_of ms = map (\<lambda>m. dget (obj_of (dget m ''metadata'')) ''name'') ms"

lemma names_of_simps [simp]:
  "names_of [] = []" "names_of (ms @ ns) = names_of ms @ names_of ns"
  "names_of [event_manifest E a n] = [JStr (event_name (ar_correlation a) (ar_type a) n)]"
  by (simp_all add: names_of_def event_manifest_def dget_def)

section \<open>One emission\<close>

definition acceptable :: "audit_record \<Rightarrow> bool" where
  "acceptable a \<longleftrightarrow> record_valid a \<and> (ar_type a \<in> {A_refuse, A_decline} \<longrightarrow> ar_resources a = [])
     \<and> (ar_type a = A_submit \<longrightarrow> ar_resources a \<noteq> [])"

lemma acceptable_iff: "acceptable a \<longleftrightarrow> validate_event_shape a = [] \<and> record_valid a"
  by (auto simp: acceptable_def validate_event_shape_def)

lemma redacted_reason_simps [simp]:
  "ar_type (redacted_reason a) = ar_type a" "ar_correlation (redacted_reason a) = ar_correlation a"
  "ar_thread (redacted_reason a) = ar_thread a" "ar_principal (redacted_reason a) = ar_principal a"
  "ar_resources (redacted_reason a) = ar_resources a" "ar_at (redacted_reason a) = ar_at a"
  by (simp_all add: redacted_reason_def)

lemma sink_record_events: "sink_record E a S = (x, S1) \<Longrightarrow> sink_events S1 = sink_events S @ [a]"
  by (auto simp: sink_record_def Let_def split: option.splits prod.splits)

lemma emit_rejected: "\<not> acceptable a \<Longrightarrow> \<exists>x. emit_audit_event E a S = (Inl x, [], S)"
  by (auto simp: acceptable_iff emit_audit_event_def)

lemma emit_accepted:
  assumes "acceptable a" "emit_audit_event E a S = (r, ms, S1)"
  shows "sink_events S1 = sink_events S @ [redacted_reason a]
     \<and> ((\<exists>x. r = Inl (Sink_failed x)) \<and> ms = []
        \<or> r = Inr (redacted_reason a)
          \<and> (ms = [] \<or> ms = [event_manifest E (redacted_reason a) (length (by_correlation (ar_correlation a) S1))]))"
proof -
  obtain x T where T: "sink_record E (redacted_reason a) S = (x, T)" by fastforce
  from sink_record_events [OF T] have ev: "sink_events T = sink_events S @ [redacted_reason a]" .
  have n: "by_correlation c (T\<lparr>sink_world := s\<rparr>) = by_correlation c T" for c s by (simp add: by_correlation_def)
  show ?thesis
  proof (cases x)
    case (Some y)
    with assms T ev show ?thesis by (auto simp: acceptable_iff emit_audit_event_def Let_def)
  next
    case None
    obtain b ns s2 where k: "emit_kubernetes_event E (redacted_reason a)
        (length (by_correlation (ar_correlation a) T)) (sink_world T) = (b, ns, s2)" by (rule prod_cases3)
    then have "ns = [] \<or> ns = [event_manifest E (redacted_reason a) (length (by_correlation (ar_correlation a) T))]"
      by (auto simp: emit_kubernetes_event_def Let_def split: option.splits sum.splits prod.splits)
    with None assms T ev k n show ?thesis by (auto simp: acceptable_iff emit_audit_event_def Let_def)
  qed
qed

section \<open>A history of emissions\<close>

definition count_of :: "string \<Rightarrow> 's audit_state \<Rightarrow> nat" where
  "count_of c S = length (by_correlation c S)"

definition named_within :: "'s audit_state \<Rightarrow> 's audit_state \<Rightarrow> json \<Rightarrow> bool" where
  "named_within S T x \<longleftrightarrow>
     (\<exists>c k n. x = JStr (event_name c k n) \<and> length c = 32 \<and> count_of c S < n \<and> n \<le> count_of c T)"

lemma named_disjoint: "named_within S T x \<Longrightarrow> named_within T U y \<Longrightarrow> x \<noteq> y"
  unfolding named_within_def using event_name_inject by (metis json.inject(3) not_less order_less_le_trans)

lemma named_mono:
  "(\<And>c. count_of c S' \<le> count_of c S) \<Longrightarrow> (\<And>c. count_of c T \<le> count_of c T') \<Longrightarrow>
     named_within S T x \<Longrightarrow> named_within S' T' x"
  unfolding named_within_def by (blast intro: order_le_less_trans order_trans)

lemma emission_step:
  assumes "emit_audit_event E a S = (r, ms, T)"
  shows "count_of c S \<le> count_of c T" "distinct (names_of ms)" "\<forall>x \<in> set (names_of ms). named_within S T x"
proof -
  have *: "count_of c S \<le> count_of c T \<and> distinct (names_of ms) \<and> (\<forall>x \<in> set (names_of ms). named_within S T x)" for c
  proof (cases "acceptable a")
    case False
    with emit_rejected [OF False, of E S] assms show ?thesis by auto
  next
    case True
    from emit_accepted [OF True assms] have ev: "sink_events T = sink_events S @ [redacted_reason a]"
      and ms: "ms = [] \<or> ms = [event_manifest E (redacted_reason a) (count_of (ar_correlation a) T)]"
      by (auto simp: count_of_def)
    from True have l: "length (ar_correlation a) = 32" by (simp add: acceptable_def record_valid_def correlation_ok_def)
    have "count_of (ar_correlation a) T = Suc (count_of (ar_correlation a) S)" "count_of c S \<le> count_of c T"
      "count_of (ar_correlation a) S < count_of (ar_correlation a) T"
      by (simp_all add: count_of_def by_correlation_def ev)
    moreover from this l have "named_within S T (JStr (event_name (ar_correlation a) (ar_type a) (count_of (ar_correlation a) T)))"
      unfolding named_within_def by blast
    ultimately show ?thesis using ms by auto
  qed
  from * show "count_of c S \<le> count_of c T" "distinct (names_of ms)" "\<forall>x \<in> set (names_of ms). named_within S T x"
    by blast+
qed

lemma emissions_named:
  "emissions xs S = (ms, T) \<Longrightarrow>
     (\<forall>c. count_of c S \<le> count_of c T) \<and> distinct (names_of ms) \<and> (\<forall>x \<in> set (names_of ms). named_within S T x)"
proof (induction xs arbitrary: S ms)
  case (Cons p xs)
  obtain E a where p: "p = (E, a)" by fastforce
  obtain r ms1 U where u: "emit_audit_event E a S = (r, ms1, U)" by (rule prod_cases3)
  obtain ms2 where v: "emissions xs U = (ms2, T)" "ms = ms1 @ ms2"
    using Cons.prems by (auto simp: p u split: prod.splits)
  note one = emission_step [OF u] and rest = Cons.IH [OF v(1)]
  have "count_of c S \<le> count_of c T" for c using one(1) rest order_trans by blast
  moreover have "named_within S T x" if "x \<in> set (names_of ms1)" for x
    using one(3) rest that by (blast intro: named_mono)
  moreover have "named_within S T x" if "x \<in> set (names_of ms2)" for x
    using one(1) rest that by (blast intro: named_mono)
  moreover have "set (names_of ms1) \<inter> set (names_of ms2) = {}"
    using one(3) rest named_disjoint by blast
  ultimately show ?case using one(2) rest v(2) by auto
qed simp

section \<open>The records of the supervisor\<close>

text \<open>What every event of a run on a thread with a correlation id looks like.\<close>

fun audit_fine :: "string \<Rightarrow> event \<Rightarrow> bool" where
  "audit_fine c (Audit k c' th p rs why) \<longleftrightarrow>
     c' = c \<and> p \<noteq> [] \<and> list_all ref_valid rs \<and> (k \<noteq> A_submit \<longrightarrow> rs = [])"
| "audit_fine c _ \<longleftrightarrow> True"

lemma audit_fine_audit [simp]:
  "correlation_id s \<noteq> [] \<Longrightarrow> audit_fine (correlation_id s) (audit w s k rs why)
     \<longleftrightarrow> list_all ref_valid rs \<and> (k \<noteq> A_submit \<longrightarrow> rs = [])"
  by (simp add: audit_def corr_def or_operator_def)

lemma validate_ref_iff:
  "validate_ref L d = Inr x \<longleftrightarrow>
     field_req nonempty_str ''apiVersion'' d = Inr (r_apiVersion x)
     \<and> field_req nonempty_str ''kind'' d = Inr (r_kind x)
     \<and> field_req nonempty_str ''namespace'' d = Inr (r_namespace x)
     \<and> field_req nonempty_str ''name'' d = Inr (r_name x)
     \<and> field_def (nullable is_str) None ''uid'' d = Inr (r_uid x)
     \<and> field_def (nullable (is_bool L)) None ''ready'' d = Inr (r_ready x)
     \<and> extras [''apiVersion'', ''kind'', ''namespace'', ''name'', ''uid'', ''ready''] d = []"
  by (cases x) (auto simp: validate_ref_def model_iff errs_Nil proper_intros)

lemma validate_ref_valid: "validate_ref L d = Inr r \<Longrightarrow> ref_valid r"
  by (auto simp: validate_ref_iff ref_valid_def dest!: field_req_Inr nonempty_str_Inr)

lemma validate_refs_valid: "validate_refs L js = Inr rs \<Longrightarrow> list_all ref_valid rs"
proof (induction js arbitrary: rs)
  case (Cons j js)
  then obtain r rs' where "is_obj_then (validate_ref L) j = Inr r" "validate_refs L js = Inr rs'" "rs = r # rs'"
    by auto
  with Cons.IH [of rs'] validate_ref_valid show ?case by (auto dest!: is_obj_then_Inr)
qed auto

lemma correlation_simps [simp]:
  "correlation_id (to_tools t q s) = correlation_id s" "correlation_id (ask_remove q s) = correlation_id s"
  "correlation_id (start_provisioning s) = correlation_id s" "correlation_id (model_down w s) = correlation_id s"
  "correlation_id (to_general c s) = correlation_id s" "correlation_id (clear_pending s) = correlation_id s"
  "correlation_id (clarify w s i) = correlation_id s" "correlation_id (mapped s i x) = correlation_id s"
  "correlation_id (allocated s n x) = correlation_id s" "correlation_id (failed_with r g s) = correlation_id s"
  "correlation_id (tools_report s t d x) = correlation_id s"
  "correlation_id (submission_outcome w s refs cs) = correlation_id s"
  by (simp_all add: to_tools_def ask_remove_def start_provisioning_def model_down_def to_general_def
      clear_pending_def clarify_def mapped_def allocated_def failed_with_def tools_report_def resolve_status_def
      submission_outcome_def carried_def Let_def
      split: tool.split json.split option.split status.split)

lemma supervisor_correlation:
  assumes "correlation_id s = c" "c \<noteq> []"
  shows "post (supervisor_node w s) (\<lambda>t. correlation_id t = c) (audit_fine c)"
proof (rule supervisor_post)
  fix u
  let ?P = "\<lambda>t. correlation_id t = c"
  have r: "post (on_request w s u) ?P (audit_fine c)"
  proof (rule on_request_post)
    fix p
    show "post (on_confirmation w s (strip (lower u)) p) ?P (audit_fine c)"
      by (rule on_confirmation_post) (use assms in \<open>auto simp: on_confirm_def on_decline_def re_ask_def Let_def\<close>)
  qed (use assms in \<open>auto intro!: classify_post fresh_request_post\<close>)
  show "post (handle_user w s u) ?P (audit_fine c)"
    by (rule handle_user_post) (use assms r in auto)
qed (use assms in auto)

lemma deployer_correlation:
  assumes "correlation_id s = c" "c \<noteq> []"
  shows "post (deployer_node w s) (\<lambda>t. correlation_id t = c) (audit_fine c)"
proof -
  have corr: "corr w s = c" using assms by (simp add: corr_def)
  have rej: "post (reject_deployer w s e x) (\<lambda>t. correlation_id t = c) (audit_fine c)" for e x
    using assms by (auto intro!: reject_deployer_post simp: with_corr_def corr_def audit_def or_operator_def)
  have fail: "post (on_failure_report w s f) (\<lambda>t. correlation_id t = c) (audit_fine c)" for f
    using assms by (auto simp: on_failure_report_def Let_def post_def split: result.splits)
  have report: "post (on_report w s d x) (\<lambda>t. correlation_id t = c) (audit_fine c)" for d x
    using assms rej fail validate_refs_valid
    by (auto simp: on_report_def split: option.split json.split sum.split)
  have "post (submit_path w s) (\<lambda>t. correlation_id t = c) (audit_fine c)"
    using assms report by (auto simp: submit_path_def Let_def split: sum.split reply.split)
  with assms show ?thesis by (auto simp: deployer_node_def intro!: tools_post split: option.split)
qed

lemma node_correlation:
  assumes "correlation_id s = c" "c \<noteq> []" "nd \<noteq> END"
  shows "post (run_node nd w s) (\<lambda>t. correlation_id t = c) (audit_fine c)"
  using assms supervisor_correlation [OF assms(1,2), of w] deployer_correlation [OF assms(1,2), of w]
  by (cases nd)
    (auto intro!: mapper_post allocator_post reflection_post simp: general_response_node_def Let_def)

text \<open>A turn keeps the correlation id of its request, and every record carries it.\<close>

lemma turn_correlation:
  assumes "turn W rq s = Some r" "rq_correlation_id rq \<noteq> []"
  shows "post r (\<lambda>t. correlation_id t = rq_correlation_id rq) (audit_fine (rq_correlation_id rq))"
proof -
  let ?c = "rq_correlation_id rq"
  have "post (run_node nd w t) (\<lambda>u. \<forall>nd'. edge nd u = Some nd' \<longrightarrow> correlation_id u = ?c) (audit_fine ?c)"
    if "correlation_id t = ?c" "nd \<noteq> END" for nd t w
    using node_correlation [OF that(1) assms(2) that(2), of w] by (auto simp: post_def)
  from run_invariant [of "\<lambda>nd t. correlation_id t = ?c" "audit_fine ?c", OF this _ assms(1) [unfolded turn_def]]
  show ?thesis by (simp add: seed_def add_messages_def)
qed

end
