(* ===== verification/Http_Facts.thy ===== *)
theory Http_Facts
  imports Http_Api Audit_Facts
begin

text \<open>
  The stream against the graph: the steps of a run and the updates they may yield, that the chunk
  that closes a stream is the outcome of the run, that the allocation shown is the one stored, and
  that what the deployer is sent is the stored allocation under the correlation id of the request.
\<close>

section \<open>The shape of a stream\<close>

lemma no_correlation_id [simp]:
  "\<not> has_key ''correlation_id'' (first_chunk th)" "\<not> has_key ''correlation_id'' (clarification_chunk st ms)"
  "\<not> has_key ''correlation_id'' (stage_chunk stg st j)" "\<not> has_key ''correlation_id'' (confirmation_chunk stg q)"
  "\<not> has_key ''correlation_id'' (tools_chunk st t j)" "\<not> has_key ''correlation_id'' (deployer_chunk st x y)"
  "\<not> has_key ''correlation_id'' (progress_chunk st ob)" "\<not> has_key ''correlation_id'' (error_chunk r g)"
  "\<not> has_key ''correlation_id'' (crash_chunk e)" "\<not> has_key ''correlation_id'' (final_chunk a)"
  by (simp_all add: has_key_def first_chunk_def clarification_chunk_def stage_chunk_def confirmation_chunk_def
      tools_chunk_def deployer_chunk_def progress_chunk_def error_chunk_def crash_chunk_def final_chunk_def Let_def)

text \<open>The chunks between the first and the last.\<close>

inductive inner_chunk :: "dict \<Rightarrow> bool" where
  "inner_chunk (clarification_chunk st ms)"
| "inner_chunk (stage_chunk stg st j)"
| "inner_chunk (confirmation_chunk stg q)"
| "inner_chunk (tools_chunk st t j)"
| "inner_chunk (deployer_chunk st x y)"
| "inner_chunk (progress_chunk st ob)"

lemma on_update_inner: "on_update err u a = (cs, f) \<Longrightarrow> list_all inner_chunk cs"
  by (auto simp: on_update_def Let_def ask_stage_def outcome_chunks_def list_all_iff
      intro: inner_chunk.intros split: if_splits sum.splits option.splits)

lemma consume_inner: "consume err us exn a = (cs, r) \<Longrightarrow> list_all inner_chunk cs"
proof (induction us arbitrary: a cs)
  case (Cons u us)
  obtain ds f where f: "on_update err u a = (ds, f)" by fastforce
  with Cons on_update_inner [OF f] show ?case by (cases f) (auto split: prod.splits)
qed simp

lemma inner_no_correlation: "inner_chunk d \<Longrightarrow> \<not> has_key ''correlation_id'' d"
  by (induction rule: inner_chunk.induct) simp_all

lemma closing_no_correlation [simp]: "\<not> has_key ''correlation_id'' (closing_chunk r)"
  by (simp add: closing_chunk_def split: sum.split)

lemma with_correlation_new: "\<not> has_key ''correlation_id'' d \<Longrightarrow> with_correlation_id c d = d @ [(''correlation_id'', JStr c)]"
  by (simp add: with_correlation_id_def)

text \<open>A chunk of a stream, without the correlation id that is added to each.\<close>

lemma stream_member:
  assumes "with_correlation_id (correlation_for E p) d \<in> set (stream_chunks E p us exn)" "inner_chunk d"
    "consume (api_json_error E) us exn stream_start = (cs, r)"
  shows "d \<in> set cs \<or> d = first_chunk (thread_for E p) \<or> d = closing_chunk r"
proof -
  have "list_all inner_chunk cs" using consume_inner [OF assms(3)] .
  then have n: "\<forall>x \<in> set cs. \<not> has_key ''correlation_id'' x" by (auto simp: list_all_iff inner_no_correlation)
  from assms(1,3) obtain x where x: "x \<in> insert (first_chunk (thread_for E p)) (insert (closing_chunk r) (set cs))"
    "with_correlation_id (correlation_for E p) d = with_correlation_id (correlation_for E p) x"
    by (auto simp: stream_chunks_def)
  then have "x = d" using n inner_no_correlation [OF assms(2)] by (auto simp: with_correlation_new)
  with x(1) show ?thesis by auto
qed

section \<open>Runs as updates\<close>

text \<open>The nodes a run executes with the state before and after each, and how it ends.\<close>

fun run_steps :: "(nat \<Rightarrow> world) \<Rightarrow> nat \<Rightarrow> node \<Rightarrow> gstate \<Rightarrow> (node \<times> gstate \<times> gstate) list \<times> string option" where
  "run_steps W n END s = ([], None)"
| "run_steps W 0 nd s = ([], Some ''GraphRecursionError'')"
| "run_steps W (Suc n) nd s =
     (case run_node nd (W n) s of
        (Crash e, ev) \<Rightarrow> ([], Some e)
      | (Ok t, ev) \<Rightarrow>
          (case edge nd t of
             None \<Rightarrow> ([], Some ''KeyError'')
           | Some nd' \<Rightarrow> (case run_steps W n nd' t of (xs, e) \<Rightarrow> ((nd, s, t) # xs, e))))"

text \<open>
  The update a node yields for its step: LangGraph merges the returned keys into the state, and the
  returns of the nodes hold at least the keys named here.
\<close>

definition merges :: "gstate \<Rightarrow> node_update \<Rightarrow> gstate \<Rightarrow> bool" where
  "merges s u t \<longleftrightarrow>
     workflow_status t = (case up_status u of Some st \<Rightarrow> st | None \<Rightarrow> workflow_status s)
     \<and> refusal_reason t = (case up_reason u of Some r \<Rightarrow> r | None \<Rightarrow> refusal_reason s)
     \<and> suggestion t = (case up_suggestion u of Some g \<Rightarrow> g | None \<Rightarrow> suggestion s)
     \<and> (up_pending u \<noteq> None \<longrightarrow> pending_action t = up_pending u)
     \<and> (up_mapped u \<noteq> None \<longrightarrow> mapped_parameters t = up_mapped u)
     \<and> (up_allocated u \<noteq> None \<longrightarrow> allocated_resources t = up_allocated u)
     \<and> (up_tool_result u \<noteq> None \<longrightarrow> tool_result t = up_tool_result u)
     \<and> (up_convergence u \<noteq> None \<longrightarrow> convergence t = up_convergence u)
     \<and> (up_submitted u \<noteq> None \<longrightarrow> submitted_resources t = up_submitted u)"

definition update_of :: "node \<times> gstate \<times> gstate \<Rightarrow> node_update \<Rightarrow> bool" where
  "update_of st u \<longleftrightarrow>
     (case st of (nd, s, t) \<Rightarrow>
        up_node u = nd \<and> merges s u t
        \<and> (workflow_status t = FAILED \<and> workflow_status s \<noteq> FAILED \<longrightarrow>
             up_reason u = Some (refusal_reason t) \<and> up_suggestion u = Some (suggestion t))
        \<and> (nd = MAPPER \<and> workflow_status t = MAPPED \<longrightarrow>
             up_pending u = pending_action t \<and> up_mapped u = mapped_parameters t)
        \<and> (nd = ALLOCATOR \<and> workflow_status t = ALLOCATED \<longrightarrow>
             up_pending u = pending_action t \<and> up_allocated u = allocated_resources t))"

definition steps_of :: "(nat \<Rightarrow> world) \<Rightarrow> request \<Rightarrow> gstate \<Rightarrow> (node \<times> gstate \<times> gstate) list \<times> string option" where
  "steps_of W rq s = run_steps W RECURSION_LIMIT SUPERVISOR (seed rq s)"

lemma run_steps_END [simp]: "run_steps W n END s = ([], None)"
  by (cases n) auto

lemma run_steps_Suc:
  "nd \<noteq> END \<Longrightarrow> run_steps W (Suc n) nd s =
     (case run_node nd (W n) s of
        (Crash e, ev) \<Rightarrow> ([], Some e)
      | (Ok t, ev) \<Rightarrow>
          (case edge nd t of
             None \<Rightarrow> ([], Some ''KeyError'')
           | Some nd' \<Rightarrow> (case run_steps W n nd' t of (xs, e) \<Rightarrow> ((nd, s, t) # xs, e))))"
  by (cases nd) auto

lemma absorb_status [simp]:
  "merges s u t \<Longrightarrow> sa_status a = workflow_status s \<Longrightarrow> sa_status (absorb u a) = workflow_status t"
  by (simp add: merges_def absorb_def split: option.split)

section \<open>What a run keeps for the stream\<close>

text \<open>A node runs on a request that has not failed, and none has been mapped or allocated before its worker is asked.\<close>

definition stream_live :: "node \<Rightarrow> gstate \<Rightarrow> bool" where
  "stream_live nd s \<longleftrightarrow> nd = END \<or> workflow_status s \<noteq> FAILED
     \<and> (nd \<in> {SUPERVISOR, MAPPER, ALLOCATOR} \<longrightarrow> workflow_status s \<notin> {MAPPED, ALLOCATED})
     \<and> (nd = REFLECTION \<and> workflow_status s \<in> {MAPPED, ALLOCATED} \<longrightarrow>
          awaiting_confirmation s \<and> pending_action s \<in> {Some Confirm_1, Some Confirm_2, Some Clarify})"

lemma awaiting_simps [simp]:
  "awaiting_confirmation (clarify w s i)" "awaiting_confirmation (mapped s i t)" "awaiting_confirmation (allocated s n t)"
  by (simp_all add: clarify_def mapped_def allocated_def)

lemma supervisor_status:
  "post (supervisor_node w s)
     (\<lambda>t. workflow_status t \<in> {workflow_status s, FAILED, APPROVED, RECEIVED_REQUEST}
        \<and> (workflow_status t = FAILED \<and> workflow_status s \<noteq> FAILED \<longrightarrow> next_node t = END)) (\<lambda>_. True)"
proof (rule supervisor_post)
  fix u
  let ?P = "\<lambda>t. workflow_status t \<in> {workflow_status s, FAILED, APPROVED, RECEIVED_REQUEST}
        \<and> (workflow_status t = FAILED \<and> workflow_status s \<noteq> FAILED \<longrightarrow> next_node t = END)"
  have r: "post (on_request w s u) ?P (\<lambda>_. True)"
  proof (rule on_request_post)
    fix p
    show "post (on_confirmation w s (strip (lower u)) p) ?P (\<lambda>_. True)"
      by (rule on_confirmation_post) (auto simp: on_confirm_def on_decline_def re_ask_def Let_def clear_pending_def)
  qed (auto intro!: classify_post fresh_request_post)
  show "post (handle_user w s u) ?P (\<lambda>_. True)"
    by (rule handle_user_post) (use r in auto)
qed auto

lemma live_step:
  assumes "stream_live nd s" "nd \<noteq> END"
  shows "post (run_node nd w s) (\<lambda>t. \<forall>nd'. edge nd t = Some nd' \<longrightarrow> stream_live nd' t) (\<lambda>_. True)"
proof (cases nd)
  case SUPERVISOR
  with assms supervisor_status [of w s] show ?thesis by (auto simp: post_def pick_def stream_live_def split: if_splits)
next
  case MAPPER
  with assms show ?thesis by (auto intro!: mapper_post simp: failed_or_reflection_def stream_live_def)
next
  case ALLOCATOR
  with assms show ?thesis by (auto intro!: allocator_post simp: failed_or_reflection_def stream_live_def)
next
  case DEPLOYER
  with deployer_end [of w s] show ?thesis by (auto simp: post_def pick_def stream_live_def split: if_splits)
next
  case REFLECTION
  with assms show ?thesis by (auto intro!: reflection_post simp: pick_def stream_live_def)
next
  case GENERAL_INFO
  with assms show ?thesis by (simp add: general_response_node_def Let_def stream_live_def)
qed (use assms in simp)

section \<open>The closing chunk\<close>

text \<open>An update whose stored texts do not read as JSON, on which the generator raises.\<close>

definition unreadable :: "node_update \<Rightarrow> bool" where
  "unreadable u \<longleftrightarrow> loads (text_or_default (up_mapped u) ''{}'') = None
     \<or> loads (text_or_default (up_allocated u) ''{}'') = None
     \<or> json_iter (loads_or_empty (up_convergence u) ''[]'' (JArr [])) = None"

definition same_outcome :: "stream_acc \<Rightarrow> stream_acc \<Rightarrow> bool" where
  "same_outcome a b \<longleftrightarrow> sa_status a = sa_status b \<and> sa_reason a = sa_reason b \<and> sa_suggestion a = sa_suggestion b"

lemma same_outcome_refl [simp]: "same_outcome a a" "same_outcome a (a\<lparr>sa_suppress := b\<rparr>)"
  by (simp_all add: same_outcome_def)

fun flow_ok :: "node_update \<Rightarrow> stream_acc \<Rightarrow> flow \<Rightarrow> bool" where
  "flow_ok u a (Next b) \<longleftrightarrow> same_outcome a b"
| "flow_ok u a (Raised x) \<longleftrightarrow> unreadable u"

lemma ask_stage_flow:
  "p \<in> {up_mapped u, up_allocated u} \<Longrightarrow> flow_ok u a (snd (ask_stage err stg q p a))"
  by (auto simp: ask_stage_def loads_or_raise_def unreadable_def split: option.split)

lemma outcome_flow: "flow_ok u a (snd (outcome_chunks u a))"
  by (auto simp: outcome_chunks_def Let_def unreadable_def split: option.split)

lemma on_update_flow: "on_update err u a = (ds, f) \<Longrightarrow> flow_ok u (absorb u a) f"
proof -
  have "flow_ok u (absorb u a) (snd (on_update err u a))"
    by (simp add: on_update_def Let_def ask_stage_flow outcome_flow)
  then show "on_update err u a = (ds, f) \<Longrightarrow> flow_ok u (absorb u a) f" by simp
qed

text \<open>The outcome of a state as the generator keeps it.\<close>

definition tells :: "gstate \<Rightarrow> stream_acc \<Rightarrow> bool" where
  "tells s a \<longleftrightarrow> sa_status a = workflow_status s
     \<and> (workflow_status s = FAILED \<longrightarrow> sa_reason a = refusal_reason s \<and> sa_suggestion a = suggestion s)"

lemma tells_same: "tells s a \<Longrightarrow> same_outcome a b \<Longrightarrow> tells s b"
  by (simp add: tells_def same_outcome_def)

lemma tells_absorb:
  assumes "update_of (nd, s, t) u" "workflow_status s \<noteq> FAILED" "tells s a"
  shows "tells t (absorb u a)"
proof -
  have m: "merges s u t" and f: "workflow_status t = FAILED \<Longrightarrow>
      up_reason u = Some (refusal_reason t) \<and> up_suggestion u = Some (suggestion t)"
    using assms(1,2) by (simp_all add: update_of_def)
  have "sa_status (absorb u a) = workflow_status t"
    using m assms(3) by (intro absorb_status) (simp_all add: tells_def)
  with f show ?thesis by (simp add: tells_def absorb_def)
qed

lemma consume_run:
  assumes "list_all2 update_of (fst (run_steps W n nd s)) us" "stream_live nd s" "tells s a"
    "consume err us (snd (run_steps W n nd s)) a = (cs, r)" "run_graph W n nd s = Some (res, ev)"
  shows "case r of Inl x \<Rightarrow> res = Crash x \<or> list_ex unreadable us | Inr b \<Rightarrow> \<exists>t. res = Ok t \<and> tells t b"
  using assms
proof (induction n arbitrary: nd s us a cs res ev)
  case 0
  then show ?case by (cases nd) auto
next
  case (Suc n)
  show ?case
  proof (cases "nd = END")
    case False
    obtain o1 ev1 where o1: "run_node nd (W n) s = (o1, ev1)" by fastforce
    show ?thesis
    proof (cases o1)
      case (Crash e)
      with Suc.prems o1 show ?thesis by (auto simp: run_graph_Suc [OF False] run_steps_Suc [OF False])
    next
      case (Ok t)
      show ?thesis
      proof (cases "edge nd t")
        case None
        with Suc.prems o1 Ok show ?thesis by (auto simp: run_graph_Suc [OF False] run_steps_Suc [OF False])
      next
        case (Some nd')
        obtain xs e where xs: "run_steps W n nd' t = (xs, e)" by fastforce
        have steps: "run_steps W (Suc n) nd s = ((nd, s, t) # xs, e)"
          using o1 Ok Some xs by (simp add: run_steps_Suc [OF False])
        with Suc.prems(1) obtain u us' where us: "us = u # us'" "update_of (nd, s, t) u" "list_all2 update_of xs us'"
          by (auto simp: list_all2_Cons1)
        have live: "stream_live nd' t"
          using live_step [OF Suc.prems(2) False, of "W n"] o1 Ok Some by (auto simp: post_def)
        have told: "tells t (absorb u a)"
          using tells_absorb [OF us(2) _ Suc.prems(3)] Suc.prems(2) False by (simp add: stream_live_def)
        obtain ev' where q: "run_graph W n nd' t = Some (res, ev')"
          using Suc.prems(5) o1 Ok Some by (auto simp: run_graph_Suc [OF False] prepend_def)
        obtain ds f where f: "on_update err u a = (ds, f)" by fastforce
        note fl = on_update_flow [OF f]
        show ?thesis
        proof (cases f)
          case (Next b)
          obtain cs' r' where c: "consume err us' e b = (cs', r')" "r = r'"
            using Suc.prems(4) f Next by (auto simp: us(1) steps split: prod.splits)
          have "tells t b" using fl Next told tells_same by auto
          from Suc.IH [of nd' t us' b cs' res ev', OF _ live this _ q] us(3) c xs
          show ?thesis by (auto simp: us(1) split: sum.splits)
        next
          case (Raised x)
          with fl Suc.prems(4) f show ?thesis by (auto simp: us(1) steps)
        qed
      qed
    qed
  qed (use Suc.prems in auto)
qed

section \<open>The allocation shown\<close>

lemma on_update_shown:
  assumes "on_update err u a = (ds, f)" "stage_chunk ''allocator'' st j \<in> set ds"
  shows "up_node u = ALLOCATOR \<and> sa_status (absorb u a) = ALLOCATED
     \<and> loads (text_or_default (up_allocated u) ''{}'') = Some j \<and> (\<exists>b. f = Next b)"
  using assms
  by (auto simp: on_update_def Let_def ask_stage_def outcome_chunks_def loads_or_raise_def stage_chunk_def
      confirmation_chunk_def clarification_chunk_def tools_chunk_def deployer_chunk_def progress_chunk_def
      split: if_splits sum.splits option.splits)

lemma allocator_made:
  "workflow_status s \<noteq> ALLOCATED \<Longrightarrow>
     post (allocator_node w s) (\<lambda>t. workflow_status t = ALLOCATED \<longrightarrow> (\<exists>n x. t = allocated s n x)) (\<lambda>_. True)"
  by (rule allocator_post) auto

lemma canonical_object_nonempty: "canonical_json (JObj d) \<noteq> []"
  by (simp add: canonical_json_def dumps_compact_def)

text \<open>What the thread waits for after a stream has shown an allocation.\<close>

definition awaits_allocation :: "json \<Rightarrow> gstate \<Rightarrow> bool" where
  "awaits_allocation j t \<longleftrightarrow> awaiting_confirmation t \<and> pending_action t = Some Confirm_2
     \<and> (\<exists>x. allocated_resources t = Some x \<and> loads x = Some j)"

lemma after_allocation:
  assumes "run_graph W n REFLECTION (allocated s m x) = Some (res, ev)"
    "loads (text_or_default (allocated_resources (allocated s m x)) ''{}'') = Some j"
  shows "\<exists>t. res = Ok t \<and> awaits_allocation j t"
proof (cases n)
  case (Suc k)
  with assms show ?thesis
    by (auto simp: reflection_node_def pick_def prepend_def awaits_allocation_def text_or_default_def
        allocated_def set_text_def canonical_object_nonempty)
qed (use assms in simp)

lemma shown_run:
  assumes "list_all2 update_of (fst (run_steps W n nd s)) us" "stream_live nd s" "tells s a"
    "consume err us (snd (run_steps W n nd s)) a = (cs, r)" "run_graph W n nd s = Some (res, ev)"
    "stage_chunk ''allocator'' st j \<in> set cs"
  shows "\<exists>t. res = Ok t \<and> awaits_allocation j t"
  using assms
proof (induction n arbitrary: nd s us a cs r res ev)
  case 0
  then show ?case by (cases nd) auto
next
  case (Suc n)
  show ?case
  proof (cases "nd = END")
    case False
    obtain o1 ev1 where o1: "run_node nd (W n) s = (o1, ev1)" by fastforce
    show ?thesis
    proof (cases "\<exists>t nd'. o1 = Ok t \<and> edge nd t = Some nd'")
      case True
      then obtain t nd' where t: "o1 = Ok t" "edge nd t = Some nd'" by blast
      obtain xs e where xs: "run_steps W n nd' t = (xs, e)" by fastforce
      have steps: "run_steps W (Suc n) nd s = ((nd, s, t) # xs, e)"
        using o1 t xs by (simp add: run_steps_Suc [OF False])
      with Suc.prems(1) obtain u us' where us: "us = u # us'" "update_of (nd, s, t) u" "list_all2 update_of xs us'"
        by (auto simp: list_all2_Cons1)
      have live: "stream_live nd' t"
        using live_step [OF Suc.prems(2) False, of "W n"] o1 t by (auto simp: post_def)
      have told: "tells t (absorb u a)"
        using tells_absorb [OF us(2) _ Suc.prems(3)] Suc.prems(2) False by (simp add: stream_live_def)
      obtain ev' where q: "run_graph W n nd' t = Some (res, ev')"
        using Suc.prems(5) o1 t by (auto simp: run_graph_Suc [OF False] prepend_def)
      obtain ds f where f: "on_update err u a = (ds, f)" by fastforce
      show ?thesis
      proof (cases "stage_chunk ''allocator'' st j \<in> set ds")
        case True
        from on_update_shown [OF f True] us(2) told
        have nd: "nd = ALLOCATOR" "workflow_status t = ALLOCATED" "loads (text_or_default (allocated_resources t) ''{}'') = Some j"
          by (auto simp: update_of_def tells_def)
        have "workflow_status s \<noteq> ALLOCATED" using Suc.prems(2) nd(1) by (simp add: stream_live_def)
        from allocator_made [OF this, of "W n"] o1 t nd obtain m x where "t = allocated s m x" by (auto simp: post_def)
        with after_allocation [of W n s m x res ev' j] q t nd show ?thesis by (simp add: failed_or_reflection_def)
      next
        case no: False
        then obtain b cs' r' where b: "f = Next b" "consume err us' e b = (cs', r')"
          "stage_chunk ''allocator'' st j \<in> set cs'"
          using Suc.prems(4,6) f by (cases f) (auto simp: us(1) steps split: prod.splits)
        have "tells t b" using on_update_flow [OF f] b(1) told tells_same by auto
        from Suc.IH [of nd' t us' b cs' r' res ev', OF _ live this _ q b(3)] us(3) b(2) xs show ?thesis by simp
      qed
    qed (use Suc.prems o1 in \<open>auto simp: run_graph_Suc [OF False] run_steps_Suc [OF False] split: result.splits option.splits\<close>)
  qed (use Suc.prems in auto)
qed

section \<open>What the deployer is sent\<close>

definition sends_stored :: "string \<Rightarrow> string option \<Rightarrow> event \<Rightarrow> bool" where
  "sends_stored c stored e \<longleftrightarrow> (\<forall>x. e = Call_deployer x \<longrightarrow>
     (\<exists>w u y j. stored = Some y \<and> y \<noteq> [] \<and> loads y = Some j \<and> correlation_id u = c
        \<and> x = wrap_worker_text (redact_prompt (canonical_json (submit_envelope w u j))) (nonce w)))"

lemma sends_stored_others [simp]:
  "sends_stored c stored (Audit k c' th p rs why)" "sends_stored c stored (Call_tools t x)" "sends_stored c stored (audit w s k rs what)"
  by (simp_all add: sends_stored_def audit_def)

lemma no_submit_sends: "\<not> is_submit e \<Longrightarrow> sends_stored c stored e"
  by (auto simp: sends_stored_def)

lemma deployer_sends:
  "post (deployer_node w s) (\<lambda>_. True) (sends_stored (correlation_id s) (allocated_resources s))"
proof -
  have rep: "post (on_report w s d x) (\<lambda>_. True) (sends_stored c st)" for d x c st
    by (auto simp: on_report_def on_failure_report_def Let_def post_def reject_deployer_def reject_out_of_contract_def
        map_outcome_def split: option.splits json.splits sum.splits result.splits)
  have "post (submit_path w s) (\<lambda>_. True) (sends_stored (correlation_id s) (allocated_resources s))"
  proof (cases "submission_intent w s")
    case (Inr j)
    then obtain y where "allocated_resources s = Some y" "y \<noteq> []" "loads y = Some j" by (auto simp: submission_intent_Inr)
    then have "sends_stored (correlation_id s) (allocated_resources s)
        (Call_deployer (wrap_worker_text (redact_prompt (canonical_json (submit_envelope w s j))) (nonce w)))"
      unfolding sends_stored_def by blast
    with Inr rep show ?thesis by (auto simp: submit_path_def Let_def split: sum.split reply.split)
  qed (simp add: submit_path_def)
  then show ?thesis by (auto simp: deployer_node_def intro!: tools_post split: option.split)
qed

lemma submission_sends:
  assumes "run_graph W n SUPERVISOR s = Some (r, ev)" "workflow_status s \<noteq> APPROVED" "correlation_id s = c" "c \<noteq> []"
  shows "list_all (sends_stored c (allocated_resources s)) ev"
proof -
  let ?E = "sends_stored c (allocated_resources s)"
  define I where "I nd t \<longleftrightarrow> correlation_id t = c \<and> (nd = END \<or> nd = SUPERVISOR \<and> t = s \<or> cannot_submit nd t
     \<or> nd = DEPLOYER \<and> allocated_resources t = allocated_resources s)" for nd t
  have "post (run_node nd w t) (\<lambda>u. \<forall>nd'. edge nd u = Some nd' \<longrightarrow> I nd' u) ?E"
    if I: "I nd t" and nE: "nd \<noteq> END" for nd t w
  proof -
    have c: "post (run_node nd w t) (\<lambda>u. correlation_id u = c) (audit_fine c)"
      using node_correlation [of t c nd w] I nE assms(4) by (simp add: I_def)
    consider "nd = SUPERVISOR" "t = s" | "cannot_submit nd t"
      | "nd = DEPLOYER" "allocated_resources t = allocated_resources s" "correlation_id t = c"
      using I nE by (auto simp: I_def)
    then show ?thesis
    proof cases
      case 1
      with supervisor_confirms [OF assms(2), of w] c show ?thesis
        by (auto simp: post_def I_def no_submit_sends pick_def cannot_submit_def)
    next
      case 2
      with cannot_submit_step [of nd t w] c show ?thesis by (auto simp: post_def I_def no_submit_sends)
    next
      case 3
      with deployer_sends [of w t] deployer_end [of w t] c show ?thesis by (auto simp: post_def I_def pick_def)
    qed
  qed
  from run_invariant [of I ?E SUPERVISOR s W n "(r, ev)", OF this _ assms(1)] assms(3) show ?thesis
    by (simp add: I_def post_def list_all_iff)
qed

end
