(* ===== verification/Mapper_Text.thy ===== *)
theory Mapper_Text
  imports Interp Regex
begin

text \<open>
  The vocabulary of the mapping agent, src/agents/provisioning/mapper/agent.py: its pattern
  tables, and the readers of one aspect of a request each (construct, unsupported features, SRv6,
  spines, tenant, prefixes, filter, gateway, endpoints). The text is the request without its data
  fences. A reader that builds an \<open>EndpointIntent\<close> returns a \<open>checked\<close> value: a vlan outside
  1..4094 is a \<open>ValidationError\<close> that nothing in the mapper catches.
\<close>

section \<open>Pattern parts\<close>

definition word_i :: "string \<Rightarrow> rx" where "word_i w = cat [WordB, liti w, WordB]"
definition hexc :: rx where "hexc = Chr is_hex"
definition alpha :: rx where "alpha = Chr (\<lambda>c. is_lower c \<or> is_upper c)"
definition name_chars :: "string \<Rightarrow> rx" where
  "name_chars cs = star (Chr (\<lambda>c. is_word c \<or> c \<in> set cs))"

text \<open>The prefix token \<open>[0-9A-Fa-f:.]+/\d{1,3}\<close>.\<close>

definition cidr :: rx where
  "cidr = cat [plus (Chr (\<lambda>c. is_hex c \<or> c \<in> set '':.'')), lit ''/'', times 1 3 digit]"

text \<open>\<open>m.group(g)\<close> of a group that took part; \<open>pattern.fullmatch\<close>; \<open>pattern.sub("", s, count=1)\<close>.\<close>

definition grp :: "string \<Rightarrow> pos \<Rightarrow> string" where
  "grp g e = (case group_of g e of None \<Rightarrow> [] | Some s \<Rightarrow> s)"

definition full_match :: "rx \<Rightarrow> string \<Rightarrow> pos option" where
  "full_match r s = run r (\<lambda>e. if aft e = [] then Some e else None) (at s)"

definition drop_first :: "rx \<Rightarrow> string \<Rightarrow> string" where
  "drop_first r s =
     (case search r s of
        None \<Rightarrow> s | Some (m, e) \<Rightarrow> take (length s - length (aft m)) s @ aft e)"

section \<open>Constructs and features\<close>

definition SERVICE_PATTERNS :: "(service_type \<times> rx list) list" where
  "SERVICE_PATTERNS =
     [(MAC_VRF,
        [cat [WordB, liti ''mac'', opt (one_of ''- _''), liti ''vrf'', WordB],
         alts [word_i ''l2vpn'', word_i ''vpls'', word_i ''vpws'', cat [liti ''e'', opt (lit ''-''), liti ''line'']],
         alts [liti ''evpn'', cat [liti ''bridge'', plus ws, liti ''domain'']]]),
      (IP_VRF,
        [cat [WordB, liti ''ip'', opt (one_of ''- _''), liti ''vrf'', WordB],
         alts [word_i ''l3vpn'', cat [WordB, liti ''layer'', star ws, lit ''3'', WordB],
               word_i ''routing'', word_i ''vrf'']]),
      (ACL, [alts [word_i ''acl'', cat [liti ''access'', one_of ''- '', liti ''list''], liti ''filter'']]),
      (VLAN, [word_i ''vlan'', alts [cat [liti ''access'', plus ws, liti ''port''], liti ''untagged'']])]"

definition UNSUPPORTED_FEATURES :: "(rx \<times> string) list" where
  "UNSUPPORTED_FEATURES =
     [(alts [liti ''traffic engineering'', cat [WordB, liti ''te'', one_of ''- '', liti ''policy''],
             cat [liti ''te'', one_of ''- '', liti ''path'']], ''tePolicy''),
      (alts [word_i ''explicit path'', word_i ''sid list'',
             cat [WordB, liti ''pin'', opt (liti ''ning''), liti '' the flow'', WordB]], ''tePolicy''),
      (alts [liti ''pseudowire oam'', word_i ''pw oam'', liti ''control word''], ''pseudowireOAM''),
      (alts [word_i ''multicast'', word_i ''pim'', word_i ''msdp''], ''multicastVPN''),
      (alts [cat [liti ''service chain'', star wordc], cat [liti ''chained service'', opt (liti ''s'')]],
        ''serviceChain''),
      (liti ''complex qos'', ''complexQoS''),
      (alts [word_i ''cli'', liti ''raw cli''], ''rawCLI'')]"

definition UNSUPPORTED_SERVICE_TYPES :: "(rx \<times> string) list" where
  "UNSUPPORTED_SERVICE_TYPES =
     [(cat [WordB, liti ''e'', opt (lit ''-''), liti ''tree'', WordB], ''E-TREE''),
      (cat [WordB, liti ''e'', opt (lit ''-''), liti ''lan'', WordB], ''E-LAN''),
      (cat [WordB, liti ''pbb'', opt (one_of ''- ''), liti ''evpn'', WordB], ''PBB-EVPN'')]"

fun detect_in :: "(service_type \<times> rx list) list \<Rightarrow> string \<Rightarrow> service_type option" where
  "detect_in [] text = None"
| "detect_in ((t, rs) # ps) text = (if list_ex (\<lambda>r. found r text) rs then Some t else detect_in ps text)"

definition detect_service_type :: "string \<Rightarrow> service_type option" where
  "detect_service_type text = detect_in SERVICE_PATTERNS text"

fun label_in :: "(rx \<times> string) list \<Rightarrow> string \<Rightarrow> string option" where
  "label_in [] text = None"
| "label_in ((r, l) # ps) text = (if found r text then Some l else label_in ps text)"

definition detect_unsupported_service_type :: "string \<Rightarrow> string option" where
  "detect_unsupported_service_type text = label_in UNSUPPORTED_SERVICE_TYPES text"

definition detect_unsupported :: "string \<Rightarrow> string list" where
  "detect_unsupported text =
     foldl (\<lambda>props (r, name). if found r text \<and> name \<notin> set props then props @ [name] else props) []
       UNSUPPORTED_FEATURES"

section \<open>Tenant, vlan and prefixes\<close>

definition TENANT_RE :: rx where
  "TENANT_RE = cat [liti ''tenant'', plus (Chr (\<lambda>c. c = CHR '':'' \<or> is_ws c)),
     Grp ''tenant'' (plus (Chr (\<lambda>c. is_alnum c \<or> c = CHR ''-'')))]"

definition VLAN_RE :: rx where
  "VLAN_RE = cat [liti ''vlan'', star (Chr (\<lambda>c. c \<in> set '':#'' \<or> is_ws c)), Grp ''vlan'' (times 1 4 digit)]"

definition PREFIX_TOKEN_RE :: rx where
  "PREFIX_TOKEN_RE = cat [NotBehind (\<lambda>c. is_word c \<or> c = CHR '':''), Grp ''prefix'' cidr,
     NotAhead (Chr (\<lambda>c. is_word c \<or> c = CHR '':''))]"

definition detect_tenant :: "string \<Rightarrow> string option" where
  "detect_tenant text = map_option lower (search_group TENANT_RE ''tenant'' text)"

text \<open>The vlan a text names: \<open>int\<close> of the digits.\<close>

definition named_vlan :: "string \<Rightarrow> int option" where
  "named_vlan text = (case search_group VLAN_RE ''vlan'' text of None \<Rightarrow> None | Some d \<Rightarrow> py_int d)"

definition add_new :: "string \<Rightarrow> string list \<Rightarrow> string list" where
  "add_new p ps = (if p \<in> set ps then ps else ps @ [p])"

definition add_prefix :: "string list \<times> string list \<Rightarrow> string \<Rightarrow> string list \<times> string list" where
  "add_prefix acc token =
     (case ip_network token of
        None \<Rightarrow> acc
      | Some n \<Rightarrow>
          if ver n = 4 then (add_new (str_net n) (fst acc), snd acc)
          else (fst acc, add_new (str_net n) (snd acc)))"

definition parse_prefixes :: "string \<Rightarrow> string list \<times> string list" where
  "parse_prefixes text =
     foldl (\<lambda>acc (m, e). add_prefix acc (grp ''prefix'' e)) ([], []) (find_all PREFIX_TOKEN_RE text)"

section \<open>Endpoints\<close>

definition clause_end :: "string \<Rightarrow> rx" where
  "clause_end stop = cat [plus ws, Grp ''left'' (lazy1 (none_of stop)), plus ws, liti ''and'', plus ws,
     Grp ''right'' (plus (none_of stop))]"

definition ENDPOINT_BETWEEN :: rx where
  "ENDPOINT_BETWEEN = cat [alts [liti ''between'', liti ''across''], clause_end ('',;'' @ nl)]"

definition ENDPOINT_ATTACH :: rx where
  "ENDPOINT_ATTACH = cat [WordB, liti ''attach'', opt (liti ''ing''), clause_end ('',;.'' @ nl)]"

definition ATTACHMENT_ON_NODE :: rx where
  "ATTACHMENT_ON_NODE = cat [Bol, Grp ''attachment'' (plus nonws), plus ws, liti ''on'', plus ws,
     Grp ''node'' (plus nonws), opt (cat [ws, star any]), Eol]"

definition not_a_node :: rx where
  "not_a_node = NotAhead (alts (map (\<lambda>w. cat [liti w, WordB])
     [''vlan'', ''the'', ''a'', ''an'', ''its'', ''both'', ''each'', ''all'', ''every'', ''port'']))"

definition ENDPOINT_SINGLE_ON :: rx where
  "ENDPOINT_SINGLE_ON = cat [WordB, liti ''on'', plus ws, not_a_node,
     Grp ''node'' (cat [alpha, name_chars ''.-'']), plus ws,
     Grp ''attachment'' (cat [alts (map liti [''ethernet'', ''eth'', ''wan'', ''port'', ''xe'', ''ge'', ''te'']),
       name_chars ''./-''])]"

definition ENDPOINT_TRAILING_CLAUSE_RE :: rx where
  "ENDPOINT_TRAILING_CLAUSE_RE = cat [plus ws,
     alts [cat [liti ''for'', plus ws, liti ''tenant''], liti ''tenant'', liti ''with'', liti ''using''],
     WordB, star dot, Eol]"

definition ENDPOINT_SENTENCE_END_RE :: rx where
  "ENDPOINT_SENTENCE_END_RE = cat [one_of ''.!?'', alts [plus ws, Eol], star any, Eol]"

text \<open>The two clauses of "between A and B", of "across A and B" or of "attach A and B".\<close>

definition endpoint_pair :: "string \<Rightarrow> (string \<times> string) option" where
  "endpoint_pair text =
     map_option (\<lambda>(m, e). (grp ''left'' e, grp ''right'' e))
       (case search ENDPOINT_BETWEEN text of Some r \<Rightarrow> Some r | None \<Rightarrow> search ENDPOINT_ATTACH text)"

text \<open>\<open>EndpointIntent(site_or_node=.., attachment=.., vlan=..)\<close>.\<close>

definition intent_endpoint :: "lax \<Rightarrow> string \<Rightarrow> string \<Rightarrow> int option \<Rightarrow> endpoint_intent checked" where
  "intent_endpoint L n a v =
     validate_endpoint L [(''site_or_node'', JStr n), (''attachment'', JStr a), (''vlan'', int_json v)]"

definition endpoint_or_none ::
    "lax \<Rightarrow> string \<Rightarrow> string \<Rightarrow> int option \<Rightarrow> endpoint_intent option checked" where
  "endpoint_or_none L node_text attachment_text v =
     (let n = strip_chars '',.;:'' (strip node_text);
          a = strip_chars '',.;:'' (strip attachment_text)
      in if n = [] \<or> a = [] then Inr None
         else if found (plus ws) n \<or> found (plus ws) a then Inr None
         else map_res Some (intent_endpoint L n a v))"

text \<open>The parts \<open>re.split\<close> leaves around runs of white space, without the empty ones.\<close>

fun ws_parts :: "string \<Rightarrow> string \<Rightarrow> string list" where
  "ws_parts w [] = (if w = [] then [] else [rev w])"
| "ws_parts w (c # s) =
     (if is_ws c then (if w = [] then ws_parts [] s else rev w # ws_parts [] s) else ws_parts (c # w) s)"

definition clean_clause :: "string \<Rightarrow> string" where
  "clean_clause ep =
     strip_chars '' ,.;''
       (sub VLAN_RE (\<lambda>m e. [])
          (sub ENDPOINT_TRAILING_CLAUSE_RE (\<lambda>m e. []) (drop_first ENDPOINT_SENTENCE_END_RE ep)))"

definition clause_endpoint :: "lax \<Rightarrow> int option \<Rightarrow> string \<Rightarrow> endpoint_intent option checked" where
  "clause_endpoint L global_vlan ep =
     (let v = (case named_vlan ep of Some x \<Rightarrow> Some x | None \<Rightarrow> global_vlan);
          clean = clean_clause ep
      in case full_match ATTACHMENT_ON_NODE clean of
           Some e \<Rightarrow> endpoint_or_none L (grp ''node'' e) (grp ''attachment'' e) v
         | None \<Rightarrow>
             (case ws_parts [] clean of
                n # a # _ \<Rightarrow> endpoint_or_none L n a v
              | _ \<Rightarrow> Inr None))"

definition the_endpoints :: "endpoint_intent option list \<Rightarrow> endpoint_intent list" where
  "the_endpoints es = concat (map (\<lambda>e. case e of None \<Rightarrow> [] | Some x \<Rightarrow> [x]) es)"

definition parse_endpoints :: "lax \<Rightarrow> string \<Rightarrow> endpoint_intent list checked" where
  "parse_endpoints L text =
     (case endpoint_pair text of
        None \<Rightarrow>
          (case search ENDPOINT_SINGLE_ON text of
             None \<Rightarrow> Inr []
           | Some (m, e) \<Rightarrow>
               map_res (\<lambda>x. the_endpoints [x])
                 (endpoint_or_none L (grp ''node'' e) (grp ''attachment'' e) (named_vlan text)))
      | Some (left, right) \<Rightarrow>
          (let g = named_vlan text
           in bind_res (clause_endpoint L g (strip left)) (\<lambda>a.
                map_res (\<lambda>b. the_endpoints [a, b]) (clause_endpoint L g (strip right)))))"

end
