(* ===== verification/Mapper_Srv6.thy ===== *)
theory Mapper_Srv6
  imports Mapper_Text
begin

text \<open>
  The rest of what the mapping agent reads from a request
  (src/agents/provisioning/mapper/agent.py): the filter and the anycast gateway, and the SRv6
  vocabulary, with \<open>srv6_mapping\<close> as the code has it: what SRv6 may be asked for, the
  clarification tokens C1 to C7 in contract order, and the refusals R3 and R5.
\<close>

section \<open>Filters\<close>

definition ACL_STAGE_RE :: rx where
  "ACL_STAGE_RE = cat [WordB, Grp ''stage'' (alts [liti ''ingress'', liti ''egress'']), WordB]"

definition ACL_PROTO_RE :: rx where
  "ACL_PROTO_RE = cat [WordB, Grp ''proto'' (alts (map liti
     [''tcp'', ''udp'', ''icmp'', ''igmp'', ''rsvp'', ''gre'', ''ah'', ''pim'', ''l2tp''])), WordB]"

definition tcp_udp :: rx where "tcp_udp = alts [liti ''tcp'', liti ''udp'']"

definition ACL_PORT_RE :: rx where
  "ACL_PORT_RE = alts
     [cat [WordB, liti ''port'', plus ws, Grp ''port'' (times 1 5 digit), WordB],
      cat [WordB, Grp ''slashed'' (times 1 5 digit), star ws, lit ''/'', star ws, tcp_udp, WordB],
      cat [WordB, tcp_udp, plus ws, Grp ''bare'' (times 1 5 digit), WordB]]"

definition ACL_SRC_PREFIX_RE :: rx where
  "ACL_SRC_PREFIX_RE = cat [WordB, liti ''from'', plus ws, Grp ''prefix'' cidr]"

definition ACL_DST_PREFIX_RE :: rx where
  "ACL_DST_PREFIX_RE = cat [WordB, liti ''to'', plus ws, Grp ''prefix'' cidr]"

definition ACL_PERMIT_RE :: rx where
  "ACL_PERMIT_RE = cat [WordB, alts (map liti [''permit'', ''permitting'', ''allow'', ''allowing'']), WordB]"

definition two_words :: "string \<Rightarrow> string \<Rightarrow> rx" where
  "two_words a b = cat [liti a, plus ws, liti b]"

definition ACL_DENY_REST_RE :: rx where
  "ACL_DENY_REST_RE = alts
     [cat [WordB, alts (map liti [''deny'', ''drop'', ''block'']), plus ws,
        alts [two_words ''everything'' ''else'', two_words ''all'' ''else'', two_words ''all'' ''other'',
          two_words ''the'' ''rest'', liti ''everything'', liti ''all''], WordB],
      word_i ''only'']"

definition ACL_FILTER_CLAUSE_RE :: rx where
  "ACL_FILTER_CLAUSE_RE = alts [word_i ''acl'', cat [liti ''access'', one_of ''- '', liti ''list''],
     word_i ''permitting'', word_i ''permit'', word_i ''allowing'', word_i ''allow'', word_i ''denying'',
     word_i ''deny'']"

definition ACL_V6_RE :: rx where
  "ACL_V6_RE = alts [word_i ''ipv6'', word_i ''l3v6'',
     cat [times 0 4 hexc, lit '':'', star (Chr (\<lambda>c. is_hex c \<or> c = CHR '':'')), lit ''/'', times 1 3 digit]]"

text \<open>\<open>a or b\<close> on group texts.\<close>

definition text_or :: "string \<Rightarrow> string \<Rightarrow> string" where
  "text_or a b = (if a \<noteq> [] then a else b)"

definition port_of :: "pos \<Rightarrow> string" where
  "port_of e = text_or (text_or (grp ''port'' e) (grp ''slashed'' e)) (grp ''bare'' e)"

definition acl_rule_dict :: "string \<Rightarrow> dict" where
  "acl_rule_dict text =
     [(''name'', JStr ''rule-1''), (''priority'', JInt 100),
      (''action'', JStr (if found ACL_PERMIT_RE text then ''permit'' else ''deny''))]
     @ opt_field ''protocol'' (map_option (\<lambda>p. JStr (lower p)) (search_group ACL_PROTO_RE ''proto'' text))
     @ opt_field ''destinationPort'' (map_option (\<lambda>(m, e). JStr (port_of e)) (search ACL_PORT_RE text))
     @ opt_field ''sourcePrefix'' (map_option JStr (search_group ACL_SRC_PREFIX_RE ''prefix'' text))
     @ opt_field ''destinationPrefix'' (map_option JStr (search_group ACL_DST_PREFIX_RE ''prefix'' text))"

definition acl_rules_found :: "string \<Rightarrow> dict list" where
  "acl_rules_found text =
     (if found ACL_PROTO_RE text \<or> found ACL_PORT_RE text \<or> found ACL_SRC_PREFIX_RE text
      then [acl_rule_dict text] else [])"

definition acl_block :: "string \<Rightarrow> string \<Rightarrow> dict list \<Rightarrow> dict" where
  "acl_block text stage_word found_rules =
     [(''stage'', JStr (lower stage_word)),
      (''type'', JStr (if found ACL_V6_RE text then ''l3v6'' else ''l3'')),
      (''rules'', JArr (map JObj found_rules))]
     @ (if found ACL_DENY_REST_RE text \<and> dget (hd found_rules) ''action'' = JStr ''permit''
        then [(''default_action'', JStr ''deny'')] else [])"

text \<open>The filter the request describes, or the fields it is missing.\<close>

definition parse_acl :: "string \<Rightarrow> dict option \<times> string list" where
  "parse_acl text =
     (let st = search_group ACL_STAGE_RE ''stage'' text; rs = acl_rules_found text;
          missing = (if st = None then [''acl.stage''] else []) @ (if rs = [] then [''acl.rules''] else [])
      in case st of
           Some s \<Rightarrow> if rs = [] then (None, missing) else (Some (acl_block text s rs), [])
         | None \<Rightarrow> (None, missing))"

section \<open>The anycast gateway\<close>

definition GATEWAY_RE :: rx where "GATEWAY_RE = two_words ''anycast'' ''gateway''"

definition GATEWAY_ADDR_RE :: rx where
  "GATEWAY_ADDR_RE = cat [two_words ''anycast'' ''gateway'', WordB, upto_times_lazy 24 (none_of ''.;''),
     Grp ''addr'' (alts [cidr, cat [times 1 3 digit, times 3 3 (cat [lit ''.'', times 1 3 digit])]])]"

definition parse_anycast_gateway :: "string \<Rightarrow> dict option \<times> bool" where
  "parse_anycast_gateway text =
     (if \<not> found GATEWAY_RE text then (None, False)
      else case search_group GATEWAY_ADDR_RE ''addr'' text of
        None \<Rightarrow> (None, True)
      | Some a \<Rightarrow> (Some [(if CHR '':'' \<in> set a then ''ipv6'' else ''ipv4'', JStr a)], True))"

section \<open>SRv6 vocabulary\<close>

definition SRV6_PATTERNS :: "rx list" where
  "SRV6_PATTERNS =
     [word_i ''srv6'',
      cat [WordB, liti ''segment'', one_of ''- '', liti ''routing'', plus ws, liti ''over'', plus ws, liti ''ipv6'', WordB],
      cat [WordB, liti ''segment'', one_of ''- '', liti ''routing'', plus ws, liti ''v6'', WordB]]"

definition detect_srv6 :: "string \<Rightarrow> bool" where
  "detect_srv6 text \<longleftrightarrow> list_ex (\<lambda>r. found r text) SRV6_PATTERNS"

definition SRV6_VXLAN_TERMS_RE :: rx where
  "SRV6_VXLAN_TERMS_RE = alts [word_i ''vxlan'', cat [WordB, liti ''l'', one_of ''23'', liti ''vni'', WordB], word_i ''vni'']"

definition SRV6_EVPN_RE :: rx where "SRV6_EVPN_RE = word_i ''evpn''"

definition SRV6_MAC_VRF_RE :: rx where
  "SRV6_MAC_VRF_RE = alts [cat [WordB, liti ''mac'', opt (one_of ''- _''), liti ''vrf'', WordB],
     word_i ''bridged'', word_i ''l2vpn'', cat [liti ''extend'', opt (liti ''ing''), plus ws, liti ''vlan'', WordB]]"

definition SRV6_IP_VRF_RE :: rx where
  "SRV6_IP_VRF_RE = alts [cat [WordB, liti ''ip'', opt (one_of ''- _''), liti ''vrf'', WordB], word_i ''routed'']"

definition SRV6_IP_VRF_ALIAS_PATTERNS :: "rx list" where
  "SRV6_IP_VRF_ALIAS_PATTERNS = concat (map snd (filter (\<lambda>(t, rs). t = IP_VRF) SERVICE_PATTERNS))"

definition SRV6_ACL_RE :: rx where
  "SRV6_ACL_RE = alts [word_i ''acl'', cat [liti ''access'', one_of ''- '', liti ''list'']]"

definition spine_name :: rx where
  "spine_name = Grp ''name'' (cat [liti ''spine'', name_chars ''.-''])"

definition SRV6_SPINE_VIA_RE :: rx where
  "SRV6_SPINE_VIA_RE = cat [WordB, liti ''via'', plus ws, spine_name, plus ws, liti ''preferred'', WordB]"

definition SRV6_PREFER_RE :: rx where
  "SRV6_PREFER_RE = cat [WordB, liti ''prefer'', opt (liti ''ring''), WordB, Grp ''tail'' (star dot)]"

definition SRV6_WORD_RE :: rx where "SRV6_WORD_RE = cat [alpha, name_chars ''.-'']"

definition SRV6_ALTERNATE_RE :: rx where
  "SRV6_ALTERNATE_RE = cat [WordB, liti ''with'', plus ws, spine_name, plus ws, liti ''as'', plus ws,
     opt (cat [liti ''the'', plus ws]), liti ''alternate'', WordB]"

definition SRV6_SPINE_STOP :: "string list" where
  "SRV6_SPINE_STOP = [''a'', ''an'', ''specific'', ''the'']"

definition parse_alternate_spine :: "string \<Rightarrow> string option" where
  "parse_alternate_spine text = map_option lower (search_group SRV6_ALTERNATE_RE ''name'' text)"

definition spine_words :: "string \<Rightarrow> string list \<times> string list" where
  "spine_words tail =
     (let found_words = filter (\<lambda>w. lower w \<noteq> ''an'') (map (\<lambda>(m, e). span m e) (find_all SRV6_WORD_RE tail))
      in (found_words, filter (\<lambda>w. starts_with ''spine'' (lower w)) found_words))"

text \<open>The spine named and whether a preference was stated at all.\<close>

definition parse_preferred_spine :: "string \<Rightarrow> string option \<times> bool" where
  "parse_preferred_spine text =
     (case search_group SRV6_SPINE_VIA_RE ''name'' text of
        Some n \<Rightarrow> (Some (lower n), True)
      | None \<Rightarrow>
          (case search_group SRV6_PREFER_RE ''tail'' text of
             None \<Rightarrow> (None, False)
           | Some tail \<Rightarrow>
               (case spine_words tail of
                  (_, []) \<Rightarrow> (None, False)
                | (w # _, s # spines) \<Rightarrow>
                    if lower w \<in> set SRV6_SPINE_STOP
                    then (case filter (\<lambda>x. lower x \<notin> {''spine'', ''spines''}) (s # spines) of
                            [] \<Rightarrow> (None, True) | n # _ \<Rightarrow> (Some (lower n), True))
                    else (if lower s \<in> {''spine'', ''spines''} then None else Some (lower s), True)
                | ([], s # _) \<Rightarrow> (if lower s \<in> {''spine'', ''spines''} then None else Some (lower s), True))))"

text \<open>The construct, or the terminal token of a construct SRv6 does not carry.\<close>

definition SRV6_UNSUPPORTED_CONSTRUCT :: string where
  "SRV6_UNSUPPORTED_CONSTRUCT = ''srv6UnsupportedConstruct''"

definition detect_srv6_construct :: "string \<Rightarrow> service_type option \<times> string option" where
  "detect_srv6_construct text =
     (if found SRV6_ACL_RE text then (None, Some SRV6_UNSUPPORTED_CONSTRUCT)
      else if found SRV6_MAC_VRF_RE text then (Some MAC_VRF, None)
      else if found SRV6_IP_VRF_RE text \<or> list_ex (\<lambda>r. found r text) SRV6_IP_VRF_ALIAS_PATTERNS
        then (Some IP_VRF, None)
      else if found VLAN_RE text then (None, Some SRV6_UNSUPPORTED_CONSTRUCT)
      else (None, None))"

section \<open>The prefixes of the endpoints\<close>

definition endpoint_prefix_clauses :: "string \<Rightarrow> string list" where
  "endpoint_prefix_clauses text =
     (case endpoint_pair text of
        Some (left, right) \<Rightarrow> [left, right]
      | None \<Rightarrow>
          (case search ENDPOINT_SINGLE_ON text of None \<Rightarrow> [] | Some (m, e) \<Rightarrow> [span m e]))"

definition local_prefixes :: "string list \<Rightarrow> string list \<Rightarrow> nat \<Rightarrow> string list" where
  "local_prefixes clauses ps i =
     (let own = (if i < length clauses
                 then (case parse_prefixes (clauses ! i) of (v4, v6) \<Rightarrow> v4 @ v6) else [])
      in if own \<noteq> [] then own else take 1 (drop i ps))"

definition attach_endpoint_prefixes ::
    "string \<Rightarrow> endpoint_intent list \<Rightarrow> string list \<Rightarrow> endpoint_intent list" where
  "attach_endpoint_prefixes text eps ps =
     map (\<lambda>(e, own). if own \<noteq> [] then e\<lparr>prefixes := Some own\<rparr> else e)
       (zip eps (map (local_prefixes (endpoint_prefix_clauses text) ps) [0..<length eps]))"

section \<open>The SRv6 mapping\<close>

record map_fields =
  mp_type :: service_type
  mp_tenant :: string
  mp_endpoints :: "endpoint_intent list"
  mp_v4 :: "string list"
  mp_v6 :: "string list"
  mp_transport :: "string option"
  mp_signalling :: "string option"
  mp_preferred :: "string option"
  mp_alternate :: "string option"
  mp_missing :: "string list"
  mp_unsupported :: "string list"

definition placeholder_endpoint :: endpoint_intent where
  "placeholder_endpoint =
     \<lparr>site_or_node = ''missing'', attachment = ''missing'', vlan = None, prefixes = None\<rparr>"

definition tenant_or_missing :: "string option \<Rightarrow> string \<times> string list" where
  "tenant_or_missing t =
     (case t of Some n \<Rightarrow> if n = [] then (''missing'', [''tenant'']) else (n, [])
      | None \<Rightarrow> (''missing'', [''tenant'']))"

text \<open>A result with no construct: what \<open>_result\<close> builds.\<close>

definition no_construct ::
    "string \<Rightarrow> string option \<Rightarrow> string list \<Rightarrow> string list \<Rightarrow> map_fields" where
  "no_construct tn tr miss uns =
     \<lparr>mp_type = VLAN, mp_tenant = tn, mp_endpoints = [placeholder_endpoint], mp_v4 = [], mp_v6 = [],
      mp_transport = tr, mp_signalling = None, mp_preferred = None, mp_alternate = None,
      mp_missing = miss, mp_unsupported = uns\<rparr>"

definition srv6_order :: "string \<Rightarrow> nat" where
  "srv6_order tok =
     (case map_of [(''srv6_construct'', 0), (''srv6_signalling'', 0), (''tenant'', 1),
         (''srv6_other_endpoint'', 2), (''srv6_prefix'', 3), (''srv6_vlan'', 4),
         (''srv6_preferred_spine'', 5)] tok of
        Some n \<Rightarrow> n | None \<Rightarrow> 9)"

definition srv6_service :: "string \<Rightarrow> service_type \<Rightarrow> string \<Rightarrow> string list \<Rightarrow> endpoint_intent list \<Rightarrow> map_fields" where
  "srv6_service text st tn tenant_missing parsed =
     (let c4 = (if length parsed < 2 \<or> length (remdups (map (\<lambda>e. lower (site_or_node e)) parsed)) < 2
                then [''srv6_other_endpoint''] else []);
          eps = (if parsed = [] then [placeholder_endpoint] else parsed);
          (v4, v6) = (if st = IP_VRF then parse_prefixes text else ([], []));
          c5 = (if st = IP_VRF \<and> v4 = [] \<and> v6 = [] then [''srv6_prefix''] else []);
          c6 = (if st = MAC_VRF \<and> \<not> found VLAN_RE text then [''srv6_vlan''] else []);
          (name, mentioned) = parse_preferred_spine text;
          c7 = (if mentioned \<and> name = None then [''srv6_preferred_spine''] else [])
      in \<lparr>mp_type = st, mp_tenant = tn,
          mp_endpoints = (if st = IP_VRF \<and> c5 = [] then attach_endpoint_prefixes text eps (v4 @ v6) else eps),
          mp_v4 = v4, mp_v6 = v6, mp_transport = Some ''srv6'',
          mp_signalling = Some (if st = MAC_VRF \<or> found SRV6_EVPN_RE text then ''evpn'' else ''vpn''),
          mp_preferred = (if mentioned then name else None),
          mp_alternate = parse_alternate_spine text,
          mp_missing = sort_key srv6_order (tenant_missing @ c4 @ c5 @ c6 @ c7), mp_unsupported = []\<rparr>)"

definition srv6_mapping :: "lax \<Rightarrow> string \<Rightarrow> map_fields checked" where
  "srv6_mapping L text =
     (let (tn, missing) = tenant_or_missing (detect_tenant text)
      in if found SRV6_VXLAN_TERMS_RE text
           then Inr (no_construct tn None missing [''srv6TransportConflict''])
         else case detect_srv6_construct text of
           (_, Some blocked) \<Rightarrow> Inr (no_construct tn None missing [blocked])
         | (None, None) \<Rightarrow>
             Inr (no_construct tn (Some ''srv6'')
               (missing @ [if found SRV6_EVPN_RE text then ''srv6_signalling'' else ''srv6_construct'']) [])
         | (Some st, None) \<Rightarrow> map_res (srv6_service text st tn missing) (parse_endpoints L text))"

end
