(* ===== verification/Mapper.thy ===== *)
theory Mapper
  imports Mapper_Srv6 Worker
begin

text \<open>
  The mapping agent itself (src/agents/provisioning/mapper/agent.py): the single node \<open>_map_node\<close>,
  its payload and summary, and \<open>ainvoke\<close>, which validates the payload again and decides which
  parts the answer carries. The identifier generator (\<open>uuid4\<close>), pydantic's lax readings and error
  texts, and the bandwidth keywords of catalogue.json are an argument of the model.
\<close>

record mapper_env =
  gen_id :: string
  bw_hints :: "rx list"
  map_lax :: lax
  exc_text :: "field_error list \<Rightarrow> string"

text \<open>\<open>hints.bandwidth\<close> of the catalogue the repository ships.\<close>

definition catalogue_bw_hints :: "rx list" where
  "catalogue_bw_hints = map liti [''gbps'', ''mbps'', ''g'', ''m'']"

section \<open>A request that does not name SRv6\<close>

record plain_mapped = map_fields +
  mp_acl :: "dict option"
  mp_gateway :: "dict option"

definition DATA_FENCE_RE :: rx where
  "DATA_FENCE_RE = cat [lit ''<<<'', opt (lit ''END_''), lit ''DATA'', lazy dot, lit ''>>>'']"

definition plain_text :: "string \<Rightarrow> string" where
  "plain_text content = strip (sub DATA_FENCE_RE (\<lambda>m e. []) content)"

text \<open>The construct of the request, coerced to a valid one next to the refusal that names it.\<close>

definition construct_or_refused :: "string \<Rightarrow> service_type \<times> string list" where
  "construct_or_refused low =
     (case detect_service_type low of
        Some t \<Rightarrow> (t, [])
      | None \<Rightarrow>
          (VLAN, [case detect_unsupported_service_type low of
                    Some u \<Rightarrow> ''serviceType:'' @ u
                  | None \<Rightarrow> ''constructs: vlan, mac-vrf, ip-vrf, acl'']))"

definition minimum_endpoints :: "service_type \<Rightarrow> nat" where
  "minimum_endpoints t = (if t = MAC_VRF then 2 else 1)"

text \<open>The filter a request carries and what it leaves to ask.\<close>

definition filter_of :: "service_type \<Rightarrow> string \<Rightarrow> dict option \<times> string list" where
  "filter_of t low =
     (if t = ACL then parse_acl low
      else if found ACL_FILTER_CLAUSE_RE low then
        (case parse_acl low of
           (Some a, _) \<Rightarrow> (Some a, [])
         | (None, miss) \<Rightarrow> (None, if ''acl.rules'' \<in> set miss then [] else miss))
      else (None, []))"

definition mapped_gateway :: "service_type \<Rightarrow> string \<Rightarrow> dict option \<times> string list \<times> string list" where
  "mapped_gateway t low =
     (case parse_anycast_gateway low of
        (g, named) \<Rightarrow>
          if named \<and> t \<noteq> MAC_VRF
            then (None, [], [''anycastGateway: only a mac-vrf carries an anycast gateway''])
          else if named \<and> g = None then (None, [''anycast_gateway''], [])
          else (g, [], []))"

definition plain_service ::
    "string \<Rightarrow> service_type \<Rightarrow> string list \<Rightarrow> endpoint_intent list \<Rightarrow> plain_mapped" where
  "plain_service low t refused eps =
     (let (tn, no_tenant) = tenant_or_missing (detect_tenant low);
          n = minimum_endpoints t;
          few = (if length eps < n then [''endpoints''] else []);
          (v4, v6) = (if t = IP_VRF then parse_prefixes low else ([], []));
          (a, a_missing) = filter_of t low;
          (g, g_missing, g_refused) = mapped_gateway t low
      in \<lparr>mp_type = t, mp_tenant = tn,
          mp_endpoints = eps @ replicate (n - length eps) placeholder_endpoint,
          mp_v4 = v4, mp_v6 = v6, mp_transport = None, mp_signalling = None, mp_preferred = None,
          mp_alternate = None, mp_missing = no_tenant @ few @ a_missing @ g_missing,
          mp_unsupported = refused @ g_refused, mp_acl = a, mp_gateway = g\<rparr>)"

definition plain_mapping :: "lax \<Rightarrow> string \<Rightarrow> plain_mapped checked" where
  "plain_mapping L low =
     (let (t, refused) = construct_or_refused low;
          te = (if snd (parse_preferred_spine low) then [''tePolicy''] else [])
      in map_res (plain_service low t (te @ refused)) (parse_endpoints L low))"

section \<open>The payload\<close>

definition map_request :: "lax \<Rightarrow> string \<Rightarrow> plain_mapped checked" where
  "map_request L low =
     map_res (\<lambda>m. m\<lparr>mp_unsupported := detect_unsupported low @ mp_unsupported m\<rparr>)
       (if detect_srv6 low
        then map_res (\<lambda>m. map_fields.extend m \<lparr>mp_acl = None, mp_gateway = None\<rparr>) (srv6_mapping L low)
        else plain_mapping L low)"

definition BANDWIDTH_RE :: rx where
  "BANDWIDTH_RE = Grp ''1'' (cat [plus digit, opt ws,
     alts [liti ''gbps'', liti ''g'', liti ''mbps'', liti ''m'']])"

definition bandwidth_hint :: "rx list \<Rightarrow> string \<Rightarrow> string option" where
  "bandwidth_hint hints low =
     (if list_ex (\<lambda>r. found r low) hints
      then map_option (\<lambda>b. lower (filter (\<lambda>c. c \<noteq> CHR '' '') b)) (search_group BANDWIDTH_RE ''1'' low)
      else None)"

definition map_payload :: "mapper_env \<Rightarrow> string \<Rightarrow> plain_mapped \<Rightarrow> dict" where
  "map_payload M low m =
     [(''service_id'', JStr (gen_id M)), (''service_type'', JStr (type_value (mp_type m))),
      (''tenant'', JStr (mp_tenant m)), (''endpoints'', JArr (map dump_endpoint (mp_endpoints m))),
      (''ipv4_prefixes'', strs_json (mp_v4 m)), (''ipv6_prefixes'', strs_json (mp_v6 m)),
      (''missing_fields'', strs_json (if mp_unsupported m \<noteq> [] then [] else mp_missing m)),
      (''unsupported_properties'', strs_json (mp_unsupported m))]
     @ opt_field ''transport'' (map_option JStr (mp_transport m))
     @ opt_field ''signalling'' (map_option JStr (mp_signalling m))
     @ opt_field ''preferred_spine'' (map_option JStr (mp_preferred m))
     @ opt_field ''alternate_spine'' (map_option JStr (mp_alternate m))
     @ opt_field ''acl'' (map_option JObj (mp_acl m))
     @ opt_field ''anycast_gateway'' (map_option JObj (mp_gateway m))
     @ opt_field ''bandwidth'' (map_option JStr (bandwidth_hint (bw_hints M) low))"

section \<open>The node and the answer\<close>

definition endpoint_summary :: "endpoint_intent \<Rightarrow> string" where
  "endpoint_summary e =
     site_or_node e @ '' '' @ attachment e
     @ (case vlan e of None \<Rightarrow> [] | Some v \<Rightarrow> if v = 0 then [] else '' vlan '' @ str_int v)"

definition human_summary :: "interp \<Rightarrow> string" where
  "human_summary i =
     redact_model_response
       (''Service '' @ type_value (service_type i) @ '' for tenant '' @ i_tenant i @ '': ''
        @ join '', '' (map endpoint_summary (i_endpoints i)) @ ''.''
        @ (if missing_fields i \<noteq> [] then '' Missing: '' @ join '', '' (missing_fields i) @ ''.'' else [])
        @ (if unsupported_properties i \<noteq> []
           then '' Unsupported: '' @ join '', '' (unsupported_properties i) @ ''.'' else []))"

definition summary_with_marker :: "string \<Rightarrow> interp \<Rightarrow> string" where
  "summary_with_marker summary i =
     strip summary @ nl @ ''<!-- MAPPED_JSON: '' @ canonical_json (JObj (dump_interpretation i)) @ '' -->''"

record map_state =
  result_text :: string
  map_result :: "dict option"

definition map_node :: "mapper_env \<Rightarrow> string \<Rightarrow> map_state checked" where
  "map_node M content =
     (let low = plain_text content
      in map_res (\<lambda>m.
           case validate_interpretation (map_lax M) (map_payload M low m) of
             Inl es \<Rightarrow> \<lparr>result_text = ''Mapping failed schema validation: '' @ exc_text M es, map_result = None\<rparr>
           | Inr i \<Rightarrow> \<lparr>result_text = human_summary i, map_result = Some (dump_interpretation i)\<rparr>)
         (map_request (map_lax M) low))"

datatype mapper_error =
    Endpoint_invalid "field_error list"     \<comment> \<open>the \<open>ValidationError\<close> of an endpoint\<close>
  | Mapping_invalid "field_error list"      \<comment> \<open>the \<open>ValueError\<close> of \<open>ainvoke\<close>\<close>

definition answer_parts :: "string \<Rightarrow> interp \<Rightarrow> part list" where
  "answer_parts summary i =
     (if is_complete i then [DataPart (dump_interpretation i)] else [])
     @ [TextPart (summary_with_marker summary i)]"

definition ainvoke :: "mapper_env \<Rightarrow> string \<Rightarrow> mapper_error + part list \<times> interp" where
  "ainvoke M user_text =
     (case map_node M user_text of
        Inl es \<Rightarrow> Inl (Endpoint_invalid es)
      | Inr s \<Rightarrow>
          (let payload = (case map_result s of None \<Rightarrow> [] | Some d \<Rightarrow> d);
               summary = text_or (result_text s) ''Mapping result''
           in case validate_interpretation (map_lax M) payload of
                Inl es \<Rightarrow> Inl (Mapping_invalid es)
              | Inr i \<Rightarrow> Inr (answer_parts summary i, i)))"

end
