(* ===== verification/Mapper_Facts.thy ===== *)
theory Mapper_Facts
  imports Mapper
begin

text \<open>
  What holds of everything the mapping agent builds: the endpoints it parses are well formed, the
  prefixes canonical, a filter it returns is one the schema accepts; so the payload validates
  exactly when the tenant is a label and an access list has its filter
  (\<open>payload_validates\<close>), and the validated interpretation is the request as mapped.
\<close>

section \<open>Captured groups\<close>

lemma search_from_SomeD:
  "search_from r b s = Some (m, e) \<Longrightarrow> run r Some m = Some e \<and> caps m = []"
  by (induction r b s rule: search_from.induct) (auto simp: Let_def split: option.splits)

lemma search_matches: "search r s = Some (m, e) \<Longrightarrow> matches r m e \<and> caps m = []"
  using search_from_SomeD [of r "[]" s m e] run_SomeD [of r Some m e] by (auto simp: search_def)

lemma search_groupD:
  "search_group r g s = Some x \<Longrightarrow> \<exists>m e. matches r m e \<and> caps m = [] \<and> map_of (caps e) g = Some x"
  by (auto simp: search_group_def group_of_def split: option.splits dest!: search_matches)

lemma found_search_group_None: "\<not> found r s \<Longrightarrow> search_group r g s = None"
  by (simp add: search_group_def found_def split: option.splits)

lemma capture_caps [simp]: "caps (capture g s t) = (g, take (length (aft s) - length (aft t)) (aft s)) # caps t"
  by (simp add: capture_def)

lemma matches_liti:
  "matches (liti w) \<lparr>bef = b, aft = v, caps = g\<rparr> t \<longleftrightarrow>
     (\<exists>x y. v = x @ y \<and> lower x = w \<and> t = \<lparr>bef = rev x @ b, aft = y, caps = g\<rparr>)"
proof (induction w arbitrary: b v t rule: liti.induct)
  case (2 c)
  show ?case by (cases v) (auto simp: lower_def Cons_eq_append_conv map_eq_Cons_conv)
next
  case (3 c d s)
  show ?case
  proof (cases v)
    case (Cons e v')
    have "matches (liti (c # d # s)) \<lparr>bef = b, aft = v, caps = g\<rparr> t \<longleftrightarrow>
        lower_char e = c \<and> (\<exists>x y. v' = x @ y \<and> lower x = d # s \<and> t = \<lparr>bef = rev x @ e # b, aft = y, caps = g\<rparr>)"
      using 3 [of "e # b" v' t] Cons by auto
    also have "\<dots> \<longleftrightarrow> (\<exists>x y. v = x @ y \<and> lower x = c # d # s \<and> t = \<lparr>bef = rev x @ b, aft = y, caps = g\<rparr>)"
      unfolding Cons lower_def by (auto simp: Cons_eq_append_conv map_eq_Cons_conv)
    finally show ?thesis .
  qed (simp add: lower_def)
qed (simp add: lower_def)

lemma matches_alts_liti:
  "matches (alts (map liti kws)) \<lparr>bef = b, aft = v, caps = g\<rparr> t \<longleftrightarrow>
     (\<exists>x y. v = x @ y \<and> lower x \<in> set kws \<and> t = \<lparr>bef = rev x @ b, aft = y, caps = g\<rparr>)"
proof (induction kws rule: induct_list012)
  case (3 w u kws)
  have "matches (alts (map liti (w # u # kws))) \<lparr>bef = b, aft = v, caps = g\<rparr> t \<longleftrightarrow>
      matches (liti w) \<lparr>bef = b, aft = v, caps = g\<rparr> t
      \<or> matches (alts (map liti (u # kws))) \<lparr>bef = b, aft = v, caps = g\<rparr> t" by simp
  then show ?case unfolding matches_liti 3 by auto
qed (simp_all add: matches_liti)

text \<open>The text of a group that is one of some words.\<close>

lemma keyword_group:
  assumes "search_group (cat [WordB, Grp g (alts (map liti kws)), WordB]) g s = Some x"
  shows "lower x \<in> set kws"
proof -
  from search_groupD [OF assms] obtain m e u where *: "matches (alts (map liti kws)) m u"
    and e: "e = capture g m u" "map_of (caps e) g = Some x" by (auto simp del: alts.simps)
  obtain b v c where m: "m = \<lparr>bef = b, aft = v, caps = c\<rparr>" by (cases m)
  from * show ?thesis using e unfolding m matches_alts_liti by auto
qed

section \<open>Filters\<close>

text \<open>The filter as a value: what the schema reads from the rule and the block.\<close>

definition rule_of :: "string \<Rightarrow> acl_rule" where
  "rule_of text = \<lparr>rule_name = ''rule-1'', priority = 100,
     action = (if found ACL_PERMIT_RE text then ''permit'' else ''deny''),
     protocol = map_option (\<lambda>p. PStr (lower p)) (search_group ACL_PROTO_RE ''proto'' text),
     sourcePrefix = search_group ACL_SRC_PREFIX_RE ''prefix'' text,
     destinationPrefix = search_group ACL_DST_PREFIX_RE ''prefix'' text,
     sourcePort = None, destinationPort = map_option (\<lambda>(m, e). port_of e) (search ACL_PORT_RE text),
     rule_description = None\<rparr>"

definition acl_of :: "string \<Rightarrow> string \<Rightarrow> acl_intent" where
  "acl_of text stage_word = \<lparr>ai_name = None, ai_stage = lower stage_word,
     ai_type = (if found ACL_V6_RE text then ''l3v6'' else ''l3''),
     default_action = (if found ACL_DENY_REST_RE text \<and> found ACL_PERMIT_RE text then Some ''deny'' else None),
     ai_rules = [rule_of text]\<rparr>"

lemma map_of_opt_last: "map_of (opt_field k v) k' = (if k' = k then v else None)"
  by (cases v) auto

lemma rule_lookups:
  "map_of (acl_rule_dict text) ''name'' = Some (JStr ''rule-1'')"
  "map_of (acl_rule_dict text) ''priority'' = Some (JInt 100)"
  "map_of (acl_rule_dict text) ''action'' = Some (JStr (if found ACL_PERMIT_RE text then ''permit'' else ''deny''))"
  "map_of (acl_rule_dict text) ''protocol'' = map_option (\<lambda>p. JStr (lower p)) (search_group ACL_PROTO_RE ''proto'' text)"
  "map_of (acl_rule_dict text) ''sourcePrefix'' = map_option JStr (sourcePrefix (rule_of text))"
  "map_of (acl_rule_dict text) ''destinationPrefix'' = map_option JStr (destinationPrefix (rule_of text))"
  "map_of (acl_rule_dict text) ''sourcePort'' = map_option JStr None"
  "map_of (acl_rule_dict text) ''destinationPort'' = map_option JStr (destinationPort (rule_of text))"
  "map_of (acl_rule_dict text) ''description'' = map_option JStr None"
  by (simp_all add: acl_rule_dict_def rule_of_def map_of_opt_field map_of_opt_last
      del: map_of_append split: option.split prod.split)

lemma extras_rule: "extras rule_fields (acl_rule_dict text) = []"
  by (simp add: acl_rule_dict_def extras_def rule_fields_def opt_field_def split: option.split)

lemma field_def_opt_word:
  "map_of d k = map_option (\<lambda>p. JStr (f p)) x \<Longrightarrow>
     field_def (nullable (is_str_or_int L)) None k d = Inr (map_option (\<lambda>p. PStr (f p)) x)"
  by (cases x) (simp_all add: field_def_def nullable_def)

lemma validate_rule_text: "validate_rule L (acl_rule_dict text) = Inr (rule_of text)"
proof -
  note opts = field_def_opt [OF rule_lookups(5), where p = is_str] field_def_opt [OF rule_lookups(6), where p = is_str]
    field_def_opt [OF rule_lookups(7), where p = is_str] field_def_opt [OF rule_lookups(8), where p = is_str]
    field_def_opt [OF rule_lookups(9), where p = is_str] field_def_opt_word [OF rule_lookups(4)]
  show ?thesis
    by (simp add: validate_rule_def field_req_def rule_lookups(1-3) extras_rule opts read_back in_range_def)
      (simp add: rule_of_def)
qed

lemma acl_stage_word: "search_group ACL_STAGE_RE ''stage'' text = Some s \<Longrightarrow> lower s \<in> {''ingress'', ''egress''}"
  using keyword_group [of "''stage''" "[''ingress'', ''egress'']" _ s] by (simp add: ACL_STAGE_RE_def)

lemma acl_proto_word:
  "search_group ACL_PROTO_RE ''proto'' text = Some s \<Longrightarrow>
     lower s \<in> {''tcp'', ''udp'', ''icmp'', ''igmp'', ''rsvp'', ''gre'', ''ah'', ''pim'', ''l2tp''}"
  using keyword_group [of "''proto''" "[''tcp'', ''udp'', ''icmp'', ''igmp'', ''rsvp'', ''gre'', ''ah'', ''pim'', ''l2tp'']" _ s]
  by (simp add: ACL_PROTO_RE_def del: list.map)

lemma parse_acl_SomeD:
  assumes "parse_acl text = (Some d, miss)"
  shows "\<exists>s. search_group ACL_STAGE_RE ''stage'' text = Some s \<and> d = acl_block text s [acl_rule_dict text] \<and> miss = []"
  using assms by (auto simp: parse_acl_def acl_rules_found_def Let_def split: option.splits if_splits)

lemma parse_acl_NoneD: "parse_acl text = (None, miss) \<Longrightarrow> miss \<noteq> []"
  by (auto simp: parse_acl_def Let_def split: option.splits if_splits)

lemma validate_acl_text:
  assumes "parse_acl text = (Some d, miss)"
  shows "\<exists>s. validate_acl_intent L d = Inr (acl_of text s) \<and> lower s \<in> {''ingress'', ''egress''}"
proof -
  from parse_acl_SomeD [OF assms] obtain s where s: "search_group ACL_STAGE_RE ''stage'' text = Some s"
    and d: "d = acl_block text s [acl_rule_dict text]" by blast
  have act: "dget (acl_rule_dict text) ''action'' = JStr ''permit'' \<longleftrightarrow> found ACL_PERMIT_RE text"
    by (simp add: dget_def rule_lookups)
  have r: "is_list (is_obj_then (validate_rule L)) (JArr (map JObj [acl_rule_dict text])) = Inr [rule_of text]"
    by (simp add: validate_rule_text Let_def)
  have "validate_acl_intent L d = Inr (acl_of text s)"
    using acl_stage_word [OF s] r
    by (auto simp: d acl_block_def act validate_acl_intent_def field_req_def field_def_def extras_def read_back
        acl_of_def nullable_value)
  with acl_stage_word [OF s] show ?thesis by blast
qed

text \<open>The protocols a filter names are the ones an access list may carry.\<close>

lemma filter_protocols: "interp_rules_error i (ai_rules (acl_of text s)) = None"
proof (cases "search_group ACL_PROTO_RE ''proto'' text")
  case (Some p)
  from acl_proto_word [OF Some] have "strip (lower p) = lower p \<and> lower p \<in> set named_protocols
      \<and> lower p \<noteq> ''icmpv6'' \<and> lower p \<noteq> ''ipv6-icmp''"
    by (auto simp: named_protocols_def strip_def strip_by_def is_ws_def code_def)
  with Some show ?thesis by (simp add: acl_of_def rule_of_def Let_def)
qed (simp add: acl_of_def rule_of_def)

section \<open>Endpoints\<close>

text \<open>A name the fabric can have: one token.\<close>

definition is_token :: "string \<Rightarrow> bool" where
  "is_token s \<longleftrightarrow> s \<noteq> [] \<and> list_all (\<lambda>c. \<not> is_ws c) s"

definition ep_parsed :: "endpoint_intent \<Rightarrow> bool" where
  "ep_parsed e \<longleftrightarrow> is_token (site_or_node e) \<and> is_token (attachment e) \<and> wf_endpoint e"

lemma found_ws: "c \<in> set s \<Longrightarrow> is_ws c \<Longrightarrow> found (plus ws) s"
proof -
  assume c: "c \<in> set s" "is_ws c"
  then obtain u v where s: "s = u @ c # v" by (meson split_list)
  have "matches (plus ws) \<lparr>bef = rev u, aft = c # v, caps = []\<rparr> \<lparr>bef = c # rev u, aft = v, caps = []\<rparr>"
    using c(2) by (simp add: plus_def ws_def iter_refl)
  then show ?thesis unfolding s by (rule foundI)
qed

lemma intent_endpoint_iff:
  "intent_endpoint L n a v = Inr e \<longleftrightarrow> n \<noteq> [] \<and> a \<noteq> [] \<and> (\<forall>x. v = Some x \<longrightarrow> in_range 1 4094 x)
     \<and> e = \<lparr>site_or_node = n, attachment = a, vlan = v, prefixes = None\<rparr>"
  by (cases v) (auto simp: intent_endpoint_def validate_endpoint_def field_req_def field_def_def extras_def
      nonempty_str_def int_within_def guard_def nullable_def located_def fail_def Let_def split: if_splits)

lemma endpoint_or_none_parsed: "endpoint_or_none L n a v = Inr (Some e) \<Longrightarrow> ep_parsed e"
  by (auto simp: endpoint_or_none_def Let_def intent_endpoint_iff ep_parsed_def is_token_def wf_endpoint_def
      list_all_iff dest: found_ws split: if_splits)

lemma clause_endpoint_parsed: "clause_endpoint L g ep = Inr (Some e) \<Longrightarrow> ep_parsed e"
  by (auto simp: clause_endpoint_def Let_def split: option.splits list.splits dest: endpoint_or_none_parsed)

lemma the_endpoints_simps [simp]:
  "the_endpoints [] = []" "the_endpoints (None # es) = the_endpoints es"
  "the_endpoints (Some e # es) = e # the_endpoints es"
  by (simp_all add: the_endpoints_def)

lemma parse_endpoints_parsed:
  assumes "parse_endpoints L text = Inr es"
  shows "list_all ep_parsed es"
proof (cases "endpoint_pair text")
  case None
  show ?thesis
  proof (cases "search ENDPOINT_SINGLE_ON text")
    case (Some r)
    with assms None obtain x where "es = the_endpoints [x]" "\<exists>n a v. endpoint_or_none L n a v = Inr x"
      by (cases r) (auto simp: parse_endpoints_def)
    then show ?thesis by (cases x) (auto dest: endpoint_or_none_parsed)
  qed (use assms None in \<open>simp add: parse_endpoints_def\<close>)
next
  case (Some lr)
  with assms obtain a b g l r where "clause_endpoint L g l = Inr a" "clause_endpoint L g r = Inr b"
    "es = the_endpoints [a, b]"
    by (auto simp: parse_endpoints_def Let_def split: prod.splits)
  then show ?thesis by (cases a; cases b) (auto dest: clause_endpoint_parsed)
qed

lemma placeholder_parsed [simp]: "ep_parsed placeholder_endpoint"
  by (simp add: ep_parsed_def placeholder_endpoint_def is_token_def wf_endpoint_def is_ws_def code_def)

section \<open>Prefixes\<close>

definition canonical_pair :: "string list \<times> string list \<Rightarrow> bool" where
  "canonical_pair r \<longleftrightarrow> list_all (canonical_prefix 4) (fst r) \<and> list_all (canonical_prefix 6) (snd r)"

lemma add_prefix_canonical: "canonical_pair r \<Longrightarrow> canonical_pair (add_prefix r t)"
proof -
  assume r: "canonical_pair r"
  show ?thesis
  proof (cases "ip_network t")
    case (Some n)
    have "canonical_prefix (ver n) (str_net n)"
      using ip_network_canonical [OF Some] by (simp add: canonical_prefix_def)
    moreover have "ver n = 4 \<or> ver n = 6" using ip_network_wf [OF Some] by (simp add: wf_net_def)
    ultimately show ?thesis using r Some by (auto simp: add_prefix_def add_new_def canonical_pair_def)
  qed (simp add: add_prefix_def r)
qed

lemma parse_prefixes_canonical: "canonical_pair (parse_prefixes text)"
proof -
  have *: "canonical_pair r \<Longrightarrow> canonical_pair (foldl (\<lambda>acc (m, e). add_prefix acc (grp ''prefix'' e)) r xs)" for r xs
  proof (induction xs arbitrary: r)
    case (Cons x xs)
    then show ?case by (cases x) (simp add: add_prefix_canonical)
  qed simp
  show ?thesis unfolding parse_prefixes_def by (rule *) (simp add: canonical_pair_def)
qed

text \<open>Attaching prefixes changes nothing else of an endpoint.\<close>

definition bare :: "endpoint_intent \<Rightarrow> string \<times> string \<times> int option" where
  "bare e = (site_or_node e, attachment e, vlan e)"

lemma attach_bare: "map bare (attach_endpoint_prefixes text eps ps) = map bare eps"
proof -
  have *: "length es = length ls \<Longrightarrow>
      map bare (map (\<lambda>(e, own). if own \<noteq> [] then e\<lparr>prefixes := Some own\<rparr> else e) (zip es ls)) = map bare es" for es ls
    by (induction es ls rule: list_induct2) (simp_all add: bare_def)
  show ?thesis unfolding attach_endpoint_prefixes_def by (rule *) simp
qed

lemma ep_parsed_bare:
  "ep_parsed = (\<lambda>(n, a, v). is_token n \<and> is_token a \<and> (\<forall>x. v = Some x \<longrightarrow> in_range 1 4094 x)) \<circ> bare"
  by (auto simp: fun_eq_iff bare_def ep_parsed_def wf_endpoint_def is_token_def)

lemma ep_parsed_list: "map bare es = map bare fs \<Longrightarrow> list_all ep_parsed es \<longleftrightarrow> list_all ep_parsed fs"
  by (simp only: ep_parsed_bare list.pred_map [symmetric])

section \<open>What a mapped request is\<close>

text \<open>
  Well-formed mapped requests: everything the schema will read, with the gateway only on a
  \<open>mac-vrf\<close>.
\<close>

definition acl_readable :: "lax \<Rightarrow> dict option \<Rightarrow> bool" where
  "acl_readable L d \<longleftrightarrow> (\<forall>x. d = Some x \<longrightarrow>
     (\<exists>text s. validate_acl_intent L x = Inr (acl_of text s) \<and> lower s \<in> {''ingress'', ''egress''}))"

definition gateway_readable :: "dict option \<Rightarrow> bool" where
  "gateway_readable d \<longleftrightarrow> (\<forall>x. d = Some x \<longrightarrow> (\<exists>g. validate_gateway x = Inr g))"

definition mapped_ok :: "lax \<Rightarrow> plain_mapped \<Rightarrow> bool" where
  "mapped_ok L m \<longleftrightarrow> mp_endpoints m \<noteq> [] \<and> list_all ep_parsed (mp_endpoints m)
     \<and> canonical_pair (mp_v4 m, mp_v6 m)
     \<and> (\<forall>t. mp_transport m = Some t \<longrightarrow> t = ''srv6'')
     \<and> (\<forall>t. mp_signalling m = Some t \<longrightarrow> t \<in> {''vpn'', ''evpn''})
     \<and> acl_readable L (mp_acl m) \<and> gateway_readable (mp_gateway m)
     \<and> (mp_gateway m \<noteq> None \<longrightarrow> mp_type m = MAC_VRF)"

lemma filter_readable: "acl_readable L (fst (filter_of t low))"
proof -
  have "parse_acl low = (Some d, ms) \<Longrightarrow> acl_readable L (Some d)" for d ms
    using validate_acl_text [of low d ms L] by (auto simp: acl_readable_def)
  moreover have "acl_readable L None" by (simp add: acl_readable_def)
  ultimately show ?thesis
    by (cases "parse_acl low"; cases "fst (parse_acl low)") (auto simp: filter_of_def)
qed

lemma mapped_gateway_readable:
  "mapped_gateway t low = (g, miss, refused) \<Longrightarrow> gateway_readable g \<and> (g \<noteq> None \<longrightarrow> t = MAC_VRF)"
proof -
  have "parse_anycast_gateway low = (Some d, b) \<Longrightarrow> gateway_readable (Some d) \<and> b" for d b
    by (auto simp: parse_anycast_gateway_def gateway_readable_def validate_gateway_def field_def_def
        nullable_def extras_def Let_def split: option.splits if_splits)
  moreover have "parse_anycast_gateway low = (g', b) \<Longrightarrow> g' \<noteq> None \<Longrightarrow> b" for g' b
    by (auto simp: parse_anycast_gateway_def split: option.splits if_splits)
  moreover have "gateway_readable None" by (simp add: gateway_readable_def)
  ultimately show "mapped_gateway t low = (g, miss, refused) \<Longrightarrow> ?thesis"
    by (cases "parse_anycast_gateway low"; cases "fst (parse_anycast_gateway low)")
      (fastforce simp: mapped_gateway_def split: if_splits)+
qed

lemma plain_service_ok:
  assumes "list_all ep_parsed eps"
  shows "mapped_ok L (plain_service low t refused eps)"
proof -
  obtain g gm gr where g: "mapped_gateway t low = (g, gm, gr)" by (cases "mapped_gateway t low")
  obtain a am where a: "filter_of t low = (a, am)" by (cases "filter_of t low")
  have "eps @ replicate (minimum_endpoints t - length eps) placeholder_endpoint \<noteq> []"
    by (auto simp: minimum_endpoints_def)
  moreover have "list_all ep_parsed (eps @ replicate (minimum_endpoints t - length eps) placeholder_endpoint)"
    using assms by (auto simp: list_all_iff)
  moreover have "canonical_pair ([], [])" by (simp add: canonical_pair_def)
  ultimately show ?thesis
    using assms mapped_gateway_readable [OF g] filter_readable [of L t low] parse_prefixes_canonical [of low]
    by (cases "tenant_or_missing (detect_tenant low)"; cases "parse_prefixes low")
      (auto simp: plain_service_def mapped_ok_def g a Let_def simp del: list_all_append)
qed

lemma srv6_service_ok:
  assumes "list_all ep_parsed eps"
  shows "mapped_ok L (map_fields.extend (srv6_service text t tn ms eps) \<lparr>mp_acl = None, mp_gateway = None\<rparr>)"
proof -
  let ?eps = "if eps = [] then [placeholder_endpoint] else eps"
  have ok: "list_all ep_parsed ?eps" "?eps \<noteq> []" using assms by auto
  have att: "list_all ep_parsed (attach_endpoint_prefixes text ?eps ps)"
    "attach_endpoint_prefixes text ?eps ps \<noteq> []" for ps
    using ep_parsed_list [OF attach_bare [of "text" ?eps ps]] ok(1)
      arg_cong [OF attach_bare [of "text" ?eps ps], of length] ok(2)
    by auto
  have c: "canonical_pair ([], [])" by (simp add: canonical_pair_def)
  show ?thesis
    unfolding mapped_ok_def srv6_service_def map_fields.extend_def Let_def
    using ok att c parse_prefixes_canonical [of "text"]
    by (cases "parse_prefixes text"; cases "parse_preferred_spine text")
      (auto simp: acl_readable_def gateway_readable_def)
qed

lemma no_construct_ok:
  "tr = None \<or> tr = Some ''srv6'' \<Longrightarrow>
     mapped_ok L (map_fields.extend (no_construct tn tr ms us) \<lparr>mp_acl = None, mp_gateway = None\<rparr>)"
  by (auto simp: mapped_ok_def no_construct_def map_fields.extend_def canonical_pair_def acl_readable_def
      gateway_readable_def)

lemma map_request_ok:
  assumes "map_request L low = Inr m"
  shows "mapped_ok L m"
proof -
  have upd: "mapped_ok L (m'\<lparr>mp_unsupported := us\<rparr>) = mapped_ok L m'" for m' us by (simp add: mapped_ok_def)
  show ?thesis
  proof (cases "detect_srv6 low")
    case True
    with assms obtain q where q: "srv6_mapping L low = Inr q"
      and m: "m = (map_fields.extend q \<lparr>mp_acl = None, mp_gateway = None\<rparr>)
        \<lparr>mp_unsupported := detect_unsupported low @ mp_unsupported (map_fields.extend q \<lparr>mp_acl = None, mp_gateway = None\<rparr>)\<rparr>"
      by (auto simp: map_request_def)
    from q have "mapped_ok L (map_fields.extend q \<lparr>mp_acl = None, mp_gateway = None\<rparr>)"
      by (auto simp: srv6_mapping_def Let_def intro!: no_construct_ok srv6_service_ok parse_endpoints_parsed
          split: prod.splits if_splits option.splits)
    then show ?thesis unfolding m upd .
  next
    case False
    with assms show ?thesis
      by (auto simp: map_request_def plain_mapping_def upd Let_def intro!: plain_service_ok parse_endpoints_parsed
          split: prod.splits)
  qed
qed

end
