(* ===== verification/Mapper_Payload.thy ===== *)
theory Mapper_Payload
  imports Mapper_Facts
begin

text \<open>
  The payload of the mapping agent against the published schema: when it validates, what the
  validated interpretation is, and what the agent answers.
\<close>

section \<open>The interpretation a mapped request stands for\<close>

definition acl_value :: "lax \<Rightarrow> dict option \<Rightarrow> acl_intent option" where
  "acl_value L d = map_option (\<lambda>x. ok (validate_acl_intent L x)) d"

definition gateway_value :: "dict option \<Rightarrow> gateway_intent option" where
  "gateway_value d = map_option (\<lambda>x. ok (validate_gateway x)) d"

definition interp_of :: "mapper_env \<Rightarrow> string \<Rightarrow> plain_mapped \<Rightarrow> interp" where
  "interp_of M low m =
     \<lparr>service_id = gen_id M, service_type = mp_type m, source_service_type = None,
      i_tenant = mp_tenant m, i_endpoints = mp_endpoints m,
      bandwidth = bandwidth_hint (bw_hints M) low, sla = None,
      ipv4_prefixes = mp_v4 m, ipv6_prefixes = mp_v6 m, i_acl = acl_value (map_lax M) (mp_acl m),
      anycast_gateway = gateway_value (mp_gateway m), i_transport = mp_transport m,
      i_signalling = mp_signalling m, preferred_spine = mp_preferred m,
      alternate_spine = mp_alternate m,
      missing_fields = (if mp_unsupported m \<noteq> [] then [] else mp_missing m),
      unsupported_properties = mp_unsupported m\<rparr>"

lemma record_source_alias_payload: "record_source_alias (map_payload M low m) = map_payload M low m"
  by (simp add: record_source_alias_def map_payload_def dget_def)

lemma payload_lookups:
  "map_of (map_payload M low m) ''service_id'' = Some (JStr (gen_id M))"
  "map_of (map_payload M low m) ''service_type'' = Some (JStr (type_value (mp_type m)))"
  "map_of (map_payload M low m) ''source_service_type'' = None"
  "map_of (map_payload M low m) ''tenant'' = Some (JStr (mp_tenant m))"
  "map_of (map_payload M low m) ''endpoints'' = Some (JArr (map dump_endpoint (mp_endpoints m)))"
  "map_of (map_payload M low m) ''sla'' = None"
  "map_of (map_payload M low m) ''ipv4_prefixes'' = Some (strs_json (mp_v4 m))"
  "map_of (map_payload M low m) ''ipv6_prefixes'' = Some (strs_json (mp_v6 m))"
  "map_of (map_payload M low m) ''missing_fields'' =
     Some (strs_json (if mp_unsupported m \<noteq> [] then [] else mp_missing m))"
  "map_of (map_payload M low m) ''unsupported_properties'' = Some (strs_json (mp_unsupported m))"
  "map_of (map_payload M low m) ''acl'' = map_option JObj (mp_acl m)"
  "map_of (map_payload M low m) ''anycast_gateway'' = map_option JObj (mp_gateway m)"
  "map_of (map_payload M low m) ''preferredSpine'' = None"
  "map_of (map_payload M low m) ''alternateSpine'' = None"
  by (simp_all add: map_payload_def map_of_opt_field map_of_opt_last del: map_of_append split: option.split)

lemma payload_opt_lookups:
  "map_of (map_payload M low m) ''bandwidth'' = map_option JStr (bandwidth_hint (bw_hints M) low)"
  "map_of (map_payload M low m) ''transport'' = map_option JStr (mp_transport m)"
  "map_of (map_payload M low m) ''signalling'' = map_option JStr (mp_signalling m)"
  "map_of (map_payload M low m) ''preferred_spine'' = map_option JStr (mp_preferred m)"
  "map_of (map_payload M low m) ''alternate_spine'' = map_option JStr (mp_alternate m)"
  by (simp_all add: map_payload_def map_of_opt_field map_of_opt_last del: map_of_append split: option.split)

lemma extras_payload:
  "extras (''preferred_spine'' # ''alternate_spine'' # interp_fields) (map_payload M low m) = []"
  by (simp add: extras_def map_payload_def interp_fields_def opt_field_def split: option.splits)

lemma field_def_obj:
  "map_of d k = map_option JObj x \<Longrightarrow> (\<And>y. x = Some y \<Longrightarrow> \<exists>v. p y = Inr v)
   \<Longrightarrow> field_def (nullable (is_obj_then p)) None k d = Inr (map_option (\<lambda>y. ok (p y)) x)"
  by (cases x) (auto simp: field_def_def nullable_value)

text \<open>The fields, read one by one.\<close>

definition good_id :: "string \<Rightarrow> bool" where
  "good_id s \<longleftrightarrow> s \<noteq> [] \<and> char_count s \<le> 15"

lemma payload_fields:
  fixes M low m
  defines "d \<equiv> map_payload M low m" and "L \<equiv> map_lax M"
  assumes ok: "mapped_ok (map_lax M) m" and id: "good_id (gen_id M)"
  shows "field_req service_id_str ''service_id'' d = Inr (gen_id M)"
    "field_req fold_service_type ''service_type'' d = Inr (mp_type m)"
    "field_req (\<lambda>j. nonempty_list (is_list (is_obj_then (validate_endpoint L)) j)) ''endpoints'' d = Inr (mp_endpoints m)"
    "field_def (prefix_list 4) [] ''ipv4_prefixes'' d = Inr (mp_v4 m)"
    "field_def (prefix_list 6) [] ''ipv6_prefixes'' d = Inr (mp_v6 m)"
    "field_def (nullable (is_obj_then (validate_acl_intent L))) None ''acl'' d = Inr (acl_value L (mp_acl m))"
    "field_def (nullable (is_obj_then validate_gateway)) None ''anycast_gateway'' d = Inr (gateway_value (mp_gateway m))"
    "field_def (nullable (literal [''vxlan'', ''srv6''])) None ''transport'' d = Inr (mp_transport m)"
    "field_def (nullable (literal [''vpn'', ''evpn''])) None ''signalling'' d = Inr (mp_signalling m)"
proof -
  have eps: "\<forall>e \<in> set (mp_endpoints m). wf_endpoint e" "mp_endpoints m \<noteq> []"
    using ok by (auto simp: mapped_ok_def list_all_iff ep_parsed_def)
  have pfx: "\<forall>p \<in> set (mp_v4 m). canonical_prefix 4 p" "\<forall>p \<in> set (mp_v6 m). canonical_prefix 6 p"
    using ok by (auto simp: mapped_ok_def canonical_pair_def list_all_iff)
  show "field_req service_id_str ''service_id'' d = Inr (gen_id M)"
    "field_req fold_service_type ''service_type'' d = Inr (mp_type m)"
    using id by (simp_all add: d_def field_req_def payload_lookups read_back good_id_def)
  have "is_list (is_obj_then (validate_endpoint L)) (JArr (map dump_endpoint (mp_endpoints m))) = Inr (mp_endpoints m)"
    using eps by (intro is_list_map ballI validate_dump_endpoint) auto
  with eps show "field_req (\<lambda>j. nonempty_list (is_list (is_obj_then (validate_endpoint L)) j)) ''endpoints'' d
      = Inr (mp_endpoints m)"
    by (simp add: d_def field_req_def payload_lookups read_back del: is_list.simps)
  show "field_def (prefix_list 4) [] ''ipv4_prefixes'' d = Inr (mp_v4 m)"
    "field_def (prefix_list 6) [] ''ipv6_prefixes'' d = Inr (mp_v6 m)"
    using pfx by (simp_all add: d_def field_def_def payload_lookups read_back)
  show "field_def (nullable (is_obj_then (validate_acl_intent L))) None ''acl'' d = Inr (acl_value L (mp_acl m))"
    unfolding acl_value_def d_def L_def
    by (rule field_def_obj) (use ok in \<open>auto simp: payload_lookups mapped_ok_def acl_readable_def\<close>)
  show "field_def (nullable (is_obj_then validate_gateway)) None ''anycast_gateway'' d = Inr (gateway_value (mp_gateway m))"
    unfolding gateway_value_def d_def
    by (rule field_def_obj) (use ok in \<open>auto simp: payload_lookups mapped_ok_def gateway_readable_def\<close>)
  show "field_def (nullable (literal [''vxlan'', ''srv6''])) None ''transport'' d = Inr (mp_transport m)"
    "field_def (nullable (literal [''vpn'', ''evpn''])) None ''signalling'' d = Inr (mp_signalling m)"
    using ok by (auto simp: d_def mapped_ok_def payload_opt_lookups read_back intro!: field_def_opt)
qed

lemma payload_reads:
  assumes ok: "mapped_ok (map_lax M) m" and id: "good_id (gen_id M)"
  shows "rfc1123 (mp_tenant m) \<Longrightarrow> read_interp (map_lax M) (map_payload M low m) = Inr (interp_of M low m)"
    and "\<not> rfc1123 (mp_tenant m) \<Longrightarrow> \<exists>es. read_interp (map_lax M) (map_payload M low m) = Inl es"
proof -
  let ?d = "map_payload M low m"
  note f = payload_fields [OF ok id, of low]
  have k: "alias_key ''preferredSpine'' ''preferred_spine'' ?d = ''preferred_spine''"
    "alias_key ''alternateSpine'' ''alternate_spine'' ?d = ''alternate_spine''"
    by (simp_all add: alias_key_def payload_lookups)
  have o: "field_def (nullable is_str) None ''bandwidth'' ?d = Inr (bandwidth_hint (bw_hints M) low)"
    "field_def (nullable is_str) None ''preferred_spine'' ?d = Inr (mp_preferred m)"
    "field_def (nullable is_str) None ''alternate_spine'' ?d = Inr (mp_alternate m)"
    by (auto intro!: field_def_opt simp: payload_opt_lookups)
  have n: "field_def (nullable is_str) None ''source_service_type'' ?d = Inr None"
    "field_def (nullable is_str) None ''sla'' ?d = Inr None"
    "field_def (is_list is_str) [] ''missing_fields'' ?d
       = Inr (if mp_unsupported m \<noteq> [] then [] else mp_missing m)"
    "field_def (is_list is_str) [] ''unsupported_properties'' ?d = Inr (mp_unsupported m)"
    by (simp_all add: field_def_def payload_lookups read_back)
  show "read_interp (map_lax M) ?d = Inr (interp_of M low m)" if t: "rfc1123 (mp_tenant m)"
  proof -
    have "field_req tenant_rfc1123 ''tenant'' ?d = Inr (mp_tenant m)"
      using t by (simp add: field_req_def payload_lookups read_back)
    then show ?thesis unfolding read_interp_def Let_def k f o n by (simp add: extras_payload interp_of_def)
  qed
  show "\<exists>es. read_interp (map_lax M) ?d = Inl es" if t: "\<not> rfc1123 (mp_tenant m)"
  proof -
    have "errs (field_req tenant_rfc1123 ''tenant'' ?d) \<noteq> []"
      using t by (simp add: field_req_def payload_lookups tenant_rfc1123_def fail_def located_def)
    then show ?thesis unfolding read_interp_def Let_def by simp
  qed
qed

text \<open>An access list without its filter is the only thing the model checks refuse.\<close>

definition acl_given :: "plain_mapped \<Rightarrow> bool" where
  "acl_given m \<longleftrightarrow> (mp_type m = ACL \<longrightarrow> mp_acl m \<noteq> None)"

lemma payload_checks:
  assumes ok: "mapped_ok (map_lax M) m"
  shows "acl_given m \<Longrightarrow> model_checks (interp_of M low m) = Inr (interp_of M low m)"
    and "\<not> acl_given m \<Longrightarrow> \<exists>es. model_checks (interp_of M low m) = Inl es"
proof -
  have "interp_rules_error 0 (ai_rules a) = None" if "acl_value (map_lax M) (mp_acl m) = Some a" for a
    using ok that filter_protocols by (auto simp: mapped_ok_def acl_readable_def acl_value_def)
  moreover have "gateway_value (mp_gateway m) \<noteq> None \<Longrightarrow> mp_type m = MAC_VRF"
    using ok by (auto simp: mapped_ok_def gateway_value_def)
  ultimately show "acl_given m \<Longrightarrow> model_checks (interp_of M low m) = Inr (interp_of M low m)"
    by (auto simp: model_checks_def mutual_exclusion_def gateway_scoped_def acl_required_def interp_of_def
        acl_given_def acl_value_def split: option.splits)
  show "\<not> acl_given m \<Longrightarrow> \<exists>es. model_checks (interp_of M low m) = Inl es"
    by (auto simp: model_checks_def mutual_exclusion_def gateway_scoped_def acl_required_def interp_of_def
        acl_given_def acl_value_def fail_def split: option.splits)
qed

lemma payload_validates:
  assumes "mapped_ok (map_lax M) m" "good_id (gen_id M)"
  shows "rfc1123 (mp_tenant m) \<and> acl_given m \<Longrightarrow>
      validate_interpretation (map_lax M) (map_payload M low m) = Inr (interp_of M low m)"
    and "\<not> (rfc1123 (mp_tenant m) \<and> acl_given m) \<Longrightarrow>
      \<exists>es. validate_interpretation (map_lax M) (map_payload M low m) = Inl es"
  using payload_reads [OF assms, of low] payload_checks [OF assms(1), of low]
  by (cases "rfc1123 (mp_tenant m)"; auto simp: validate_interpretation_def record_source_alias_payload split: sum.splits)+

end
