(* ===== verification/Json_Facts.thy ===== *)
theory Json_Facts
  imports Json
begin

text \<open>
  Round trips of the JSON printer and reader: a text of Unicode scalar values is read back from its
  ASCII escapes, an integer from its digits, and every value whose objects have distinct keys from
  its compact form.
\<close>

section \<open>Text\<close>

definition scalar :: "int \<Rightarrow> bool" where
  "scalar p \<longleftrightarrow> 0 \<le> p \<and> p < 55296 \<or> 57344 \<le> p \<and> p < 1114112"

text \<open>The texts a Python string encodes to.\<close>

definition utf8_text :: "string \<Rightarrow> bool" where
  "utf8_text s \<longleftrightarrow> (\<exists>ps. list_all scalar ps \<and> s = concat (map utf8_bytes ps))"

lemma div_again:
  fixes p :: int
  shows "p div 4096 = p div 64 div 64" "p div 262144 = p div 4096 div 64"
    "p div 256 = p div 16 div 16" "p div 4096 = p div 256 div 16"
  by (simp_all add: zdiv_zmult2_eq [symmetric])

lemma base64:
  fixes p :: int
  shows "p div 4096 * 4096 + p div 64 mod 64 * 64 + p mod 64 = p"
proof -
  have e: "a * 4096 + b * 64 + c = (a * 64 + b) * 64 + c" for a b c :: int by simp
  show ?thesis unfolding div_again(1) [of p] e div_mult_mod_eq ..
qed

lemma base64_4:
  fixes p :: int
  shows "p div 262144 * 262144 + p div 4096 mod 64 * 4096 + p div 64 mod 64 * 64 + p mod 64 = p"
proof -
  have e: "a * 262144 + b * 4096 + c + d = (a * 64 + b) * 4096 + c + d" for a b c d :: int by simp
  show ?thesis unfolding div_again(2) [of p] e div_mult_mod_eq by (rule base64)
qed

lemma base16_4:
  fixes n :: int
  assumes "0 \<le> n" "n < 65536"
  shows "((n div 4096 mod 16 * 16 + n div 256 mod 16) * 16 + n div 16 mod 16) * 16 + n mod 16 = n"
proof -
  have "n div 4096 < 16" "0 \<le> n div 4096" using assms by (simp_all add: div_less_iff_less_mult pos_imp_zdiv_nonneg_iff)
  then have m: "n div 4096 mod 16 = n div 4096" by (rule mod_pos_pos_trivial [rotated])
  show ?thesis unfolding m unfolding div_again(4) [of n] div_mult_mod_eq unfolding div_again(3) [of n] div_mult_mod_eq ..
qed

lemma code_points_bytes:
  "0 \<le> a \<Longrightarrow> a < 32 \<Longrightarrow> 0 \<le> b \<Longrightarrow> b < 64 \<Longrightarrow>
    code_points (char_of (192 + a) # char_of (128 + b) # s) = (a * 64 + b) # code_points s"
  "0 \<le> a \<Longrightarrow> a < 16 \<Longrightarrow> 0 \<le> b \<Longrightarrow> b < 64 \<Longrightarrow> 0 \<le> c \<Longrightarrow> c < 64 \<Longrightarrow>
    code_points (char_of (224 + a) # char_of (128 + b) # char_of (128 + c) # s)
      = (a * 4096 + b * 64 + c) # code_points s"
  "0 \<le> a \<Longrightarrow> a < 16 \<Longrightarrow> 0 \<le> b \<Longrightarrow> b < 64 \<Longrightarrow> 0 \<le> c \<Longrightarrow> c < 64 \<Longrightarrow> 0 \<le> d \<Longrightarrow> d < 64 \<Longrightarrow>
    code_points (char_of (240 + a) # char_of (128 + b) # char_of (128 + c) # char_of (128 + d) # s)
      = (a * 262144 + b * 4096 + c * 64 + d) # code_points s"
  by (simp_all add: code_char_of)

lemma code_points_utf8: "scalar p \<Longrightarrow> code_points (utf8_bytes p @ s) = p # code_points s"
proof -
  assume p: "scalar p"
  have m: "0 \<le> x mod 64" "x mod 64 < 64" for x :: int by simp_all
  consider "0 \<le> p" "p < 128" | "128 \<le> p" "p < 2048" | "2048 \<le> p" "p < 65536" | "65536 \<le> p" "p < 1114112"
    using p unfolding scalar_def by linarith
  then show ?thesis
  proof cases
    case 1
    then show ?thesis by (simp add: utf8_bytes_def code_char_of)
  next
    case 2
    then have d: "0 \<le> p div 64" "p div 64 < 32" by (simp_all add: div_less_iff_less_mult pos_imp_zdiv_nonneg_iff)
    from 2 have "utf8_bytes p = [char_of (192 + p div 64), char_of (128 + p mod 64)]" by (simp add: utf8_bytes_def)
    with code_points_bytes(1) [OF d m] div_mult_mod_eq [of p 64] show ?thesis by simp
  next
    case 3
    then have d: "0 \<le> p div 4096" "p div 4096 < 16" by (simp_all add: div_less_iff_less_mult pos_imp_zdiv_nonneg_iff)
    from 3 have "utf8_bytes p = [char_of (224 + p div 4096), char_of (128 + p div 64 mod 64), char_of (128 + p mod 64)]"
      by (simp add: utf8_bytes_def)
    with code_points_bytes(2) [OF d m m] base64 [of p] show ?thesis by simp
  next
    case 4
    then have d: "0 \<le> p div 262144" "p div 262144 < 16" by (simp_all add: div_less_iff_less_mult pos_imp_zdiv_nonneg_iff)
    from 4 have "utf8_bytes p = [char_of (240 + p div 262144), char_of (128 + p div 4096 mod 64),
        char_of (128 + p div 64 mod 64), char_of (128 + p mod 64)]" by (simp add: utf8_bytes_def)
    with code_points_bytes(3) [OF d m m m] base64_4 [of p] show ?thesis by simp
  qed
qed

lemma code_points_text: "list_all scalar ps \<Longrightarrow> code_points (concat (map utf8_bytes ps)) = ps"
  by (induction ps) (auto simp: code_points_utf8)

lemma hex_digit_reads:
  assumes "0 \<le> n" "n < 16"
  shows "is_hex_any (hex_digit n) \<and> hex_any_val (hex_digit n) = n"
  using assms
  by (auto simp: hex_digit_def is_hex_any_def is_hex_lower_def hex_any_val_def is_digit_def is_lower_def code_char_of)

lemma read_hex4_digits:
  assumes "0 \<le> a" "a < 16" "0 \<le> b" "b < 16" "0 \<le> c" "c < 16" "0 \<le> d" "d < 16"
  shows "read_hex4 ([hex_digit a, hex_digit b, hex_digit c, hex_digit d] @ t) = Some (((a * 16 + b) * 16 + c) * 16 + d, t)"
  using hex_digit_reads [OF assms(1,2)] hex_digit_reads [OF assms(3,4)] hex_digit_reads [OF assms(5,6)]
    hex_digit_reads [OF assms(7,8)]
  by (simp add: read_hex4_def)

lemma read_hex4_hex4:
  assumes "0 \<le> n" "n < 65536"
  shows "read_hex4 (hex4 n @ t) = Some (n, t)"
proof -
  have m: "0 \<le> x mod 16" "x mod 16 < 16" for x :: int by simp_all
  show ?thesis unfolding hex4_def read_hex4_digits [OF m m m m] base16_4 [OF assms] ..
qed

lemma read_escape_u:
  "0 \<le> n \<Longrightarrow> n < 65536 \<Longrightarrow> \<not> (55296 \<le> n \<and> n < 56320) \<Longrightarrow>
   read_escape (CHR ''u'' # hex4 n @ t) = Some (utf8_bytes n, t)"
  by (auto simp: read_escape_def read_hex4_hex4 code_def)

lemma read_escape_surrogates:
  assumes "0 \<le> a" "a < 1024" "0 \<le> b" "b < 1024"
  shows "read_escape (CHR ''u'' # hex4 (55296 + a) @ escape_u (56320 + b) @ t) = Some (utf8_bytes (65536 + a * 1024 + b), t)"
  using assms by (simp add: read_escape_def read_hex4_hex4 code_def escape_u_def)

lemma read_escape_pair:
  assumes "65536 \<le> p" "p < 1114112"
  shows "read_escape (CHR ''u'' # hex4 (55296 + (p - 65536) div 1024) @ escape_u (56320 + (p - 65536) mod 1024) @ t)
    = Some (utf8_bytes p, t)"
proof -
  have hi: "0 \<le> (p - 65536) div 1024" "(p - 65536) div 1024 < 1024"
    using assms by (simp_all add: div_less_iff_less_mult pos_imp_zdiv_nonneg_iff)
  have lo: "0 \<le> (p - 65536) mod 1024" "(p - 65536) mod 1024 < 1024" by simp_all
  have e: "65536 + (p - 65536) div 1024 * 1024 + (p - 65536) mod 1024 = p"
    unfolding add.assoc div_mult_mod_eq by simp
  show ?thesis unfolding read_escape_surrogates [OF hi lo] e ..
qed

lemma char_of_escaped:
  "char_of (34::int) = CHR 0x22" "char_of (92::int) = CHR 0x5C" "char_of (10::int) = CHR 0x0A"
  "char_of (13::int) = CHR 0x0D" "char_of (9::int) = CHR 0x09" "char_of (8::int) = CHR 0x08"
  "char_of (12::int) = CHR 0x0C"
  unfolding code_inject [symmetric] by (simp_all add: code_def)

lemma read_str_point:
  assumes p: "scalar p"
  shows "read_str (Suc n) (escape_point p @ t) = map_option (\<lambda>(v, r). (utf8_bytes p @ v, r)) (read_str n t)"
proof -
  consider "p \<in> {34, 92, 10, 13, 9, 8, 12}" | "32 \<le> p" "p \<le> 126" "p \<noteq> 34" "p \<noteq> 92"
    | (bmp) "p \<notin> {34, 92, 10, 13, 9, 8, 12}" "p < 32 \<or> 126 < p" "p < 65536" | (astral) "65536 \<le> p" by fastforce
  then show ?thesis
  proof cases
    case 1
    then show ?thesis
      by (elim insertE; simp add: escape_point_def read_escape_def utf8_bytes_def code_def char_of_escaped)
  next
    case 2
    then show ?thesis by (simp add: escape_point_def utf8_bytes_def code_char_of)
  next
    case bmp
    then have "escape_point p = CHR 0x5C # CHR ''u'' # hex4 p" by (auto simp: escape_point_def escape_u_def)
    moreover have "read_escape (CHR ''u'' # hex4 p @ t) = Some (utf8_bytes p, t)"
      using p bmp by (intro read_escape_u) (auto simp: scalar_def)
    ultimately show ?thesis by (simp add: code_def)
  next
    case astral
    then have "escape_point p @ t = CHR 0x5C # CHR ''u'' # hex4 (55296 + (p - 65536) div 1024)
        @ escape_u (56320 + (p - 65536) mod 1024) @ t" by (simp add: escape_point_def escape_u_def)
    moreover have "read_escape (CHR ''u'' # hex4 (55296 + (p - 65536) div 1024)
        @ escape_u (56320 + (p - 65536) mod 1024) @ t) = Some (utf8_bytes p, t)"
      using p astral by (intro read_escape_pair) (auto simp: scalar_def)
    ultimately show ?thesis by (simp add: code_def)
  qed
qed

lemma read_str_points:
  "list_all scalar ps \<Longrightarrow> length ps < n \<Longrightarrow>
   read_str n (concat (map escape_point ps) @ dquote @ r) = Some (concat (map utf8_bytes ps), r)"
proof (induction ps arbitrary: n)
  case Nil
  then show ?case by (cases n) (simp_all add: dquote_def code_def)
next
  case (Cons p ps)
  then obtain m where "n = Suc m" "length ps < m" by (cases n) auto
  with Cons read_str_point [of p m "concat (map escape_point ps) @ dquote @ r"] show ?case by simp
qed

lemma escape_point_nonempty: "escape_point p \<noteq> []"
  by (simp add: escape_point_def escape_u_def)

lemma length_escapes: "length ps \<le> length (concat (map escape_point ps))"
proof (induction ps)
  case (Cons p ps)
  have "1 \<le> length (escape_point p)" using escape_point_nonempty [of p] by (cases "escape_point p") auto
  with Cons show ?case unfolding list.map concat.simps length_append list.size by linarith
qed simp

lemma read_dump_str:
  assumes "utf8_text s" "length (dump_str s) \<le> n"
  shows "read_str n (tl (dump_str s) @ r) = Some (s, r)"
proof -
  obtain ps where ps: "list_all scalar ps" "s = concat (map utf8_bytes ps)" using assms(1) by (auto simp: utf8_text_def)
  have "tl (dump_str s) @ r = concat (map escape_point ps) @ dquote @ r"
    using ps by (simp add: dump_str_def dquote_def code_points_text)
  moreover have "length ps < n"
    using assms(2) length_escapes [of ps] ps by (simp add: dump_str_def dquote_def code_points_text)
  ultimately show ?thesis using read_str_points [OF ps(1)] ps(2) by simp
qed

section \<open>Integers\<close>

text \<open>What may follow a value inside a compact text.\<close>

definition stop :: "string \<Rightarrow> bool" where
  "stop r \<longleftrightarrow> r = [] \<or> hd r \<in> {CHR '','', CHR '']'', CHR ''}''}"

lemma str_nat_no_zero: "hd (str_nat n) = CHR ''0'' \<Longrightarrow> tl (str_nat n) = []"
proof (induction n rule: str_nat.induct)
  case (1 n)
  show ?case
  proof (cases "n < 10")
    case True
    then show ?thesis by (subst str_nat.simps) simp
  next
    case False
    have h: "hd (str_nat n) = hd (str_nat (n div 10))"
      using False by (subst str_nat.simps) simp
    with 1 False have t: "tl (str_nat (n div 10)) = []" by simp
    then obtain c where c: "str_nat (n div 10) = [c]" by (cases "str_nat (n div 10)") auto
    with h 1(2) have "c = CHR ''0''" by simp
    with c have "digits_val 0 (str_nat (n div 10)) = 0" by (simp add: digit_val_def code_def)
    with digits_val_str_nat [of "n div 10"] False show ?thesis by simp
  qed
qed

lemma digits_before_stop:
  assumes "stop r"
  shows "takeWhile is_digit (str_nat n @ r) = str_nat n" "dropWhile is_digit (str_nat n @ r) = r"
proof -
  have "r = [] \<or> \<not> is_digit (hd r)" using assms by (auto simp: stop_def is_digit_def code_def)
  then have "takeWhile is_digit r = []" "dropWhile is_digit r = r" by (cases r; auto)+
  with str_nat_digits [of n] show "takeWhile is_digit (str_nat n @ r) = str_nat n" "dropWhile is_digit (str_nat n @ r) = r"
    by simp_all
qed

lemma str_nat_head: obtains c t where "str_nat n = c # t" "is_digit c"
  using str_nat_digits [of n] by (cases "str_nat n") auto

definition digits_then :: "(int \<Rightarrow> json) \<Rightarrow> string \<Rightarrow> (json \<times> string) option" where
  "digits_then f t =
     (let ds = takeWhile is_digit t; r = dropWhile is_digit t
      in if ds = [] \<or> (hd ds = CHR ''0'' \<and> tl ds \<noteq> []) \<or> (r \<noteq> [] \<and> hd r \<in> set ''.eE'') then None
         else Some (f (digits_val 0 ds), r))"

lemma read_int_digits:
  "read_int (CHR ''-'' # t) = digits_then (\<lambda>m. JInt (- m)) t"
  "take 1 t \<noteq> ''-'' \<Longrightarrow> read_int t = digits_then JInt t"
  by (simp_all add: read_int_def digits_then_def Let_def)

lemma digits_then_str_nat:
  assumes "stop r"
  shows "digits_then f (str_nat n @ r) = Some (f (int n), r)"
proof -
  have "\<not> (r \<noteq> [] \<and> hd r \<in> set ''.eE'')" using assms by (auto simp: stop_def)
  moreover have "\<not> (hd (str_nat n) = CHR ''0'' \<and> tl (str_nat n) \<noteq> [])" using str_nat_no_zero by blast
  ultimately show ?thesis
    unfolding digits_then_def Let_def digits_before_stop [OF assms] digits_val_str_nat by simp
qed

lemma read_int_str_int:
  assumes "stop r"
  shows "read_int (str_int i @ r) = Some (JInt i, r)"
proof (cases "i < 0")
  case True
  then show ?thesis by (simp add: str_int_def read_int_digits(1) digits_then_str_nat [OF assms])
next
  case False
  obtain c t where c: "str_nat (nat i) = c # t" "is_digit c" by (rule str_nat_head)
  then have "c \<noteq> CHR ''-''" by (auto simp: is_digit_def code_def)
  with c have "take 1 (str_nat (nat i) @ r) \<noteq> ''-''" by simp
  with False show ?thesis
    by (simp add: str_int_def read_int_digits(2) digits_then_str_nat [OF assms])
qed

section \<open>Values\<close>

fun json_text :: "json \<Rightarrow> bool" where
  "json_text (JStr s) = utf8_text s"
| "json_text (JArr xs) = list_all json_text xs"
| "json_text (JObj d) = (distinct (map fst d) \<and> list_all (\<lambda>(k, j). utf8_text k \<and> json_text j) d)"
| "json_text j = True"

abbreviation compact :: "json \<Rightarrow> string" where
  "compact \<equiv> dumps_with '','' '':''"

definition value_head :: "char \<Rightarrow> bool" where
  "value_head c \<longleftrightarrow> is_digit c \<or> c \<in> set ''-ntf[{'' \<or> code c = 34"

lemma dump_str_Cons: "\<exists>t. dump_str s = CHR 0x22 # t"
  by (simp add: dump_str_def dquote_def)

lemma compact_head: "\<exists>c t. compact j = c # t \<and> value_head c"
proof (cases j)
  case (JInt i)
  obtain c t where "str_nat (nat i) = c # t" "is_digit c" by (rule str_nat_head)
  with JInt show ?thesis by (auto simp: str_int_def value_head_def)
next
  case (JStr s)
  then show ?thesis using dump_str_Cons [of s] by (auto simp: value_head_def code_def)
qed (auto simp: value_head_def)

lemma value_head_not: "value_head c \<Longrightarrow> c \<noteq> CHR '']'' \<and> c \<noteq> CHR ''}'' \<and> c \<noteq> CHR '',''"
  by (auto simp: value_head_def is_digit_def code_def)

lemma skip_ws_head: "value_head c \<Longrightarrow> skip_ws (c # t) = c # t"
  by (auto simp: value_head_def skip_ws_def is_digit_def code_def)

lemma skip_ws_compact [simp]: "skip_ws (compact j @ r) = compact j @ r"
  using compact_head [of j] skip_ws_head by auto

lemma skip_ws_stop: "stop r \<Longrightarrow> skip_ws r = r"
  by (cases r) (auto simp: stop_def skip_ws_def code_def)

lemma skip_ws_dump_str [simp]: "skip_ws (dump_str s @ r) = dump_str s @ r"
  using dump_str_Cons [of s] by (auto simp: skip_ws_def code_def)

definition members :: "dict \<Rightarrow> string" where
  "members d = join '','' (map (\<lambda>(k, v). dump_str k @ '':'' @ compact v) d)"

lemma compact_JObj: "compact (JObj d) = ''{'' @ members d @ ''}''"
  by (simp add: members_def)

declare dumps_with.simps(6) [simp del]

definition reads_back :: "json \<Rightarrow> bool" where
  "reads_back j \<longleftrightarrow> (\<forall>n r. 2 * length (compact j) \<le> n \<longrightarrow> stop r \<longrightarrow> read_val n (compact j @ r) = Some (j, r))"

lemma reads_backD:
  "reads_back j \<Longrightarrow> 2 * length (compact j) \<le> n \<Longrightarrow> stop r \<Longrightarrow> read_val n (compact j @ r) = Some (j, r)"
  by (simp add: reads_back_def)

lemma stop_simps [simp]: "stop []" "stop (CHR '','' # r)" "stop (CHR '']'' # r)" "stop (CHR ''}'' # r)"
  by (simp_all add: stop_def)

lemma read_items_back:
  assumes "\<forall>x \<in> set xs. reads_back x" "xs \<noteq> []" "2 * length (join '','' (map compact xs)) < n"
  shows "read_items n (join '','' (map compact xs) @ '']'' @ r) = Some (xs, r)"
  using assms
proof (induction xs arbitrary: n)
  case (Cons x xs)
  then obtain m where n: "n = Suc m" by (cases n) auto
  show ?case
  proof (cases xs)
    case Nil
    with Cons.prems n have "read_val m (compact x @ '']'' @ r) = Some (x, '']'' @ r)"
      by (intro reads_backD) simp_all
    with n Nil show ?thesis by (simp add: skip_ws_stop)
  next
    case (Cons y ys)
    let ?rest = "join '','' (map compact xs) @ '']'' @ r"
    have j: "join '','' (map compact (x # xs)) @ '']'' @ r = compact x @ CHR '','' # ?rest"
      using Cons by simp
    have len: "length (join '','' (map compact (x # xs))) = length (compact x) + 1 + length (join '','' (map compact xs))"
      using Cons by simp
    have "read_val m (compact x @ CHR '','' # ?rest) = Some (x, CHR '','' # ?rest)"
      using Cons.prems n len by (intro reads_backD) simp_all
    moreover have "read_items m ?rest = Some (xs, r)"
      using Cons.prems n len Cons by (intro Cons.IH) simp_all
    ultimately show ?thesis unfolding j n by (simp add: skip_ws_stop)
  qed
qed simp

lemma dset_fresh: "k \<notin> fst ` set d \<Longrightarrow> dset k v d = d @ [(k, v)]"
  by (induction d) auto

lemma read_member:
  assumes "utf8_text k"
  shows "read_members (Suc m) e (dump_str k @ CHR '':'' # t) =
    (case read_val m t of
       None \<Rightarrow> None
     | Some (v, q) \<Rightarrow>
         (let q = skip_ws q; d = dset k v e in
          if take 1 q = '','' then read_members m d (tl q)
          else if take 1 q = ''}'' then Some (d, tl q) else None))"
proof -
  let ?s = "dump_str k @ CHR '':'' # t"
  have "read_str (length ?s) (tl ?s) = Some (k, CHR '':'' # t)"
    using read_dump_str [OF assms, of "length ?s" "CHR '':'' # t"] dump_str_Cons [of k] by auto
  moreover have "?s \<noteq> []" "code (hd ?s) = 34" "skip_ws ?s = ?s"
    using dump_str_Cons [of k] by (auto simp: code_def)
  moreover have "skip_ws (CHR '':'' # t) = CHR '':'' # t" by (simp add: skip_ws_def code_def)
  ultimately show ?thesis unfolding read_members.simps Let_def by simp
qed

lemma read_members_back:
  assumes "\<forall>(k, v) \<in> set d. utf8_text k \<and> reads_back v" "d \<noteq> []" "2 * length (members d) < n"
    and "distinct (map fst (e @ d))"
  shows "read_members n e (members d @ ''}'' @ r) = Some (e @ d, r)"
  using assms
proof (induction d arbitrary: n e)
  case (Cons p d)
  obtain k v where p: "p = (k, v)" by fastforce
  from Cons.prems obtain m where n: "n = Suc m" by (cases n) auto
  have k: "utf8_text k" "reads_back v" "k \<notin> fst ` set e" using Cons.prems p by auto
  show ?case
  proof (cases d)
    case Nil
    have t: "members (p # d) @ ''}'' @ r = dump_str k @ CHR '':'' # compact v @ ''}'' @ r"
      by (simp add: members_def p Nil)
    have "2 * length (compact v) \<le> m" using Cons.prems(3) n by (simp add: members_def p Nil)
    then have "read_val m (compact v @ ''}'' @ r) = Some (v, ''}'' @ r)" by (intro reads_backD [OF k(2)]) simp_all
    then show ?thesis unfolding t n read_member [OF k(1)] by (simp add: p Nil skip_ws_stop dset_fresh [OF k(3)])
  next
    case (Cons q ds)
    let ?rest = "members d @ ''}'' @ r"
    have t: "members (p # d) @ ''}'' @ r = dump_str k @ CHR '':'' # compact v @ CHR '','' # ?rest"
      by (simp add: members_def p Cons)
    have l: "length (members (p # d)) = length (dump_str k) + 1 + length (compact v) + 1 + length (members d)"
      by (simp add: members_def p Cons)
    have "read_val m (compact v @ CHR '','' # ?rest) = Some (v, CHR '','' # ?rest)"
      using Cons.prems(3) n l by (intro reads_backD [OF k(2)]) simp_all
    moreover have "read_members m (e @ [(k, v)]) ?rest = Some ((e @ [(k, v)]) @ d, r)"
      using Cons.prems n l Cons by (intro Cons.IH) (auto simp: p)
    ultimately show ?thesis unfolding t n read_member [OF k(1)] by (simp add: p skip_ws_stop dset_fresh [OF k(3)])
  qed
qed simp

text \<open>One value.\<close>

lemma read_val_str: "utf8_text s \<Longrightarrow> read_val (Suc n) (dump_str s @ r) = Some (JStr s, r)"
proof -
  assume s: "utf8_text s"
  let ?t = "dump_str s @ r"
  have "read_str (length ?t) (tl ?t) = Some (s, r)"
    using read_dump_str [OF s, of "length ?t" r] dump_str_Cons [of s] by auto
  moreover have "?t \<noteq> []" "code (hd ?t) = 34" using dump_str_Cons [of s] by (auto simp: code_def)
  ultimately show ?thesis unfolding read_val.simps Let_def skip_ws_dump_str by simp
qed

lemma read_val_int: "stop r \<Longrightarrow> read_val (Suc n) (str_int i @ r) = Some (JInt i, r)"
proof -
  assume r: "stop r"
  obtain c t where c: "str_int i = c # t" "is_digit c \<or> c = CHR ''-''"
  proof (cases "i < 0")
    case False
    then show ?thesis using that by (auto simp: str_int_def intro: str_nat_head [of "nat i"])
  qed (auto simp: str_int_def)
  then have "skip_ws (str_int i @ r) = str_int i @ r" by (auto simp: skip_ws_def is_digit_def code_def)
  moreover have "code c \<noteq> 34" "c \<noteq> CHR ''[''" "c \<noteq> CHR ''{''" "c \<noteq> CHR ''n''" "c \<noteq> CHR ''t''" "c \<noteq> CHR ''f''"
    using c(2) by (auto simp: is_digit_def code_def)
  ultimately show ?thesis using read_int_str_int [OF r, of i] c(1) unfolding read_val.simps Let_def by simp
qed

lemma read_val_arr:
  "xs \<noteq> [] \<Longrightarrow> read_items n (join '','' (map compact xs) @ '']'' @ r) = Some (xs, r) \<Longrightarrow>
   read_val (Suc n) (compact (JArr xs) @ r) = Some (JArr xs, r)"
proof -
  assume xs: "xs \<noteq> []" and i: "read_items n (join '','' (map compact xs) @ '']'' @ r) = Some (xs, r)"
  let ?t = "join '','' (map compact xs) @ '']'' @ r"
  obtain c t where t: "?t = c # t" "value_head c"
    using xs compact_head [of "hd xs"] by (cases xs; cases "tl xs") auto
  then have "take 1 (skip_ws ?t) \<noteq> '']''" using skip_ws_head value_head_not by simp
  with i show ?thesis by (simp add: skip_ws_def code_def)
qed

lemma read_val_obj:
  "d \<noteq> [] \<Longrightarrow> read_members n [] (members d @ ''}'' @ r) = Some (d, r) \<Longrightarrow>
   read_val (Suc n) (compact (JObj d) @ r) = Some (JObj d, r)"
proof -
  assume d: "d \<noteq> []" and m: "read_members n [] (members d @ ''}'' @ r) = Some (d, r)"
  let ?t = "members d @ ''}'' @ r"
  obtain c t where t: "?t = c # t" "value_head c"
    using d dump_str_Cons [of "fst (hd d)"]
    by (cases d; cases "tl d") (auto simp: members_def value_head_def code_def)
  then have "take 1 (skip_ws ?t) \<noteq> ''}''" using skip_ws_head value_head_not by simp
  with m show ?thesis by (simp add: compact_JObj skip_ws_def code_def)
qed

lemma all_read_back: "json_text j \<Longrightarrow> reads_back j"
proof (induction j)
  case (JInt i)
  have "0 < length (str_int i)" by (simp add: str_int_def)
  then show ?case unfolding reads_back_def using read_val_int [of _ _ i]
    by (metis Suc_pred dumps_with.simps(3) less_le_trans mult_pos_pos zero_less_numeral)
next
  case (JStr s)
  have "0 < length (dump_str s)" using dump_str_Cons [of s] by auto
  with JStr show ?case unfolding reads_back_def using read_val_str [of s]
    by (metis Suc_pred dumps_with.simps(4) json_text.simps(1) less_le_trans mult_pos_pos zero_less_numeral)
next
  case (JArr xs)
  have xs: "\<forall>x \<in> set xs. reads_back x" using JArr by (auto simp: list_all_iff)
  show ?case unfolding reads_back_def
  proof (intro allI impI)
    fix n r assume n: "2 * length (compact (JArr xs)) \<le> n" and r: "stop r"
    then obtain m where m: "n = Suc m" "2 * length (join '','' (map compact xs)) < m" by (cases n) auto
    show "read_val n (compact (JArr xs) @ r) = Some (JArr xs, r)"
    proof (cases "xs = []")
      case True
      with m show ?thesis by (simp add: skip_ws_def code_def)
    next
      case False
      show ?thesis unfolding m(1) by (rule read_val_arr [OF False read_items_back [OF xs False m(2)]])
    qed
  qed
next
  case (JObj d)
  have d: "\<forall>(k, v) \<in> set d. utf8_text k \<and> reads_back v" using JObj by (fastforce simp: list_all_iff)
  have u: "distinct (map fst ([] @ d))" using JObj by simp
  show ?case unfolding reads_back_def
  proof (intro allI impI)
    fix n r assume n: "2 * length (compact (JObj d)) \<le> n" and r: "stop r"
    then obtain m where m: "n = Suc m" "2 * length (members d) < m" by (cases n) (auto simp: compact_JObj)
    show "read_val n (compact (JObj d) @ r) = Some (JObj d, r)"
    proof (cases "d = []")
      case True
      with m show ?thesis by (simp add: compact_JObj members_def skip_ws_def code_def)
    next
      case False
      show ?thesis unfolding m(1)
        by (rule read_val_obj [OF False read_members_back [OF d False m(2) u, unfolded append_Nil]])
    qed
  qed
next
  case (JBool b)
  have l: "0 < length (compact (JBool b))" by simp
  show ?case unfolding reads_back_def
  proof (intro allI impI)
    fix n r assume "2 * length (compact (JBool b)) \<le> n"
    with l obtain m where "n = Suc m" by (cases n) auto
    then show "read_val n (compact (JBool b) @ r) = Some (JBool b, r)"
      by (cases b) (simp_all add: skip_ws_def code_def)
  qed
next
  case JNull
  show ?case unfolding reads_back_def
  proof (intro allI impI)
    fix n r assume "2 * length (compact JNull) \<le> n"
    then obtain m where "n = Suc m" by (cases n) auto
    then show "read_val n (compact JNull @ r) = Some (JNull, r)" by (simp add: skip_ws_def code_def)
  qed
qed

lemma loads_compact: "json_text j \<Longrightarrow> loads (compact j) = Some j"
  using reads_backD [OF all_read_back, of j "Suc (2 * length (compact j))" "[]"]
  by (simp add: loads_def skip_ws_def)

lemma sort_key_fst_map: "map fst (sort_key fst d) = sort (map fst d)" for d :: "('a :: linorder \<times> 'b) list"
proof -
  have "map fst (insort_key fst x ys) = insort (fst x) (map fst ys)" for x and ys :: "('a \<times> 'b) list"
    by (induction ys) auto
  then show ?thesis by (induction d) simp_all
qed

lemma json_text_sort_keys: "json_text j \<Longrightarrow> json_text (sort_keys j)"
proof (induction j)
  case (JObj d)
  have k: "map fst (map (\<lambda>(k, v). (k, sort_keys v)) d) = map fst d" by auto
  have "list_all (\<lambda>(k, j). utf8_text k \<and> json_text j) (map (\<lambda>(k, v). (k, sort_keys v)) d)"
    using JObj by (fastforce simp: list_all_iff)
  moreover have "distinct (map fst (sort_key fst (map (\<lambda>(k, v). (k, sort_keys v)) d)))"
    using JObj unfolding sort_key_fst_map k by simp
  ultimately show ?case by (simp add: list_all_iff)
qed (auto simp: list_all_iff)

lemma loads_canonical: "json_text j \<Longrightarrow> loads (canonical_json j) = Some (sort_keys j)"
  unfolding canonical_json_def dumps_compact_def by (intro loads_compact json_text_sort_keys)

section \<open>ASCII\<close>

lemma ascii_text: "list_all (\<lambda>c. code c < 128) s \<Longrightarrow> utf8_text s"
  unfolding utf8_text_def
proof (rule exI [where x = "map code s"], induction s)
  case (Cons c s)
  have "utf8_bytes (code c) = [c]" using Cons.prems code_inject by (simp add: utf8_bytes_def code_def)
  with Cons code_range [of c] show ?case by (simp add: scalar_def)
qed simp

text \<open>All texts of a value are ASCII.\<close>

fun ascii_json :: "json \<Rightarrow> bool" where
  "ascii_json (JStr s) = list_all (\<lambda>c. code c < 128) s"
| "ascii_json (JArr xs) = list_all ascii_json xs"
| "ascii_json (JObj d) = (distinct (map fst d) \<and> list_all (\<lambda>(k, j). list_all (\<lambda>c. code c < 128) k \<and> ascii_json j) d)"
| "ascii_json j = True"

lemma ascii_json_text: "ascii_json j \<Longrightarrow> json_text j"
  by (induction j) (fastforce simp: list_all_iff intro: ascii_text)+

end
