(* ===== verification/Canonical.thy ===== *)
theory Canonical
  imports Json_Facts Intent_Json
begin

text \<open>
  The canonical JSON of a normalized intent reads back as the intent: the workers and the supervisor
  hand each other the key-sorted dump, and no schema depends on the order of keys.
\<close>

section \<open>Sorting keys\<close>

definition sorted_dict :: "dict \<Rightarrow> dict" where
  "sorted_dict d = sort_key fst (map (\<lambda>(k, v). (k, sort_keys v)) d)"

lemma sort_keys_JObj [simp]: "sort_keys (JObj d) = JObj (sorted_dict d)"
  by (simp add: sorted_dict_def)

declare sort_keys.simps(2) [simp del]

lemma map_of_insort_key: "map_of (insort_key fst x d) k = (if k = fst x then Some (snd x) else map_of d k)"
  by (induction d) auto

lemma map_of_sort_key: "map_of (sort_key fst d) = map_of d"
  by (induction d) (auto simp: map_of_insort_key fun_eq_iff)

lemma map_of_sorted_dict: "map_of (sorted_dict d) k = map_option sort_keys (map_of d k)"
  unfolding sorted_dict_def map_of_sort_key by (induction d) auto

lemma set_sorted_dict: "set (sorted_dict d) = (\<lambda>(k, v). (k, sort_keys v)) ` set d"
  by (simp add: sorted_dict_def)

lemma extras_sorted: "extras ks (sorted_dict d) = [] \<longleftrightarrow> extras ks d = []"
  by (auto simp: extras_def filter_empty_conv set_sorted_dict)

section \<open>Readers that do not see the order\<close>

named_theorems stable_intros \<open>readers whose values do not depend on the order of keys\<close>

definition stable :: "(json \<Rightarrow> 'a checked) \<Rightarrow> bool" where
  "stable p \<longleftrightarrow> (\<forall>j a. p (sort_keys j) = Inr a \<longleftrightarrow> p j = Inr a)"

lemma sort_keys_null [simp]: "sort_keys j = JNull \<longleftrightarrow> j = JNull"
  by (cases j) simp_all

lemma fail_not_Inr [simp]: "fail k \<noteq> Inr a"
  by (simp add: fail_def)

lemma stable_scalar [stable_intros]:
  "stable is_str" "stable nonempty_str" "stable (literal vs)" "stable (is_int L)" "stable (int_within L lo hi)"
  "stable (int_from L lo)" "stable (is_bool L)"
proof -
  have s: "is_str (sort_keys j) = is_str j" for j by (cases j) simp_all
  have i: "is_int L (sort_keys j) = is_int L j" for j by (cases j) simp_all
  have b: "is_bool L (sort_keys j) = is_bool L j" for j by (cases j) simp_all
  show "stable is_str" "stable nonempty_str" "stable (literal vs)" "stable (is_int L)" "stable (int_within L lo hi)"
    "stable (int_from L lo)" "stable (is_bool L)"
    by (simp_all add: stable_def s i b nonempty_str_def literal_def int_within_def int_from_def)
qed

lemma nullable_iff:
  "nullable p j = Inr x \<longleftrightarrow> (if j = JNull then x = None else \<exists>a. p j = Inr a \<and> x = Some a)"
  by (auto simp: nullable_def split: sum.split)

lemma stable_nullable [stable_intros]: "stable p \<Longrightarrow> stable (nullable p)"
  by (simp add: stable_def nullable_iff)

lemma list_from_iff:
  assumes "\<And>j. proper (p j)"
  shows "list_from p i js = Inr xs \<longleftrightarrow> list_all2 (\<lambda>j x. p j = Inr x) js xs"
proof
  assume "list_all2 (\<lambda>j x. p j = Inr x) js xs"
  then show "list_from p i js = Inr xs"
    by (induction js xs arbitrary: i rule: list_all2_induct) (simp_all add: Let_def)
qed (rule list_from_Inr [OF assms])

lemma stable_is_list [stable_intros]: "(\<And>j. proper (p j)) \<Longrightarrow> stable p \<Longrightarrow> stable (is_list p)"
  unfolding stable_def
proof (intro allI)
  fix j xs assume pr: "\<And>j. proper (p j)" and st: "\<forall>j a. (p (sort_keys j) = Inr a) = (p j = Inr a)"
  show "(is_list p (sort_keys j) = Inr xs) = (is_list p j = Inr xs)"
    by (cases j) (simp_all add: list_from_iff [OF pr] list_all2_map1 st)
qed

text \<open>A model is stable when its reading of an object is.\<close>

definition stable_model :: "(dict \<Rightarrow> 'a checked) \<Rightarrow> bool" where
  "stable_model p \<longleftrightarrow> (\<forall>d a. p (sorted_dict d) = Inr a \<longleftrightarrow> p d = Inr a)"

lemma stable_is_obj_then [stable_intros]: "stable_model p \<Longrightarrow> stable (is_obj_then p)"
  unfolding stable_def
proof (intro allI)
  fix j a assume "stable_model p"
  then show "(is_obj_then p (sort_keys j) = Inr a) = (is_obj_then p j = Inr a)"
    by (cases j) (simp_all add: stable_model_def)
qed

lemma stable_req: "stable p \<Longrightarrow> field_req p k (sorted_dict d) = Inr a \<longleftrightarrow> field_req p k d = Inr a"
  by (auto simp: field_req_def map_of_sorted_dict stable_def located_Inr_iff split: option.split)

lemma stable_field: "stable p \<Longrightarrow> field_def p a0 k (sorted_dict d) = Inr a \<longleftrightarrow> field_def p a0 k d = Inr a"
  by (auto simp: field_def_def map_of_sorted_dict stable_def located_Inr_iff split: option.split)

section \<open>The models\<close>

lemma stable_str_or_int [stable_intros]: "stable (is_str_or_int L)"
  unfolding stable_def 
proof (intro allI)
  fix j a show "(is_str_or_int L (sort_keys j) = Inr a) = (is_str_or_int L j = Inr a)" by (cases j) simp_all
qed

lemma proper_nullable_part [proper_intros]: "proper (nullable (is_obj_then (validate_acl L)) j)"
  by (intro proper_intros)

lemma stable_models [stable_intros]:
  "stable_model (validate_rule L)" "stable_model validate_rd_rt" "stable_model validate_af"
  "stable_model (validate_ep L)" "stable_model validate_gw" "stable_model (validate_policies L)"
  by (simp_all add: stable_model_def validate_rule_iff validate_rd_rt_iff validate_af_iff validate_ep_iff validate_gw_iff
      validate_policies_iff stable_req stable_field stable_intros proper_intros extras_sorted)

lemma stable_lists [stable_intros]:
  "stable (is_list (is_obj_then (validate_rule L)))" "stable (is_list (is_obj_then (validate_ep L)))"
  by (intro stable_is_list stable_is_obj_then stable_models proper_is_obj_then proper_validate_rule proper_parts)+

lemma stable_acl [stable_intros]: "stable_model (validate_acl L)"
  by (simp add: stable_model_def validate_acl_iff stable_field stable_intros proper_intros extras_sorted)

section \<open>The intent\<close>

text \<open>The raw values of the unsupported claims are the one part whose own keys are kept as they come.\<close>

definition claims_sorted :: "normalized_intent \<Rightarrow> bool" where
  "claims_sorted n \<longleftrightarrow>
     (\<forall>u. unsupported n = Some u \<longrightarrow> (\<forall>x \<in> {tePolicy u, pseudowireOAM u, controlWord u, multicastVPN u,
        complexQoS u, serviceChain u, rawCLI u}. sort_keys x = x))"

lemma no_claims_null:
  "unsupported_present u = [] \<Longrightarrow> x \<in> {tePolicy u, pseudowireOAM u, controlWord u, multicastVPN u,
     complexQoS u, serviceChain u, rawCLI u} \<Longrightarrow> x = JNull"
  by (auto simp: unsupported_present_def split: if_splits)

lemma no_claims_sorted: "\<forall>u. unsupported n = Some u \<longrightarrow> unsupported_present u = [] \<Longrightarrow> claims_sorted n"
    unfolding claims_sorted_def
proof (intro allI impI ballI)
  fix u x assume "\<forall>u. unsupported n = Some u \<longrightarrow> unsupported_present u = []" "unsupported n = Some u"
    "x \<in> {tePolicy u, pseudowireOAM u, controlWord u, multicastVPN u, complexQoS u, serviceChain u, rawCLI u}"
  then have "x = JNull" by (intro no_claims_null [of u]) auto
  then show "sort_keys x = x" by simp
qed

lemma claims_field_sorted:
  assumes "claims_sorted n"
  shows "field_def (nullable (is_obj_then validate_claims)) None ''unsupported'' (sorted_dict (dump_intent n)) = Inr (unsupported n)"
proof (cases "unsupported n")
  case None
  then show ?thesis by (simp add: field_def_def map_of_sorted_dict dump_intent_def opt_json_def nullable_def)
next
  case (Some u)
  obtain d where d: "dump_claims u = JObj d" by (simp add: dump_claims_def)
  then have f: "map_of (sorted_dict d) k = map_option sort_keys (map_of d k)" "extras claim_names d = []" for k
    by (auto simp: map_of_sorted_dict dump_claims_def claim_names_def extras_def)
  have g: "dget (sorted_dict d) k = dget d k" if "k \<in> set claim_names" for k
    using that assms Some d by (auto simp: dget_def f(1) claims_sorted_def dump_claims_def claim_names_def)
  have "validate_claims d = Inr u" using validate_dump_claims [of u] d by simp
  then have "validate_claims (sorted_dict d) = Inr u"
    using f(2) by (simp add: validate_claims_def extras_sorted g claim_names_def)
  with Some d show ?thesis
    by (simp add: field_def_def map_of_sorted_dict dump_intent_def opt_json_def nullable_def)
qed

theorem validate_sorted_intent:
  assumes "wf_intent n" "claims_sorted n"
  shows "validate_intent L (sorted_dict (dump_intent n)) = Inr n"
proof -
  have "validate_intent L (dump_intent n) = Inr n" by (rule validate_dump_intent [OF assms(1)])
  then show ?thesis unfolding validate_intent_iff
    using claims_field_sorted [OF assms(2)]
    by (simp add: stable_req stable_field stable_intros proper_intros extras_sorted)
qed

lemma loads_canonical_intent:
  "json_text (JObj (dump_intent n)) \<Longrightarrow> loads (canonical_json (JObj (dump_intent n))) = Some (JObj (sorted_dict (dump_intent n)))"
  using loads_canonical by simp

end
