(* ===== verification/Mapper_Wire.thy ===== *)
theory Mapper_Wire
  imports Mapper_Payload Canonical
begin

text \<open>
  The two texts that pass between the supervisor and the mapping agent: the fenced request, which
  the agent strips to the request, and the \<open>MAPPED_JSON\<close> marker, from which the supervisor reads
  back the interpretation the agent printed. Both are scans of the regular expression engine over
  a text whose delimiters occur where the writer put them.
\<close>

section \<open>Scanning\<close>

lemma search_skip:
  assumes "\<forall>c \<in> set u. c \<noteq> x" "\<And>b c t. c \<noteq> x \<Longrightarrow> run r Some \<lparr>bef = b, aft = c # t, caps = []\<rparr> = None"
  shows "search_from r b (u @ v) = search_from r (rev u @ b) v"
  using assms(1)
proof (induction u arbitrary: b)
  case (Cons c u)
  then show ?case using assms(2) [of c b "u @ v"] by simp
qed simp

text \<open>A lazy repetition runs to the first place where the rest of the pattern succeeds.\<close>

lemma lazy_until:
  assumes "\<forall>c \<in> set g. p c" "length g < n"
    and "\<And>x y. g = x @ y \<Longrightarrow> y \<noteq> [] \<Longrightarrow> k \<lparr>bef = rev x @ b, aft = y @ v, caps = cs\<rparr> = None"
    and "k \<lparr>bef = rev g @ b, aft = v, caps = cs\<rparr> = Some r"
  shows "star_run (run (Chr p)) False n k \<lparr>bef = b, aft = g @ v, caps = cs\<rparr> = Some r"
  using assms
proof (induction g arbitrary: b n)
  case Nil
  then show ?case by (cases n) auto
next
  case (Cons c g)
  then obtain n' where n: "n = Suc n'" by (cases n) auto
  have first: "k \<lparr>bef = b, aft = c # g @ v, caps = cs\<rparr> = None" using Cons.prems(3) [of "[]" "c # g"] by simp
  have "star_run (run (Chr p)) False n' k \<lparr>bef = c # b, aft = g @ v, caps = cs\<rparr> = Some r"
  proof (rule Cons.IH)
    fix x y assume "g = x @ y" "y \<noteq> []"
    then show "k \<lparr>bef = rev x @ c # b, aft = y @ v, caps = cs\<rparr> = None"
      using Cons.prems(3) [of "c # x" y] by simp
  qed (use Cons.prems n in auto)
  with first Cons.prems(1) n show ?case by simp
qed

section \<open>The fence\<close>

lemma fence_run:
  assumes "\<forall>c \<in> set g. c \<noteq> CHR ''>'' \<and> c \<noteq> CHR 0x0A" "e \<in> {[], ''END_''}"
  shows "run DATA_FENCE_RE Some \<lparr>bef = b, aft = ''<<<'' @ e @ ''DATA'' @ g @ ''>>>'' @ v, caps = []\<rparr>
    = Some \<lparr>bef = rev (''<<<'' @ e @ ''DATA'' @ g @ ''>>>'') @ b, aft = v, caps = []\<rparr>"
proof -
  have "star_run (run (Chr (\<lambda>c. c \<noteq> CHR 0x0A))) False (length (g @ ''>>>'' @ v)) (run (lit ''>>>'') Some)
      \<lparr>bef = b', aft = g @ ''>>>'' @ v, caps = []\<rparr>
      = Some \<lparr>bef = rev ''>>>'' @ rev g @ b', aft = v, caps = []\<rparr>" for b'
  proof (rule lazy_until)
    fix x y assume "g = x @ y" "y \<noteq> []"
    then obtain c z where "y = c # z" "c \<noteq> CHR ''>''" using assms(1) by (cases y) auto
    then show "run (lit ''>>>'') Some \<lparr>bef = rev x @ b', aft = y @ ''>>>'' @ v, caps = []\<rparr> = None" by simp
  qed (use assms(1) in auto)
  note lazy = this
  from assms(2) show ?thesis
    by (auto simp: DATA_FENCE_RE_def opt_def lazy_def dot_def lazy [simplified])
qed

lemma search_at: "run r Some \<lparr>bef = b, aft = s, caps = []\<rparr> = Some e \<Longrightarrow>
    search_from r b s = Some (\<lparr>bef = b, aft = s, caps = []\<rparr>, e)"
  by (cases s) (simp_all add: Let_def)

lemma fence_needs_angle: "c \<noteq> CHR ''<'' \<Longrightarrow> run DATA_FENCE_RE Some \<lparr>bef = b, aft = c # t, caps = []\<rparr> = None"
  by (simp add: DATA_FENCE_RE_def)

lemma fence_end: "run DATA_FENCE_RE Some \<lparr>bef = b, aft = [], caps = []\<rparr> = None"
  by (simp add: DATA_FENCE_RE_def)

text \<open>One fence after some text without an angle bracket is cut out.\<close>

lemma sub_fence:
  assumes "CHR ''<'' \<notin> set u" "\<forall>c \<in> set g. c \<noteq> CHR ''>'' \<and> c \<noteq> CHR 0x0A" "e \<in> {[], ''END_''}"
  shows "sub_from (Suc n) DATA_FENCE_RE (\<lambda>m e. []) b (u @ ''<<<'' @ e @ ''DATA'' @ g @ ''>>>'' @ v)
    = u @ sub_from n DATA_FENCE_RE (\<lambda>m e. []) (rev (u @ ''<<<'' @ e @ ''DATA'' @ g @ ''>>>'') @ b) v"
proof -
  let ?f = "''<<<'' @ e @ ''DATA'' @ g @ ''>>>'' @ v"
  have "search_from DATA_FENCE_RE b (u @ ?f) = search_from DATA_FENCE_RE (rev u @ b) ?f"
    by (rule search_skip [where x = "CHR ''<''"]) (use assms(1) fence_needs_angle in auto)
  also have "\<dots> = Some (\<lparr>bef = rev u @ b, aft = ?f, caps = []\<rparr>,
      \<lparr>bef = rev (''<<<'' @ e @ ''DATA'' @ g @ ''>>>'') @ rev u @ b, aft = v, caps = []\<rparr>)"
    by (rule search_at, rule fence_run [OF assms(2,3)])
  finally show ?thesis by (simp del: search_from.simps)
qed

lemma strip_by_front: "p x \<Longrightarrow> strip_by p (x # s) = strip_by p s"
  by (simp add: strip_by_def)

lemma strip_by_back: "p x \<Longrightarrow> strip_by p (s @ [x]) = strip_by p s"
  by (cases "\<forall>y \<in> set s. p y") (auto simp: strip_by_def dropWhile_append dropWhile_eq_Nil_conv dest: set_dropWhileD)

text \<open>The agent reads from the fenced request the request itself.\<close>

theorem plain_wrap:
  assumes "CHR ''<'' \<notin> set t" "\<forall>c \<in> set k. c \<noteq> CHR ''>'' \<and> c \<noteq> CHR 0x0A"
  shows "plain_text (wrap_user_text t k) = strip t"
proof -
  let ?g = "'' user_text nonce='' @ k @ '' ''"
  let ?f = "wrap_user_text t k"
  let ?u = "nl @ t @ nl"
  have g: "\<forall>c \<in> set ?g. c \<noteq> CHR ''>'' \<and> c \<noteq> CHR 0x0A" using assms(2) by auto
  have f: "?f = [] @ ''<<<'' @ [] @ ''DATA'' @ ?g @ ''>>>'' @ ?u @ ''<<<'' @ ''END_'' @ ''DATA'' @ ?g @ ''>>>'' @ []"
    by (simp add: wrap_user_text_def fence_def)
  obtain n where n: "length ?f = Suc (Suc (Suc n))" by (simp add: wrap_user_text_def fence_def)
  have none: "sub_from m DATA_FENCE_RE h b [] = []" for m h b
    using fence_end by (cases m) (simp_all add: Let_def)
  have u: "CHR ''<'' \<notin> set ?u" using assms(1) by (simp add: nl_def)
  have "sub DATA_FENCE_RE (\<lambda>m e. []) ?f = ?u"
    unfolding sub_def n
    by (subst f, subst sub_fence, (simp; fail), rule g, (simp; fail), subst sub_fence, rule u, rule g, (simp; fail))
      (simp only: none append_Nil append_Nil2)
  then have "plain_text ?f = strip (nl @ t @ nl)" by (simp add: plain_text_def)
  also have "\<dots> = strip t"
  proof -
    have w: "is_ws CHR 0x0A" by (simp add: is_ws_def code_def)
    have "nl @ t @ nl = CHR 0x0A # (t @ [CHR 0x0A])" by (simp add: nl_def)
    then show ?thesis
      by (simp only: strip_def strip_by_front [of is_ws, OF w] strip_by_back [of is_ws, OF w])
  qed
  finally show ?thesis .
qed

section \<open>The marker\<close>

lemma star_ws_none:
  "\<not> is_ws c \<Longrightarrow> run (star ws) k \<lparr>bef = b, aft = c # v, caps = cs\<rparr> = k \<lparr>bef = b, aft = c # v, caps = cs\<rparr>"
  by (simp add: star_def ws_def)

lemma star_ws_one:
  assumes "\<not> is_ws c" "k \<lparr>bef = CHR '' '' # b, aft = c # v, caps = cs\<rparr> = Some r"
  shows "run (star ws) k \<lparr>bef = b, aft = CHR '' '' # c # v, caps = cs\<rparr> = Some r"
proof -
  have "is_ws CHR '' ''" by (simp add: is_ws_def code_def)
  with assms show ?thesis by (simp add: star_def ws_def)
qed

lemma lit_run:
  "run (lit w) k \<lparr>bef = b, aft = w @ v, caps = cs\<rparr> = k \<lparr>bef = rev w @ b, aft = v, caps = cs\<rparr>"
  by (induction w arbitrary: b rule: lit.induct) simp_all

lemma no_close:
  assumes "CHR ''>'' \<notin> set y" "y \<noteq> []"
  shows "run (lit ''-->'') k \<lparr>bef = b, aft = y @ ''-->'', caps = cs\<rparr> = None"
proof -
  obtain c z where y: "y = c # z" "c \<noteq> CHR ''>''" using assms by (cases y) auto
  show ?thesis
  proof (cases z)
    case (Cons d w)
    then show ?thesis using assms y by (cases w) auto
  qed (use y in simp)
qed

lemma marker_run:
  assumes g: "CHR ''>'' \<notin> set (c # g)" and c: "\<not> is_ws c"
  shows "run (marker_rx ''MAPPED_JSON'') Some
      \<lparr>bef = b, aft = ''<!-- MAPPED_JSON: '' @ (c # g) @ '' -->'', caps = []\<rparr>
    = Some \<lparr>bef = rev (''<!-- MAPPED_JSON: '' @ (c # g) @ '' -->'') @ b, aft = [],
        caps = [(''1'', (c # g) @ '' '')]\<rparr>"
proof -
  let ?g = "(c # g) @ '' ''"
  have "run (Grp ''1'' (lazy any)) (run (lit ''-->'') Some) \<lparr>bef = b', aft = c # (g @ '' -->''), caps = []\<rparr>
      = Some \<lparr>bef = rev (?g @ ''-->'') @ b', aft = [], caps = [(''1'', ?g)]\<rparr>" (is "run _ _ ?s = _") for b'
  proof -
    have "star_run (run (Chr (\<lambda>_. True))) False (length (?g @ ''-->'')) (\<lambda>t. run (lit ''-->'') Some (capture ''1'' ?s t))
        \<lparr>bef = b', aft = ?g @ ''-->'', caps = []\<rparr>
        = Some \<lparr>bef = rev ''-->'' @ rev ?g @ b', aft = [], caps = [(''1'', ?g)]\<rparr>"
    proof (rule lazy_until)
      fix x y assume xy: "?g = x @ y" "y \<noteq> []"
      have "CHR ''>'' \<notin> set ?g" using g by simp
      then have "CHR ''>'' \<notin> set y" unfolding xy(1) by simp
      then show "run (lit ''-->'') Some (capture ''1'' ?s \<lparr>bef = rev x @ b', aft = y @ ''-->'', caps = []\<rparr>) = None"
        using xy(2) no_close [of y Some "rev x @ b'"] by (simp add: capture_def del: lit.simps)
    qed (simp_all add: capture_def)
    then show ?thesis by (simp add: lazy_def any_def del: lit.simps)
  qed
  note group = this
  have w: "\<not> is_ws CHR ''M''" "\<not> is_ws CHR '':''" by (simp_all add: is_ws_def code_def)
  note steps = lit_run [of "''<!--''", simplified append.simps] lit_run [of "''MAPPED_JSON''", simplified append.simps]
    lit_run [of "'':''", simplified append.simps]
  show ?thesis
    using w c
    by (simp add: marker_rx_def steps star_ws_none star_ws_one group del: run.simps(5,11) lit.simps)
qed

lemma strip_solid: "s \<noteq> [] \<Longrightarrow> \<not> is_ws (hd s) \<Longrightarrow> \<not> is_ws (last s) \<Longrightarrow> strip s = s"
proof -
  assume s: "s \<noteq> []" "\<not> is_ws (hd s)" "\<not> is_ws (last s)"
  have "dropWhile is_ws s = s" using s(2) by (cases s) auto
  moreover have "dropWhile is_ws (rev s) = rev s"
    using s by (cases "rev s") (auto simp: hd_rev [symmetric])
  ultimately show ?thesis by (simp add: strip_def strip_by_def)
qed

theorem marker_payload_text:
  assumes s: "CHR ''<'' \<notin> set s" and j: "CHR ''>'' \<notin> set j" "j \<noteq> []" "\<not> is_ws (hd j)" "\<not> is_ws (last j)"
    and l: "loads j = Some (JObj d)"
  shows "marker_payload ''MAPPED_JSON'' (s @ ''<!-- MAPPED_JSON: '' @ j @ '' -->'') = Some d"
proof -
  obtain c g where cg: "j = c # g" "\<not> is_ws c" using j(2,3) by (cases j) auto
  let ?r = "marker_rx ''MAPPED_JSON''"
  let ?m = "''<!-- MAPPED_JSON: '' @ j @ '' -->''"
  have "run ?r Some \<lparr>bef = b, aft = x # t, caps = []\<rparr> = None" if "x \<noteq> CHR ''<''" for b x t
    using that by (simp add: marker_rx_def)
  then have "search_from ?r [] (s @ ?m) = search_from ?r (rev s @ []) ?m"
    by (intro search_skip [where x = "CHR ''<''"]) (use s in auto)
  also have "\<dots> = Some (\<lparr>bef = rev s @ [], aft = ?m, caps = []\<rparr>,
      \<lparr>bef = rev ?m @ rev s @ [], aft = [], caps = [(''1'', j @ '' '')]\<rparr>)"
    unfolding cg(1) by (rule search_at, rule marker_run) (use j(1) cg in auto)
  finally have "search_group ?r ''1'' (s @ ?m) = Some (j @ '' '')"
    by (simp add: search_group_def search_def group_of_def del: search_from.simps)
  moreover have "strip (j @ '' '') = j"
    using strip_by_back [of is_ws "CHR '' ''" j] strip_solid [OF j(2-4)]
    by (simp add: strip_def is_ws_def code_def)
  ultimately show ?thesis by (simp add: marker_payload_def l)
qed

section \<open>The interpretation as canonical JSON\<close>

lemma proper_gateway [proper_intros]: "proper (validate_gateway d)"
  by (auto simp: validate_gateway_def proper_def fail_def Let_def)

lemma validate_endpoint_iff:
  "validate_endpoint L d = Inr x \<longleftrightarrow>
     field_req nonempty_str ''site_or_node'' d = Inr (site_or_node x)
     \<and> field_req nonempty_str ''attachment'' d = Inr (attachment x)
     \<and> field_def (nullable (int_within L 1 4094)) None ''vlan'' d = Inr (vlan x)
     \<and> field_def (nullable (is_list is_str)) None ''prefixes'' d = Inr (prefixes x)
     \<and> extras [''site_or_node'', ''attachment'', ''vlan'', ''prefixes''] d = []"
  by (cases x) (auto simp: validate_endpoint_def model_iff errs_Nil proper_intros)

lemma validate_acl_intent_iff:
  "validate_acl_intent L d = Inr x \<longleftrightarrow>
     field_def (nullable is_str) None ''name'' d = Inr (ai_name x)
     \<and> field_req (literal [''ingress'', ''egress'']) ''stage'' d = Inr (ai_stage x)
     \<and> field_req (literal [''l3'', ''l3v6'']) ''type'' d = Inr (ai_type x)
     \<and> field_def (nullable (literal [''permit'', ''deny''])) None ''default_action'' d = Inr (default_action x)
     \<and> field_req (is_list (is_obj_then (validate_rule L))) ''rules'' d = Inr (ai_rules x)
     \<and> extras [''name'', ''stage'', ''type'', ''default_action'', ''rules''] d = []"
  by (cases x) (auto simp: validate_acl_intent_def model_iff errs_Nil proper_intros)

lemma validate_gateway_iff:
  "validate_gateway d = Inr x \<longleftrightarrow>
     field_def (nullable is_str) None ''ipv4'' d = Inr (gi_ipv4 x)
     \<and> field_def (nullable is_str) None ''ipv6'' d = Inr (gi_ipv6 x)
     \<and> extras [''ipv4'', ''ipv6''] d = [] \<and> (gi_ipv4 x \<noteq> None \<or> gi_ipv6 x \<noteq> None)"
  by (cases x) (auto simp: validate_gateway_def model_iff errs_Nil proper_intros fail_def split: if_splits)

lemma stable_interp_models [stable_intros]:
  "stable_model (validate_endpoint L)" "stable_model (validate_acl_intent L)" "stable_model validate_gateway"
  by (simp_all add: stable_model_def validate_endpoint_iff validate_acl_intent_iff validate_gateway_iff
      stable_req stable_field stable_intros proper_intros extras_sorted)

lemma sort_keys_scalars [simp]:
  "sort_keys (str_json x) = str_json x" "sort_keys (strs_json ps) = strs_json ps"
  by (cases x) (simp_all add: strs_json_def)

lemma sorted_lookups:
  "map_of (sorted_dict (dump_interpretation i)) k = map_option sort_keys (map_of (dump_interpretation i) k)"
  by (rule map_of_sorted_dict)

lemma map_option_sort_JStr [simp]: "map_option sort_keys (map_option JStr x) = map_option JStr x"
  by (cases x) simp_all

text \<open>Reading a part of the dump after sorting its keys.\<close>

lemma sorted_part:
  "stable p \<Longrightarrow> p j = Inr a \<Longrightarrow> p (sort_keys j) = Inr a"
  by (simp add: stable_def)

theorem validate_sorted_interpretation:
  assumes "wf_interp i"
  shows "validate_interpretation L (sorted_dict (dump_interpretation i)) = Inr i"
proof -
  let ?d = "sorted_dict (dump_interpretation i)"
  note wf = assms [unfolded wf_interp_def]
  have k: "alias_key ''preferredSpine'' ''preferred_spine'' ?d = ''preferred_spine''"
    "alias_key ''alternateSpine'' ''alternate_spine'' ?d = ''alternate_spine''"
    by (simp_all add: alias_key_def sorted_lookups dump_opt_lookups)
  have o: "field_def (nullable (literal [''vxlan'', ''srv6''])) None ''transport'' ?d = Inr (i_transport i)"
    "field_def (nullable (literal [''vpn'', ''evpn''])) None ''signalling'' ?d = Inr (i_signalling i)"
    "field_def (nullable is_str) None ''preferred_spine'' ?d = Inr (preferred_spine i)"
    "field_def (nullable is_str) None ''alternate_spine'' ?d = Inr (alternate_spine i)"
    using wf by (auto intro!: field_def_opt simp: sorted_lookups dump_opt_lookups read_back)
  have s: "field_req service_id_str ''service_id'' ?d = Inr (service_id i)"
    "field_req fold_service_type ''service_type'' ?d = Inr (service_type i)"
    "field_req tenant_rfc1123 ''tenant'' ?d = Inr (i_tenant i)"
    using wf by (simp_all add: field_req_def sorted_lookups dump_lookups read_back)
  have n: "field_def (nullable is_str) None ''source_service_type'' ?d = Inr (source_service_type i)"
    "field_def (nullable is_str) None ''bandwidth'' ?d = Inr (bandwidth i)"
    "field_def (nullable is_str) None ''sla'' ?d = Inr (sla i)"
    "field_def (is_list is_str) [] ''missing_fields'' ?d = Inr (missing_fields i)"
    "field_def (is_list is_str) [] ''unsupported_properties'' ?d = Inr (unsupported_properties i)"
    by (simp_all add: field_def_def sorted_lookups dump_lookups read_back)
  have p: "field_def (prefix_list 4) [] ''ipv4_prefixes'' ?d = Inr (ipv4_prefixes i)"
    "field_def (prefix_list 6) [] ''ipv6_prefixes'' ?d = Inr (ipv6_prefixes i)"
    using wf by (simp_all add: field_def_def sorted_lookups dump_lookups read_back)
  have "is_list (is_obj_then (validate_endpoint L)) (sort_keys (JArr (map dump_endpoint (i_endpoints i)))) = Inr (i_endpoints i)"
    by (rule sorted_part)
      (intro stable_is_list stable_is_obj_then stable_interp_models proper_intros,
       use wf in \<open>intro is_list_map ballI validate_dump_endpoint, auto\<close>)
  then have e: "field_req (\<lambda>j. nonempty_list (is_list (is_obj_then (validate_endpoint L)) j)) ''endpoints'' ?d
      = Inr (i_endpoints i)"
    using wf by (simp add: field_req_def sorted_lookups dump_lookups nonempty_list_Inr del: is_list.simps sort_keys.simps)
  have "nullable (is_obj_then (validate_acl_intent L)) (sort_keys (opt_json dump_acl_intent (i_acl i))) = Inr (i_acl i)"
    "nullable (is_obj_then validate_gateway) (sort_keys (opt_json dump_gateway (anycast_gateway i))) = Inr (anycast_gateway i)"
    by (rule sorted_part, (intro stable_nullable stable_is_obj_then stable_interp_models; fail),
        use wf in \<open>intro nullable_opt_json conjI dump_interp_not_null validate_dump_acl_intent validate_dump_gateway; auto\<close>)+
  then have m: "field_def (nullable (is_obj_then (validate_acl_intent L))) None ''acl'' ?d = Inr (i_acl i)"
    "field_def (nullable (is_obj_then validate_gateway)) None ''anycast_gateway'' ?d = Inr (anycast_gateway i)"
    by (simp_all add: field_def_def sorted_lookups dump_lookups)
  have "read_interp L ?d = Inr i"
    unfolding read_interp_def Let_def k o s n p e m by (simp add: extras_sorted extras_dump)
  moreover have "record_source_alias ?d = ?d"
    by (simp add: record_source_alias_def dget_def sorted_lookups dump_lookups)
  ultimately show ?thesis using wf by (simp add: validate_interpretation_def)
qed

end
