(* ===== verification/Dialogue.thy ===== *)
theory Dialogue
  imports Http_Facts Mapper_Wire Sup_Demo
begin

text \<open>
  The three turns of a provisioning conversation, each as one step of the thread: a request that is
  mapped, a first confirmation that is allocated, a second one that is submitted; and the concrete
  conversation the properties of the served supervisor are exercised on.
\<close>

section \<open>What the world has to do\<close>

definition in_time :: "world \<Rightarrow> request \<Rightarrow> bool" where
  "in_time w rq \<longleftrightarrow> rq_deadline rq = []
     \<or> (case from_iso w (rq_deadline rq) of None \<Rightarrow> True | Some (Aware t) \<Rightarrow> now w \<le> t | Some (Naive t) \<Rightarrow> False)"

definition answers_interpretation :: "world \<Rightarrow> string \<Rightarrow> interp \<Rightarrow> bool" where
  "answers_interpretation w u i \<longleftrightarrow>
     (\<exists>r p x. mapper w (wrap_user_text (redact_prompt u) (nonce w)) = Reply r
        \<and> extract_payload_and_text r ''MAPPED_JSON'' ''mapper'' = Inr (p, x)
        \<and> validate_mapper_payload (pyd w) p = Inr i)"

definition answers_intent :: "world \<Rightarrow> interp \<Rightarrow> normalized_intent \<Rightarrow> bool" where
  "answers_intent w i n \<longleftrightarrow>
     (\<forall>q. \<exists>r p x. allocator w q = Reply r
        \<and> extract_payload_and_text r ''DEPLOYMENT_JSON'' ''allocator'' = Inr (p, x)
        \<and> validate_allocator_payload (pyd w) (spine_nodes w) p i = Inr n)"

text \<open>A fresh request the safety layer lets pass and the classifier calls provisionable.\<close>

definition provisionable :: "world \<Rightarrow> gstate \<Rightarrow> string \<Rightarrow> bool" where
  "provisionable w s u \<longleftrightarrow> plain_request w s u \<and> detect_direct_device u = None \<and> detect_unsupported_feature u = None
     \<and> (detect_provisioning_request u \<and> detect_deployment_status_query u
        \<or> (\<exists>c. model w (wrap_user_text (redact_prompt u) (nonce w)) = Some c \<and> parse_classification c = Some Provisionable))"

lemma in_time_deadline: "in_time w rq \<Longrightarrow> deadline s = rq_deadline rq \<Longrightarrow> deadline_exceeded w s = Ok False"
  by (auto simp: in_time_def deadline_exceeded_def split: option.splits iso.splits)

section \<open>The nodes\<close>

lemma supervisor_provisions:
  "provisionable w s u \<Longrightarrow> \<exists>ev. supervisor_node w s = (Ok (start_provisioning s), ev)"
  by (auto simp: provisionable_def plain_request_fresh fresh_request_def classify_and_route_def Let_def)

lemma mapper_maps:
  assumes "last_human s = Some u" "\<not> names_srv6 u" "answers_interpretation w u i" "is_complete i"
    "i_transport i \<noteq> Some ''srv6''"
  shows "\<exists>x ev. mapper_node w s = (Ok (mapped s i x), ev)"
proof -
  from assms(3) obtain r p x where "mapper w (wrap_user_text (redact_prompt u) (nonce w)) = Reply r"
    "extract_payload_and_text r ''MAPPED_JSON'' ''mapper'' = Inr (p, x)" "validate_mapper_payload (pyd w) p = Inr i"
    by (auto simp: answers_interpretation_def)
  with assms show ?thesis
    by (auto simp: mapper_node_def call_mapper_def Let_def on_interpretation_def is_complete_def prepend_def)
qed

lemma allocator_allocates:
  assumes "mapped_parameters s = Some y" "y \<noteq> []" "read_mapped (pyd w) y = Inr i" "answers_intent w i n"
  shows "\<exists>x ev. allocator_node w s = (Ok (allocated s n x), ev)"
proof -
  let ?q = "wrap_worker_text (redact_prompt (with_correlation s y)) (nonce w)"
  from assms(4) obtain r p x where "allocator w ?q = Reply r"
    "extract_payload_and_text r ''DEPLOYMENT_JSON'' ''allocator'' = Inr (p, x)"
    "validate_allocator_payload (pyd w) (spine_nodes w) p i = Inr n"
    unfolding answers_intent_def by blast
  with assms show ?thesis by (auto simp: allocator_node_def Let_def set_text_def prepend_def)
qed

text \<open>A confirming reply at a confirmation point.\<close>

definition confirms :: "world \<Rightarrow> request \<Rightarrow> gstate \<Rightarrow> pending \<Rightarrow> bool" where
  "confirms w rq s p \<longleftrightarrow> rq_prompt rq = ''confirm'' \<and> in_time w rq \<and> awaiting_confirmation s
     \<and> pending_action s = Some p \<and> p \<noteq> Clarify \<and> submitted_resources s = None"

lemma supervisor_confirming:
  assumes "confirms w rq s p"
  shows "supervisor_node w (seed rq s) = on_confirm w (seed rq s) p"
proof -
  have "deadline_exceeded w (seed rq s) = Ok False"
    using assms by (intro in_time_deadline [of w rq]) (simp_all add: confirms_def)
  with assms show ?thesis
    by (cases p) (simp_all add: confirms_def supervisor_node_def handle_user_def confirm_text
      user_command_def asks_deployment_status_def set_text_def on_request_def on_confirmation_def)
qed

section \<open>The turns\<close>

lemma run_three:
  assumes "supervisor_node (W 24) (seed rq s) = (Ok t1, ev1)" "next_node t1 = nd" "nd \<in> {MAPPER, ALLOCATOR}"
    "run_node nd (W 23) t1 = (Ok t2, ev2)" "workflow_status t2 \<noteq> FAILED"
    "reflection_node (W 22) t2 = (Ok t3, [])" "next_node t3 = END"
  shows "turn W rq s = Some (Ok t3, ev1 @ ev2)"
    "steps_of W rq s = ([(SUPERVISOR, seed rq s, t1), (nd, t1, t2), (REFLECTION, t2, t3)], None)"
  using assms
  by (auto simp: turn_def steps_of_def RECURSION_LIMIT_def numeral_eq_Suc pick_def prepend_def failed_or_reflection_def)

lemma reflection_asks:
  "reflection_node w (mapped s i x) = (Ok (say CONFIRM_1_QUESTION ((mapped s i x)\<lparr>next_node := END\<rparr>)), [])"
  "reflection_node w (allocated s n x) = (Ok (say CONFIRM_2_QUESTION ((allocated s n x)\<lparr>next_node := END\<rparr>)), [])"
  by (simp_all add: reflection_node_def)

lemma mapping_turn:
  assumes "provisionable (W 24) (seed rq s) (rq_prompt rq)" "\<not> names_srv6 (rq_prompt rq)"
    "answers_interpretation (W 23) (rq_prompt rq) i" "is_complete i" "i_transport i \<noteq> Some ''srv6''"
  shows "\<exists>t1 x ev. turn W rq s = Some (Ok (say CONFIRM_1_QUESTION ((mapped t1 i x)\<lparr>next_node := END\<rparr>)), ev)
     \<and> t1 = start_provisioning (seed rq s)"
proof -
  obtain e1 where e1: "supervisor_node (W 24) (seed rq s) = (Ok (start_provisioning (seed rq s)), e1)"
    using supervisor_provisions [OF assms(1)] by blast
  have "last_human (start_provisioning (seed rq s)) = last_human (seed rq s)"
    by (simp add: last_human_def start_provisioning_def)
  then obtain x e2 where e2: "run_node MAPPER (W 23) (start_provisioning (seed rq s))
      = (Ok (mapped (start_provisioning (seed rq s)) i x), e2)"
    using mapper_maps [OF _ assms(2-5), of "start_provisioning (seed rq s)"] by auto
  from run_three(1) [OF e1 _ _ e2 _ reflection_asks(1)] show ?thesis by auto
qed

definition confirmed_1 :: "world \<Rightarrow> gstate \<Rightarrow> gstate" where
  "confirmed_1 w s = clear_pending (s\<lparr>next_node := ALLOCATOR, confirmation_1 := Some (decide w s Confirm)\<rparr>)"

lemma allocating_turn:
  assumes "confirms (W 24) rq s Confirm_1" "mapped_parameters s = Some y" "y \<noteq> []"
    "read_mapped (pyd (W 23)) y = Inr i" "answers_intent (W 23) i n"
  shows "\<exists>x t3 ev. turn W rq s = Some (Ok t3, ev)
     \<and> t3 = say CONFIRM_2_QUESTION ((allocated (confirmed_1 (W 24) (seed rq s)) n x)\<lparr>next_node := END\<rparr>)
     \<and> steps_of W rq s = ([(SUPERVISOR, seed rq s, confirmed_1 (W 24) (seed rq s)),
         (ALLOCATOR, confirmed_1 (W 24) (seed rq s), allocated (confirmed_1 (W 24) (seed rq s)) n x),
         (REFLECTION, allocated (confirmed_1 (W 24) (seed rq s)) n x, t3)], None)"
proof -
  let ?t = "confirmed_1 (W 24) (seed rq s)"
  obtain e1 where e1: "supervisor_node (W 24) (seed rq s) = (Ok ?t, e1)"
    using supervisor_confirming [OF assms(1)] by (simp add: on_confirm_def Let_def confirmed_1_def)
  have "mapped_parameters ?t = Some y" using assms(2) by (simp add: confirmed_1_def clear_pending_def seed_def)
  then obtain x e2 where e2: "run_node ALLOCATOR (W 23) ?t = (Ok (allocated ?t n x), e2)"
    using allocator_allocates [OF _ assms(3-5), of ?t] by auto
  have n: "next_node ?t = ALLOCATOR" by (simp add: confirmed_1_def)
  note run_three [OF e1 n _ e2 _ reflection_asks(2)]
  then show ?thesis by (intro exI [of _ x] exI conjI) auto
qed

definition confirmed_2 :: "world \<Rightarrow> gstate \<Rightarrow> gstate" where
  "confirmed_2 w s = clear_pending (s\<lparr>next_node := DEPLOYER, confirmation_2 := Some (decide w s Confirm),
     workflow_status := APPROVED\<rparr>)"

lemma submitting_turn:
  assumes "confirms (W 24) rq s Confirm_2" "tool_action s = None" "allocated_resources s = Some y" "y \<noteq> []"
    "loads y = Some j" "is_obj_then (validate_intent (pyd (W 23))) j = Inr n"
  shows "\<exists>r ev. turn W rq s = Some (r, ev)
     \<and> Call_deployer (wrap_worker_text (redact_prompt (canonical_json
          (submit_envelope (W 23) (confirmed_2 (W 24) (seed rq s)) j))) (nonce (W 23))) \<in> set ev"
proof -
  let ?t = "confirmed_2 (W 24) (seed rq s)"
  obtain e1 where e1: "supervisor_node (W 24) (seed rq s) = (Ok ?t, e1)"
    using supervisor_confirming [OF assms(1)] by (simp add: on_confirm_def Let_def confirmed_2_def)
  have "submission_intent (W 23) ?t = Inr j"
    unfolding submission_intent_Inr using assms(3-6)
    by (auto simp: confirmed_2_def clear_pending_def is_confirmed_def decide_def seed_def)
  moreover have "tool_action ?t = None" "next_node ?t = DEPLOYER"
    using assms(2) by (simp_all add: confirmed_2_def)
  ultimately obtain o2 e2 where d: "deployer_node (W 23) ?t = (o2, e2)"
    "Call_deployer (wrap_worker_text (redact_prompt (canonical_json (submit_envelope (W 23) ?t j))) (nonce (W 23))) \<in> set e2"
    by (cases "deployer_node (W 23) ?t") (auto simp: deployer_node_def submit_path_def Let_def prepend_def)
  have "\<forall>u. o2 = Ok u \<longrightarrow> next_node u = END" using deployer_end [of "W 23" ?t] d(1) by (auto simp: post_def)
  with e1 d \<open>next_node ?t = DEPLOYER\<close> show ?thesis
    by (cases o2) (auto simp: turn_def RECURSION_LIMIT_def numeral_eq_Suc pick_def prepend_def)
qed

section \<open>Stored payloads read back\<close>

lemma stored_interpretation_reads:
  assumes "answers_interpretation w u i" "json_text (JObj (dump_interpretation i))"
  shows "read_mapped L (canonical_json (JObj (dump_interpretation i))) = Inr i"
proof -
  from assms(1) have "wf_interp i"
    by (auto simp: answers_interpretation_def dest!: validate_mapper_payload_Inr validate_interpretation_wf)
  with loads_canonical [OF assms(2)] show ?thesis by (simp add: read_mapped_def validate_sorted_interpretation del: sort_keys.simps)
qed

lemma stored_intent_reads:
  assumes "answers_intent w i n" "json_text (JObj (dump_intent n))"
  shows "loads (canonical_json (JObj (dump_intent n))) = Some (sort_keys (JObj (dump_intent n)))"
    "is_obj_then (validate_intent L) (sort_keys (JObj (dump_intent n))) = Inr n"
proof -
  from assms(1) obtain p where p: "validate_allocator_payload (pyd w) (spine_nodes w) p i = Inr n"
    unfolding answers_intent_def by blast
  then obtain d where "p = Some d" by (cases p) (simp_all add: validate_allocator_payload_def)
  with p have v: "validate_intent (pyd w) d = Inr n" "valid_intent (spine_nodes w) n"
    using validate_allocator_payload_Inr by blast+
  then have "claims_sorted n" by (intro no_claims_sorted) (auto simp: valid_intent_def)
  with v show "is_obj_then (validate_intent L) (sort_keys (JObj (dump_intent n))) = Inr n"
    by (simp add: validate_sorted_intent validate_intent_wf del: sort_keys.simps)
qed (rule loads_canonical [OF assms(2)])

text \<open>What a thread keeps from one turn to the next.\<close>

lemma mapped_thread:
  assumes "s1 = say CONFIRM_1_QUESTION ((mapped (start_provisioning t) i x)\<lparr>next_node := END\<rparr>)"
  shows "awaiting_confirmation s1" "pending_action s1 = Some Confirm_1" "submitted_resources s1 = None"
    "tool_action s1 = None" "mapped_parameters s1 = Some (canonical_json (JObj (dump_interpretation i)))"
  by (simp_all add: assms) (simp_all add: mapped_def start_provisioning_def)

lemma allocated_thread:
  assumes "s2 = say CONFIRM_2_QUESTION ((allocated (confirmed_1 w (seed rq s)) n x)\<lparr>next_node := END\<rparr>)"
  shows "awaiting_confirmation s2" "pending_action s2 = Some Confirm_2" "submitted_resources s2 = submitted_resources s"
    "tool_action s2 = tool_action s" "allocated_resources s2 = Some (canonical_json (JObj (dump_intent n)))"
  by (simp_all add: assms) (simp_all add: allocated_def confirmed_1_def clear_pending_def seed_def)

section \<open>The conversation\<close>

lemma three_turns:
  assumes "provisionable (W1 24) (seed rq1 s) (rq_prompt rq1)" "\<not> names_srv6 (rq_prompt rq1)"
    "answers_interpretation (W1 23) (rq_prompt rq1) i" "is_complete i" "i_transport i \<noteq> Some ''srv6''"
    "rq_prompt rq2 = ''confirm''" "in_time (W2 24) rq2" "answers_intent (W2 23) i n"
    "rq_prompt rq3 = ''confirm''" "in_time (W3 24) rq3"
    "json_text (JObj (dump_interpretation i))" "json_text (JObj (dump_intent n))"
  obtains s1 e1 s2 e2 x r e3 where
    "turn W1 rq1 s = Some (Ok s1, e1)" "correlation_id s1 = rq_correlation_id rq1"
    "turn W2 rq2 s1 = Some (Ok s2, e2)" "allocated_resources s2 = Some (canonical_json (JObj (dump_intent n)))"
    "steps_of W2 rq2 s1 = ([(SUPERVISOR, seed rq2 s1, confirmed_1 (W2 24) (seed rq2 s1)),
         (ALLOCATOR, confirmed_1 (W2 24) (seed rq2 s1), allocated (confirmed_1 (W2 24) (seed rq2 s1)) n x),
         (REFLECTION, allocated (confirmed_1 (W2 24) (seed rq2 s1)) n x, s2)], None)"
    "turn W3 rq3 s2 = Some (r, e3)"
    "Call_deployer (wrap_worker_text (redact_prompt (canonical_json (submit_envelope (W3 23)
         (confirmed_2 (W3 24) (seed rq3 s2)) (sort_keys (JObj (dump_intent n)))))) (nonce (W3 23))) \<in> set e3"
proof -
  obtain s1 x1 e1 where t1: "turn W1 rq1 s = Some (Ok s1, e1)"
    "s1 = say CONFIRM_1_QUESTION ((mapped (start_provisioning (seed rq1 s)) i x1)\<lparr>next_node := END\<rparr>)"
    using mapping_turn [of W1 rq1 s i] assms(1-5) by blast
  note m = mapped_thread [OF t1(2)]
  have c1: "correlation_id s1 = rq_correlation_id rq1"
    by (simp add: t1(2) mapped_def start_provisioning_def seed_def add_messages_def)
  have r1: "read_mapped (pyd (W2 23)) (canonical_json (JObj (dump_interpretation i))) = Inr i"
    by (rule stored_interpretation_reads [OF assms(3,11)])
  have "confirms (W2 24) rq2 s1 Confirm_1" using assms(6,7) m by (simp add: confirms_def)
  from allocating_turn [where W = W2, OF this m(5) canonical_object_nonempty r1 assms(8)]
  obtain x s2 e2 where t2: "turn W2 rq2 s1 = Some (Ok s2, e2)"
    "s2 = say CONFIRM_2_QUESTION ((allocated (confirmed_1 (W2 24) (seed rq2 s1)) n x)\<lparr>next_node := END\<rparr>)"
    "steps_of W2 rq2 s1 = ([(SUPERVISOR, seed rq2 s1, confirmed_1 (W2 24) (seed rq2 s1)),
         (ALLOCATOR, confirmed_1 (W2 24) (seed rq2 s1), allocated (confirmed_1 (W2 24) (seed rq2 s1)) n x),
         (REFLECTION, allocated (confirmed_1 (W2 24) (seed rq2 s1)) n x, s2)], None)"
    by blast
  note a = allocated_thread [OF t2(2)]
  have "confirms (W3 24) rq3 s2 Confirm_2" using assms(9,10) a m by (simp add: confirms_def)
  have "tool_action s2 = None" using a(4) m(4) by simp
  from submitting_turn [where W = W3, OF \<open>confirms (W3 24) rq3 s2 Confirm_2\<close> this a(5) canonical_object_nonempty
      stored_intent_reads(1) [OF assms(8,12)] stored_intent_reads(2) [OF assms(8,12)]]
  obtain r e3 where "turn W3 rq3 s2 = Some (r, e3)"
    "Call_deployer (wrap_worker_text (redact_prompt (canonical_json (submit_envelope (W3 23)
         (confirmed_2 (W3 24) (seed rq3 s2)) (sort_keys (JObj (dump_intent n)))))) (nonce (W3 23))) \<in> set e3"
    by blast
  with that t1(1) c1 t2 a(5) show thesis by blast
qed

text \<open>The stream of the second turn shows the allocation.\<close>

lemma allocation_in_stream:
  assumes "up_node u1 = SUPERVISOR" "up_status u1 = Some RECEIVED_REQUEST" "up_pending u1 = None"
    "up_node u2 = ALLOCATOR" "up_status u2 = Some ALLOCATED" "up_allocated u2 = Some y" "y \<noteq> []" "loads y = Some j"
  shows "with_correlation_id (correlation_for E p) (stage_chunk ''allocator'' ALLOCATED j)
     \<in> set (stream_chunks E p (u1 # u2 # us) exn)"
proof -
  have one: "on_update err u1 stream_start = ([], Next (absorb u1 stream_start))" for err
    using assms(1-3) by (simp add: on_update_def absorb_def)
  obtain d f where two: "on_update err u2 (absorb u1 stream_start) = (stage_chunk ''allocator'' ALLOCATED j # d, Next f)" for err
    using assms(4-8)
    by (simp add: on_update_def absorb_def ask_stage_def loads_or_raise_def text_or_default_def set_text_def)
  show ?thesis by (simp add: stream_chunks_def one two split: prod.split)
qed

section \<open>A concrete conversation\<close>

text \<open>One world for the three turns: it classifies, maps and allocates the same vlan service.\<close>

definition demo_service_world :: world where
  "demo_service_world = (demo_world (demo_reply [(''submitted'', JArr [])]))
     \<lparr>mapper := demo_reply demo_interpretation, allocator := demo_reply demo_vlan_intent\<rparr>"

definition demo_prompt :: string where "demo_prompt = ''vlan 130 on leaf01 eth1''"

definition demo_interp :: interp where
  "demo_interp = (case validate_interpretation demo_lax demo_interpretation of Inr i \<Rightarrow> i)"

definition demo_allocated :: normalized_intent where
  "demo_allocated = (case validate_intent demo_lax demo_vlan_intent of Inr n \<Rightarrow> n)"

lemma demo_prompt_facts:
  "find_constructs demo_prompt = [''vlan'']" "detect_direct_device demo_prompt = None"
  "detect_unsupported_feature demo_prompt = None" "\<not> names_srv6 demo_prompt"
  "search_group STATUS_OF_SERVICE ''sid'' (strip (lower demo_prompt)) = None"
  "search_group REMOVE_SERVICE ''sid'' (strip (lower demo_prompt)) = None"
  "search_group REMOVE_CORRELATION ''cid'' (strip (lower demo_prompt)) = None"
  "parse_classification ''provisionable'' = Some Provisionable"
  by code_simp+

lemma demo_payloads:
  "validate_interpretation demo_lax demo_interpretation = Inr demo_interp"
  "validate_intent demo_lax demo_vlan_intent = Inr demo_allocated"
proof -
  have "\<not> is_err (validate_interpretation demo_lax demo_interpretation)" by code_simp
  then show "validate_interpretation demo_lax demo_interpretation = Inr demo_interp"
    by (cases "validate_interpretation demo_lax demo_interpretation") (simp_all add: demo_interp_def)
  have "\<not> is_err (validate_intent demo_lax demo_vlan_intent)" by code_simp
  then show "validate_intent demo_lax demo_vlan_intent = Inr demo_allocated"
    by (cases "validate_intent demo_lax demo_vlan_intent") (simp_all add: demo_allocated_def)
qed

lemma demo_interp_facts:
  "is_complete demo_interp" "i_transport demo_interp = None"
  "validate_allocator_payload demo_lax None (Some demo_vlan_intent) demo_interp = Inr demo_allocated"
  "ascii_json (JObj (dump_interpretation demo_interp))" "ascii_json (JObj (dump_intent demo_allocated))"
  "extract_payload_and_text (Bare (Message [DataPart demo_interpretation])) ''MAPPED_JSON'' ''mapper'' = Inr (Some demo_interpretation, [])"
  "extract_payload_and_text (Bare (Message [DataPart demo_vlan_intent])) ''DEPLOYMENT_JSON'' ''allocator'' = Inr (Some demo_vlan_intent, [])"
  by code_simp+

lemma demo_answers:
  "answers_interpretation demo_service_world u demo_interp" "answers_intent demo_service_world demo_interp demo_allocated"
  by (simp_all add: answers_interpretation_def answers_intent_def demo_service_world_def demo_world_def demo_reply_def
      demo_interp_facts validate_mapper_payload_def demo_payloads)

lemma demo_texts:
  "json_text (JObj (dump_interpretation demo_interp))" "json_text (JObj (dump_intent demo_allocated))"
  by (rule ascii_json_text, rule demo_interp_facts)+

lemma demo_in_time: "in_time demo_service_world (demo_request u)"
  by (simp add: in_time_def demo_request_def)

lemma demo_model: "model demo_service_world q = Some ''provisionable''"
  by (simp add: demo_service_world_def demo_world_def)

lemma demo_provisionable: "provisionable demo_service_world (seed (demo_request demo_prompt) new_thread) demo_prompt"
proof -
  let ?s = "seed (demo_request demo_prompt) new_thread"
  have "deadline_exceeded demo_service_world ?s = Ok False"
    by (rule in_time_deadline [OF demo_in_time]) simp
  moreover have "iteration_count ?s < MAX_ITERATIONS" "\<not> awaiting_confirmation ?s" "submitted_resources ?s = None"
    "rq_prompt (demo_request demo_prompt) = demo_prompt"
    by (simp_all add: demo_request_def new_thread_def MAX_ITERATIONS_def)
  ultimately show ?thesis
    using demo_prompt_facts demo_model
    by (simp add: provisionable_def plain_request_def user_command_def asks_deployment_status_def set_text_def)
qed

lemma demo_conversation:
  obtains s1 e1 s2 e2 x r e3 where
    "turn (\<lambda>_. demo_service_world) (demo_request demo_prompt) new_thread = Some (Ok s1, e1)" "correlation_id s1 = ''c''"
    "turn (\<lambda>_. demo_service_world) (demo_request ''confirm'') s1 = Some (Ok s2, e2)"
    "allocated_resources s2 = Some (canonical_json (JObj (dump_intent demo_allocated)))"
    "steps_of (\<lambda>_. demo_service_world) (demo_request ''confirm'') s1
       = ([(SUPERVISOR, seed (demo_request ''confirm'') s1, confirmed_1 demo_service_world (seed (demo_request ''confirm'') s1)),
         (ALLOCATOR, confirmed_1 demo_service_world (seed (demo_request ''confirm'') s1),
            allocated (confirmed_1 demo_service_world (seed (demo_request ''confirm'') s1)) demo_allocated x),
         (REFLECTION, allocated (confirmed_1 demo_service_world (seed (demo_request ''confirm'') s1)) demo_allocated x, s2)], None)"
    "turn (\<lambda>_. demo_service_world) (demo_request ''confirm'') s2 = Some (r, e3)"
    "Call_deployer (wrap_worker_text (redact_prompt (canonical_json (submit_envelope demo_service_world
       (confirmed_2 demo_service_world (seed (demo_request ''confirm'') s2))
       (sort_keys (JObj (dump_intent demo_allocated)))))) (nonce demo_service_world)) \<in> set e3"
proof -
  have p: "rq_prompt (demo_request u) = u" "rq_correlation_id (demo_request u) = ''c''" for u by (simp_all add: demo_request_def)
  have t: "i_transport demo_interp \<noteq> Some ''srv6''" using demo_interp_facts(2) by simp
  show thesis
    by (rule three_turns [of "\<lambda>_. demo_service_world" "demo_request demo_prompt" new_thread demo_interp
          "demo_request ''confirm''" "\<lambda>_. demo_service_world" demo_allocated "demo_request ''confirm''" "\<lambda>_. demo_service_world"])
      (use demo_provisionable demo_prompt_facts(4) demo_answers demo_interp_facts(1) t demo_in_time demo_texts in
        \<open>simp_all add: p that\<close>)
qed

end
