(* ===== verification/Transport.thy ===== *)
theory Transport
  imports Sup_State
begin

text \<open>
  The supervisor's worker calls, src/agents/supervisors/provisioning/graph/tools.py: the cards by
  capability, the SLIM requirement, and one call with its timeout, its retries and its backoff. What
  an attempt over the A2A library gives is the parameter \<open>net\<close>; a call returns its result and the
  trace of what it did. Times are milliseconds.
\<close>

section \<open>Cards\<close>

record agent_card =
  card_name :: string
  card_id :: string
  card_skills :: "string list"

definition MAPPER_CARD :: agent_card where
  "MAPPER_CARD = \<lparr>card_name = ''Network Mapping Agent'',
     card_id = ''agentic-netops/provisioning/network-mapping'', card_skills = [''map_network_request'']\<rparr>"

definition ALLOCATOR_CARD :: agent_card where
  "ALLOCATOR_CARD = \<lparr>card_name = ''Network Allocator Agent'',
     card_id = ''agentic-netops/provisioning/network-allocator'',
     card_skills = [''allocate_network_service'']\<rparr>"

definition DEPLOYER_CARD :: agent_card where
  "DEPLOYER_CARD = \<lparr>card_name = ''Network Deployer Agent'',
     card_id = ''agentic-netops/provisioning/network-deployer'',
     card_skills = [''deploy_network_service'']\<rparr>"

definition CAPABILITY_CARDS :: "(string \<times> agent_card) list" where
  "CAPABILITY_CARDS =
     map (\<lambda>c. (hd (card_skills c), c)) [MAPPER_CARD, ALLOCATOR_CARD, DEPLOYER_CARD]"

section \<open>A call\<close>

text \<open>
  What an attempt raises: a transport failure (\<open>TimeoutError\<close>, \<open>ConnectionError\<close>, \<open>OSError\<close>), a
  refused registration (\<open>AuthError\<close>), or any other exception.
\<close>

datatype attempt_failure = Unreached string | Auth_refused string | Protocol_failure string

text \<open>What a call raises: \<open>ValueError\<close>, \<open>KeyError\<close>, or \<open>WorkerUnavailableError\<close> with its cause.\<close>

datatype send_error = Not_slim | Unknown_capability string | Worker_unavailable string string

record transport_config =
  default_transport :: string
  worker_timeout :: int
  deployer_timeout :: int
  worker_retries :: int

datatype send_step = Attempt nat | Backoff int

definition RETRY_BACKOFF :: int where "RETRY_BACKOFF = 1000"

definition card_for_capability :: "string \<Rightarrow> send_error + agent_card" where
  "card_for_capability cap =
     (case map_of CAPABILITY_CARDS cap of Some c \<Rightarrow> Inr c | None \<Rightarrow> Inl (Unknown_capability cap))"

definition require_slim :: "transport_config \<Rightarrow> send_error + unit" where
  "require_slim C = (if default_transport C \<noteq> ''SLIM'' then Inl Not_slim else Inr ())"

text \<open>The rounds of the loop over \<open>range(WORKER_CALL_RETRIES + 1)\<close>, with the last error so far.\<close>

fun send_rounds :: "(nat \<Rightarrow> attempt_failure + 'a) \<Rightarrow> string \<Rightarrow> int \<Rightarrow> nat list \<Rightarrow> string \<Rightarrow>
    (send_error + 'a) \<times> send_step list" where
  "send_rounds net worker retries [] last_error = (Inl (Worker_unavailable worker last_error), [])"
| "send_rounds net worker retries (n # ns) last_error =
     (case net n of
        Inr r \<Rightarrow> (Inr r, [Attempt n])
      | Inl (Unreached e) \<Rightarrow>
          (let (r, tr) = send_rounds net worker retries ns e
           in (r, Attempt n # (if int n < retries then [Backoff (RETRY_BACKOFF * (int n + 1))] else []) @ tr))
      | Inl (Auth_refused e) \<Rightarrow> (Inl (Worker_unavailable worker e), [Attempt n])
      | Inl (Protocol_failure e) \<Rightarrow> (Inl (Worker_unavailable worker e), [Attempt n]))"

definition attempts_of :: "transport_config \<Rightarrow> nat list" where
  "attempts_of C = [0..<nat (worker_retries C + 1)]"

type_synonym 'a network = "agent_card \<Rightarrow> string \<Rightarrow> int \<Rightarrow> nat \<Rightarrow> attempt_failure + 'a"

definition send_text :: "transport_config \<Rightarrow> 'a network \<Rightarrow> string \<Rightarrow> agent_card \<Rightarrow> string \<Rightarrow> int option \<Rightarrow>
    (send_error + 'a) \<times> send_step list" where
  "send_text C net worker crd txt timeout_seconds =
     (case require_slim C of
        Inl e \<Rightarrow> (Inl e, [])
      | Inr _ \<Rightarrow>
          (let call_timeout = (case timeout_seconds of None \<Rightarrow> worker_timeout C | Some t \<Rightarrow> t)
           in send_rounds (net crd txt call_timeout) worker (worker_retries C) (attempts_of C) ''None''))"

definition send_by_capability :: "transport_config \<Rightarrow> 'a network \<Rightarrow> string \<Rightarrow> string \<Rightarrow> string \<Rightarrow> int option \<Rightarrow>
    (send_error + 'a) \<times> send_step list" where
  "send_by_capability C net worker cap txt timeout_seconds =
     (case card_for_capability cap of
        Inl e \<Rightarrow> (Inl e, []) | Inr c \<Rightarrow> send_text C net worker c txt timeout_seconds)"

definition call_mapper_agent :: "transport_config \<Rightarrow> 'a network \<Rightarrow> string \<Rightarrow> (send_error + 'a) \<times> send_step list" where
  "call_mapper_agent C net user_message =
     send_by_capability C net ''mapper'' ''map_network_request'' user_message None"

definition call_allocator_agent :: "transport_config \<Rightarrow> 'a network \<Rightarrow> string \<Rightarrow> (send_error + 'a) \<times> send_step list" where
  "call_allocator_agent C net interpretation_json =
     send_by_capability C net ''allocator'' ''allocate_network_service'' interpretation_json None"

definition call_deployer_agent :: "transport_config \<Rightarrow> 'a network \<Rightarrow> string \<Rightarrow> (send_error + 'a) \<times> send_step list" where
  "call_deployer_agent C net payload_json =
     send_by_capability C net ''deployer'' ''deploy_network_service'' payload_json (Some (deployer_timeout C))"

text \<open>
  What the supervisor's nodes see of a call: its reply, or the text of the unavailability they catch.
  The other two exceptions leave the node.
\<close>

definition reply_of :: "send_error + worker_result \<Rightarrow> reply result" where
  "reply_of r =
     (case r of
        Inr x \<Rightarrow> Ok (Reply x)
      | Inl (Worker_unavailable worker cause) \<Rightarrow> Ok (Unreachable (unavailable_text worker cause))
      | Inl Not_slim \<Rightarrow> Crash ''ValueError: Only SLIM transport is supported for provisioning agents.''
      | Inl (Unknown_capability cap) \<Rightarrow> Crash (''KeyError: '' @ repr cap))"

section \<open>Facts\<close>

text \<open>The time a call takes at most, when each attempt ends within its timeout.\<close>

fun step_time :: "int \<Rightarrow> send_step \<Rightarrow> int" where
  "step_time timeout (Attempt n) = timeout"
| "step_time timeout (Backoff t) = t"

definition call_time :: "int \<Rightarrow> send_step list \<Rightarrow> int" where
  "call_time timeout tr = sum_list (map (step_time timeout) tr)"

fun attempt_number :: "send_step \<Rightarrow> nat option" where
  "attempt_number (Attempt n) = Some n"
| "attempt_number (Backoff t) = None"

definition attempts_in :: "send_step list \<Rightarrow> nat list" where
  "attempts_in tr = List.map_filter attempt_number tr"

lemma attempts_in_simps [simp]:
  "attempts_in [] = []" "attempts_in (Attempt n # tr) = n # attempts_in tr"
  "attempts_in (Backoff t # tr) = attempts_in tr"
  by (simp_all add: attempts_in_def map_filter_simps)

lemma call_time_simps [simp]:
  "call_time t [] = 0" "call_time t (x # tr) = step_time t x + call_time t tr"
  by (simp_all add: call_time_def)

text \<open>Rounds numbered from k on: the outcome is decided by the first attempt that is not a transport failure.\<close>

lemma send_rounds_reaches:
  assumes "k \<le> m" "m < n" "\<forall>i. k \<le> i \<and> i < m \<longrightarrow> (\<exists>e. net i = Inl (Unreached e))" "net m = Inr r"
  shows "fst (send_rounds net worker R [k..<n] e0) = Inr r
       \<and> attempts_in (snd (send_rounds net worker R [k..<n] e0)) = [k..<Suc m]"
  using assms
proof (induction "m - k" arbitrary: k e0)
  case 0
  then show ?case by (simp add: upt_conv_Cons)
next
  case (Suc d)
  then obtain e where e: "net k = Inl (Unreached e)" by force
  have "d = m - Suc k" "Suc k \<le> m" using Suc.hyps(2) by auto
  from Suc.hyps(1) [OF this Suc.prems(2) _ Suc.prems(4), of e] Suc.prems(3)
  have "fst (send_rounds net worker R [Suc k..<n] e) = Inr r"
    "attempts_in (snd (send_rounds net worker R [Suc k..<n] e)) = [Suc k..<Suc m]" by auto
  with e Suc.prems(1,2) show ?case by (simp add: upt_conv_Cons split_beta)
qed

lemma send_rounds_attempts:
  "\<exists>j. j \<le> n \<and> attempts_in (snd (send_rounds net worker R [k..<n] e0)) = [k..<max k j]"
proof (induction "n - k" arbitrary: k e0)
  case 0
  then show ?case by (auto intro: exI [of _ 0])
next
  case (Suc d)
  then have k: "[k..<n] = k # [Suc k..<n]" "d = n - Suc k" "k < n" by (auto simp: upt_conv_Cons)
  show ?case
  proof (cases "\<exists>e. net k = Inl (Unreached e)")
    case True
    then obtain e where e: "net k = Inl (Unreached e)" by blast
    from Suc.hyps(1) [OF k(2), of e] obtain j where
      "j \<le> n" "attempts_in (snd (send_rounds net worker R [Suc k..<n] e)) = [Suc k..<max (Suc k) j]" by blast
    with e k show ?thesis
      by (intro exI [of _ "max (Suc k) j"]) (auto simp: split_beta upt_conv_Cons max_def)
  next
    case False
    with k show ?thesis
      by (intro exI [of _ "Suc k"]) (auto simp: upt_conv_Cons split: sum.split attempt_failure.split)
  qed
qed

text \<open>The time of the rounds from k on: an attempt each, and the growing pauses between them.\<close>

definition pauses :: "nat \<Rightarrow> nat \<Rightarrow> int" where
  "pauses k n = (\<Sum>i = k..<n. RETRY_BACKOFF * (int i + 1))"

lemma pauses_step: "pauses k n = (if k < n then RETRY_BACKOFF * (int k + 1) + pauses (Suc k) n else 0)"
  by (simp add: pauses_def sum.atLeast_Suc_lessThan)

lemma pauses_done: "n \<le> k \<Longrightarrow> pauses k n = 0"
  by (simp add: pauses_def)

lemma pauses_nonneg: "0 \<le> pauses k n"
  by (simp add: pauses_def RETRY_BACKOFF_def sum_nonneg)

lemma pauses_total: "pauses 0 n = 500 * int n * (int n + 1)"
  by (induction n) (simp_all add: pauses_def RETRY_BACKOFF_def algebra_simps)

lemma send_rounds_time:
  assumes "0 \<le> timeout"
  shows "call_time timeout (snd (send_rounds net worker R [k..<n] e0))
       \<le> int (n - k) * timeout + pauses k (nat R)"
proof (induction "n - k" arbitrary: k e0)
  case 0
  then show ?case using pauses_nonneg [of k "nat R"] by simp
next
  case (Suc d)
  then have k: "[k..<n] = k # [Suc k..<n]" "d = n - Suc k" "int (n - k) = 1 + int (n - Suc k)"
    by (auto simp: upt_conv_Cons)
  have one: "timeout \<le> int (n - k) * timeout + pauses k (nat R)"
    using assms pauses_nonneg [of k "nat R"] unfolding k(3) by (simp add: algebra_simps)
  show ?case
  proof (cases "\<exists>e. net k = Inl (Unreached e)")
    case True
    then obtain e where e: "net k = Inl (Unreached e)" by blast
    have "int k < R \<longleftrightarrow> k < nat R" by linarith
    with e k Suc.hyps(1) [OF k(2), of e] show ?thesis
      by (cases "k < nat R") (simp_all add: split_beta pauses_step [of k] pauses_done algebra_simps)
  next
    case False
    with k(1) one show ?thesis by (auto split: sum.split attempt_failure.split)
  qed
qed

text \<open>A refused or failed worker is reported as unavailable, like one that was never reached.\<close>

lemma failure_reported_as_unavailable:
  assumes "default_transport C = ''SLIM''" "0 \<le> worker_retries C" "net crd txt (worker_timeout C) 0 = Inl (Protocol_failure e)"
  shows "send_text C net worker crd txt None = (Inl (Worker_unavailable worker e), [Attempt 0])"
proof -
  have "attempts_of C = 0 # [1..<nat (worker_retries C + 1)]"
    using assms(2) by (simp add: attempts_of_def upt_conv_Cons)
  with assms show ?thesis by (simp add: send_text_def require_slim_def)
qed

end
