(* ===== verification/Service.thy ===== *)
theory Service
  imports Dialogue Transport
begin

text \<open>
  The supervisor as it is served: the NDJSON stream of a turn and what it tells of the run, the
  correlation id over the turns of a conversation, the calls of the workers, the audit records, and
  the conversation of three turns that submits a service.
\<close>

section \<open>The stream\<close>

lemma stream_chunks_eq:
  "consume (api_json_error E) us exn stream_start = (cs, r) \<Longrightarrow>
     stream_chunks E p us exn = map (with_correlation_id (correlation_for E p))
       (first_chunk (thread_for E p) # cs @ [closing_chunk r])"
  by (simp add: stream_chunks_def)

lemma dget_with_correlation [simp]:
  "k \<noteq> ''correlation_id'' \<Longrightarrow> dget (with_correlation_id c d) k = dget d k"
  "\<not> has_key ''correlation_id'' d \<Longrightarrow> dget (with_correlation_id c d) ''correlation_id'' = JStr c"
  by (auto simp: with_correlation_id_def dget_def has_key_def map_add_def split: option.splits)

definition known_status :: "json \<Rightarrow> bool" where
  "known_status j \<longleftrightarrow> j \<in> status_json ` set statuses"

lemma known_status_json [simp]: "known_status (status_json st)"
  by (cases st) (simp_all add: known_status_def statuses_def)

definition INNER_TYPES :: "string list" where
  "INNER_TYPES = [''clarification_request'', ''stage'', ''confirmation_request'', ''progress'']"

lemma inner_types: "inner_chunk d \<Longrightarrow> dget d ''type'' \<in> JStr ` set INNER_TYPES
    \<and> (dget d ''type'' = JStr ''confirmation_request'' \<or> known_status (dget d ''status''))"
  by (induction rule: inner_chunk.induct)
    (simp_all add: INNER_TYPES_def clarification_chunk_def stage_chunk_def confirmation_chunk_def tools_chunk_def
      deployer_chunk_def progress_chunk_def Let_def dget_def)

lemma closing_types: "dget (closing_chunk r) ''type'' \<in> {JStr ''final'', JStr ''error''}"
  "known_status (dget (closing_chunk r) ''status'')"
  by (simp_all add: closing_chunk_def crash_chunk_def error_chunk_def final_chunk_def dget_def split: sum.split)

text \<open>
  C13. A stream opens with the status chunk of the request and closes with exactly one final or
  error chunk; between them are clarification, stage, confirmation and progress chunks. Every chunk
  carries the correlation id of the request, and every chunk but a confirmation request a status of
  the vocabulary.
\<close>

theorem stream_well_formed:
  "\<exists>mid closing. stream_chunks E p us exn
       = with_correlation_id (correlation_for E p) (first_chunk (thread_for E p)) # mid @ [closing]
     \<and> list_all (\<lambda>d. dget d ''type'' \<in> JStr ` set INNER_TYPES) mid
     \<and> dget closing ''type'' \<in> {JStr ''final'', JStr ''error''}
     \<and> list_all (\<lambda>d. dget d ''correlation_id'' = JStr (correlation_for E p)) (stream_chunks E p us exn)
     \<and> list_all (\<lambda>d. dget d ''type'' = JStr ''confirmation_request'' \<or> known_status (dget d ''status''))
         (stream_chunks E p us exn)"
proof -
  obtain cs r where c: "consume (api_json_error E) us exn stream_start = (cs, r)" by fastforce
  let ?w = "with_correlation_id (correlation_for E p)"
  have s: "stream_chunks E p us exn = ?w (first_chunk (thread_for E p)) # map ?w cs @ [?w (closing_chunk r)]"
    by (simp add: stream_chunks_eq [OF c])
  have "\<forall>d \<in> set cs. inner_chunk d" using consume_inner [OF c] by (simp add: list_all_iff)
  then have "list_all (\<lambda>d. dget d ''type'' \<in> JStr ` set INNER_TYPES) (map ?w cs)"
    "list_all (\<lambda>d. dget d ''correlation_id'' = JStr (correlation_for E p)) (map ?w cs)"
    "list_all (\<lambda>d. dget d ''type'' = JStr ''confirmation_request'' \<or> known_status (dget d ''status'')) (map ?w cs)"
    using inner_types inner_no_correlation by (auto simp: list_all_iff)
  moreover have "dget (first_chunk (thread_for E p)) ''status'' = status_json RECEIVED_REQUEST"
    by (simp add: first_chunk_def dget_def)
  ultimately show ?thesis unfolding s using closing_types [of r]
    by (intro exI [of _ "map ?w cs"] exI [of _ "?w (closing_chunk r)"] conjI) auto
qed

text \<open>The module says every chunk carries a status; the confirmation requests have none.\<close>

lemma confirmation_request_without_status: "dget (confirmation_chunk stg q) ''status'' = JNull"
  by (simp add: confirmation_chunk_def dget_def)

text \<open>The stage an error names is the first word of any reason with a colon, and may be no stage.\<close>

lemma error_names_no_stage:
  "responsible_stage_from_reason ''unsupported properties: qos (no equivalent in the fabric)'' = ''unsupported''"
  "responsible_stage_from_reason SRV6_R4_REASON = ''SRv6''"
  by code_simp+

text \<open>The question of the stream leaves out what the node asks of an SRv6 request, and suppresses the node's text.\<close>

lemma stream_drops_srv6_questions:
  assumes "up_node u = MAPPER" "up_status u = Some MAPPED" "up_pending u = Some Clarify"
    "up_missing u = Some [''srv6_prefix'']"
  shows "on_update err u a = ([clarification_chunk MAPPED [''srv6_prefix'']], Next ((absorb u a)\<lparr>sa_suppress := True\<rparr>))"
  using assms by (simp add: on_update_def absorb_def Let_def)

lemma seed_live: "stream_live SUPERVISOR (seed rq s)"
  by (simp add: stream_live_def)

lemma seed_tells: "tells (seed rq s) stream_start"
  by (simp add: tells_def stream_start_def)

text \<open>
  C12. The last chunk is the outcome of the turn. A turn that failed closes with an error chunk of
  its reason and suggestion, any other with a final chunk of its status; an internal error closes
  the stream only when the turn crashed or a stored text does not read as JSON.
\<close>

theorem stream_tells_the_outcome:
  assumes "turn W (request_of E p) s = Some (res, ev)"
    "list_all2 update_of (fst (steps_of W (request_of E p) s)) us"
  shows "\<exists>d. last (stream_chunks E p us (snd (steps_of W (request_of E p) s))) = with_correlation_id (correlation_for E p) d
     \<and> ((\<exists>x. d = crash_chunk x \<and> (res = Crash x \<or> list_ex unreadable us))
       \<or> (\<exists>t. res = Ok t \<and> workflow_status t = FAILED
            \<and> d = error_chunk (text_or_default (refusal_reason t) ''request failed'') (text_or_default (suggestion t) []))
       \<or> (\<exists>t b. res = Ok t \<and> workflow_status t \<noteq> FAILED \<and> sa_status b = workflow_status t \<and> d = final_chunk b))"
proof -
  obtain cs r where c: "consume (api_json_error E) us (snd (steps_of W (request_of E p) s)) stream_start = (cs, r)"
    by fastforce
  have k: "case r of Inl x \<Rightarrow> res = Crash x \<or> list_ex unreadable us | Inr b \<Rightarrow> \<exists>t. res = Ok t \<and> tells t b"
    using consume_run [OF _ seed_live seed_tells] assms c unfolding steps_of_def turn_def by blast
  have "last (stream_chunks E p us (snd (steps_of W (request_of E p) s)))
      = with_correlation_id (correlation_for E p) (closing_chunk r)"
    by (simp add: stream_chunks_eq [OF c])
  then show ?thesis
    using k by (intro exI [of _ "closing_chunk r"] conjI) (auto simp: closing_chunk_def tells_def split: sum.splits)
qed

text \<open>Every step has an update: the one that returns every key.\<close>

definition full_update :: "node \<times> gstate \<times> gstate \<Rightarrow> node_update" where
  "full_update st = (case st of (nd, s, t) \<Rightarrow>
     \<lparr>up_node = nd, up_messages = messages t, up_status = Some (workflow_status t), up_pending = pending_action t,
      up_missing = st_missing_fields t, up_mapped = mapped_parameters t, up_allocated = allocated_resources t,
      up_tool_result = tool_result t, up_tool_action = tool_action t, up_convergence = convergence t,
      up_submitted = submitted_resources t, up_reason = Some (refusal_reason t), up_suggestion = Some (suggestion t)\<rparr>)"

lemma full_updates: "list_all2 update_of xs (map full_update xs)"
  by (induction xs) (auto simp: full_update_def update_of_def merges_def)

text \<open>Requests over HTTP for the concrete conversation.\<close>

definition demo_http :: http_env where
  "demo_http = \<lparr>fresh_correlation = ''c'', fresh_thread = ''t'', http_deadline = [], checkpointed = (\<lambda>_. None),
     api_json_error = (\<lambda>_. ''bad json'')\<rparr>"

definition demo_post :: "string \<Rightarrow> prompt_request" where
  "demo_post u = \<lparr>pr_prompt = u, pr_thread_id = Some ''t'', pr_principal = Some ''op''\<rparr>"

lemma demo_post_request:
  "request_of demo_http (demo_post u) = demo_request u"
  "request_of (demo_http\<lparr>checkpointed := (checkpointed demo_http)(''t'' := Some [])\<rparr>) (demo_post u) = demo_request u"
  "request_of (demo_http\<lparr>checkpointed := (checkpointed demo_http)(''t'' := Some ''c'')\<rparr>) (demo_post u) = demo_request u"
  by (simp_all add: request_of_def correlation_for_def principal_for_def demo_http_def demo_post_def demo_request_def
      set_text_def Let_def)

definition demo_device :: string where
  "demo_device = ''please SSH into leaf01''"

lemma demo_refused_run:
  "(case turn (\<lambda>_. demo_world (\<lambda>_. Unreachable [])) (demo_request demo_device) new_thread of
     Some (Ok t, _) \<Rightarrow> workflow_status t = FAILED | _ \<Rightarrow> False)"
  "list_ex unreadable (map full_update (fst (steps_of (\<lambda>_. demo_world (\<lambda>_. Unreachable [])) (demo_request demo_device) new_thread)))
     = False"
  by code_simp+

theorem stream_tells_the_outcome_witness:
  "\<exists>r g. last (stream_chunks demo_http (demo_post demo_device)
       (map full_update (fst (steps_of (\<lambda>_. demo_world (\<lambda>_. Unreachable [])) (demo_request demo_device) new_thread)))
       (snd (steps_of (\<lambda>_. demo_world (\<lambda>_. Unreachable [])) (demo_request demo_device) new_thread)))
     = with_correlation_id (correlation_for demo_http (demo_post demo_device)) (error_chunk r g)"
proof -
  let ?W = "\<lambda>_::nat. demo_world (\<lambda>_. Unreachable [])"
  obtain t ev where t: "turn ?W (demo_request demo_device) new_thread = Some (Ok t, ev)" "workflow_status t = FAILED"
    using demo_refused_run(1) by (auto split: option.splits prod.splits result.splits)
  from stream_tells_the_outcome [where W = ?W and E = demo_http and p = "demo_post demo_device",
      unfolded demo_post_request, OF t(1) full_updates] demo_refused_run(2) t(2)
  show ?thesis by auto
qed

section \<open>The allocation shown is the one submitted\<close>

text \<open>
  C10. What the operator is shown is what is submitted. When a stream has shown an allocation, the
  thread waits for the second confirmation of exactly that value, and whatever the next turn on the
  thread sends the deployer is the envelope of that value under the correlation id of the turn.
\<close>

theorem shown_allocation_is_submitted:
  assumes "turn W (request_of E p) s = Some (res, ev)"
    "list_all2 update_of (fst (steps_of W (request_of E p) s)) us"
    "with_correlation_id (correlation_for E p) (stage_chunk ''allocator'' st j)
       \<in> set (stream_chunks E p us (snd (steps_of W (request_of E p) s)))"
    "turn W' rq t = Some (r', ev')" "res = Ok t" "rq_correlation_id rq \<noteq> []" "Call_deployer x \<in> set ev'"
  shows "awaiting_confirmation t \<and> pending_action t = Some Confirm_2
     \<and> (\<exists>w u. correlation_id u = rq_correlation_id rq
          \<and> x = wrap_worker_text (redact_prompt (canonical_json (submit_envelope w u j))) (nonce w))"
proof -
  let ?n = "snd (steps_of W (request_of E p) s)"
  obtain cs r where c: "consume (api_json_error E) us ?n stream_start = (cs, r)" by fastforce
  have "stage_chunk ''allocator'' st j \<noteq> first_chunk (thread_for E p)" "stage_chunk ''allocator'' st j \<noteq> closing_chunk r"
    by (auto simp: stage_chunk_def first_chunk_def closing_chunk_def crash_chunk_def error_chunk_def final_chunk_def
        split: sum.splits)
  then have "stage_chunk ''allocator'' st j \<in> set cs"
    using stream_member [OF assms(3) _ c] inner_chunk.intros(2) by blast
  from shown_run [OF assms(2) [unfolded steps_of_def] seed_live seed_tells c [unfolded steps_of_def]
      assms(1) [unfolded turn_def] this] assms(5)
  obtain y where t: "awaits_allocation j t" "allocated_resources t = Some y" "loads y = Some j"
    by (auto simp: awaits_allocation_def)
  have "list_all (sends_stored (rq_correlation_id rq) (allocated_resources (seed rq t))) ev'"
    using submission_sends [of W' RECURSION_LIMIT "seed rq t" r' ev'] assms(4,6)
    by (simp add: turn_def seed_def add_messages_def)
  with assms(7) have "sends_stored (rq_correlation_id rq) (Some y) (Call_deployer x)"
    using t(2) by (simp add: list_all_iff seed_def add_messages_def)
  then have "\<exists>w u. correlation_id u = rq_correlation_id rq
      \<and> x = wrap_worker_text (redact_prompt (canonical_json (submit_envelope w u j))) (nonce w)"
    using t(3) unfolding sends_stored_def by fastforce
  with t(1) show ?thesis unfolding awaits_allocation_def by blast
qed

theorem shown_allocation_is_submitted_witness:
  "\<exists>t r ev x. turn (\<lambda>_. demo_service_world) (demo_request ''confirm'') t = Some (r, ev) \<and> Call_deployer x \<in> set ev
     \<and> awaiting_confirmation t \<and> pending_action t = Some Confirm_2
     \<and> (\<exists>w u. correlation_id u = ''c'' \<and> x = wrap_worker_text (redact_prompt (canonical_json
          (submit_envelope w u (sort_keys (JObj (dump_intent demo_allocated)))))) (nonce w))"
proof -
  let ?W = "\<lambda>_::nat. demo_service_world" let ?rq = "demo_request ''confirm''"
  obtain s1 s2 e2 x r e3 where t: "turn ?W ?rq s1 = Some (Ok s2, e2)"
    and q: "steps_of ?W ?rq s1 = ([(SUPERVISOR, seed ?rq s1, confirmed_1 demo_service_world (seed ?rq s1)),
         (ALLOCATOR, confirmed_1 demo_service_world (seed ?rq s1),
            allocated (confirmed_1 demo_service_world (seed ?rq s1)) demo_allocated x),
         (REFLECTION, allocated (confirmed_1 demo_service_world (seed ?rq s1)) demo_allocated x, s2)], None)"
    and d: "turn ?W ?rq s2 = Some (r, e3)" "Call_deployer (wrap_worker_text (redact_prompt (canonical_json
       (submit_envelope demo_service_world (confirmed_2 demo_service_world (seed ?rq s2))
       (sort_keys (JObj (dump_intent demo_allocated)))))) (nonce demo_service_world)) \<in> set e3"
    by (rule demo_conversation)
  have s: "with_correlation_id (correlation_for demo_http (demo_post ''confirm''))
      (stage_chunk ''allocator'' ALLOCATED (sort_keys (JObj (dump_intent demo_allocated))))
      \<in> set (stream_chunks demo_http (demo_post ''confirm'') (map full_update (fst (steps_of ?W ?rq s1))) (snd (steps_of ?W ?rq s1)))"
    unfolding q fst_conv snd_conv list.map
    by (rule allocation_in_stream [OF _ _ _ _ _ _ canonical_object_nonempty loads_canonical [OF demo_texts(2)]])
      (simp_all add: full_update_def confirmed_1_def clear_pending_def allocated_def)
  have c: "rq_correlation_id ?rq = ''c''" by (simp add: demo_request_def)
  then have "rq_correlation_id ?rq \<noteq> []" by simp
  from shown_allocation_is_submitted [where W = ?W and E = demo_http and p = "demo_post ''confirm''", unfolded demo_post_request,
      OF t full_updates s d(1) refl this d(2)] d c
  show ?thesis by metis
qed

section \<open>The correlation id of a conversation\<close>

text \<open>The turns of a thread over HTTP; the checkpoint each request sees is the one of the thread's state.\<close>

fun conversation :: "string \<Rightarrow> (http_env \<times> (nat \<Rightarrow> world) \<times> prompt_request) list \<Rightarrow> gstate \<Rightarrow>
    (gstate \<times> event list) option" where
  "conversation th [] s = Some (s, [])"
| "conversation th ((E, W, p) # xs) s =
     (if pr_thread_id p \<noteq> Some th then None
      else
        (case turn W (request_of (E\<lparr>checkpointed := (checkpointed E)(th := Some (correlation_id s))\<rparr>) p) s of
           Some (Ok t, ev) \<Rightarrow> map_option (\<lambda>(u, ev'). (u, ev @ ev')) (conversation th xs t)
         | _ \<Rightarrow> None))"

text \<open>Every audit record and every envelope for the deployer is of a correlation id.\<close>

definition traced :: "string \<Rightarrow> event \<Rightarrow> bool" where
  "traced c e \<longleftrightarrow> audit_fine c e \<and> (\<forall>x. e = Call_deployer x \<longrightarrow>
     (\<exists>w u j. correlation_id u = c
        \<and> x = wrap_worker_text (redact_prompt (canonical_json (submit_envelope w u j))) (nonce w)))"

lemma turn_traced:
  assumes "turn W rq s = Some (Ok t, ev)" "rq_correlation_id rq = c" "c \<noteq> []"
  shows "correlation_id t = c \<and> list_all (traced c) ev"
proof -
  have "list_all (sends_stored c (allocated_resources (seed rq s))) ev"
    using submission_sends [of W RECURSION_LIMIT "seed rq s" "Ok t" ev] assms
    by (simp add: turn_def seed_def add_messages_def)
  moreover have "post (Ok t, ev) (\<lambda>t. correlation_id t = c) (audit_fine c)"
    using turn_correlation [OF assms(1)] assms(2,3) by simp
  ultimately show ?thesis unfolding list_all_iff traced_def sends_stored_def post_Ok by blast
qed

lemma conversation_traced:
  "conversation th xs s = Some (t, ev) \<Longrightarrow> correlation_id s = c \<Longrightarrow> c \<noteq> [] \<Longrightarrow> th \<noteq> [] \<Longrightarrow>
     correlation_id t = c \<and> list_all (traced c) ev"
proof (induction xs arbitrary: s ev)
  case (Cons y xs)
  obtain E W p where y: "y = (E, W, p)" by (rule prod_cases3)
  let ?rq = "request_of (E\<lparr>checkpointed := (checkpointed E)(th := Some (correlation_id s))\<rparr>) p"
  from Cons.prems(1) obtain u e1 e2 where u: "pr_thread_id p = Some th" "turn W ?rq s = Some (Ok u, e1)"
    "conversation th xs u = Some (t, e2)" "ev = e1 @ e2"
    by (auto simp: y split: if_splits option.splits result.splits)
  have "rq_correlation_id ?rq = c" using u(1) Cons.prems(2-4)
    by (simp add: request_of_def correlation_for_def set_text_def)
  from turn_traced [OF u(2) this Cons.prems(3)] Cons.IH [OF u(3) _ Cons.prems(3,4)] u(4) show ?case by simp
qed simp

text \<open>
  C11. One correlation id per thread. The id minted for the first request of a thread is the one of
  every later turn: every audit record of the conversation carries it, every envelope the deployer
  is sent is under it, and the thread's state keeps it.
\<close>

theorem correlation_is_stable:
  assumes "conversation th ((E, W, p) # xs) new_thread = Some (t, ev)" "fresh_correlation E = c" "c \<noteq> []" "th \<noteq> []"
  shows "correlation_id t = c \<and> list_all (traced c) ev"
proof -
  let ?rq = "request_of (E\<lparr>checkpointed := (checkpointed E)(th := Some (correlation_id new_thread))\<rparr>) p"
  from assms(1) obtain u e1 e2 where u: "pr_thread_id p = Some th" "turn W ?rq new_thread = Some (Ok u, e1)"
    "conversation th xs u = Some (t, e2)" "ev = e1 @ e2"
    by (auto split: if_splits option.splits result.splits)
  have "rq_correlation_id ?rq = c" using u(1) assms(2-4)
    by (simp add: request_of_def correlation_for_def set_text_def new_thread_def)
  from turn_traced [OF u(2) this assms(3)] conversation_traced [OF u(3) _ assms(3,4)] u(4) show ?thesis by simp
qed

theorem correlation_is_stable_witness:
  "\<exists>t ev. conversation ''t'' [(demo_http, (\<lambda>_. demo_service_world), demo_post demo_prompt),
       (demo_http, (\<lambda>_. demo_service_world), demo_post ''confirm'')] new_thread = Some (t, ev)
     \<and> correlation_id t = ''c'' \<and> list_all (traced ''c'') ev"
proof -
  let ?W = "\<lambda>_::nat. demo_service_world"
  obtain s1 e1 s2 e2 where t: "turn ?W (demo_request demo_prompt) new_thread = Some (Ok s1, e1)" "correlation_id s1 = ''c''"
    "turn ?W (demo_request ''confirm'') s1 = Some (Ok s2, e2)"
    by (rule demo_conversation)
  have n: "correlation_id new_thread = []" by (simp add: new_thread_def)
  have p: "pr_thread_id (demo_post u) = Some ''t''" for u by (simp add: demo_post_def)
  have "conversation ''t'' [(demo_http, ?W, demo_post demo_prompt), (demo_http, ?W, demo_post ''confirm'')] new_thread
      = Some (s2, e1 @ e2)"
    using t by (simp add: n p demo_post_request)
  from this correlation_is_stable [OF this, of "''c''"] show ?thesis by (auto simp: demo_http_def)
qed

section \<open>Audit\<close>

text \<open>
  C14. No decision of the supervisor is lost to the audit. Every record a turn hands over under a
  well-formed correlation id passes the model, unless it is a submission that names no resource; the
  sink then holds it once more, its reason redacted.
\<close>

theorem supervisor_audits_are_recorded:
  assumes "turn W rq s = Some (r, ev)" "Audit k c th pr rs why \<in> set ev"
    "correlation_ok (rq_correlation_id rq)" "th \<noteq> []" "k = A_submit \<Longrightarrow> rs \<noteq> []"
  shows "\<exists>a. build_audit_event k c th pr when rs why = Inr a \<and> c = rq_correlation_id rq
     \<and> sink_events (snd (snd (emit_audit_event A a S))) = sink_events S @ [redacted_reason a]"
proof -
  have "rq_correlation_id rq \<noteq> []" using assms(3) by (auto simp: correlation_ok_def)
  from turn_correlation [OF assms(1) this] assms(2)
  have f: "c = rq_correlation_id rq" "pr \<noteq> []" "list_all ref_valid rs" "k \<noteq> A_submit \<longrightarrow> rs = []"
    by (auto simp: post_def)
  let ?a = "\<lparr>ar_type = k, ar_correlation = c, ar_thread = th, ar_principal = pr, ar_at = when,
     ar_resources = rs, ar_reason = why\<rparr>"
  have v: "record_valid ?a" "acceptable ?a"
    using f assms(3-5) by (auto simp: record_valid_def acceptable_def)
  obtain x ms T where "emit_audit_event A ?a S = (x, ms, T)" by (rule prod_cases3)
  with emit_accepted [OF v(2) this] v(1) f(1) show ?thesis
    by (intro exI [of _ ?a]) (simp add: build_audit_event_def)
qed

definition demo_hex_request :: request where
  "demo_hex_request = (demo_request demo_device)\<lparr>rq_correlation_id := replicate 32 (CHR ''0'')\<rparr>"

fun refusal_record :: "event \<Rightarrow> bool" where
  "refusal_record (Audit k c th pr rs why) = (k = A_refuse \<and> th = ''t'')"
| "refusal_record _ = False"

definition demo_audit_env :: "unit audit_env" where
  "demo_audit_env = \<lparr>ae_identity = None, ae_http = (\<lambda>_ s. (Inl ''down'', s)), ae_path = None,
     ae_append = (\<lambda>_ _ s. (None, s)), ae_now_ts = ''0'', ae_now_micro = ''0'', ae_host = ''h''\<rparr>"

definition demo_sink :: "unit audit_state" where
  "demo_sink = \<lparr>sink_events = [], sink_world = ()\<rparr>"

lemma demo_audited_run:
  "(case turn (\<lambda>_. demo_world (\<lambda>_. Unreachable [])) demo_hex_request new_thread of
     Some (_, ev) \<Rightarrow> list_ex refusal_record ev | _ \<Rightarrow> False)"
  by code_simp

theorem supervisor_audits_are_recorded_witness:
  "\<exists>a. ar_type a = A_refuse \<and> ar_thread a = ''t''
     \<and> sink_events (snd (snd (emit_audit_event demo_audit_env a demo_sink))) = [redacted_reason a]"
proof -
  obtain r ev c pr rs y where t: "turn (\<lambda>_. demo_world (\<lambda>_. Unreachable [])) demo_hex_request new_thread = Some (r, ev)"
    "Audit A_refuse c ''t'' pr rs y \<in> set ev"
    using demo_audited_run by (auto simp: list_ex_iff elim!: refusal_record.elims split: option.splits prod.splits)
  have "correlation_ok (rq_correlation_id demo_hex_request)" "''t'' \<noteq> []" by code_simp+
  from supervisor_audits_are_recorded [OF t this, of "[]" demo_audit_env demo_sink]
  obtain a where "build_audit_event A_refuse c ''t'' pr [] rs y = Inr a"
    "sink_events (snd (snd (emit_audit_event demo_audit_env a demo_sink))) = [redacted_reason a]"
    by (auto simp: demo_sink_def)
  then show ?thesis by (intro exI [of _ a]) (auto simp: build_audit_event_def Let_def split: if_splits)
qed

text \<open>
  C15. The Kubernetes events a process posts have distinct names, whatever it emits and in whatever
  order the correlation ids alternate.
\<close>

theorem audit_event_names_distinct: "distinct (names_of (fst (emissions xs S)))"
  using emissions_named [of xs S "fst (emissions xs S)" "snd (emissions xs S)"] by simp

text \<open>A new process starts to count again: its first event has the name of an earlier one.\<close>

lemma restart_repeats_a_name:
  assumes "acceptable a" "ae_identity E = Some i" "ae_path E = None"
  shows "names_of (fst (emissions [(E, a)] (sink_reset S))) = [JStr (event_name (ar_correlation a) (ar_type a) 1)]"
  using assms
  by (auto simp: acceptable_iff emit_audit_event_def sink_record_def Let_def emit_kubernetes_event_def
      by_correlation_def sink_reset_def split: sum.splits prod.splits)

text \<open>A submission report without a resource is not audited.\<close>

lemma empty_submission_not_audited:
  "ar_type a = A_submit \<Longrightarrow> ar_resources a = [] \<Longrightarrow> \<exists>x. emit_audit_event E a S = (Inl x, [], S)"
  by (rule emit_rejected) (simp add: acceptable_def)

section \<open>Worker calls\<close>





section \<open>The conversation\<close>

text \<open>
  C9. A confirmed conversation reaches the deployer. When a request is provisionable and the mapper
  interprets it completely, and the operator confirms twice in time while the allocator answers an
  intent, the three turns return and the third sends the deployer the envelope of exactly that
  intent, under the correlation id of its request, through the store of the thread and its JSON.
\<close>

theorem confirmed_conversation_submits:
  assumes "provisionable (W1 24) (seed rq1 s) (rq_prompt rq1)" "\<not> names_srv6 (rq_prompt rq1)"
    "answers_interpretation (W1 23) (rq_prompt rq1) i" "is_complete i" "i_transport i \<noteq> Some ''srv6''"
    "rq_prompt rq2 = ''confirm''" "in_time (W2 24) rq2" "answers_intent (W2 23) i n"
    "rq_prompt rq3 = ''confirm''" "in_time (W3 24) rq3"
    "json_text (JObj (dump_interpretation i))" "json_text (JObj (dump_intent n))"
  shows "\<exists>s1 e1 s2 e2 r e3 u. turn W1 rq1 s = Some (Ok s1, e1) \<and> turn W2 rq2 s1 = Some (Ok s2, e2)
     \<and> turn W3 rq3 s2 = Some (r, e3) \<and> correlation_id u = rq_correlation_id rq3
     \<and> Call_deployer (wrap_worker_text (redact_prompt (canonical_json
          (submit_envelope (W3 23) u (sort_keys (JObj (dump_intent n)))))) (nonce (W3 23))) \<in> set e3"
proof -
  obtain s1 e1 s2 e2 r e3 where t: "turn W1 rq1 s = Some (Ok s1, e1)" "turn W2 rq2 s1 = Some (Ok s2, e2)"
    "turn W3 rq3 s2 = Some (r, e3)"
    "Call_deployer (wrap_worker_text (redact_prompt (canonical_json (submit_envelope (W3 23)
         (confirmed_2 (W3 24) (seed rq3 s2)) (sort_keys (JObj (dump_intent n)))))) (nonce (W3 23))) \<in> set e3"
    by (rule three_turns [of W1 rq1 s i rq2 W2 n rq3 W3, OF assms])
  moreover have "correlation_id (confirmed_2 (W3 24) (seed rq3 s2)) = rq_correlation_id rq3"
    by (simp add: confirmed_2_def clear_pending_def seed_def add_messages_def)
  ultimately show ?thesis by blast
qed

theorem confirmed_conversation_submits_witness:
  "\<exists>s1 e1 s2 e2 r e3 u. turn (\<lambda>_. demo_service_world) (demo_request demo_prompt) new_thread = Some (Ok s1, e1)
     \<and> turn (\<lambda>_. demo_service_world) (demo_request ''confirm'') s1 = Some (Ok s2, e2)
     \<and> turn (\<lambda>_. demo_service_world) (demo_request ''confirm'') s2 = Some (r, e3) \<and> correlation_id u = ''c''
     \<and> Call_deployer (wrap_worker_text (redact_prompt (canonical_json (submit_envelope demo_service_world u
          (sort_keys (JObj (dump_intent demo_allocated)))))) (nonce demo_service_world)) \<in> set e3"
proof -
  have p: "rq_prompt (demo_request u) = u" "rq_correlation_id (demo_request u) = ''c''" for u by (simp_all add: demo_request_def)
  have t: "i_transport demo_interp \<noteq> Some ''srv6''" using demo_interp_facts(2) by simp
  show ?thesis
    using confirmed_conversation_submits [of "\<lambda>_. demo_service_world" "demo_request demo_prompt" new_thread demo_interp
        "demo_request ''confirm''" "\<lambda>_. demo_service_world" demo_allocated "demo_request ''confirm''" "\<lambda>_. demo_service_world"]
      demo_provisionable demo_prompt_facts(4) demo_answers demo_interp_facts(1) t demo_in_time demo_texts
    by (simp add: p del: sort_keys.simps)
qed

end
