(* ===== verification/Contracts.thy ===== *)
theory Contracts
  imports Sup_Demo
begin

text \<open>
  The properties of the contracts the parts of the tier hand each other: the normalized intent,
  the interpretation, its prefixes, the redaction pass and the SRv6 capability.
\<close>


text \<open>
  C18. A validated intent is a fixed point of its JSON form: what \<open>model_dump\<close> writes,
  \<open>model_validate\<close> reads back as the same intent, whatever text it was first read from.
\<close>

theorem intent_round_trip:
  "validate_intent L d = Inr n \<Longrightarrow> validate_intent L (dump_intent n) = Inr n"
  by (intro validate_dump_intent validate_intent_wf)

theorem intent_round_trip_witness:
  "\<exists>n. validate_intent demo_lax demo_vlan_intent = Inr n \<and> validate_intent demo_lax (dump_intent n) = Inr n"
proof -
  have "\<not> is_err (validate_intent demo_lax demo_vlan_intent)" by code_simp
  then obtain n where n: "validate_intent demo_lax demo_vlan_intent = Inr n"
    by (cases "validate_intent demo_lax demo_vlan_intent") auto
  with intent_round_trip [OF n] show ?thesis by blast
qed

text \<open>
  C19. A validated interpretation is a fixed point of its JSON form: folding the service type,
  canonicalising the IPv4 and IPv6 prefixes and running the model checks again changes nothing.
\<close>

theorem interpretation_round_trip:
  assumes "validate_interpretation L d = Inr i"
  shows "validate_interpretation L (dump_interpretation i) = Inr i"
  using assms by (intro validate_dump_interpretation validate_interpretation_wf)

theorem interpretation_round_trip_witness:
  "\<exists>i. validate_interpretation demo_lax demo_interpretation = Inr i
     \<and> validate_interpretation demo_lax (dump_interpretation i) = Inr i"
proof -
  have "(case validate_interpretation demo_lax demo_interpretation of Inr i \<Rightarrow> True | _ \<Rightarrow> False)"
    by code_simp
  then obtain i where i: "validate_interpretation demo_lax demo_interpretation = Inr i"
    by (auto split: sum.splits)
  from interpretation_round_trip [OF i] i show ?thesis by blast
qed

text \<open>
  The prefixes of a validated interpretation, of either family, are in canonical form:
  validating them again accepts every one of them and leaves the list as it is. For IPv6 this is
  the round trip of the compressed text with its longest run of zero groups.
\<close>

theorem prefixes_canonical:
  "valid_prefixes v ps = Inr qs \<Longrightarrow> valid_prefixes v qs = Inr qs \<and> length qs = length ps"
proof (rule conjI)
  assume v: "valid_prefixes v ps = Inr qs"
  then show "valid_prefixes v qs = Inr qs" by (intro valid_prefixes_canonical valid_prefixes_out)
  from v show "length qs = length ps"
    by (induction ps arbitrary: qs) (auto split: option.splits if_splits sum.splits)
qed

theorem prefixes_canonical_witness:
  "valid_prefixes 6 [''2001:DB8:0:0:1:0:0:7/63''] = Inr [''2001:db8::/63'']
     \<and> valid_prefixes 6 [''2001:db8::/63''] = Inr [''2001:db8::/63'']"
proof -
  have v: "valid_prefixes 6 [''2001:DB8:0:0:1:0:0:7/63''] = Inr [''2001:db8::/63'']" by code_simp
  from prefixes_canonical [OF v] v show ?thesis by simp
qed

text \<open>
  Redaction leaves text without a credential exactly as it is, so what the model, the workers
  and the operator read is changed only where a pattern matches.
\<close>

theorem redaction_keeps_clean_text:
  "\<not> contains_credential s \<Longrightarrow> redact_prompt s = s \<and> redact_model_response s = s"
  by (simp add: redact_prompt_def redact_model_response_def redact_clean)

theorem redaction_keeps_clean_text_witness:
  "redact_prompt ''create a vlan 100 on leaf01'' = ''create a vlan 100 on leaf01''"
proof -
  have "\<not> contains_credential ''create a vlan 100 on leaf01''" by code_simp
  from redaction_keeps_clean_text [OF this] show ?thesis by simp
qed

text \<open>
  The SRv6 capability fails closed: it is available only when the API server answered a 2xx
  with an object whose \<open>cap-sai-srv6\<close> is \<open>"true"\<close>; no identity, a failed request, another
  status, another body or another value all read as unavailable.
\<close>

theorem capability_fails_closed:
  assumes "read_capability e get = Inr c" "available c"
  shows "\<exists>url status b data. identity e \<noteq> None \<and> get url = Http_reply status (Some (JObj b))
     \<and> status div 100 = 2 \<and> map_of b ''data'' = Some (JObj data) \<and> dget data ''cap-sai-srv6'' = JStr ''true''"
proof -
  have "identity e \<noteq> None" using assms by (cases "identity e") (auto simp: read_capability_def unavailable_def)
  with read_capability_available [OF assms] show ?thesis by blast
qed

theorem capability_fails_closed_witness:
  "\<exists>c data. read_capability \<lparr>env_token = Some ''t'', env_endpoint = None, env_verify_tls = None,
        env_ca_bundle = [], token_file = None\<rparr>
      (\<lambda>_. Http_reply 200 (Some (JObj [(''data'', JObj [(''cap-sai-srv6'', JStr ''true'')])]))) = Inr c
     \<and> available c \<and> dget data ''cap-sai-srv6'' = JStr ''true''"
proof -
  let ?e = "\<lparr>env_token = Some ''t'', env_endpoint = None, env_verify_tls = None,
        env_ca_bundle = [], token_file = None\<rparr>"
  let ?g = "\<lambda>_. Http_reply 200 (Some (JObj [(''data'', JObj [(''cap-sai-srv6'', JStr ''true'')])]))"
  obtain c where c: "read_capability ?e ?g = Inr c" "available c"
    by (simp add: read_capability_def identity_def tls_of_def capability_of_data_def dget_def Let_def)
  from capability_fails_closed [OF c] c show ?thesis by blast
qed

end
