(* ===== verification/Watch.thy ===== *)
theory Watch
  imports Transaction
begin

text \<open>
  The convergence watch, src/agents/provisioning/deployer/watch.py. Time is in milliseconds:
  \<open>clk k\<close> is the monotonic clock where round k of the loop compares it with the deadline. The loop
  runs on fuel; None is fuel that ran out.
\<close>

datatype verdict = Ready | Failed | Timeout

fun verdict_text :: "verdict \<Rightarrow> string" where
  "verdict_text Ready = ''ready''"
| "verdict_text Failed = ''failed''"
| "verdict_text Timeout = ''timeout''"

record convergence_outcome =
  co_ref :: resource_ref
  co_outcome :: verdict
  co_detail :: "string option"

definition outcome_report :: "convergence_outcome \<Rightarrow> dict" where
  "outcome_report c =
     [(''resource'', JStr (ref_name (co_ref c))), (''outcome'', JStr (verdict_text (co_outcome c))),
      (''ready'', bool_json (r_ready (co_ref c))), (''detail'', str_json (co_detail c))]"

text \<open>The message of a condition, its reason, or a fallback text.\<close>

definition condition_text :: "dict \<Rightarrow> string \<Rightarrow> string" where
  "condition_text c dflt =
     (if truthy (jor (dget c ''message'') (dget c ''reason''))
      then jstr (jor (dget c ''message'') (dget c ''reason'')) else dflt)"

text \<open>
  The scan of the conditions: a verdict as soon as one is terminal, else the last detail of a
  false Ready condition.
\<close>

fun scan_conditions ::
    "json list \<Rightarrow> string option \<Rightarrow> (bool \<times> string option) option \<times> string option" where
  "scan_conditions [] d = (None, d)"
| "scan_conditions (JObj c # cs) d =
     (let t = str_or_empty (dget c ''type''); st = lower (str_or_empty (dget c ''status'')) in
      if t = ''Ready'' then
        (if st = ''true'' then (Some (True, set_text (Some (condition_text c []))), d)
         else if st = ''false'' then scan_conditions cs (Some (condition_text c ''Ready condition is False''))
         else scan_conditions cs d)
      else if t \<in> {''Failed'', ''Error''} \<and> st = ''true'' then
        (Some (False, Some (condition_text c (t @ '' condition is True''))), d)
      else scan_conditions cs d)"
| "scan_conditions (j # cs) d = scan_conditions cs d"

definition observe :: "dict \<Rightarrow> bool option \<times> string option" where
  "observe ob =
     (let st = obj_of (dget ob ''status'') in
      case scan_conditions (arr_of (dget st ''conditions'')) None of
        (Some (b, d), _) \<Rightarrow> (Some b, d)
      | (None, Some d) \<Rightarrow> (Some False, Some d)
      | (None, None) \<Rightarrow>
          (let ph = str_or_empty (dget st ''phase'') in
           if ph \<in> {''Failed'', ''Error'', ''Rejected''} then (Some False, Some (''phase '' @ ph)) else (None, None)))"

definition settle :: "resource_ref \<Rightarrow> bool \<Rightarrow> verdict \<Rightarrow> string option \<Rightarrow> convergence_outcome" where
  "settle r b v d = \<lparr>co_ref = r\<lparr>r_ready := Some b\<rparr>, co_outcome = v, co_detail = d\<rparr>"

text \<open>One read of one object: its terminal outcome, when there is one.\<close>

definition poll_one :: "'s intent_api \<Rightarrow> resource_ref \<Rightarrow> 's \<Rightarrow> convergence_outcome option \<times> 's" where
  "poll_one A r s =
     (case api_get A r s of
        (Inl e, s1) \<Rightarrow> (None, s1)
      | (Inr None, s1) \<Rightarrow> (Some (settle r False Failed (Some ''object disappeared during convergence watch'')), s1)
      | (Inr (Some ob), s1) \<Rightarrow>
          (case observe ob of
             (Some True, d) \<Rightarrow> (Some (settle r True Ready d), s1)
           | (Some False, d) \<Rightarrow> (Some (settle r False Failed d), s1)
           | (None, d) \<Rightarrow> (None, s1)))"

text \<open>A slot of the watch: a pending reference, or the outcome it settled to.\<close>

type_synonym slot = "resource_ref + convergence_outcome"

fun poll_round :: "'s intent_api \<Rightarrow> slot list \<Rightarrow> 's \<Rightarrow> slot list \<times> 's" where
  "poll_round A [] s = ([], s)"
| "poll_round A (Inr c # xs) s = (let (ys, s1) = poll_round A xs s in (Inr c # ys, s1))"
| "poll_round A (Inl r # xs) s =
     (let (v, s1) = poll_one A r s; (ys, s2) = poll_round A xs s1
      in ((case v of Some c \<Rightarrow> Inr c | None \<Rightarrow> Inl r) # ys, s2))"

fun pending_slot :: "slot \<Rightarrow> bool" where
  "pending_slot (Inl r) = True"
| "pending_slot (Inr c) = False"

fun timed_out :: "string \<Rightarrow> slot \<Rightarrow> convergence_outcome" where
  "timed_out d (Inr c) = c"
| "timed_out d (Inl r) = \<lparr>co_ref = r\<lparr>r_ready := None\<rparr>, co_outcome = Timeout, co_detail = Some d\<rparr>"

fun watch_loop ::
    "nat \<Rightarrow> 's intent_api \<Rightarrow> (nat \<Rightarrow> int) \<Rightarrow> int \<Rightarrow> nat \<Rightarrow> slot list \<Rightarrow> 's \<Rightarrow> (slot list \<times> 's) option" where
  "watch_loop 0 A clk dl k xs s = None"
| "watch_loop (Suc n) A clk dl k xs s =
     (if \<not> list_ex pending_slot xs then Some (xs, s)
      else
        (let (ys, s1) = poll_round A xs s
         in if \<not> list_ex pending_slot ys \<or> dl \<le> clk k then Some (ys, s1)
            else watch_loop n A clk dl (Suc k) ys s1))"

text \<open>\<open>start\<close> is the clock at the call; \<open>timeout_text\<close> is the timeout in seconds as \<open>:g\<close> prints it.\<close>

record watch_settings =
  ws_start :: int
  ws_clock :: "nat \<Rightarrow> int"
  ws_timeout :: int
  ws_text :: string
  ws_fuel :: nat

definition watch_deadline :: "watch_settings \<Rightarrow> int" where
  "watch_deadline V = ws_start V + max 0 (ws_timeout V)"

definition watch_convergence ::
    "watch_settings \<Rightarrow> 's intent_api \<Rightarrow> resource_ref list \<Rightarrow> 's \<Rightarrow> (convergence_outcome list \<times> 's) option" where
  "watch_convergence V A refs s =
     map_option (\<lambda>(xs, s1). (map (timed_out (''convergence timeout after '' @ ws_text V @ ''s'')) xs, s1))
       (watch_loop (ws_fuel V) A (ws_clock V) (watch_deadline V) 0 (map Inl refs) s)"

section \<open>Facts\<close>

lemma poll_round_length: "length (fst (poll_round A xs s)) = length xs"
  by (induction A xs s rule: poll_round.induct) (auto simp: Let_def split: prod.splits)

lemma watch_loop_length:
  "watch_loop n A clk dl k xs s = Some (ys, s') \<Longrightarrow> length ys = length xs"
proof (induction n A clk dl k xs s rule: watch_loop.induct)
  case (2 n A clk dl k xs s)
  obtain zs s1 where z: "poll_round A xs s = (zs, s1)" by fastforce
  with poll_round_length [of A xs s] have "length zs = length xs" by simp
  with 2 z show ?case by (auto simp: Let_def split: if_splits)
qed simp

text \<open>The loop ends in the round whose clock reads past the deadline.\<close>

lemma watch_loop_ends:
  "dl \<le> clk (k + j) \<Longrightarrow> j < n \<Longrightarrow> watch_loop n A clk dl k xs s \<noteq> None"
proof (induction n A clk dl k xs s arbitrary: j rule: watch_loop.induct)
  case (2 n A clk dl k xs s)
  obtain zs s1 where z: "poll_round A xs s = (zs, s1)" by fastforce
  show ?case
  proof (cases j)
    case 0
    with 2 z show ?thesis by (simp add: Let_def)
  next
    case (Suc i)
    have "watch_loop n A clk dl (Suc k) zs s1 \<noteq> None"
      if "list_ex pending_slot xs" "\<not> (\<not> list_ex pending_slot zs \<or> dl \<le> clk k)"
      using "2.IH" [OF _ z [symmetric] refl that(2), of i] that(1) "2.prems" Suc by simp
    then show ?thesis using z by (auto simp: Let_def)
  qed
qed simp

lemma clock_passes:
  assumes "\<And>k. clk k + 50 \<le> clk (Suc k)"
  shows "clk 0 + 50 * int k \<le> clk k"
proof (induction k)
  case (Suc k)
  with assms [of k] show ?case by simp
qed simp

end
