(* ===== verification/Deploy_Run.thy ===== *)
theory Deploy_Run
  imports Watch
begin

text \<open>
  \<open>run_deployment_transaction\<close> of src/agents/provisioning/deployer/submit.py: the request is
  validated, translated once, stamped, checked against the bindings on the cluster, dry-run as a
  whole, applied in order or rolled back, and watched. The result carries the audit events in
  order. None is a watch whose fuel ran out (\<open>watch_loop_ends\<close> says how much is enough).
\<close>

text \<open>Event type, context, resources, reason.\<close>

datatype deploy_audit = Deploy_audit string deploy_context "resource_ref list" string

definition emit_audit :: "string \<Rightarrow> deploy_context \<Rightarrow> resource_ref list \<Rightarrow> string \<Rightarrow> deploy_audit list" where
  "emit_audit ty ctx refs reason =
     (if correlation_ok (dc_correlation ctx) then [Deploy_audit ty ctx refs reason] else [])"

text \<open>The translator answers with JSON or raises.\<close>

type_synonym translator = "dict \<Rightarrow> string + json"

definition translated_manifests :: "json \<Rightarrow> failure + json list" where
  "translated_manifests t =
     (case dget (obj_of t) ''manifests'' of
        JArr ms \<Rightarrow> Inr ms
      | _ \<Rightarrow> Inl (named ''translation''
               (''translator rejected the intent: ''
                @ (if truthy t then take_chars 400 (dumps t) else ''empty response'')) None))"

text \<open>Steps 1 to 3.\<close>

definition prepare_request :: "deploy_world \<Rightarrow> translator \<Rightarrow> envelope \<Rightarrow> failure + dict list" where
  "prepare_request W tr e =
     bind_res (validate_context (env_context e)) (\<lambda>_.
       (case validate_intent (dw_lax W) (env_intent e) of
          Inl es \<Rightarrow> Inl (named ''request-validation''
                      (''intent failed NormalizedServiceIntent validation: '' @ dw_pyd_text W es) None)
        | Inr n \<Rightarrow>
            (case tr (dump_intent n) of
               Inl x \<Rightarrow> Inl (named ''translation'' (''translator call failed: '' @ x) None)
             | Inr t \<Rightarrow> bind_res (translated_manifests t) (validate_and_stamp (env_context e) (dw_time W)))))"

definition failure_reason :: "transaction_error \<Rightarrow> string" where
  "failure_reason x =
     te_text x @ (if te_survivors x \<noteq> [] then ''; survivors='' @ str_nat (length (te_survivors x)) else [])"

definition refuse_events :: "deploy_context \<Rightarrow> failure \<Rightarrow> deploy_audit list" where
  "refuse_events ctx f =
     (case f of Named x \<Rightarrow> emit_audit ''refuse'' ctx [] (failure_reason x) | Other _ \<Rightarrow> [])"

definition submission_payload :: "resource_ref list \<Rightarrow> convergence_outcome list \<Rightarrow> dict" where
  "submission_payload refs cs =
     (''submitted'', JArr (map dump_ref refs))
       # (if cs = [] then [] else [(''convergence'', JArr (map (\<lambda>c. JObj (outcome_report c)) cs))])"

text \<open>Steps 4 to 7, on the prepared bundle.\<close>

definition submit_prepared ::
    "deploy_world \<Rightarrow> 's intent_api \<Rightarrow> watch_settings option \<Rightarrow> deploy_context \<Rightarrow> dict list \<Rightarrow> 's
       \<Rightarrow> ((failure + dict) \<times> deploy_audit list \<times> 's) option" where
  "submit_prepared W A watch ctx ms s =
     (case dry_run_all A ms s of
        (Inl f, s1) \<Rightarrow> Some (Inl f, refuse_events ctx f, s1)
      | (Inr _, s1) \<Rightarrow>
          (case apply_all W A (dc_correlation ctx) ms s1 of
             (Inl f, s2) \<Rightarrow> Some (Inl f, refuse_events ctx f, s2)
           | (Inr refs, s2) \<Rightarrow>
               (let ev = emit_audit ''submit'' ctx refs ''deployment transaction applied'' in
                case (watch, refs) of
                  (Some V, r # rs) \<Rightarrow>
                    map_option (\<lambda>(cs, s3). (Inr (submission_payload (map co_ref cs) cs), ev, s3))
                      (watch_convergence V A refs s2)
                | _ \<Rightarrow> Some (Inr (submission_payload refs []), ev, s2))))"

text \<open>\<open>build\<close> is the client given, or what building the default one gives.\<close>

definition run_deployment_transaction ::
    "deploy_world \<Rightarrow> failure + 's intent_api \<Rightarrow> translator \<Rightarrow> watch_settings option \<Rightarrow> envelope \<Rightarrow> 's
       \<Rightarrow> ((failure + dict) \<times> deploy_audit list \<times> 's) option" where
  "run_deployment_transaction W build tr watch e s =
     (case prepare_request W tr e of
        Inl f \<Rightarrow> Some (Inl f, [], s)
      | Inr ms \<Rightarrow>
          (case build of
             Inl f \<Rightarrow> Some (Inl f, [], s)
           | Inr A \<Rightarrow>
               (case preflight_acl_binding A ms s of
                  (Inl f, s1) \<Rightarrow> Some (Inl f, [], s1)
                | (Inr _, s1) \<Rightarrow> submit_prepared W A watch (env_context e) ms s1)))"

end
