(* ===== verification/Deploy_Facts.thy ===== *)
theory Deploy_Facts
  imports Deploy_Run Kube
begin

text \<open>
  The contract of the transaction's client as a locale, and what the dry run, the rollback, the
  apply and the whole transaction do to the store under it. That the client of the code satisfies
  it is the sublocale of theory Kube_Store.
\<close>

lemma map_res_Inl: "map_res f r = Inl e \<longleftrightarrow> r = Inl e"
  by (cases r) auto

lemma dry_run_all_phase: "fst (dry_run_all A ms s) = Inl f \<Longrightarrow> \<exists>x. f = Named x \<and> te_phase x = ''dry-run''"
proof (induction ms arbitrary: s)
  case (Cons m ms)
  then show ?case
    by (cases "api_dry_run A m s")
      (auto simp: named_def transaction_error_of_def Let_def split_def map_res_Inl split: sum.splits)
qed simp

section \<open>The contract of the client\<close>

text \<open>The correlation label of a stored object or a manifest.\<close>

definition correlation_of :: "dict \<Rightarrow> json" where
  "correlation_of d = dget (obj_of (dget (obj_of (dget d ''metadata'')) ''labels'')) CORRELATION_LABEL"

lemma correlation_of_label: "correlation_of m = label_of m CORRELATION_LABEL"
  by (simp add: correlation_of_def label_of_def metadata_of_def)

text \<open>
  \<open>objs s\<close> is the store the client acts on, keyed by \<open>mkey\<close> of an object and \<open>rkey\<close> of a reference.
  A failed write may or may not have reached it; a read never changes it.
\<close>

locale intent_store =
  fixes A :: "'s intent_api"
    and objs :: "'s \<Rightarrow> 'k \<Rightarrow> dict option"
    and mkey :: "dict \<Rightarrow> 'k"
    and rkey :: "resource_ref \<Rightarrow> 'k"
  assumes dry_run_keeps: "objs (snd (api_dry_run A m s)) = objs s"
    and get_keeps: "objs (snd (api_get A r s)) = objs s"
    and list_keeps: "objs (snd (api_list A cid s)) = objs s"
    and networks_keeps: "objs (snd (api_networks A s)) = objs s"
    and apply_ok: "api_apply A m s = (Inr d, s') \<Longrightarrow>
      mkey d = mkey m \<and> (\<exists>ob. objs s' = (objs s)(mkey m \<mapsto> ob) \<and> correlation_of ob = correlation_of m)"
    and apply_error: "api_apply A m s = (Inl e, s') \<Longrightarrow>
      objs s' = objs s \<or> (\<exists>ob. objs s' = (objs s)(mkey m \<mapsto> ob) \<and> correlation_of ob = correlation_of m)"
    and list_complete: "api_list A cid s = (Inr xs, s') \<Longrightarrow> objs s k = Some ob \<Longrightarrow>
      correlation_of ob = JStr cid \<Longrightarrow> \<exists>x \<in> set xs. mkey x = k"
    and list_sound: "api_list A cid s = (Inr xs, s') \<Longrightarrow> x \<in> set xs \<Longrightarrow>
      \<exists>ob. objs s (mkey x) = Some ob \<and> correlation_of ob = JStr cid"
    and delete_ok: "api_delete A r s = (Inr True, s') \<Longrightarrow> objs s' = (objs s)(rkey r := None)"
    and delete_error: "api_delete A r s = (res, s') \<Longrightarrow>
      objs s' = objs s \<or> objs s' = (objs s)(rkey r := None)"
    and ref_of_object: "ref_from_object W d = Inr r \<Longrightarrow> rkey r = mkey d"
    and ready_free: "rkey (r\<lparr>r_ready := b\<rparr>) = rkey r"
begin

lemma dry_run_all_keeps: "objs (snd (dry_run_all A ms s)) = objs s"
proof (induction ms arbitrary: s)
  case (Cons m ms)
  with dry_run_keeps [of m s] show ?case
    by (cases "api_dry_run A m s") (auto simp: split_def Let_def split: sum.splits)
qed simp

lemma preflight_keeps: "objs (snd (preflight_acl_binding A ms s)) = objs s"
  using networks_keeps [of s]
  by (cases "api_networks A s") (auto simp: preflight_acl_binding_def split: sum.splits)

text \<open>The deletes of a rollback: only the listed references go, and the reported ones are gone.\<close>

lemma delete_all_store:
  assumes "delete_all A rs s = ((del, surv), s')"
  shows "set rs = set del \<union> set surv" (is ?split)
    and "\<forall>k. objs s' k \<noteq> objs s k \<longrightarrow> k \<in> rkey ` set rs \<and> objs s' k = None" (is ?only)
    and "\<forall>k \<in> rkey ` set del. objs s' k = None" (is ?gone)
proof -
  have c: "?split \<and> ?only \<and> ?gone" using assms
  proof (induction rs arbitrary: s del surv)
    case (Cons r rs)
    obtain res s1 where d: "api_delete A r s = (res, s1)" by fastforce
    obtain del1 surv1 s2 where t: "delete_all A rs s1 = ((del1, surv1), s2)" by (metis surj_pair)
    from delete_error [OF d] have step: "\<forall>k. objs s1 k \<noteq> objs s k \<longrightarrow> k = rkey r \<and> objs s1 k = None"
      by (auto split: if_splits)
    have ok: "res = Inr True \<Longrightarrow> objs s1 (rkey r) = None" using delete_ok d by fastforce
    from Cons.prems d t have e: "s' = s2"
      "del = (if res = Inr True then r # del1 else del1)" "surv = (if res = Inr True then surv1 else r # surv1)"
      by (auto split: if_splits)
    note IH = Cons.IH [OF t [folded e(1)]]
    have keep: "objs s1 k = None \<Longrightarrow> objs s' k = None" for k using IH by metis
    show ?case
    proof (intro conjI)
      show "set (r # rs) = set del \<union> set surv" using IH e by (auto split: if_splits)
      show "\<forall>k. objs s' k \<noteq> objs s k \<longrightarrow> k \<in> rkey ` set (r # rs) \<and> objs s' k = None"
        using IH step keep by (metis image_insert insert_iff list.simps(15))
      show "\<forall>k \<in> rkey ` set del. objs s' k = None" using IH e ok keep by (auto split: if_splits)
    qed
  qed simp
  show ?split using c by (elim conjE)
  show ?only using c by (elim conjE)
  show ?gone using c by (elim conjE)
qed

lemma refs_from_objects_keys:
  "refs_from_objects W ds = Inr rs \<Longrightarrow> map rkey rs = map mkey ds"
  by (induction ds arbitrary: rs) (auto dest: ref_of_object)

text \<open>
  A rollback that could enumerate its set deletes nothing but objects of the correlation id, and
  leaves none of them but the survivors it reports.
\<close>

lemma rollback_store:
  assumes "rollback_by_selector W A cid s = (Inr (rolled, surv), s')"
  shows "\<forall>k ob. objs s' k = Some ob \<longrightarrow> correlation_of ob = JStr cid \<longrightarrow> k \<in> rkey ` set surv" (is ?left)
    and "\<forall>k. objs s' k \<noteq> objs s k \<longrightarrow> objs s' k = None \<and> (\<exists>ob. objs s k = Some ob \<and> correlation_of ob = JStr cid)"
      (is ?only)
proof -
  obtain xs s1 refs where l: "api_list A cid s = (Inr xs, s1)" and r: "refs_from_objects W xs = Inr refs"
    and d: "delete_all A (sort_key ref_key refs) s1 = ((rolled, surv), s')"
    using assms by (auto simp: rollback_by_selector_def split: prod.splits sum.splits)
  have o1: "objs s1 = objs s" using list_keeps [of cid s] l by simp
  have keys: "rkey ` set refs = mkey ` set xs"
    using refs_from_objects_keys [OF r] by (metis image_set)
  note D = delete_all_store [OF d, unfolded set_sort o1]
  show ?only
  proof (intro allI impI)
    fix k assume "objs s' k \<noteq> objs s k"
    with D(2) have n: "k \<in> rkey ` set refs" "objs s' k = None" by blast+
    then obtain x where "x \<in> set xs" "k = mkey x" using keys by auto
    with list_sound [OF l] n(2) show "objs s' k = None \<and> (\<exists>ob. objs s k = Some ob \<and> correlation_of ob = JStr cid)"
      by blast
  qed
  show ?left
  proof (intro allI impI)
    fix k ob assume k: "objs s' k = Some ob" "correlation_of ob = JStr cid"
    with D(2) have "objs s k = Some ob" by (metis option.distinct(1))
    with list_complete [OF l _ k(2)] have "k \<in> mkey ` set xs" by blast
    then have "k \<in> rkey ` set rolled \<union> rkey ` set surv" using keys D(1) by (metis image_Un)
    with D(3) k(1) show "k \<in> rkey ` set surv" by auto
  qed
qed

text \<open>The apply: what a success leaves, and what a failure leaves after its rollback.\<close>

lemma apply_loop_stored:
  assumes "apply_loop W A cid acc ms s = (Inr refs, s')"
    and "\<forall>m \<in> set ms. correlation_of m = JStr cid"
    and "\<forall>k \<in> K. \<exists>ob. objs s k = Some ob \<and> correlation_of ob = JStr cid"
  shows "map rkey refs = map rkey acc @ map mkey ms
    \<and> (\<forall>k \<in> K \<union> mkey ` set ms. \<exists>ob. objs s' k = Some ob \<and> correlation_of ob = JStr cid)"
  using assms
proof (induction ms arbitrary: s acc K)
  case (Cons m ms)
  obtain res s1 where a: "api_apply A m s = (res, s1)" by fastforce
  with Cons.prems(1) obtain d r where d: "res = Inr d" and r: "ref_from_object W d = Inr r"
    and l: "apply_loop W A cid (acc @ [r]) ms s1 = (Inr refs, s')"
    by (cases res) (auto simp: Let_def split: sum.splits prod.splits)
  from apply_ok [OF a [unfolded d]] obtain ob where k: "mkey d = mkey m"
    and o1: "objs s1 = (objs s)(mkey m \<mapsto> ob)" "correlation_of ob = correlation_of m" by blast
  have S: "\<forall>k \<in> insert (mkey m) K. \<exists>ob. objs s1 k = Some ob \<and> correlation_of ob = JStr cid"
    using Cons.prems(2,3) o1 by auto
  from Cons.IH [OF l _ S] Cons.prems(2) ref_of_object [OF r] k show ?case by simp
qed auto

text \<open>Only objects of the manifests or of the correlation id change.\<close>

lemma apply_failed_store:
  assumes "apply_failed W A cid m e acc s = (Named x, s')"
  shows "contains ''; rollback also failed: '' (te_text x)
    \<or> (\<forall>k ob. objs s' k = Some ob \<longrightarrow> correlation_of ob = JStr cid \<longrightarrow> k \<in> rkey ` set (te_survivors x))
      \<and> (\<forall>k. objs s' k \<noteq> objs s k \<longrightarrow> objs s' k = None \<and> (\<exists>ob. objs s k = Some ob \<and> correlation_of ob = JStr cid))"
proof -
  obtain res s1 where r: "rollback_by_selector W A cid s = (res, s1)" by fastforce
  show ?thesis
  proof (cases res)
    case (Inl f)
    then obtain y where "f = Named y" using assms r by (cases f) (auto simp: apply_failed_def)
    with Inl assms r have "te_text x = (''apply'' @ '' failed for '' @ resource_identity m @ '': '' @ e)
        @ ''; rollback also failed: '' @ te_text y"
      by (auto simp: apply_failed_def transaction_error_of_def set_text_def resource_identity_def)
    then show ?thesis unfolding contains_iff by blast
  next
    case (Inr p)
    obtain rolled surv where p: "p = (rolled, surv)" by fastforce
    with Inr assms r have "te_survivors x = surv" "s' = s1"
      by (auto simp: apply_failed_def transaction_error_of_def)
    with rollback_store [OF r [unfolded Inr p]] show ?thesis by simp
  qed
qed

lemma apply_step_store:
  assumes "api_apply A m s = (res, s1)"
  shows "objs s1 = objs s \<or> (\<exists>ob. objs s1 = (objs s)(mkey m \<mapsto> ob) \<and> correlation_of ob = correlation_of m)"
  using assms apply_ok apply_error by (cases res) blast+

lemma apply_loop_failed:
  assumes "apply_loop W A cid acc ms s = (Inl (Named x), s')"
    and "\<forall>m \<in> set ms. correlation_of m = JStr cid"
  shows "te_phase x = ''apply'' \<and> (contains ''; rollback also failed: '' (te_text x)
    \<or> (\<forall>k ob. objs s' k = Some ob \<longrightarrow> correlation_of ob = JStr cid \<longrightarrow> k \<in> rkey ` set (te_survivors x))
      \<and> (\<forall>k. objs s' k \<noteq> objs s k \<longrightarrow> k \<in> mkey ` set ms \<or> (\<exists>ob. objs s k = Some ob \<and> correlation_of ob = JStr cid)))"
  using assms
proof (induction ms arbitrary: s acc)
  case (Cons m ms)
  obtain res s1 where a: "api_apply A m s = (res, s1)" by fastforce
  from apply_step_store [OF a] Cons.prems(2)
  have step: "objs s1 k \<noteq> objs s k \<Longrightarrow> k = mkey m" for k by (auto split: if_splits)
  show ?case
  proof (cases "bind_res res (ref_from_object W)")
    case (Inl e)
    with Cons.prems(1) a have f: "apply_failed W A cid m e acc s1 = (Named x, s')"
      by (simp add: split_def Let_def prod_eq_iff)
    have "te_phase x = ''apply''"
      using f by (auto simp: apply_failed_def transaction_error_of_def split: prod.splits sum.splits failure.splits)
    moreover have "objs s' k \<noteq> objs s k \<Longrightarrow>
        k \<in> mkey ` set (m # ms) \<or> (\<exists>ob. objs s k = Some ob \<and> correlation_of ob = JStr cid)"
      if "\<forall>k. objs s' k \<noteq> objs s1 k \<longrightarrow> objs s' k = None \<and> (\<exists>ob. objs s1 k = Some ob \<and> correlation_of ob = JStr cid)" for k
    proof (cases "k = mkey m")
      case False
      then have "objs s1 k = objs s k" using step by blast
      moreover assume "objs s' k \<noteq> objs s k"
      ultimately show ?thesis using that [rule_format, of k] by auto
    qed simp
    ultimately show ?thesis using apply_failed_store [OF f] by blast
  next
    case (Inr r)
    with Cons.prems(1) a have l: "apply_loop W A cid (acc @ [r]) ms s1 = (Inl (Named x), s')" by simp
    have "objs s' k \<noteq> objs s k \<Longrightarrow>
        k \<in> mkey ` set (m # ms) \<or> (\<exists>ob. objs s k = Some ob \<and> correlation_of ob = JStr cid)"
      if "\<forall>k. objs s' k \<noteq> objs s1 k \<longrightarrow> k \<in> mkey ` set ms \<or> (\<exists>ob. objs s1 k = Some ob \<and> correlation_of ob = JStr cid)" for k
    proof (cases "k = mkey m")
      case False
      then have "objs s1 k = objs s k" using step by blast
      moreover assume "objs s' k \<noteq> objs s k"
      ultimately show ?thesis using that [rule_format, of k] by auto
    qed simp
    with Cons.IH [OF l] Cons.prems(2) show ?thesis by (meson list.set_intros(2))
  qed
qed simp

text \<open>The watch reads only, and its outcomes are about the references it was given.\<close>

fun slot_key :: "slot \<Rightarrow> 'k" where
  "slot_key (Inl r) = rkey r"
| "slot_key (Inr c) = rkey (co_ref c)"

lemma poll_one_store:
  "poll_one A r s = (v, s') \<Longrightarrow> objs s' = objs s \<and> (\<forall>c. v = Some c \<longrightarrow> rkey (co_ref c) = rkey r)"
  using get_keeps [of r s]
  by (cases "api_get A r s")
    (auto simp: poll_one_def settle_def ready_free split: sum.splits option.splits prod.splits bool.splits)

lemma poll_round_store:
  "poll_round A xs s = (ys, s') \<Longrightarrow> objs s' = objs s \<and> map slot_key ys = map slot_key xs"
proof (induction xs arbitrary: s ys)
  case (Cons x xs)
  show ?case
  proof (cases x)
    case (Inl r)
    obtain v s1 where v: "poll_one A r s = (v, s1)" by fastforce
    obtain zs s2 where z: "poll_round A xs s1 = (zs, s2)" by fastforce
    from Cons.prems Inl v z have e: "s' = s2" "ys = (case v of Some c \<Rightarrow> Inr c | None \<Rightarrow> Inl r) # zs" by auto
    from Cons.IH [OF z [folded e(1)]] poll_one_store [OF v] e Inl show ?thesis by (auto split: option.splits)
  next
    case (Inr c)
    obtain zs s2 where z: "poll_round A xs s = (zs, s2)" by fastforce
    from Cons.prems Inr z have e: "s' = s2" "ys = Inr c # zs" by auto
    from Cons.IH [OF z [folded e(1)]] e Inr show ?thesis by simp
  qed
qed simp

lemma watch_loop_store:
  "watch_loop n A clk dl k xs s = Some (ys, s') \<Longrightarrow> objs s' = objs s \<and> map slot_key ys = map slot_key xs"
proof (induction n arbitrary: k xs s)
  case (Suc n)
  obtain zs s1 where z: "poll_round A xs s = (zs, s1)" by fastforce
  from Suc.prems z show ?case using poll_round_store [OF z] Suc.IH [of "Suc k" zs s1]
    by (auto split: if_splits)
qed simp

lemma watch_convergence_store:
  assumes "watch_convergence V A refs s = Some (cs, s')"
  shows "objs s' = objs s \<and> map (\<lambda>c. rkey (co_ref c)) cs = map rkey refs"
proof -
  obtain xs d where w: "watch_loop (ws_fuel V) A (ws_clock V) (watch_deadline V) 0 (map Inl refs) s = Some (xs, s')"
    and c: "cs = map (timed_out d) xs"
    using assms by (auto simp: watch_convergence_def)
  have "rkey (co_ref (timed_out d x)) = slot_key x" for x by (cases x) (simp_all add: ready_free)
  with watch_loop_store [OF w] c show ?thesis by (simp add: comp_def)
qed

text \<open>The whole transaction on a prepared bundle.\<close>

lemma submit_prepared_failed:
  assumes "submit_prepared W A watch ctx ms s = Some (Inl (Named x), ev, s')" "sorted (map apply_key ms)"
    and "\<forall>m \<in> set ms. correlation_of m = JStr (dc_correlation ctx)"
  shows "te_phase x = ''dry-run'' \<and> objs s' = objs s
    \<or> te_phase x = ''apply'' \<and> (contains ''; rollback also failed: '' (te_text x)
      \<or> (\<forall>k ob. objs s' k = Some ob \<longrightarrow> correlation_of ob = JStr (dc_correlation ctx) \<longrightarrow> k \<in> rkey ` set (te_survivors x))
        \<and> (\<forall>k. objs s' k \<noteq> objs s k \<longrightarrow> k \<in> mkey ` set ms \<or> (\<exists>ob. objs s k = Some ob \<and> correlation_of ob = JStr (dc_correlation ctx))))"
proof -
  obtain r s1 where d: "dry_run_all A ms s = (r, s1)" by fastforce
  have o1: "objs s1 = objs s" using dry_run_all_keeps [of ms s] d by simp
  show ?thesis
  proof (cases r)
    case (Inl f)
    with assms(1) d have "f = Named x" "s' = s1" by (auto simp: submit_prepared_def)
    moreover have "te_phase x = ''dry-run''"
      using dry_run_all_phase [of A ms s] d Inl \<open>f = Named x\<close> by simp
    ultimately show ?thesis using o1 by simp
  next
    case (Inr ds)
    obtain r2 s2 where a: "apply_loop W A (dc_correlation ctx) [] ms s1 = (r2, s2)" by fastforce
    with assms(1,2) d Inr have "r2 = Inl (Named x)" "s' = s2"
      by (auto simp: submit_prepared_def apply_all_def apply_order_idem Let_def
          split: sum.splits option.splits list.splits)
    with apply_loop_failed [of W "dc_correlation ctx" "[]" ms s1 x s2] a assms(3) o1 show ?thesis by simp
  qed
qed

lemma submit_prepared_done:
  assumes "submit_prepared W A watch ctx ms s = Some (Inr p, ev, s')" "sorted (map apply_key ms)"
    and "\<forall>m \<in> set ms. correlation_of m = JStr (dc_correlation ctx)"
  shows "\<exists>refs. dget p ''submitted'' = JArr (map dump_ref refs) \<and> map rkey refs = map mkey ms
    \<and> (\<forall>m \<in> set ms. \<exists>ob. objs s' (mkey m) = Some ob \<and> correlation_of ob = JStr (dc_correlation ctx))"
proof -
  obtain ds s1 where d: "dry_run_all A ms s = (Inr ds, s1)"
    using assms(1) by (auto simp: submit_prepared_def split: prod.splits sum.splits)
  obtain refs s2 where a: "apply_loop W A (dc_correlation ctx) [] ms s1 = (Inr refs, s2)"
    using assms(1,2) d by (auto simp: submit_prepared_def apply_all_def apply_order_idem split: prod.splits sum.splits)
  from apply_loop_stored [OF a assms(3), of "{}"] have k: "map rkey refs = map mkey ms"
    "\<forall>m \<in> set ms. \<exists>ob. objs s2 (mkey m) = Some ob \<and> correlation_of ob = JStr (dc_correlation ctx)" by simp_all
  have sub: "dget (submission_payload rs cs) ''submitted'' = JArr (map dump_ref rs)" for rs cs
    by (simp add: submission_payload_def dget_def)
  show ?thesis
  proof (cases "watch = None \<or> refs = []")
    case True
    with assms(1,2) d a have "p = submission_payload refs []" "s' = s2"
      by (auto simp: submit_prepared_def apply_all_def apply_order_idem Let_def split: option.splits list.splits)
    with k sub show ?thesis by blast
  next
    case False
    then obtain V r rs where V: "watch = Some V" "refs = r # rs" by (cases refs) auto
    with assms(1,2) d a obtain cs where w: "watch_convergence V A refs s2 = Some (cs, s')"
      and p: "p = submission_payload (map co_ref cs) cs"
      by (auto simp: submit_prepared_def apply_all_def apply_order_idem Let_def)
    from watch_convergence_store [OF w] k
    have "map rkey (map co_ref cs) = map mkey ms" "objs s' = objs s2" by (simp_all add: comp_def)
    with k(2) sub p show ?thesis by metis
  qed
qed

end

end
