(* ===== verification/Kube_Store.thy ===== *)
theory Kube_Store
  imports Deploy_Facts
begin

text \<open>
  The client of the code satisfies the contract of the transaction: whatever the API server
  answers, as long as it does what Kubernetes documents of server-side apply, list, get and
  delete (\<open>kube_server\<close>), the client built over it is an \<open>intent_store\<close>. An in-memory server that
  may refuse a request, drop it, or lose the answer to it interprets both.
\<close>

section \<open>The API server\<close>

definition object_key :: "string \<Rightarrow> dict \<Rightarrow> string + string" where
  "object_key endpoint d =
     object_url endpoint (jstr (dget d ''apiVersion'')) (jstr (dget d ''kind''))
       (jstr (dget (obj_of (dget d ''metadata'')) ''name''))"

definition reference_key :: "string \<Rightarrow> resource_ref \<Rightarrow> string + string" where
  "reference_key endpoint r = object_url endpoint (r_apiVersion r) (r_kind r) (r_name r)"

definition under :: "string \<Rightarrow> string \<Rightarrow> bool" where
  "under u url \<longleftrightarrow> starts_with (u @ ''/'') url"

definition store_at :: "('s \<Rightarrow> string \<Rightarrow> dict option) \<Rightarrow> 's \<Rightarrow> string + string \<Rightarrow> dict option" where
  "store_at stored s k = (case k of Inr u \<Rightarrow> stored s u | Inl _ \<Rightarrow> None)"

definition selector :: "string \<Rightarrow> (string \<times> string) list" where
  "selector cid = [(''labelSelector'', CORRELATION_LABEL @ ''='' @ cid)]"

lemma validate_ref_texts:
  assumes "validate_ref L [(''apiVersion'', JStr a), (''kind'', JStr k), (''namespace'', JStr n),
     (''name'', JStr m), (''uid'', u), (''ready'', JNull)] = Inr r"
  shows "r_apiVersion r = a \<and> r_kind r = k \<and> r_name r = m \<and> a \<noteq> [] \<and> k \<noteq> [] \<and> m \<noteq> []"
proof -
  have p: "nonempty_str (JStr x) = (if x = [] then fail Invalid else Inr x)" for x
    by (simp add: nonempty_str_def guard_def)
  show ?thesis using assms
    by (cases "a = []"; cases "k = []"; cases "m = []")
      (auto simp: validate_ref_def Let_def field_req_def located_def fail_def p split: if_splits)
qed

locale kube_server =
  fixes endpoint :: string
    and http :: "'s http"
    and stored :: "'s \<Rightarrow> string \<Rightarrow> dict option"
  assumes get_reads: "hq_method q = GET \<Longrightarrow> stored (snd (http q s)) = stored s"
    and dry_run_reads: "hq_method q = PATCH \<Longrightarrow> (''dryRun'', ''All'') \<in> set (hq_params q) \<Longrightarrow>
      stored (snd (http q s)) = stored s"
    and apply_writes: "hq_method q = PATCH \<Longrightarrow> hq_params q = [(''fieldManager'', FIELD_MANAGER)] \<Longrightarrow>
      hq_body q = JObj m \<Longrightarrow> object_key endpoint m = Inr (hq_url q) \<Longrightarrow> http q s = (res, s') \<Longrightarrow>
      stored s' = stored s \<and> (\<forall>r. res = Inr r \<longrightarrow> \<not> ok_status r)
      \<or> (\<exists>ob. stored s' = (stored s)(hq_url q \<mapsto> ob) \<and> correlation_of ob = correlation_of m)"
    and apply_answers: "hq_method q = PATCH \<Longrightarrow> hq_params q = [(''fieldManager'', FIELD_MANAGER)] \<Longrightarrow>
      hq_body q = JObj m \<Longrightarrow> object_key endpoint m = Inr (hq_url q) \<Longrightarrow> http q s = (Inr r, s') \<Longrightarrow>
      ok_status r \<Longrightarrow> hr_json r = Inr (JObj b) \<Longrightarrow> object_key endpoint b = Inr (hq_url q)"
    and delete_writes: "hq_method q = DELETE \<Longrightarrow> http q s = (res, s') \<Longrightarrow>
      stored s' = (stored s)(hq_url q := None)
      \<or> stored s' = stored s \<and> (\<forall>r. res = Inr r \<longrightarrow> \<not> ok_status r \<and> hr_status r \<noteq> 404)"
    and list_absent: "collection_url endpoint a k = Inr u \<Longrightarrow> http (get_request u (selector cid)) s = (Inr r, s') \<Longrightarrow> hr_status r = 404 \<Longrightarrow>
      stored s url = Some ob \<Longrightarrow> \<not> under u url"
    and list_sound: "collection_url endpoint a k = Inr u \<Longrightarrow> http (get_request u (selector cid)) s = (Inr r, s') \<Longrightarrow> ok_status r \<Longrightarrow>
      hr_json r = Inr j \<Longrightarrow> list_items j = Inr xs \<Longrightarrow> x \<in> set xs \<Longrightarrow>
      \<exists>url ob. object_key endpoint x = Inr url \<and> stored s url = Some ob \<and> correlation_of ob = JStr cid"
    and list_complete: "collection_url endpoint a k = Inr u \<Longrightarrow> http (get_request u (selector cid)) s = (Inr r, s') \<Longrightarrow> ok_status r \<Longrightarrow>
      hr_json r = Inr j \<Longrightarrow> list_items j = Inr xs \<Longrightarrow> stored s url = Some ob \<Longrightarrow>
      correlation_of ob = JStr cid \<Longrightarrow> under u url \<Longrightarrow> \<exists>x \<in> set xs. object_key endpoint x = Inr url"
    and collections: "stored s url = Some ob \<Longrightarrow>
      \<exists>ak \<in> set allowed_kinds. \<exists>u. collection_url endpoint (fst ak) (snd ak) = Inr u \<and> under u url"
begin

lemma list_kind_keeps: "stored (snd (list_kind endpoint http ps ak s)) = stored s"
  using get_reads [of "get_request u ps" s for u]
  by (auto simp: list_kind_def get_request_def split: sum.splits prod.splits) (metis snd_conv)+

lemma list_kinds_keeps: "stored (snd (list_kinds endpoint http ps aks s)) = stored s"
proof (induction aks arbitrary: s)
  case (Cons ak aks)
  with list_kind_keeps [of ps ak s] show ?case
    by (cases "list_kind endpoint http ps ak s") (auto simp: Let_def split_def split: sum.splits)
qed simp

lemma list_kinds_ConsD:
  "list_kinds endpoint http ps (ak # aks) s = (Inr xs, s') \<Longrightarrow>
   \<exists>ys zs s1. list_kind endpoint http ps ak s = (Inr ys, s1)
     \<and> list_kinds endpoint http ps aks s1 = (Inr zs, s') \<and> xs = ys @ zs"
  by (cases "list_kind endpoint http ps ak s"; cases "list_kinds endpoint http ps aks (snd (list_kind endpoint http ps ak s))")
    (auto split: sum.splits)

text \<open>One collection of the correlation listing.\<close>

lemma list_kind_sound:
  assumes "list_kind endpoint http (selector cid) ak s = (Inr xs, s')" "x \<in> set xs"
  shows "\<exists>url ob. object_key endpoint x = Inr url \<and> stored s url = Some ob \<and> correlation_of ob = JStr cid"
proof -
  obtain u r s1 where "collection_url endpoint (fst ak) (snd ak) = Inr u"
    "http (get_request u (selector cid)) s = (Inr r, s1)" "ok_status r"
    "\<exists>j. hr_json r = Inr j \<and> list_items j = Inr xs"
    using assms by (auto simp: list_kind_def split: sum.splits prod.splits if_splits)
  with list_sound assms(2) show ?thesis by blast
qed

lemma list_kind_complete:
  assumes l: "list_kind endpoint http (selector cid) ak s = (Inr xs, s')"
    and u: "collection_url endpoint (fst ak) (snd ak) = Inr u" "under u url"
    and o': "stored s url = Some ob" "correlation_of ob = JStr cid"
  shows "\<exists>x \<in> set xs. object_key endpoint x = Inr url"
proof -
  obtain r s1 where h: "http (get_request u (selector cid)) s = (Inr r, s1)"
    and c: "hr_status r = 404 \<or> ok_status r \<and> (\<exists>j. hr_json r = Inr j \<and> list_items j = Inr xs)"
    using l u(1) by (auto simp: list_kind_def split: sum.splits prod.splits if_splits)
  have "hr_status r \<noteq> 404" using list_absent [OF u(1) h _ o'(1)] u(2) by blast
  with c list_complete [OF u(1) h] o' u(2) show ?thesis by blast
qed

lemma list_kinds_sound:
  "list_kinds endpoint http (selector cid) aks s = (Inr xs, s') \<Longrightarrow> x \<in> set xs \<Longrightarrow>
   \<exists>url ob. object_key endpoint x = Inr url \<and> stored s url = Some ob \<and> correlation_of ob = JStr cid"
proof (induction aks arbitrary: s xs)
  case (Cons ak aks)
  from list_kinds_ConsD [OF Cons.prems(1)] obtain ys zs s1 where y: "list_kind endpoint http (selector cid) ak s = (Inr ys, s1)"
    and z: "list_kinds endpoint http (selector cid) aks s1 = (Inr zs, s')" and x: "xs = ys @ zs"
    by blast
  have "stored s1 = stored s" using list_kind_keeps [of "selector cid" ak s] y by simp
  with Cons.IH [OF z] list_kind_sound [OF y] Cons.prems(2) x show ?case by auto
qed simp

lemma list_kinds_complete:
  "list_kinds endpoint http (selector cid) aks s = (Inr xs, s') \<Longrightarrow> ak \<in> set aks \<Longrightarrow>
   collection_url endpoint (fst ak) (snd ak) = Inr u \<Longrightarrow> under u url \<Longrightarrow>
   stored s url = Some ob \<Longrightarrow> correlation_of ob = JStr cid \<Longrightarrow> \<exists>x \<in> set xs. object_key endpoint x = Inr url"
proof (induction aks arbitrary: s xs)
  case (Cons ak' aks)
  from list_kinds_ConsD [OF Cons.prems(1)] obtain ys zs s1 where y: "list_kind endpoint http (selector cid) ak' s = (Inr ys, s1)"
    and z: "list_kinds endpoint http (selector cid) aks s1 = (Inr zs, s')" and x: "xs = ys @ zs"
    by blast
  have "stored s1 = stored s" using list_kind_keeps [of "selector cid" ak' s] y by simp
  with Cons.prems have o1: "stored s1 url = Some ob" by simp
  show ?case
  proof (cases "ak = ak'")
    case True
    from list_kind_complete [OF y Cons.prems(3) [unfolded True] Cons.prems(4-6)] x show ?thesis by auto
  next
    case False
    with Cons.IH [OF z _ Cons.prems(3,4) o1 Cons.prems(6)] Cons.prems(2) x show ?thesis by auto
  qed
qed simp

text \<open>The writes.\<close>

lemma server_side_apply_keeps: "stored (snd (server_side_apply endpoint http True m s)) = stored s"
  using dry_run_reads [of "\<lparr>hq_method = PATCH, hq_url = u, hq_params = [(''fieldManager'', FIELD_MANAGER), (''dryRun'', ''All'')], hq_body = JObj m\<rparr>" s for u]
  by (auto simp: server_side_apply_def split: sum.splits prod.splits) (metis snd_conv)+

lemma server_side_apply_cases:
  assumes "server_side_apply endpoint http False m s = (res, s')"
  shows "stored s' = stored s \<and> is_err res
    \<or> (\<exists>u ob. object_key endpoint m = Inr u \<and> stored s' = (stored s)(u \<mapsto> ob) \<and> correlation_of ob = correlation_of m
         \<and> (\<forall>d. res = Inr d \<longrightarrow> object_key endpoint d = Inr u))"
proof (cases "object_key endpoint m")
  case (Inl e)
  with assms show ?thesis by (auto simp: server_side_apply_def object_key_def)
next
  case (Inr u)
  let ?q = "\<lparr>hq_method = PATCH, hq_url = u, hq_params = [(''fieldManager'', FIELD_MANAGER)], hq_body = JObj m\<rparr>"
  obtain hr s1 where h: "http ?q s = (hr, s1)" by fastforce
  from Inr assms h have s1: "s' = s1"
    by (auto simp: server_side_apply_def object_key_def split: sum.splits prod.splits)
  have ok: "\<exists>r. hr = Inr r \<and> ok_status r \<and> hr_json r = Inr (JObj d)" if "res = Inr d" for d
    using Inr assms h that
    by (auto simp: server_side_apply_def object_key_def split: sum.splits prod.splits if_splits json.splits)
  have ans: "object_key endpoint d = Inr u" if "res = Inr d" for d
    using ok [OF that] apply_answers [of ?q m s _ s1 d] h Inr by auto
  have w: "stored s1 = stored s \<and> (\<forall>r. hr = Inr r \<longrightarrow> \<not> ok_status r)
      \<or> (\<exists>ob. stored s1 = (stored s)(u \<mapsto> ob) \<and> correlation_of ob = correlation_of m)"
    using apply_writes [of ?q m s hr s1] h Inr by simp
  show ?thesis
  proof (cases "\<exists>ob. stored s1 = (stored s)(u \<mapsto> ob) \<and> correlation_of ob = correlation_of m")
    case True
    with ans Inr s1 show ?thesis by blast
  next
    case False
    with w ok s1 show ?thesis by (cases res) auto
  qed
qed

lemma kube_get_keeps: "stored (snd (kube_get endpoint http r s)) = stored s"
  using get_reads [of "get_request u []" s for u]
  by (auto simp: kube_get_def get_request_def split: sum.splits prod.splits) (metis snd_conv)+

lemma kube_delete_cases:
  assumes "kube_delete endpoint http r s = (res, s')"
  shows "stored s' = stored s \<and> res \<noteq> Inr True
    \<or> (\<exists>u. reference_key endpoint r = Inr u \<and> stored s' = (stored s)(u := None))"
proof (cases "reference_key endpoint r")
  case (Inl e)
  with assms show ?thesis by (auto simp: kube_delete_def reference_key_def)
next
  case (Inr u)
  let ?q = "\<lparr>hq_method = DELETE, hq_url = u, hq_params = [], hq_body = JObj [(''kind'', JStr ''DeleteOptions''),
      (''apiVersion'', JStr ''v1''), (''propagationPolicy'', JStr ''Background'')]\<rparr>"
  obtain hr s1 where h: "http ?q s = (hr, s1)" by fastforce
  have s1: "s' = s1" and res: "\<And>p. hr = Inr p \<Longrightarrow> res = Inr (hr_status p = 404 \<or> ok_status p)" "\<And>x. hr = Inl x \<Longrightarrow> res = Inl x"
    using Inr assms h by (auto simp: kube_delete_def reference_key_def split: sum.splits)
  from delete_writes [of ?q s hr s1] h consider "stored s1 = (stored s)(u := None)"
    | "stored s1 = stored s" "\<forall>r. hr = Inr r \<longrightarrow> \<not> ok_status r \<and> hr_status r \<noteq> 404" by auto
  then show ?thesis
  proof cases
    case 2
    with res have "res \<noteq> Inr True" by (cases hr) simp_all
    with 2 s1 show ?thesis by simp
  qed (use s1 Inr in simp)
qed

lemma ref_from_object_key:
  assumes "ref_from_object W d = Inr r"
  shows "reference_key endpoint r = object_key endpoint d"
proof -
  let ?md = "obj_of (dget d ''metadata'')"
  have t: "str_or_empty j \<noteq> [] \<Longrightarrow> str_or_empty j = jstr j" for j by (auto simp: str_or_empty_def split: if_splits)
  obtain u where "validate_ref (dw_lax W)
      [(''apiVersion'', JStr (str_or_empty (dget d ''apiVersion''))), (''kind'', JStr (str_or_empty (dget d ''kind''))),
       (''namespace'', JStr (or_text (dget ?md ''namespace'') INTENT_NAMESPACE)),
       (''name'', JStr (str_or_empty (dget ?md ''name''))), (''uid'', u), (''ready'', JNull)] = Inr r"
    using assms by (auto simp: ref_from_object_def Let_def split: sum.splits)
  from validate_ref_texts [OF this] t show ?thesis by (simp add: reference_key_def object_key_def)
qed

end

text \<open>So the client is the store the transaction is proved over.\<close>

lemma store_at_write: "stored s' = (stored s)(u := x) \<Longrightarrow> store_at stored s' = (store_at stored s)(Inr u := x)"
  by (rule ext) (auto simp: store_at_def split: sum.splits)

lemma store_at_same: "stored s' = stored s \<Longrightarrow> store_at stored s' = store_at stored s"
  by (rule ext) (auto simp: store_at_def split: sum.split)

lemma store_at_Some: "store_at stored s k = Some ob \<longleftrightarrow> (\<exists>u. k = Inr u \<and> stored s u = Some ob)"
  by (auto simp: store_at_def split: sum.splits)

sublocale kube_server \<subseteq> client: intent_store "kube_api endpoint http" "store_at stored" "object_key endpoint" "reference_key endpoint"
proof unfold_locales
  show "store_at stored (snd (api_dry_run (kube_api endpoint http) m s)) = store_at stored s" for m s
    by (simp add: kube_api_def ) (rule store_at_same, rule server_side_apply_keeps)
  show "store_at stored (snd (api_get (kube_api endpoint http) r s)) = store_at stored s" for r s
    by (simp add: kube_api_def ) (rule store_at_same, rule kube_get_keeps)
  show "store_at stored (snd (api_list (kube_api endpoint http) cid s)) = store_at stored s" for cid s
    by (simp add: kube_api_def kube_list_def ) (rule store_at_same, rule list_kinds_keeps)
  show "store_at stored (snd (api_networks (kube_api endpoint http) s)) = store_at stored s" for s
    by (simp add: kube_api_def kube_networks_def ) (rule store_at_same, rule list_kind_keeps)
  show "object_key endpoint d = object_key endpoint m \<and> (\<exists>ob. store_at stored s' =
      (store_at stored s)(object_key endpoint m \<mapsto> ob) \<and> correlation_of ob = correlation_of m)"
    if "api_apply (kube_api endpoint http) m s = (Inr d, s')" for m s d s'
  proof -
    have "server_side_apply endpoint http False m s = (Inr d, s')" using that by (simp add: kube_api_def)
    from server_side_apply_cases [OF this] obtain u ob where "object_key endpoint m = Inr u"
      "stored s' = (stored s)(u \<mapsto> ob)" "correlation_of ob = correlation_of m" "object_key endpoint d = Inr u"
      by auto
    with store_at_write [of stored s' s u "Some ob"] show ?thesis by auto
  qed
  show "store_at stored s' = store_at stored s \<or> (\<exists>ob. store_at stored s' =
      (store_at stored s)(object_key endpoint m \<mapsto> ob) \<and> correlation_of ob = correlation_of m)"
    if "api_apply (kube_api endpoint http) m s = (Inl e, s')" for m s e s'
  proof -
    have "server_side_apply endpoint http False m s = (Inl e, s')" using that by (simp add: kube_api_def)
    from server_side_apply_cases [OF this] store_at_same store_at_write show ?thesis by metis
  qed
  show "\<exists>x \<in> set xs. object_key endpoint x = k"
    if l1: "api_list (kube_api endpoint http) cid s = (Inr xs, s')" and k: "store_at stored s k = Some ob"
      and c0: "correlation_of ob = JStr cid" for cid s xs s' k ob
  proof -
    obtain u where u: "k = Inr u" "stored s u = Some ob" using k by (auto simp: store_at_Some)
    from collections [OF u(2)] obtain ak c where c: "ak \<in> set allowed_kinds"
      "collection_url endpoint (fst ak) (snd ak) = Inr c" "under c u" by blast
    have l: "list_kinds endpoint http (selector cid) allowed_kinds s = (Inr xs, s')"
      using l1 by (simp add: kube_api_def kube_list_def selector_def)
    from list_kinds_complete [OF l c u(2) c0] u(1) show ?thesis by simp
  qed
  show "\<exists>ob. store_at stored s (object_key endpoint x) = Some ob \<and> correlation_of ob = JStr cid"
    if "api_list (kube_api endpoint http) cid s = (Inr xs, s')" "x \<in> set xs" for cid s xs s' x
    using that list_kinds_sound [of cid allowed_kinds s xs s' x]
    by (auto simp: kube_api_def kube_list_def selector_def store_at_Some)
  show "store_at stored s' = (store_at stored s)(reference_key endpoint r := None)"
    if "api_delete (kube_api endpoint http) r s = (Inr True, s')" for r s s'
  proof -
    have "kube_delete endpoint http r s = (Inr True, s')" using that by (simp add: kube_api_def)
    from kube_delete_cases [OF this] store_at_write show ?thesis by metis
  qed
  show "store_at stored s' = store_at stored s \<or> store_at stored s' = (store_at stored s)(reference_key endpoint r := None)"
    if "api_delete (kube_api endpoint http) r s = (res, s')" for r s res s'
  proof -
    have "kube_delete endpoint http r s = (res, s')" using that by (simp add: kube_api_def)
    from kube_delete_cases [OF this] store_at_same store_at_write show ?thesis by metis
  qed
  show "reference_key endpoint r = object_key endpoint d" if "ref_from_object W d = Inr r" for W d r
    using that by (rule ref_from_object_key)
  show "reference_key endpoint (r\<lparr>r_ready := b\<rparr>) = reference_key endpoint r" for r b
    by (simp add: reference_key_def)
qed

end
