(* ===== verification/Kube_Server.thy ===== *)
theory Kube_Server
  imports Kube_Store
begin

text \<open>
  An API server that keeps the laws of \<open>kube_server\<close>, so that they are known to be satisfiable
  together and the client and the transaction can be run. Its script says what happens to each
  request: it is served, refused, lost on the way in, or lost on the way back.
\<close>

datatype fault = Served | Refused | Lost_In | Lost_Out

record cluster =
  cl_objects :: "(string \<times> dict) list"   \<comment> \<open>by the URL of the object\<close>
  cl_script :: "fault list"

definition stored_in :: "string \<Rightarrow> cluster \<Rightarrow> string \<Rightarrow> dict option" where
  "stored_in endpoint c u =
     (case map_of (cl_objects c) u of
        Some ob \<Rightarrow> if object_key endpoint ob = Inr u then Some ob else None
      | None \<Rightarrow> None)"

definition answer :: "int \<Rightarrow> dict \<Rightarrow> http_response" where
  "answer n b = \<lparr>hr_status = n, hr_json = Inr (JObj b), hr_text = []\<rparr>"

definition status_answer :: "int \<Rightarrow> string \<Rightarrow> http_response" where
  "status_answer n t = answer n [(''kind'', JStr ''Status''), (''message'', JStr t)]"

definition is_collection :: "string \<Rightarrow> string \<Rightarrow> bool" where
  "is_collection endpoint u \<longleftrightarrow> (\<exists>ak \<in> set allowed_kinds. collection_url endpoint (fst ak) (snd ak) = Inr u)"

definition selects :: "(string \<times> string) list \<Rightarrow> dict \<Rightarrow> bool" where
  "selects ps ob \<longleftrightarrow> (\<forall>(k, v) \<in> set ps. k = ''labelSelector'' \<longrightarrow>
     (case correlation_of ob of JStr t \<Rightarrow> v = CORRELATION_LABEL @ ''='' @ t | _ \<Rightarrow> False))"

definition listing :: "string \<Rightarrow> string \<Rightarrow> (string \<times> string) list \<Rightarrow> cluster \<Rightarrow> dict list" where
  "listing endpoint u ps c =
     map snd (filter (\<lambda>(url, ob). under u url \<and> stored_in endpoint c url = Some ob \<and> selects ps ob) (cl_objects c))"

text \<open>What serving a request answers and leaves.\<close>

definition process :: "string \<Rightarrow> http_request \<Rightarrow> cluster \<Rightarrow> http_response \<times> cluster" where
  "process endpoint q c =
     (let u = hq_url q in
      case hq_method q of
        GET \<Rightarrow>
          ((if is_collection endpoint u
            then answer 200 [(''kind'', JStr ''List''), (''items'', JArr (map JObj (listing endpoint u (hq_params q) c)))]
            else (case stored_in endpoint c u of
                    Some ob \<Rightarrow> answer 200 ob | None \<Rightarrow> status_answer 404 ''not found'')), c)
      | PATCH \<Rightarrow>
          (case hq_body q of
             JObj m \<Rightarrow>
               if object_key endpoint m \<noteq> Inr u then (status_answer 400 ''name mismatch'', c)
               else (answer 200 m,
                     if (''dryRun'', ''All'') \<in> set (hq_params q) then c
                     else c\<lparr>cl_objects := (u, m) # cl_objects c\<rparr>)
           | _ \<Rightarrow> (status_answer 400 ''not an object'', c))
      | DELETE \<Rightarrow>
          (if stored_in endpoint c u = None then (status_answer 404 ''not found'', c)
           else (status_answer 200 ''Success'',
                 c\<lparr>cl_objects := filter (\<lambda>(url, _). url \<noteq> u) (cl_objects c)\<rparr>))
      | POST \<Rightarrow> (status_answer 405 ''method not allowed'', c))"

definition next_fault :: "cluster \<Rightarrow> fault \<times> cluster" where
  "next_fault c = (case cl_script c of [] \<Rightarrow> (Served, c) | f # fs \<Rightarrow> (f, c\<lparr>cl_script := fs\<rparr>))"

definition serve :: "string \<Rightarrow> cluster http" where
  "serve endpoint q c =
     (let (f, c0) = next_fault c;
          (r, c1) = process endpoint q c0
      in case f of
           Served \<Rightarrow> (Inr r, c1)
         | Refused \<Rightarrow> (Inr (status_answer 503 ''unavailable''), c0)
         | Lost_In \<Rightarrow> (Inl ''connection refused'', c0)
         | Lost_Out \<Rightarrow> (Inl ''read timed out'', c1))"

lemma ok_status_answer [simp]: "ok_status (answer n b) \<longleftrightarrow> n div 100 = 2"
  "hr_status (answer n b) = n" "hr_json (answer n b) = Inr (JObj b)"
  by (simp_all add: ok_status_def answer_def)

lemma ok_status_text [simp]: "ok_status (status_answer n t) \<longleftrightarrow> n div 100 = 2" "hr_status (status_answer n t) = n"
  by (simp_all add: status_answer_def)

lemma stored_in_objects: "cl_objects c0 = cl_objects c \<Longrightarrow> stored_in endpoint c0 = stored_in endpoint c"
  by (rule ext) (simp add: stored_in_def)

lemma serve_cases:
  assumes "serve endpoint q c = (res, c')"
  obtains (served) c0 r where "cl_objects c0 = cl_objects c" "process endpoint q c0 = (r, c')"
      "\<And>p. res = Inr p \<Longrightarrow> p = r"
  | (refused) "cl_objects c' = cl_objects c" "\<And>p. res = Inr p \<Longrightarrow> hr_status p = 503"
proof -
  obtain f c0 where f: "next_fault c = (f, c0)" by fastforce
  then have o0: "cl_objects c0 = cl_objects c" by (auto simp: next_fault_def split: list.splits)
  obtain r c1 where p: "process endpoint q c0 = (r, c1)" by fastforce
  show thesis
  proof (cases "f = Served \<or> f = Lost_Out")
    case True
    with assms f p have "c' = c1" "\<And>p. res = Inr p \<Longrightarrow> p = r" by (auto simp: serve_def)
    with p o0 served show thesis by blast
  next
    case False
    with assms f p have "c' = c0" "\<And>p. res = Inr p \<Longrightarrow> hr_status p = 503"
      by (cases f; auto simp: serve_def)+
    with o0 refused show thesis by simp
  qed
qed

text \<open>What one request does to the objects, whatever the script.\<close>

lemma stored_in_write:
  "object_key endpoint m = Inr u \<Longrightarrow>
   stored_in endpoint (c\<lparr>cl_objects := (u, m) # cl_objects c\<rparr>) = (stored_in endpoint c)(u \<mapsto> m)"
  by (rule ext) (simp add: stored_in_def)

lemma stored_in_remove:
  "stored_in endpoint (c\<lparr>cl_objects := filter (\<lambda>(url, _). url \<noteq> u) (cl_objects c)\<rparr>) = (stored_in endpoint c)(u := None)"
proof -
  have "map_of (filter (\<lambda>(url, _). url \<noteq> u) xs) = (map_of xs)(u := None)" for xs :: "(string \<times> dict) list"
    by (induction xs) (auto simp: fun_eq_iff)
  then show ?thesis by (auto simp: stored_in_def fun_eq_iff)
qed

lemma list_items_listing:
  "list_items (JObj [(''kind'', k), (''items'', JArr (map JObj xs))]) = Inr xs"
proof -
  have "filter is_obj (map JObj xs) = map JObj xs" by (induction xs) simp_all
  then show ?thesis by (simp add: list_items_def has_key_def dget_def comp_def)
qed

lemma selects_selector: "selects (selector cid) ob \<longleftrightarrow> correlation_of ob = JStr cid"
  by (cases "correlation_of ob") (auto simp: selects_def selector_def)

lemma listing_selected:
  "x \<in> set (listing endpoint u (selector cid) c) \<longleftrightarrow>
   (\<exists>url. (url, x) \<in> set (cl_objects c) \<and> under u url \<and> stored_in endpoint c url = Some x \<and> correlation_of x = JStr cid)"
  unfolding listing_def by (auto simp: selects_selector image_iff intro: bexI)

lemma stored_in_key: "stored_in endpoint c u = Some ob \<Longrightarrow> object_key endpoint ob = Inr u \<and> (u, ob) \<in> set (cl_objects c)"
  by (auto simp: stored_in_def dest: map_of_SomeD split: option.splits if_splits)

lemma collection_allowed: "collection_url endpoint a k = Inr u \<Longrightarrow> (a, k) \<in> set allowed_kinds"
  by (auto simp: collection_url_def plural_of_def allowed_kinds_def Let_def
      dest: map_of_SomeD intro: rev_image_eqI split: if_splits option.splits)

lemma object_key_collection:
  assumes "object_key endpoint ob = Inr u"
  shows "\<exists>ak \<in> set allowed_kinds. \<exists>c. collection_url endpoint (fst ak) (snd ak) = Inr c \<and> under c u"
proof -
  let ?a = "jstr (dget ob ''apiVersion'')" and ?k = "jstr (dget ob ''kind'')"
  obtain c where c: "collection_url endpoint ?a ?k = Inr c" and u: "u = c @ ''/'' @ quote_url (jstr (dget (obj_of (dget ob ''metadata'')) ''name''))"
    using assms by (cases "collection_url endpoint ?a ?k") (auto simp: object_key_def object_url_def)
  from collection_allowed [OF c] c u show ?thesis by (intro bexI [of _ "(?a, ?k)"] exI [of _ c]) (simp_all add: under_def starts_with_def)
qed

lemma process_reads: "hq_method q = GET \<Longrightarrow> snd (process endpoint q c) = c"
  by (simp add: process_def Let_def)

lemma process_list:
  "collection_url endpoint a k = Inr u \<Longrightarrow>
   process endpoint (get_request u (selector cid)) c =
     (answer 200 [(''kind'', JStr ''List''), (''items'', JArr (map JObj (listing endpoint u (selector cid) c)))], c)"
  using collection_allowed [of endpoint a k u]
  by (force simp: process_def get_request_def is_collection_def)

interpretation served: kube_server endpoint "serve endpoint" "stored_in endpoint"
proof unfold_locales
  show "stored_in endpoint (snd (serve endpoint q s)) = stored_in endpoint s" if "hq_method q = GET" for q s
    using process_reads [OF that] by (cases "serve endpoint q s") (metis serve_cases snd_conv stored_in_objects)
  show "stored_in endpoint (snd (serve endpoint q s)) = stored_in endpoint s"
    if "hq_method q = PATCH" "(''dryRun'', ''All'') \<in> set (hq_params q)" for q s
  proof -
    have "snd (process endpoint q c) = c" for c
      using that by (cases "hq_body q") (simp_all add: process_def Let_def)
    then show ?thesis by (cases "serve endpoint q s") (metis serve_cases snd_conv stored_in_objects)
  qed
  show "stored_in endpoint s' = stored_in endpoint s \<and> (\<forall>r. res = Inr r \<longrightarrow> \<not> ok_status r)
      \<or> (\<exists>ob. stored_in endpoint s' = (stored_in endpoint s)(hq_url q \<mapsto> ob) \<and> correlation_of ob = correlation_of m)"
    if q: "hq_method q = PATCH" "hq_params q = [(''fieldManager'', FIELD_MANAGER)]" "hq_body q = JObj m"
      and k: "object_key endpoint m = Inr (hq_url q)" and h: "serve endpoint q s = (res, s')" for q m s res s'
    using h
  proof (cases rule: serve_cases)
    case (served c0 r)
    with q k have "s' = c0\<lparr>cl_objects := (hq_url q, m) # cl_objects c0\<rparr>" by (simp add: process_def Let_def)
    with stored_in_write [OF k, of c0] stored_in_objects [OF served(1)] show ?thesis by auto
  next
    case refused
    with stored_in_objects [OF refused(1)] show ?thesis by (auto simp: ok_status_def)
  qed
  show "object_key endpoint b = Inr (hq_url q)"
    if q: "hq_method q = PATCH" "hq_params q = [(''fieldManager'', FIELD_MANAGER)]" "hq_body q = JObj m"
      and k: "object_key endpoint m = Inr (hq_url q)" and h: "serve endpoint q s = (Inr r, s')"
      and ok: "ok_status r" and b: "hr_json r = Inr (JObj b)" for q m s r s' b
    using h
  proof (cases rule: serve_cases)
    case (served c0 p)
    with q k have "p = answer 200 m" by (simp add: process_def Let_def)
    with served(3) [of r] b k show ?thesis by simp
  next
    case refused
    with ok show ?thesis by (simp add: ok_status_def)
  qed
  show "stored_in endpoint s' = (stored_in endpoint s)(hq_url q := None)
      \<or> stored_in endpoint s' = stored_in endpoint s \<and> (\<forall>r. res = Inr r \<longrightarrow> \<not> ok_status r \<and> hr_status r \<noteq> 404)"
    if q: "hq_method q = DELETE" and h: "serve endpoint q s = (res, s')" for q s res s'
    using h
  proof (cases rule: serve_cases)
    case (served c0 r)
    show ?thesis
    proof (cases "stored_in endpoint c0 (hq_url q) = None")
      case True
      with served q have "s' = c0" by (simp add: process_def Let_def)
      with True stored_in_objects [OF served(1)] show ?thesis by (simp add: fun_upd_idem)
    next
      case False
      with served q have "s' = c0\<lparr>cl_objects := filter (\<lambda>(url, _). url \<noteq> hq_url q) (cl_objects c0)\<rparr>"
        by (auto simp: process_def Let_def)
      with stored_in_remove [of endpoint "hq_url q" c0] stored_in_objects [OF served(1)] show ?thesis by simp
    qed
  next
    case refused
    with stored_in_objects [OF refused(1)] show ?thesis by (auto simp: ok_status_def)
  qed
  show "\<not> under u url"
    if c: "collection_url endpoint a k = Inr u" and h: "serve endpoint (get_request u (selector cid)) s = (Inr r, s')"
      and n: "hr_status r = 404" for a k u cid s r s' url ob
    using h by (cases rule: serve_cases) (use n process_list [OF c] in auto)
  show "\<exists>url ob. object_key endpoint x = Inr url \<and> stored_in endpoint s url = Some ob \<and> correlation_of ob = JStr cid"
    if c: "collection_url endpoint a k = Inr u" and h: "serve endpoint (get_request u (selector cid)) s = (Inr r, s')"
      and ok: "ok_status r" and j: "hr_json r = Inr j" "list_items j = Inr xs" and x: "x \<in> set xs"
    for a k u cid s r s' j xs x
    using h
  proof (cases rule: serve_cases)
    case (served c0 p)
    with process_list [OF c] j have "xs = listing endpoint u (selector cid) c0"
      by (auto simp: list_items_listing)
    with x show ?thesis using stored_in_objects [OF served(1)]
      by (auto simp: listing_selected dest: stored_in_key)
  next
    case refused
    with ok show ?thesis by (simp add: ok_status_def)
  qed
  show "\<exists>x \<in> set xs. object_key endpoint x = Inr url"
    if c: "collection_url endpoint a k = Inr u" and h: "serve endpoint (get_request u (selector cid)) s = (Inr r, s')"
      and ok: "ok_status r" and j: "hr_json r = Inr j" "list_items j = Inr xs"
      and o': "stored_in endpoint s url = Some ob" "correlation_of ob = JStr cid" "under u url"
    for a k u cid s r s' j xs url ob
    using h
  proof (cases rule: serve_cases)
    case (served c0 p)
    with process_list [OF c] j have "xs = listing endpoint u (selector cid) c0"
      by (auto simp: list_items_listing)
    moreover have "ob \<in> set (listing endpoint u (selector cid) c0)"
      using served(1) stored_in_objects [OF served(1)] o' stored_in_key [OF o'(1)]
      by (auto simp: listing_selected)
    ultimately show ?thesis using stored_in_key [OF o'(1)] by auto
  next
    case refused
    with ok show ?thesis by (simp add: ok_status_def)
  qed
  show "\<exists>ak \<in> set allowed_kinds. \<exists>c. collection_url endpoint (fst ak) (snd ak) = Inr c \<and> under c url"
    if "stored_in endpoint s url = Some ob" for s url ob
    using object_key_collection stored_in_key [OF that] by blast
qed

end
