(* ===== verification/Deployment.thy ===== *)
theory Deployment
  imports Kube_Server
begin

text \<open>
  The deployment as a whole: what a request that was prepared is, and what the transaction leaves
  on the API server when it fails before the apply, when an apply fails, and when it succeeds.
\<close>

section \<open>The prepared bundle\<close>

lemma prepare_request_Inr:
  assumes "prepare_request W tr e = Inr ms"
  shows "validate_context (env_context e) = Inr ()
    \<and> (\<exists>n t js. validate_intent (dw_lax W) (env_intent e) = Inr n \<and> tr (dump_intent n) = Inr t
         \<and> translated_manifests t = Inr js \<and> validate_and_stamp (env_context e) (dw_time W) js = Inr ms)"
  using assms by (auto simp: prepare_request_def split: sum.splits)

lemma prepared_sorted: "prepare_request W tr e = Inr ms \<Longrightarrow> sorted (map apply_key ms)"
  using prepare_request_Inr validate_and_stamp_Inr by metis

lemma prepared_correlation:
  "prepare_request W tr e = Inr ms \<Longrightarrow> \<forall>m \<in> set ms. correlation_of m = JStr (dc_correlation (env_context e))"
  using prepare_request_Inr validate_and_stamp_Inr by (metis correlation_of_label well_stamped_def)

text \<open>Before the transaction reaches the dry run it only reads, and it never names the apply phase.\<close>

definition names_phase :: "string set \<Rightarrow> failure \<Rightarrow> bool" where
  "names_phase P f \<longleftrightarrow> (\<forall>x. f = Named x \<longrightarrow> te_phase x \<in> P)"

lemma names_phase_named [simp]: "names_phase P (named p m r) \<longleftrightarrow> p \<in> P"
  by (simp add: names_phase_def named_def transaction_error_of_def)

lemma names_phase_Other [simp]: "names_phase P (Other t)"
  by (simp add: names_phase_def)

lemma validate_context_phase: "validate_context c = Inl f \<Longrightarrow> names_phase {''request-validation''} f"
  by (auto simp: validate_context_def split: if_splits)

lemma prepare_manifests_phase: "prepare_manifests ctx ts seen js = Inl f \<Longrightarrow> names_phase {''manifest-validation''} f"
proof (induction js arbitrary: seen)
  case (Cons j js)
  have "prepare_manifest ctx ts seen j = Inl f \<Longrightarrow> names_phase {''manifest-validation''} f"
    unfolding prepare_manifest_def Let_def
    by (cases j) (auto simp: invalid_manifest_def split: json.splits if_splits)
  with Cons show ?case by (auto simp: bind_res_Inl_iff map_res_Inl split: prod.splits)
qed simp

lemma prepare_request_phase:
  assumes "prepare_request W tr e = Inl f"
  shows "names_phase {''request-validation'', ''translation'', ''manifest-validation''} f"
proof -
  have sub: "names_phase P f \<Longrightarrow> P \<subseteq> {''request-validation'', ''translation'', ''manifest-validation''} \<Longrightarrow> ?thesis" for P
    by (auto simp: names_phase_def)
  have "validate_and_stamp ctx ts js = Inl f \<Longrightarrow> ?thesis" for ctx ts js
    using validate_context_phase [of ctx f] prepare_manifests_phase [of ctx ts "[]" js f] sub
    by (auto simp: validate_and_stamp_def bind_res_Inl_iff split: if_splits)
  moreover have "translated_manifests t = Inl f \<Longrightarrow> ?thesis" for t
    by (auto simp: translated_manifests_def split: json.splits)
  ultimately show ?thesis
    using assms validate_context_phase [of "env_context e" f] sub
    by (auto simp: prepare_request_def bind_res_Inl_iff split: sum.splits)
qed

lemma check_bindings_phase: "check_bindings H ms = Inl f \<Longrightarrow> names_phase {''pre-flight''} f"
proof (induction H ms rule: check_bindings.induct)
  case (2 H m ms)
  have "own_bindings H svc bs = Inl f \<Longrightarrow> names_phase {''pre-flight''} f" for svc bs
    by (induction H svc bs rule: own_bindings.induct)
      (auto simp: binding_refused_def map_res_Inl split: option.splits if_splits)
  with 2 show ?case by (auto simp: bind_res_Inl_iff split: if_splits)
qed simp

lemma preflight_phase: "preflight_acl_binding A ms s = (Inl f, s1) \<Longrightarrow> names_phase {''pre-flight''} f"
  by (auto simp: preflight_acl_binding_def dest: check_bindings_phase split: prod.splits sum.splits)

section \<open>The run under the client's contract\<close>

lemma run_cases:
  assumes "run_deployment_transaction W (Inr A) tr watch e s = Some (res, ev, s')"
  obtains (early) f where "res = Inl f" "ev = []" "s' = s" "names_phase {''request-validation'', ''translation'', ''manifest-validation''} f"
  | (refused) f ms where "prepare_request W tr e = Inr ms" "res = Inl f" "ev = []"
      "s' = snd (preflight_acl_binding A ms s)" "names_phase {''pre-flight''} f"
  | (submitted) ms where "prepare_request W tr e = Inr ms"
      "submit_prepared W A watch (env_context e) ms (snd (preflight_acl_binding A ms s)) = Some (res, ev, s')"
proof (cases "prepare_request W tr e")
  case (Inl f)
  with assms prepare_request_phase [OF Inl] show thesis by (intro early [of f]) (simp_all add: run_deployment_transaction_def)
next
  case (Inr ms)
  obtain r s1 where p: "preflight_acl_binding A ms s = (r, s1)" by fastforce
  show thesis
  proof (cases r)
    case (Inl f)
    with assms Inr p preflight_phase [of A ms s f s1] show thesis
      by (intro refused [OF Inr, of f]) (simp_all add: run_deployment_transaction_def)
  next
    case r: (Inr u)
    with assms Inr p submitted [OF Inr] show thesis by (simp add: run_deployment_transaction_def)
  qed
qed

context intent_store
begin

lemma run_failed:
  assumes r: "run_deployment_transaction W (Inr A) tr watch e s = Some (Inl (Named x), ev, s')"
  shows "te_phase x \<noteq> ''apply'' \<and> objs s' = objs s
    \<or> te_phase x = ''apply'' \<and> (contains ''; rollback also failed: '' (te_text x)
      \<or> (\<forall>k ob. objs s' k = Some ob \<longrightarrow> correlation_of ob = JStr (dc_correlation (env_context e)) \<longrightarrow> k \<in> rkey ` set (te_survivors x))
        \<and> (\<forall>k. objs s' k \<noteq> objs s k \<longrightarrow>
            (\<exists>ms. prepare_request W tr e = Inr ms \<and> k \<in> mkey ` set ms)
            \<or> (\<exists>ob. objs s k = Some ob \<and> correlation_of ob = JStr (dc_correlation (env_context e)))))"
  using r
proof (cases rule: run_cases)
  case (early f)
  then show ?thesis by (auto simp: names_phase_def)
next
  case (refused f ms)
  then show ?thesis using preflight_keeps [of ms s] by (auto simp: names_phase_def)
next
  case (submitted ms)
  from submit_prepared_failed [OF submitted(2) prepared_sorted [OF submitted(1)] prepared_correlation [OF submitted(1)]]
    submitted(1) preflight_keeps [of ms s]
  show ?thesis by auto
qed

lemma run_done:
  assumes r: "run_deployment_transaction W (Inr A) tr watch e s = Some (Inr p, ev, s')"
  shows "\<exists>ms refs. prepare_request W tr e = Inr ms \<and> dget p ''submitted'' = JArr (map dump_ref refs)
    \<and> map rkey refs = map mkey ms
    \<and> (\<forall>m \<in> set ms. \<exists>ob. objs s' (mkey m) = Some ob \<and> correlation_of ob = JStr (dc_correlation (env_context e)))"
  using r
proof (cases rule: run_cases)
  case (submitted ms)
  from submit_prepared_done [OF submitted(2) prepared_sorted [OF submitted(1)] prepared_correlation [OF submitted(1)]]
    submitted(1)
  show ?thesis by blast
qed auto

end

end
