(* ===== verification/Deploy_Demo.thy ===== *)
theory Deploy_Demo
  imports Deployment Sup_Demo
begin

text \<open>
  Concrete requests, translators and clusters the deployment's properties are exercised on.
\<close>

definition demo_deploy_world :: deploy_world where
  "demo_deploy_world = \<lparr>dw_lax = demo_lax, dw_pyd_text = (\<lambda>_. ''invalid''), dw_time = ''now''\<rparr>"

definition demo_correlation :: string where
  "demo_correlation = replicate 32 CHR ''a''"

definition demo_envelope :: envelope where
  "demo_envelope = \<lparr>env_intent = demo_intent,
     env_context = \<lparr>dc_correlation = demo_correlation, dc_thread = ''t'', dc_principal = ''op''\<rparr>\<rparr>"

definition demo_network :: "string \<Rightarrow> dict" where
  "demo_network n = [(''apiVersion'', JStr ''network.kubenet.dev/v1alpha1''), (''kind'', JStr ''Network''),
     (''metadata'', JObj [(''name'', JStr n)]), (''spec'', JObj [])]"

definition demo_translator :: translator where
  "demo_translator i = Inr (JObj [(''manifests'', JArr [JObj (demo_network ''b''), JObj (demo_network ''a'')])])"

definition demo_cluster :: "fault list \<Rightarrow> cluster" where
  "demo_cluster fs = \<lparr>cl_objects = [], cl_script = fs\<rparr>"

definition demo_run :: "fault list \<Rightarrow> ((failure + dict) \<times> deploy_audit list \<times> cluster) option" where
  "demo_run fs = run_deployment_transaction demo_deploy_world (Inr (kube_api [] (serve [])))
     demo_translator None demo_envelope (demo_cluster fs)"

lemma demo_prepared:
  "\<not> is_err (prepare_request demo_deploy_world demo_translator demo_envelope)"
  by code_simp

type_synonym demo_outcome = "((failure + dict) \<times> deploy_audit list \<times> cluster) option"

fun failed_with :: "(transaction_error \<Rightarrow> bool) \<Rightarrow> demo_outcome \<Rightarrow> bool" where
  "failed_with P (Some (Inl (Named x), ev, c)) = P x"
| "failed_with P r = False"

fun succeeded_with :: "(cluster \<Rightarrow> bool) \<Rightarrow> demo_outcome \<Rightarrow> bool" where
  "succeeded_with P (Some (Inr p, ev, c)) = P c"
| "succeeded_with P r = False"

lemma failed_withE: "failed_with P r \<Longrightarrow> \<exists>x ev c. r = Some (Inl (Named x), ev, c) \<and> P x"
  by (cases "(P, r)" rule: failed_with.cases) auto

lemma succeeded_withE: "succeeded_with P r \<Longrightarrow> \<exists>p ev c. r = Some (Inr p, ev, c) \<and> P c"
  by (cases "(P, r)" rule: succeeded_with.cases) auto

text \<open>Five requests make a run: the networks are listed, two objects are dry-run and applied.\<close>

definition demo_refused_dry_run :: "fault list" where
  "demo_refused_dry_run = [Served, Served, Refused]"

text \<open>The second apply is lost on the way back, and the delete of the first object is refused.\<close>

definition demo_lost_apply :: "fault list" where
  "demo_lost_apply = [Served, Served, Served, Served, Lost_Out, Served, Served, Refused]"

lemma demo_run_ok: "succeeded_with (\<lambda>c. length (cl_objects c) = 2) (demo_run [])"
  by code_simp

lemma demo_dry_run_refused: "failed_with (\<lambda>x. te_phase x = ''dry-run'') (demo_run demo_refused_dry_run)"
  by code_simp

lemma demo_apply_lost:
  "failed_with (\<lambda>x. te_phase x = ''apply'' \<and> \<not> contains ''; rollback also failed: '' (te_text x)
     \<and> map r_name (te_survivors x) = [''a''] \<and> map r_name (te_rolled_back x) = [''b'']) (demo_run demo_lost_apply)"
  by code_simp

text \<open>A cluster that already has the network a, of an earlier request, and refuses the second apply.\<close>

definition demo_previous :: dict where
  "demo_previous = dset ''metadata'' (JObj [(''name'', JStr ''a''),
     (''labels'', JObj [(CORRELATION_LABEL, JStr ''previous'')])]) (demo_network ''a'')"

definition demo_previous_url :: string where
  "demo_previous_url = (case object_key [] demo_previous of Inr u \<Rightarrow> u | Inl e \<Rightarrow> e)"

definition demo_updated_cluster :: cluster where
  "demo_updated_cluster = \<lparr>cl_objects = [(demo_previous_url, demo_previous)],
     cl_script = [Served, Served, Served, Served, Refused]\<rparr>"

fun failed_clean :: "demo_outcome \<Rightarrow> bool" where
  "failed_clean (Some (Inl (Named x), ev, c)) = (te_survivors x = [] \<and> cl_objects c = [])"
| "failed_clean r = False"

lemma failed_cleanE: "failed_clean r \<Longrightarrow> \<exists>x ev c. r = Some (Inl (Named x), ev, c) \<and> te_survivors x = [] \<and> cl_objects c = []"
  by (cases r rule: failed_clean.cases) auto

lemma demo_update_fails:
  "failed_clean (run_deployment_transaction demo_deploy_world (Inr (kube_api [] (serve []))) demo_translator None
     demo_envelope demo_updated_cluster)"
  by code_simp

text \<open>Two services on the same port, of whichever nodes.\<close>

definition demo_bound :: "string \<Rightarrow> string \<Rightarrow> dict" where
  "demo_bound svc node = [(''apiVersion'', JStr ''network.kubenet.dev/v1alpha1''), (''kind'', JStr ''Network''),
     (''metadata'', JObj [(''name'', JStr svc)]),
     (''spec'', JObj [(''attachments'', JArr [JObj [(''node'', JStr node), (''attachment'', JStr ''ethernet1'')]]),
        (''accessLists'', JArr [JObj [(''name'', JStr ''l''), (''stage'', JStr ''ingress'')]])])]"

definition demo_networks :: "dict list \<Rightarrow> unit intent_api" where
  "demo_networks obs = \<lparr>api_dry_run = (\<lambda>m s. (Inr m, s)), api_apply = (\<lambda>m s. (Inr m, s)),
     api_get = (\<lambda>_ s. (Inr None, s)), api_list = (\<lambda>_ s. (Inr [], s)),
     api_networks = (\<lambda>s. (Inr obs, s)), api_delete = (\<lambda>_ s. (Inr True, s))\<rparr>"

definition demo_watch :: watch_settings where
  "demo_watch = \<lparr>ws_start = 0, ws_clock = (\<lambda>k. 50 * int k), ws_timeout = 100, ws_text = ''0.1'', ws_fuel = 4\<rparr>"

definition demo_ref :: resource_ref where
  "demo_ref = \<lparr>r_apiVersion = ''network.kubenet.dev/v1alpha1'', r_kind = ''Network'', r_namespace = ''n'',
     r_name = ''a'', r_uid = None, r_ready = None\<rparr>"

end
