(* ===== verification/Preflight.thy ===== *)
theory Preflight
  imports Transaction
begin

text \<open>
  The access-list pre-flight against its promise: no two services bind an access list to the same
  port at the same stage. The table of holders the code builds represents the bindings of the
  objects it has seen (\<open>represents\<close>), and the check succeeds exactly when the bundle adds no
  conflict.
\<close>

text \<open>The specification: the bound (port, stage) pairs of an object, and the absence of a conflict.\<close>

definition places :: "(string \<times> string \<times> string) list \<Rightarrow> (string \<times> string) set" where
  "places bs = (\<lambda>(p, st, n). (p, st)) ` set bs"

definition bound_ports :: "dict \<Rightarrow> (string \<times> string) set" where
  "bound_ports ob = places (bindings ob)"

definition one_service_per_port :: "dict list \<Rightarrow> bool" where
  "one_service_per_port obs \<longleftrightarrow>
     (\<forall>a \<in> set obs. \<forall>b \<in> set obs. \<forall>k \<in> bound_ports a. k \<in> bound_ports b \<longrightarrow> object_name a = object_name b)"

text \<open>A table of holders has exactly the bound pairs, each with a service that binds it.\<close>

definition represents :: "holders \<Rightarrow> dict list \<Rightarrow> bool" where
  "represents H obs \<longleftrightarrow>
     (\<forall>k. (H k = None \<longrightarrow> (\<forall>ob \<in> set obs. k \<notin> bound_ports ob))
        \<and> (\<forall>h. H k = Some h \<longrightarrow> (\<exists>ob \<in> set obs. k \<in> bound_ports ob \<and> object_name ob = fst h)))"

lemma places_simps: "places [] = {}" "places ((p, st, n) # bs) = insert (p, st) (places bs)"
  by (simp_all add: places_def)

lemma register_bindings_cases:
  "if k \<in> places bs then \<exists>h. register_bindings svc bs H k = Some h \<and> fst h = svc
   else register_bindings svc bs H k = H k"
proof (induction bs arbitrary: H)
  case (Cons b bs)
  obtain p st n where b: "b = (p, st, n)" by (cases b)
  obtain H' where H': "H' = H((p, st) := Some (svc, n))" by blast
  with b have "register_bindings svc (b # bs) H = register_bindings svc bs H'" by (simp add: register_bindings_def)
  with Cons [of H'] b H' show ?case by (cases "k \<in> places bs"; cases "k = (p, st)") (simp_all add: places_simps)
qed (simp add: register_bindings_def places_simps)

lemma represents_None: "represents H obs \<Longrightarrow> H k = None \<Longrightarrow> ob \<in> set obs \<Longrightarrow> k \<notin> bound_ports ob"
  unfolding represents_def by blast

lemma represents_Some:
  "represents H obs \<Longrightarrow> H k = Some h \<Longrightarrow> \<exists>ob \<in> set obs. k \<in> bound_ports ob \<and> object_name ob = fst h"
  unfolding represents_def by blast

lemma represents_register:
  assumes H: "represents H obs" and sub: "places bs \<subseteq> bound_ports ob"
    and rest: "\<And>k. k \<in> bound_ports ob \<Longrightarrow> k \<notin> places bs \<Longrightarrow> \<exists>h. H k = Some h \<and> fst h = object_name ob"
  shows "represents (register_bindings (object_name ob) bs H) (obs @ [ob])"
  unfolding represents_def
proof (intro allI conjI impI)
  fix k
  note r = register_bindings_cases [of k bs "object_name ob" H]
  show "\<forall>o' \<in> set (obs @ [ob]). k \<notin> bound_ports o'" if n: "register_bindings (object_name ob) bs H k = None"
  proof -
    from n r have k: "k \<notin> places bs" "H k = None" by (auto split: if_splits)
    with rest [of k] have "k \<notin> bound_ports ob" by auto
    with represents_None [OF H k(2)] show ?thesis by auto
  qed
  show "\<exists>o' \<in> set (obs @ [ob]). k \<in> bound_ports o' \<and> object_name o' = fst h"
    if h: "register_bindings (object_name ob) bs H k = Some h" for h
  proof (cases "k \<in> places bs")
    case True
    with r h sub show ?thesis by auto
  next
    case False
    with r h have "H k = Some h" by simp
    with H have "\<exists>o' \<in> set obs. k \<in> bound_ports o' \<and> object_name o' = fst h" by (rule represents_Some)
    then show ?thesis by auto
  qed
qed

lemma existing_holders_represents: "represents (existing_holders obs) obs"
proof -
  have "represents H os \<Longrightarrow>
      represents (fold (\<lambda>ob. register_bindings (object_name ob) (bindings ob)) obs H) (os @ obs)" for H os
  proof (induction obs arbitrary: H os)
    case (Cons ob obs)
    have "represents (register_bindings (object_name ob) (bindings ob) H) (os @ [ob])"
      by (rule represents_register [OF Cons.prems]) (simp_all add: bound_ports_def)
    with Cons.IH show ?case by fastforce
  qed simp
  from this [of "\<lambda>_. None" "[]"] show ?thesis by (simp add: existing_holders_def represents_def)
qed

text \<open>What the scan of one manifest's bindings refuses and keeps.\<close>

lemma own_bindings_Inr:
  "own_bindings H svc bs = Inr cs \<longleftrightarrow>
     (\<forall>k \<in> places bs. \<forall>h. H k = Some h \<longrightarrow> fst h = svc) \<and> cs = filter (\<lambda>(p, st, n). H (p, st) = None) bs"
  by (induction H svc bs arbitrary: cs rule: own_bindings.induct) (auto simp: places_simps split: option.splits)

lemma places_filter: "k \<in> places (filter (\<lambda>(p, st, n). H (p, st) = None) bs) \<longleftrightarrow> k \<in> places bs \<and> H k = None"
  by (induction bs) (auto simp: places_simps)

lemma represents_conflict:
  assumes H: "represents H obs" and one: "one_service_per_port obs"
  shows "(\<forall>h. H k = Some h \<longrightarrow> fst h = s) \<longleftrightarrow> (\<forall>ob \<in> set obs. k \<in> bound_ports ob \<longrightarrow> object_name ob = s)"
proof (cases "H k")
  case None
  with represents_None [OF H None] show ?thesis by auto
next
  case (Some h)
  with H obtain ob where "ob \<in> set obs" "k \<in> bound_ports ob" "object_name ob = fst h"
    using represents_Some by blast
  moreover from this one have "o' \<in> set obs \<Longrightarrow> k \<in> bound_ports o' \<Longrightarrow> object_name o' = fst h" for o'
    unfolding one_service_per_port_def by metis
  ultimately have "(\<forall>ob \<in> set obs. k \<in> bound_ports ob \<longrightarrow> object_name ob = s) \<longleftrightarrow> fst h = s" by metis
  then show ?thesis by (simp only: Some option.inject) blast
qed

lemma one_service_snoc:
  "one_service_per_port (obs @ [m]) \<longleftrightarrow> one_service_per_port obs
     \<and> (\<forall>k \<in> bound_ports m. \<forall>ob \<in> set obs. k \<in> bound_ports ob \<longrightarrow> object_name ob = object_name m)"
proof (intro iffI conjI)
  let ?ok = "\<lambda>a b. \<forall>k \<in> bound_ports a. k \<in> bound_ports b \<longrightarrow> object_name a = object_name b"
  assume all: "one_service_per_port (obs @ [m])"
  show "one_service_per_port obs" using all by (simp add: one_service_per_port_def)
  have "\<forall>ob \<in> set obs. ?ok ob m" using all by (simp add: one_service_per_port_def)
  then show "\<forall>k \<in> bound_ports m. \<forall>ob \<in> set obs. k \<in> bound_ports ob \<longrightarrow> object_name ob = object_name m"
    by blast
next
  assume c: "one_service_per_port obs
    \<and> (\<forall>k \<in> bound_ports m. \<forall>ob \<in> set obs. k \<in> bound_ports ob \<longrightarrow> object_name ob = object_name m)"
  then have 1: "\<And>a b k. a \<in> set obs \<Longrightarrow> b \<in> set obs \<Longrightarrow> k \<in> bound_ports a \<Longrightarrow> k \<in> bound_ports b \<Longrightarrow> object_name a = object_name b"
    and 2: "\<And>a k. a \<in> set obs \<Longrightarrow> k \<in> bound_ports a \<Longrightarrow> k \<in> bound_ports m \<Longrightarrow> object_name a = object_name m"
    unfolding one_service_per_port_def by metis+
  show "one_service_per_port (obs @ [m])"
    unfolding one_service_per_port_def
  proof (intro ballI impI)
    fix a b k
    assume ab: "a \<in> set (obs @ [m])" "b \<in> set (obs @ [m])" and k: "k \<in> bound_ports a" "k \<in> bound_ports b"
    from ab consider "a \<in> set obs" "b \<in> set obs" | "a \<in> set obs" "b = m" | "a = m" "b \<in> set obs" | "a = m" "b = m"
      by auto
    then show "object_name a = object_name b" by cases (use 1 2 k in metis)+
  qed
qed

lemma own_bindings_agrees:
  assumes "represents H obs" "one_service_per_port obs"
  shows "(\<exists>bs. own_bindings H (object_name m) (bindings m) = Inr bs) \<longleftrightarrow> one_service_per_port (obs @ [m])"
proof -
  have "(\<exists>bs. own_bindings H (object_name m) (bindings m) = Inr bs)
      \<longleftrightarrow> (\<forall>k \<in> bound_ports m. \<forall>h. H k = Some h \<longrightarrow> fst h = object_name m)"
    unfolding own_bindings_Inr bound_ports_def by blast
  also have "\<dots> \<longleftrightarrow> one_service_per_port (obs @ [m])"
    unfolding represents_conflict [OF assms] one_service_snoc using assms(2) by blast
  finally show ?thesis .
qed

lemma own_bindings_represents:
  assumes H: "represents H obs" and own: "own_bindings H (object_name m) (bindings m) = Inr bs"
  shows "represents (register_bindings (object_name m) bs H) (obs @ [m])"
proof (rule represents_register [OF H])
  show "places bs \<subseteq> bound_ports m" using own by (auto simp: own_bindings_Inr bound_ports_def places_filter)
  show "\<exists>h. H k = Some h \<and> fst h = object_name m" if "k \<in> bound_ports m" "k \<notin> places bs" for k
    using own that by (cases "H k") (auto simp: own_bindings_Inr bound_ports_def places_filter)
qed

lemma one_service_prefix: "one_service_per_port (obs @ ms) \<Longrightarrow> one_service_per_port obs"
  by (simp add: one_service_per_port_def)

lemma check_bindings_exact:
  "represents H obs \<Longrightarrow> one_service_per_port obs \<Longrightarrow>
   check_bindings H ms = Inr () \<longleftrightarrow> one_service_per_port (obs @ filter is_network ms)"
proof (induction ms arbitrary: H obs)
  case (Cons m ms)
  show ?case
  proof (cases "is_network m")
    case False
    with Cons show ?thesis by simp
  next
    case True
    show ?thesis
    proof (cases "own_bindings H (object_name m) (bindings m)")
      case (Inl f)
      with own_bindings_agrees [OF Cons.prems, of m] have "\<not> one_service_per_port (obs @ [m])" by simp
      with one_service_prefix [of "obs @ [m]" "filter is_network ms"] True Inl show ?thesis by auto
    next
      case (Inr bs)
      with own_bindings_agrees [OF Cons.prems, of m] have o1: "one_service_per_port (obs @ [m])" by simp
      from Cons.IH [OF own_bindings_represents [OF Cons.prems(1) Inr] o1] True Inr show ?thesis by simp
    qed
  qed
qed simp

end
