(* ===== verification/Watch_Facts.thy ===== *)
theory Watch_Facts
  imports Deploy_Facts
begin

text \<open>
  What the convergence watch reports: one outcome per submitted resource, in order, whose ready
  flag says its outcome; a timeout only past the deadline; and that it ends, and with it the
  transaction.
\<close>

text \<open>The flag an outcome carries.\<close>

fun verdict_ready :: "verdict \<Rightarrow> bool option" where
  "verdict_ready Ready = Some True"
| "verdict_ready Failed = Some False"
| "verdict_ready Timeout = None"

definition outcome_for :: "resource_ref \<Rightarrow> convergence_outcome \<Rightarrow> bool" where
  "outcome_for r c \<longleftrightarrow> co_ref c = r\<lparr>r_ready := verdict_ready (co_outcome c)\<rparr>"

fun slot_for :: "resource_ref \<Rightarrow> slot \<Rightarrow> bool" where
  "slot_for r (Inl r') \<longleftrightarrow> r' = r"
| "slot_for r (Inr c) \<longleftrightarrow> outcome_for r c \<and> co_outcome c \<noteq> Timeout"

lemma poll_one_outcome: "poll_one A r s = (Some c, s') \<Longrightarrow> slot_for r (Inr c)"
  by (cases "api_get A r s")
    (auto simp: poll_one_def settle_def outcome_for_def split: sum.splits option.splits prod.splits bool.splits)

lemma poll_round_slots:
  "list_all2 slot_for rs xs \<Longrightarrow> list_all2 slot_for rs (fst (poll_round A xs s))"
proof (induction rs xs arbitrary: s rule: list_all2_induct)
  case (Cons r rs x xs)
  show ?case
  proof (cases x)
    case (Inl r')
    obtain v s1 where "poll_one A r' s = (v, s1)" by fastforce
    with Inl Cons poll_one_outcome [of A r s _ s1] show ?thesis
      by (auto simp: split_def Let_def split: option.split)
  next
    case (Inr c)
    with Cons show ?thesis by (simp add: split_def Let_def)
  qed
qed simp

lemma watch_loop_slots:
  "watch_loop n A clk dl k xs s = Some (ys, s') \<Longrightarrow> list_all2 slot_for rs xs \<Longrightarrow>
   list_all2 slot_for rs ys \<and> ((\<exists>y \<in> set ys. pending_slot y) \<longrightarrow> (\<exists>j \<ge> k. dl \<le> clk j))"
proof (induction n A clk dl k xs s rule: watch_loop.induct)
  case (2 n A clk dl k xs s)
  obtain zs s1 where z: "poll_round A xs s = (zs, s1)" by fastforce
  with poll_round_slots [OF "2.prems"(2), of A s] have zs: "list_all2 slot_for rs zs" by simp
  show ?case
  proof (cases "list_ex pending_slot xs \<and> list_ex pending_slot zs \<and> \<not> dl \<le> clk k")
    case True
    with "2.prems"(1) z have "watch_loop n A clk dl (Suc k) zs s1 = Some (ys, s')" by simp
    with "2.IH" [OF _ z [symmetric] refl _ this zs] True z show ?thesis by (auto dest: Suc_leD)
  next
    case False
    with "2.prems" z zs show ?thesis by (auto simp: list_ex_iff split: if_splits)
  qed
qed simp

lemma timed_out_outcome: "slot_for r x \<Longrightarrow> outcome_for r (timed_out d x) \<and> (co_outcome (timed_out d x) = Timeout \<longleftrightarrow> pending_slot x)"
  by (cases x) (auto simp: outcome_for_def)

lemma watch_convergence_outcomes:
  assumes "watch_convergence V A refs s = Some (cs, s')"
  shows "list_all2 outcome_for refs cs
    \<and> ((\<exists>c \<in> set cs. co_outcome c = Timeout) \<longrightarrow> (\<exists>k. watch_deadline V \<le> ws_clock V k))"
proof -
  let ?t = "timed_out (''convergence timeout after '' @ ws_text V @ ''s'')"
  obtain xs where w: "watch_loop (ws_fuel V) A (ws_clock V) (watch_deadline V) 0 (map Inl refs) s = Some (xs, s')"
    and cs: "cs = map ?t xs"
    using assms by (auto simp: watch_convergence_def)
  have "list_all2 slot_for refs (map Inl refs)" by (simp add: list_all2_conv_all_nth)
  with watch_loop_slots [OF w] have xs: "list_all2 slot_for refs xs"
    and late: "(\<exists>x \<in> set xs. pending_slot x) \<longrightarrow> (\<exists>k. watch_deadline V \<le> ws_clock V k)" by blast+
  have "list_all2 outcome_for refs cs"
    unfolding cs list.rel_map by (rule list_all2_mono [OF xs]) (simp add: timed_out_outcome)
  moreover have "pending_slot x" if "x \<in> set xs" "co_outcome (?t x) = Timeout" for x
  proof -
    from that(1) xs obtain r where "slot_for r x" by (auto simp: list_all2_conv_all_nth in_set_conv_nth)
    with timed_out_outcome that(2) show ?thesis by blast
  qed
  ultimately show ?thesis using late by (auto simp: cs)
qed

text \<open>
  The watch ends: the loop sleeps at least 50 ms a round, so the fuel of \<open>enough_fuel\<close> is enough.
\<close>

definition clock_advances :: "watch_settings \<Rightarrow> bool" where
  "clock_advances V \<longleftrightarrow> ws_start V \<le> ws_clock V 0 \<and> (\<forall>k. ws_clock V k + 50 \<le> ws_clock V (Suc k))"

definition enough_fuel :: "watch_settings \<Rightarrow> nat" where
  "enough_fuel V = nat (max 0 (ws_timeout V) div 50 + 2)"

lemma watch_convergence_ends:
  assumes "clock_advances V" "enough_fuel V \<le> ws_fuel V"
  shows "watch_convergence V A refs s \<noteq> None"
proof -
  let ?j = "nat (max 0 (ws_timeout V) div 50 + 1)"
  have "ws_clock V 0 + 50 * int ?j \<le> ws_clock V ?j"
    using assms(1) by (intro clock_passes) (simp add: clock_advances_def)
  moreover have "max 0 (ws_timeout V) \<le> 50 * int ?j" by linarith
  ultimately have "watch_deadline V \<le> ws_clock V (0 + ?j)"
    using assms(1) unfolding watch_deadline_def clock_advances_def add_0 by (elim conjE) linarith
  moreover have "?j < ws_fuel V" using assms(2) by (simp add: enough_fuel_def)
  ultimately have "watch_loop (ws_fuel V) A (ws_clock V) (watch_deadline V) 0 (map Inl refs) s \<noteq> None"
    by (rule watch_loop_ends)
  then show ?thesis by (simp add: watch_convergence_def)
qed

lemma submit_prepared_ends:
  assumes "\<And>V. watch = Some V \<Longrightarrow> clock_advances V \<and> enough_fuel V \<le> ws_fuel V"
  shows "submit_prepared W A watch ctx ms s \<noteq> None"
proof -
  have "map_option f (watch_convergence V A refs t) \<noteq> None" if "watch = Some V" for V refs t f
    using assms [OF that] watch_convergence_ends [of V A refs t] by (simp del: not_None_eq)
  then show ?thesis
    by (simp add: submit_prepared_def Let_def split: prod.split sum.split option.split list.split del: not_None_eq)
qed

lemma transaction_ends:
  assumes "\<And>V. watch = Some V \<Longrightarrow> clock_advances V \<and> enough_fuel V \<le> ws_fuel V"
  shows "run_deployment_transaction W build tr watch e s \<noteq> None"
  using submit_prepared_ends [OF assms]
  by (auto simp: run_deployment_transaction_def split: prod.split sum.split)

text \<open>The audit events of a run are its outcome.\<close>

definition run_events :: "deploy_context \<Rightarrow> failure + dict \<Rightarrow> deploy_audit list \<Rightarrow> bool" where
  "run_events ctx res ev \<longleftrightarrow>
     (case res of
        Inr p \<Rightarrow> \<exists>refs. ev = [Deploy_audit ''submit'' ctx refs ''deployment transaction applied'']
      | Inl (Named x) \<Rightarrow>
          ev = (if te_phase x \<in> {''dry-run'', ''apply''}
                then [Deploy_audit ''refuse'' ctx [] (failure_reason x)] else [])
      | Inl (Other t) \<Rightarrow> ev = [])"

lemma apply_loop_failure: "apply_loop W A cid acc ms s = (Inl (Named x), s') \<Longrightarrow> te_phase x = ''apply''"
proof (induction ms arbitrary: s acc)
  case (Cons m ms)
  have "apply_failed W A cid m e acc t = (Named x, s') \<Longrightarrow> te_phase x = ''apply''" for e t
    by (auto simp: apply_failed_def transaction_error_of_def split: prod.splits sum.splits failure.splits)
  with Cons show ?case by (auto simp: Let_def split: prod.splits sum.splits)
qed simp

lemma submit_prepared_events:
  assumes "submit_prepared W A watch ctx ms s = Some (res, ev, s')" "correlation_ok (dc_correlation ctx)"
  shows "run_events ctx res ev"
proof -
  obtain r s1 where d: "dry_run_all A ms s = (r, s1)" by fastforce
  show ?thesis
  proof (cases r)
    case (Inl f)
    with assms d dry_run_all_phase [of A ms s f] show ?thesis
      by (auto simp: submit_prepared_def run_events_def refuse_events_def emit_audit_def)
  next
    case (Inr ds)
    obtain r2 s2 where a: "apply_all W A (dc_correlation ctx) ms s1 = (r2, s2)" by fastforce
    show ?thesis
    proof (cases r2)
      case (Inl f)
      with assms d Inr a have "res = Inl f" "ev = refuse_events ctx f" by (auto simp: submit_prepared_def)
      moreover have "f = Named x \<Longrightarrow> te_phase x = ''apply''" for x
        using a Inl by (auto simp: apply_all_def intro: apply_loop_failure)
      ultimately show ?thesis using assms(2)
        by (cases f) (simp_all add: run_events_def refuse_events_def emit_audit_def)
    next
      case refs: (Inr refs)
      with assms d Inr a have "\<not> is_err res" "ev = emit_audit ''submit'' ctx refs ''deployment transaction applied''"
        by (auto simp: submit_prepared_def Let_def split: option.splits list.splits)
      with assms(2) show ?thesis by (cases res) (auto simp: run_events_def emit_audit_def)
    qed
  qed
qed

end
