(* ===== verification/Transactions.thy ===== *)
theory Transactions
  imports Deploy_Demo Preflight Watch_Facts
begin

text \<open>
  The properties of the deployment transaction, over the client of the code and any API server
  that does what Kubernetes documents (\<open>kube_server\<close>), with runs on the reference server.
\<close>

section \<open>The store of the server\<close>

context kube_server
begin

lemma same_store: "store_at stored s' = store_at stored s \<Longrightarrow> stored s' = stored s"
  by (rule ext) (drule fun_cong [of _ _ "Inr _"], simp add: store_at_def)

lemma run_failed_stored:
  assumes r: "run_deployment_transaction W (Inr (kube_api endpoint http)) tr watch e s = Some (Inl (Named x), ev, s')"
  shows "te_phase x \<noteq> ''apply'' \<and> stored s' = stored s
    \<or> te_phase x = ''apply'' \<and> (contains ''; rollback also failed: '' (te_text x)
      \<or> (\<forall>u ob. stored s' u = Some ob \<longrightarrow> correlation_of ob = JStr (dc_correlation (env_context e))
            \<longrightarrow> Inr u \<in> reference_key endpoint ` set (te_survivors x))
        \<and> (\<forall>u. stored s' u \<noteq> stored s u \<longrightarrow>
            (\<exists>ms m. prepare_request W tr e = Inr ms \<and> m \<in> set ms \<and> object_key endpoint m = Inr u)
            \<or> (\<exists>ob. stored s u = Some ob \<and> correlation_of ob = JStr (dc_correlation (env_context e)))))"
  using client.run_failed [OF r]
proof (elim disjE conjE, goal_cases)
  case 1
  then show ?case using same_store by blast
next
  case 2
  then show ?case by blast
next
  case 3
  have at: "store_at stored t (Inr u) = stored t u" for t u by (simp add: store_at_def)
  from 3(2) have "\<forall>u ob. stored s' u = Some ob \<longrightarrow> correlation_of ob = JStr (dc_correlation (env_context e))
            \<longrightarrow> Inr u \<in> reference_key endpoint ` set (te_survivors x)"
    using at by metis
  moreover have "(\<exists>ms m. prepare_request W tr e = Inr ms \<and> m \<in> set ms \<and> object_key endpoint m = Inr u)
            \<or> (\<exists>ob. stored s u = Some ob \<and> correlation_of ob = JStr (dc_correlation (env_context e)))"
    if "stored s' u \<noteq> stored s u" for u
    using 3(3) [rule_format, of "Inr u"] that at by fastforce
  ultimately show ?case using 3(1) by blast
qed

lemma run_done_stored:
  assumes r: "run_deployment_transaction W (Inr (kube_api endpoint http)) tr watch e s = Some (Inr p, ev, s')"
  shows "\<exists>ms refs. prepare_request W tr e = Inr ms \<and> dget p ''submitted'' = JArr (map dump_ref refs)
    \<and> map (reference_key endpoint) refs = map (object_key endpoint) ms
    \<and> (\<forall>m \<in> set ms. \<exists>u ob. object_key endpoint m = Inr u \<and> stored s' u = Some ob
         \<and> correlation_of ob = JStr (dc_correlation (env_context e)))"
  using client.run_done [OF r] by (simp add: store_at_Some) blast

end

section \<open>The properties\<close>

text \<open>
  C20. A deployment that fails in any phase but the apply (an invalid request, a rejected
  translation, a manifest outside the allow-list, an access-list conflict, a failed dry run) leaves
  the cluster exactly as it was, whatever requests were sent and whichever of them failed.
\<close>

theorem failed_before_apply_keeps_cluster:
  assumes "kube_server endpoint http stored"
    and "run_deployment_transaction W (Inr (kube_api endpoint http)) tr watch e s = Some (Inl (Named x), ev, s')"
    and "te_phase x \<noteq> ''apply''"
  shows "stored s' = stored s"
  using kube_server.run_failed_stored [OF assms(1,2)] assms(3) by blast

theorem failed_before_apply_keeps_cluster_witness:
  "\<exists>x ev c. demo_run demo_refused_dry_run = Some (Inl (Named x), ev, c) \<and> te_phase x = ''dry-run''
     \<and> stored_in [] c = stored_in [] (demo_cluster demo_refused_dry_run)"
proof -
  obtain x ev c where r: "demo_run demo_refused_dry_run = Some (Inl (Named x), ev, c)" and p: "te_phase x = ''dry-run''"
    using failed_withE [OF demo_dry_run_refused] by blast
  have "stored_in [] c = stored_in [] (demo_cluster demo_refused_dry_run)"
    by (rule failed_before_apply_keeps_cluster [OF served.kube_server_axioms r [unfolded demo_run_def]]) (simp add: p)
  with r p show ?thesis by blast
qed



text \<open>
  C22. A deployment that succeeds reports one submitted reference per manifest of the prepared
  bundle, in the order of the apply and naming the same objects, and every one of them is on the
  cluster under the request's correlation id.
\<close>

theorem successful_deployment_is_stored:
  assumes "kube_server endpoint http stored"
    and "run_deployment_transaction W (Inr (kube_api endpoint http)) tr watch e s = Some (Inr p, ev, s')"
  shows "\<exists>ms refs. prepare_request W tr e = Inr ms \<and> dget p ''submitted'' = JArr (map dump_ref refs)
    \<and> map (reference_key endpoint) refs = map (object_key endpoint) ms
    \<and> (\<forall>m \<in> set ms. \<exists>u ob. object_key endpoint m = Inr u \<and> stored s' u = Some ob
         \<and> correlation_of ob = JStr (dc_correlation (env_context e)))"
  by (rule kube_server.run_done_stored [OF assms])

theorem successful_deployment_is_stored_witness:
  "\<exists>p ev c ms. demo_run [] = Some (Inr p, ev, c) \<and> prepare_request demo_deploy_world demo_translator demo_envelope = Inr ms
     \<and> (\<forall>m \<in> set ms. \<exists>u ob. object_key [] m = Inr u \<and> stored_in [] c u = Some ob)"
proof -
  obtain p ev c where r: "demo_run [] = Some (Inr p, ev, c)"
    using succeeded_withE [OF demo_run_ok] by blast
  from successful_deployment_is_stored [OF served.kube_server_axioms r [unfolded demo_run_def]] r
  show ?thesis by blast
qed

text \<open>
  C23. What the transaction sends is what the deployer owns: a prepared bundle comes from a request
  with a 32-digit correlation id, a thread and a principal and an intent that validates; it is not
  empty, has one manifest per translated one, no two of the same identity, in the order of the
  apply; and each manifest is of an allowed kind, in the tier's namespace, and carries the request's
  labels and annotations whatever the translator wrote there.
\<close>

theorem prepared_bundle_is_owned:
  assumes "prepare_request W tr e = Inr ms"
  shows "correlation_ok (dc_correlation (env_context e)) \<and> strip (dc_thread (env_context e)) \<noteq> []
    \<and> strip (dc_principal (env_context e)) \<noteq> []
    \<and> (\<exists>n t js. validate_intent (dw_lax W) (env_intent e) = Inr n \<and> tr (dump_intent n) = Inr t
         \<and> dget (obj_of t) ''manifests'' = JArr js \<and> length ms = length js)
    \<and> ms \<noteq> [] \<and> distinct (map identity_of ms) \<and> sorted (map apply_key ms)
    \<and> (\<forall>m \<in> set ms. well_stamped (env_context e) (dw_time W) m)"
proof -
  from prepare_request_Inr [OF assms] obtain n t js where
    c: "validate_context (env_context e) = Inr ()"
    and n: "validate_intent (dw_lax W) (env_intent e) = Inr n" "tr (dump_intent n) = Inr t"
    and js: "translated_manifests t = Inr js" "validate_and_stamp (env_context e) (dw_time W) js = Inr ms"
    by blast
  have "dget (obj_of t) ''manifests'' = JArr js"
    using js(1) by (simp add: translated_manifests_def split: json.splits)
  moreover have "correlation_ok (dc_correlation (env_context e)) \<and> strip (dc_thread (env_context e)) \<noteq> []
      \<and> strip (dc_principal (env_context e)) \<noteq> []"
    using c by (auto simp: validate_context_def split: if_splits)
  ultimately show ?thesis using n validate_and_stamp_Inr [OF js(2)] by blast
qed

theorem prepared_bundle_is_owned_witness:
  "\<exists>ms. prepare_request demo_deploy_world demo_translator demo_envelope = Inr ms
     \<and> (\<forall>m \<in> set ms. label_of m CORRELATION_LABEL = JStr demo_correlation)"
proof -
  obtain ms where m: "prepare_request demo_deploy_world demo_translator demo_envelope = Inr ms"
    using demo_prepared by (cases "prepare_request demo_deploy_world demo_translator demo_envelope") auto
  with prepared_bundle_is_owned [OF m] show ?thesis by (auto simp: well_stamped_def demo_envelope_def)
qed



text \<open>
  The pre-flight tells two ports apart by their interface name alone: a service on ethernet1
  of leaf01 keeps another service off ethernet1 of leaf02.
\<close>

theorem preflight_ignores_the_node:
  "\<exists>x. preflight_acl_binding (demo_networks [demo_bound ''s1'' ''leaf01'']) [demo_bound ''s2'' ''leaf02''] ()
     = (Inl (Named x), ()) \<and> te_phase x = ''pre-flight''"
proof -
  have "(case preflight_acl_binding (demo_networks [demo_bound ''s1'' ''leaf01'']) [demo_bound ''s2'' ''leaf02''] () of
       (Inl (Named x), _) \<Rightarrow> te_phase x = ''pre-flight'' | _ \<Rightarrow> False)" by code_simp
  then show ?thesis by (auto split: prod.splits sum.splits failure.splits)
qed



text \<open>
  C26. The watch reports one outcome per submitted resource, in their order; the resource's ready
  flag is true for ready, false for failed and absent for a timeout; and a timeout is reported only
  once the clock has passed the deadline.
\<close>

theorem convergence_reported_truthfully:
  assumes "watch_convergence V A refs s = Some (cs, s')"
  shows "list_all2 (\<lambda>r c. co_ref c = r\<lparr>r_ready := verdict_ready (co_outcome c)\<rparr>) refs cs
    \<and> ((\<exists>c \<in> set cs. co_outcome c = Timeout) \<longrightarrow> (\<exists>k. watch_deadline V \<le> ws_clock V k))"
  using watch_convergence_outcomes [OF assms] by (simp add: outcome_for_def [abs_def])

theorem convergence_reported_truthfully_witness:
  "\<exists>c s'. watch_convergence demo_watch (demo_networks []) [demo_ref] () = Some ([c], s')
     \<and> co_ref c = demo_ref\<lparr>r_ready := verdict_ready (co_outcome c)\<rparr>"
proof -
  have "(case watch_convergence demo_watch (demo_networks []) [demo_ref] () of Some (_, _) \<Rightarrow> True | None \<Rightarrow> False)"
    by code_simp
  then obtain cs where w: "watch_convergence demo_watch (demo_networks []) [demo_ref] () = Some (cs, ())"
    by (auto split: option.splits)
  from convergence_reported_truthfully [OF w] w show ?thesis by (auto simp: list_all2_Cons1)
qed



text \<open>
  The rollback does not tell an object the request created from one it updated: when a later
  apply of the same bundle fails, an object that was on the cluster before under another
  correlation id is deleted with the rest.
\<close>

theorem failed_update_deletes_previous_object:
  "\<exists>u ob x ev c. stored_in [] demo_updated_cluster u = Some ob \<and> correlation_of ob = JStr ''previous''
     \<and> run_deployment_transaction demo_deploy_world (Inr (kube_api [] (serve []))) demo_translator None
         demo_envelope demo_updated_cluster = Some (Inl (Named x), ev, c)
     \<and> te_survivors x = [] \<and> stored_in [] c u = None"
proof -
  obtain x ev c where r: "run_deployment_transaction demo_deploy_world (Inr (kube_api [] (serve []))) demo_translator None
      demo_envelope demo_updated_cluster = Some (Inl (Named x), ev, c)"
    and x: "te_survivors x = []" "cl_objects c = []"
    using failed_cleanE [OF demo_update_fails] by blast
  have "stored_in [] demo_updated_cluster demo_previous_url = Some demo_previous"
    "correlation_of demo_previous = JStr ''previous''" by code_simp+
  moreover have "stored_in [] c demo_previous_url = None" using x(2) by (simp add: stored_in_def)
  ultimately show ?thesis using r x(1) by blast
qed

end
