(* ===== verification/Deployer_Tools.thy ===== *)
theory Deployer_Tools
  imports Deploy_Run Kube
begin

text \<open>
  The tools of the deployer, src/agents/provisioning/deployer/tools/deployer_tools.py: the status
  of a submitted service from the conditions of its objects, the removal stub, the fabric inventory
  stub, and the call of the translator sidecar.
\<close>

section \<open>Reading one object\<close>

definition annotations_of :: "dict \<Rightarrow> dict" where
  "annotations_of ob = obj_of (dget (obj_of (dget ob ''metadata'')) ''annotations'')"

definition id_char_i :: "char \<Rightarrow> bool" where
  "id_char_i c \<longleftrightarrow> is_alnum c \<or> c = CHR ''-''"

definition MIGRATED_SERVICE :: rx where
  "MIGRATED_SERVICE =
     cat [WordB, liti ''Migrated service '', Grp ''1'' (times 1 15 (Chr id_char_i)), WordB]"

definition service_id_from_object :: "dict \<Rightarrow> string" where
  "service_id_from_object ob =
     (let meta = obj_of (dget ob ''metadata'');
          annotated = str_or_empty (dget (annotations_of ob) ''agentic-netops.io/service-id'');
          description = str_or_empty (dget (obj_of (dget ob ''spec'')) ''description'');
          nm = str_or_empty (dget meta ''name'')
      in if annotated \<noteq> [] then annotated
         else (case search_group MIGRATED_SERVICE ''1'' description of
                 Some g \<Rightarrow> g
               | None \<Rightarrow> if starts_with ''migr-'' nm then drop 5 nm else []))"

definition TYPE_NAMES :: "(string \<times> string) list" where
  "TYPE_NAMES =
     [(''vlan'', ''vlan''), (''macvrf'', ''mac-vrf''), (''l2vni'', ''mac-vrf''), (''ipvrf'', ''ip-vrf''),
      (''l3vni'', ''ip-vrf''), (''acl'', ''acl''), (''accesslist'', ''acl''), (''vpls'', ''mac-vrf''),
      (''vpws'', ''mac-vrf''), (''eline'', ''mac-vrf''), (''l3vpn'', ''ip-vrf''), (''l2l3irb'', ''mac-vrf''),
      (''irb'', ''mac-vrf'')]"

definition tools_type_key :: "string \<Rightarrow> string" where
  "tools_type_key s = filter (\<lambda>c. c \<notin> set ''-_ .+'') (lower s)"

text \<open>The construct of an object, and the spelling it came from.\<close>

definition construct_and_provenance :: "dict \<Rightarrow> string option \<times> json" where
  "construct_and_provenance an =
     (let stored = dget an ''agentic-netops.io/service-type'';
          src = dget an ''agentic-netops.io/source-service-type''
      in if \<not> truthy stored then (None, src)
         else
           (let k = tools_type_key (str_or_empty stored); construct = map_of TYPE_NAMES k
            in (construct,
                case construct of
                  Some c \<Rightarrow> if \<not> truthy src \<and> k \<noteq> tools_type_key c then stored else src
                | None \<Rightarrow> src)))"

definition srv6_type_wording :: "string option \<Rightarrow> dict \<Rightarrow> string" where
  "srv6_type_wording construct ob =
     (case construct of
        None \<Rightarrow> []
      | Some c \<Rightarrow>
          if \<not> (str_or_empty (dget ob ''kind'') = ''SRv6Service''
                \<or> lower (str_or_empty (dget (annotations_of ob) ''agentic-netops.io/transport'')) = ''srv6'')
          then c
          else if c = ''mac-vrf'' then ''mac-vrf over srv6''
          else if c = ''ip-vrf'' \<and> lower (str_or_empty (dget (obj_of (dget ob ''spec'')) ''signalling'')) = ''evpn''
          then ''ip-vrf over srv6 with evpn signalling''
          else ''ip-vrf over srv6'')"

section \<open>The conditions\<close>

record condition =
  cd_status :: "bool option"
  cd_reason :: string
  cd_message :: string
  cd_since :: string

definition no_condition :: condition where
  "no_condition = \<lparr>cd_status = None, cd_reason = [], cd_message = [], cd_since = []\<rparr>"

definition condition_of :: "dict \<Rightarrow> condition" where
  "condition_of c =
     (let raw = lower (str_or_empty (dget c ''status'')) in
      \<lparr>cd_status = (if raw = ''true'' then Some True else if raw = ''false'' then Some False else None),
       cd_reason = str_or_empty (dget c ''reason''), cd_message = str_or_empty (dget c ''message''),
       cd_since = str_or_empty (dget c ''lastTransitionTime'')\<rparr>)"

text \<open>The last condition of a type, or none.\<close>

definition condition_named :: "string \<Rightarrow> dict \<Rightarrow> condition" where
  "condition_named ty ob =
     fold (\<lambda>j c. if is_obj j \<and> str_or_empty (dget (obj_of j) ''type'') = ty then condition_of (obj_of j) else c)
       (arr_of (dget (obj_of (dget ob ''status'')) ''conditions'')) no_condition"

definition CHECK_MESSAGE :: rx where
  "CHECK_MESSAGE =
     (let idc = Chr (\<lambda>c. is_lower c \<or> is_digit c \<or> c = CHR ''-'') in
      cat [lit ''node'', plus ws, Grp ''1'' (plus idc), plus ws, lit ''checks['', plus digit, lit ''].'',
           Grp ''2'' (plus idc), lit '':'', star ws, Grp ''3'' (plus dot)])"

definition DID_NOT_RUN :: "string list" where
  "DID_NOT_RUN = [''unknown check type'', ''unreachable'', ''timeout'', ''not found'', ''exit code'']"

definition unverified_of :: "string \<Rightarrow> json list" where
  "unverified_of msg =
     (case (search_group CHECK_MESSAGE ''1'' msg, search_group CHECK_MESSAGE ''2'' msg, search_group CHECK_MESSAGE ''3'' msg) of
        (Some nd, Some ct, Some er) \<Rightarrow>
          if list_ex (\<lambda>k. contains k (lower er)) DID_NOT_RUN
          then [JObj [(''node'', JStr nd), (''property'', JStr ct)]] else []
      | _ \<Rightarrow> [])"

record resource_status =
  rs_kind :: string
  rs_name :: string
  rs_namespace :: string
  rs_type :: string
  rs_source_type :: json
  rs_ready :: condition
  rs_degraded :: condition

definition condition_summary :: "dict \<Rightarrow> resource_status" where
  "condition_summary ob =
     (let meta = obj_of (dget ob ''metadata''); (construct, prov) = construct_and_provenance (annotations_of ob) in
      \<lparr>rs_kind = str_or_empty (dget ob ''kind''), rs_name = str_or_empty (dget meta ''name''),
       rs_namespace = str_or_empty (dget meta ''namespace''), rs_type = srv6_type_wording construct ob,
       rs_source_type = (if truthy prov then prov else JStr []),
       rs_ready = condition_named ''Ready'' ob, rs_degraded = condition_named ''Degraded'' ob\<rparr>)"

definition dump_status :: "resource_status \<Rightarrow> json" where
  "dump_status r =
     JObj [(''kind'', JStr (rs_kind r)), (''name'', JStr (rs_name r)), (''namespace'', JStr (rs_namespace r)),
       (''serviceType'', JStr (rs_type r)), (''sourceServiceType'', rs_source_type r),
       (''ready'', bool_json (cd_status (rs_ready r))), (''reason'', JStr (cd_reason (rs_ready r))),
       (''message'', JStr (cd_message (rs_ready r))), (''lastTransitionTime'', JStr (cd_since (rs_ready r))),
       (''degraded'', bool_json (cd_status (rs_degraded r))), (''degradedReason'', JStr (cd_reason (rs_degraded r))),
       (''degradedMessage'', JStr (cd_message (rs_degraded r))),
       (''degradedLastTransitionTime'', JStr (cd_since (rs_degraded r))),
       (''unverified'', JArr (unverified_of (cd_message (rs_ready r))))]"

section \<open>The tools\<close>

datatype service_phase = Deployed | Phase_failed | Converging | Not_found | Unknown

fun phase_text :: "service_phase \<Rightarrow> string" where
  "phase_text Deployed = ''Deployed''"
| "phase_text Phase_failed = ''Failed''"
| "phase_text Converging = ''Converging''"
| "phase_text Not_found = ''NotFound''"
| "phase_text Unknown = ''Unknown''"

definition phase_from :: "resource_status list \<Rightarrow> service_phase" where
  "phase_from rs =
     (if rs = [] then Not_found
      else if list_ex (\<lambda>r. cd_status (rs_ready r) = Some False \<or> cd_status (rs_degraded r) = Some True) rs
      then Phase_failed
      else if list_all (\<lambda>r. cd_status (rs_ready r) = Some True) rs then Deployed
      else Converging)"

definition status_report :: "string \<Rightarrow> string \<Rightarrow> service_phase \<Rightarrow> resource_status list \<Rightarrow> string option \<Rightarrow> dict" where
  "status_report sid cid ph rs err =
     [(''serviceId'', JStr sid), (''correlationId'', JStr cid), (''phase'', JStr (phase_text ph)),
      (''resources'', JArr (map dump_status rs))]
     @ (case err of Some e \<Rightarrow> [(''error'', JStr e)] | None \<Rightarrow> [])"

definition first_service_id :: "dict list \<Rightarrow> string" where
  "first_service_id obs =
     (case filter (\<lambda>i. i \<noteq> []) (map service_id_from_object obs) of i # _ \<Rightarrow> i | [] \<Rightarrow> [])"

text \<open>\<open>build\<close> is what building the default client gives.\<close>

definition get_service_status ::
    "failure + 's intent_api \<Rightarrow> string \<Rightarrow> string \<Rightarrow> 's \<Rightarrow> dict \<times> 's" where
  "get_service_status build sid cid s =
     (if cid = [] then
        (status_report sid cid Unknown []
           (Some ''no correlation id on this thread; cannot resolve the submitted resources''), s)
      else
        (case build of
           Inl f \<Rightarrow> (status_report sid cid Unknown [] (Some (take_chars 400 (failure_str f))), s)
         | Inr A \<Rightarrow>
             (case api_list A cid s of
                (Inl e, s1) \<Rightarrow> (status_report sid cid Unknown [] (Some (take_chars 400 e)), s1)
              | (Inr obs, s1) \<Rightarrow>
                  (let rs = map condition_summary obs
                   in (status_report (if sid = [] then first_service_id obs else sid) cid (phase_from rs) rs None, s1)))))"

definition remove_service :: "string \<Rightarrow> bool \<Rightarrow> string + dict" where
  "remove_service cid confirmed =
     (if \<not> confirmed then Inl ''remove_service requires explicit confirmation''
      else Inr [(''selector'', JStr (''agentic-netops.io/correlation-id='' @ cid)), (''deleted'', JInt 0)])"

definition query_fabric_inventory :: dict where
  "query_fabric_inventory = [(''fabric'', JStr ''lab''), (''nodes'', JArr []), (''links'', JArr [])]"

text \<open>\<open>post\<close> sends a body to a URL and gives the answer, or the text of the exception.\<close>

definition submit_service :: "(string \<Rightarrow> string \<Rightarrow> string + http_response) \<Rightarrow> translator" where
  "submit_service post intent =
     (case post ''http://127.0.0.1:8090/v1/translate'' (dumps (JObj intent)) of
        Inl x \<Rightarrow> Inl x
      | Inr r \<Rightarrow>
          if ok_status r then hr_json r
          else
            (let body = (case hr_json r of Inr j \<Rightarrow> j | Inl _ \<Rightarrow> JObj [(''error'', JStr (take_chars 200 (hr_text r)))])
             in if hr_status r = 422 then Inr body
                else Inl (''translator error '' @ str_int (hr_status r) @ '': '' @ jstr body)))"

end
