(* ===== verification/Deployer_Agent.thy ===== *)
theory Deployer_Agent
  imports Deployer_Tools
begin

text \<open>
  \<open>DeployerAgent\<close> of src/agents/provisioning/deployer/agent.py: the reading of a request as a
  submission or a tool command, the node that runs the transaction, the node that runs the tools,
  and the message it answers with.
\<close>

section \<open>Tool commands\<close>

datatype act = Act_submit | Act_status | Act_remove

fun act_text :: "act \<Rightarrow> string" where
  "act_text Act_submit = ''submit''"
| "act_text Act_status = ''status''"
| "act_text Act_remove = ''remove''"

record command =
  cm_kind :: act
  cm_service :: "string option"
  cm_correlation :: "string option"

definition sid_rx :: rx where
  "sid_rx = Grp ''sid'' (let c = Chr (\<lambda>c. is_lower c \<or> is_digit c \<or> c = CHR ''-'') in Cat (times 6 6 c) (star c))"

definition DEPLOYER_STATUS :: rx where
  "DEPLOYER_STATUS = cat [lit ''status of '', alts [lit ''service '', Eps], sid_rx]"

definition DEPLOYER_REMOVE :: rx where
  "DEPLOYER_REMOVE = cat [lit ''remove '', alts [lit ''service '', Eps], sid_rx]"

definition DEPLOYER_REMOVE_CORRELATION :: rx where
  "DEPLOYER_REMOVE_CORRELATION =
     cat [lit ''remove '', lazy dot, lit ''correlation'', one_of ''- '', lit ''id'',
          plus (Chr (\<lambda>c. c = CHR '':'' \<or> is_ws c)), Grp ''cid'' (times 16 32 (Chr is_hex_lower))]"

definition json_command :: "dict \<Rightarrow> command option" where
  "json_command m =
     (if \<not> has_key ''action'' m then None
      else
        (let a = lower (strip (jstr (dget m ''action'')));
             sid = jor (dget m ''serviceId'') (dget m ''service_id'');
             cid = jor (dget m ''correlationId'') (dget m ''correlation_id'');
             of_kind = (\<lambda>k. Some \<lparr>cm_kind = k, cm_service = (if truthy sid then Some (jstr sid) else None),
                                cm_correlation = (if truthy cid then Some (jstr cid) else None)\<rparr>)
         in if a \<in> {''status'', ''stat'', ''state''} then of_kind Act_status
            else if a \<in> {''remove'', ''delete'', ''deprovision'', ''undeploy''} then of_kind Act_remove
            else None))"

definition text_command :: "string \<Rightarrow> command" where
  "text_command t =
     (let low = lower t in
      case search_group DEPLOYER_STATUS ''sid'' low of
        Some i \<Rightarrow> \<lparr>cm_kind = Act_status, cm_service = Some i, cm_correlation = None\<rparr>
      | None \<Rightarrow>
          (case search_group DEPLOYER_REMOVE ''sid'' low of
             Some i \<Rightarrow> \<lparr>cm_kind = Act_remove, cm_service = Some i, cm_correlation = None\<rparr>
           | None \<Rightarrow>
               (case search_group DEPLOYER_REMOVE_CORRELATION ''cid'' low of
                  Some c \<Rightarrow> \<lparr>cm_kind = Act_remove, cm_service = None, cm_correlation = Some c\<rparr>
                | None \<Rightarrow> \<lparr>cm_kind = Act_submit, cm_service = None, cm_correlation = None\<rparr>)))"

definition parse_action :: "string \<Rightarrow> command" where
  "parse_action text =
     (let t = unfence text in
      case loads t of
        Some (JObj m) \<Rightarrow> (case json_command m of Some c \<Rightarrow> c | None \<Rightarrow> text_command t)
      | _ \<Rightarrow> text_command t)"

section \<open>The nodes\<close>

text \<open>The state between the nodes: the next node, the text and the payload (None: not set).\<close>

record deploy_state =
  ds_tools :: bool
  ds_text :: "string option"
  ds_payload :: dict

definition ingest_node :: "(string \<Rightarrow> string) \<Rightarrow> string \<Rightarrow> deploy_state" where
  "ingest_node sha content =
     (case parse_deployment_envelope sha content of
        Inl f \<Rightarrow>
          \<lparr>ds_tools = False, ds_text = None,
           ds_payload = [(''intent'', JNull), (''context'', JNull),
             (''preparsed_error'', case f of Named x \<Rightarrow> JObj (error_report x) | Other t \<Rightarrow> JNull)]\<rparr>
      | Inr (Some e) \<Rightarrow>
          \<lparr>ds_tools = False, ds_text = None,
           ds_payload = [(''intent'', JObj (env_intent e)),
             (''context'', JObj [(''correlationId'', JStr (dc_correlation (env_context e))),
                (''threadId'', JStr (dc_thread (env_context e))), (''principal'', JStr (dc_principal (env_context e)))])]\<rparr>
      | Inr None \<Rightarrow>
          (let c = parse_action content in
           \<lparr>ds_tools = True, ds_text = None,
            ds_payload = [(''action'', JStr (act_text (cm_kind c))), (''serviceId'', str_json (cm_service c)),
              (''correlationId'', str_json (cm_correlation c))]\<rparr>))"

definition failed_report :: "string \<Rightarrow> string \<Rightarrow> dict" where
  "failed_report phase m =
     [(''failed'', JObj [(''phase'', JStr phase), (''resource'', JNull), (''message'', JStr m),
        (''rolledBack'', JArr []), (''survivors'', JArr [])])]"

definition ref_names :: "resource_ref list \<Rightarrow> string" where
  "ref_names rs = join '', '' (map ref_name rs)"

definition failure_summary :: "transaction_error \<Rightarrow> string" where
  "failure_summary x =
     ''Deployment failed during '' @ te_phase x
     @ (case set_text (te_resource x) of Some r \<Rightarrow> '' ('' @ r @ '')'' | None \<Rightarrow> [])
     @ '': '' @ te_text x
     @ (if te_rolled_back x \<noteq> [] then ''. Rolled back: '' @ ref_names (te_rolled_back x) @ ''.'' else [])
     @ (if te_survivors x \<noteq> [] then '' Survivors that could not be deleted: '' @ ref_names (te_survivors x) @ ''.'' else [])"

definition outcomes_named :: "string \<Rightarrow> json list \<Rightarrow> nat" where
  "outcomes_named v cs = length (filter (\<lambda>c. dget (obj_of c) ''outcome'' = JStr v) cs)"

definition submit_summary :: "envelope \<Rightarrow> dict \<Rightarrow> string" where
  "submit_summary e p =
     (let sub = arr_of (dget p ''submitted''); cv = arr_of (dget p ''convergence'');
          names = join '', '' (map (\<lambda>r. jstr (dget (obj_of r) ''kind'') @ ''/'' @ jstr (dget (obj_of r) ''name'')) sub)
      in redact_model_response
           (''Submitted '' @ str_nat (length sub) @ '' resource(s) for service '' @ jstr (dget (env_intent e) ''serviceId'')
            @ '' (correlation '' @ take_chars 8 (dc_correlation (env_context e)) @ ''): '' @ names @ ''.''
            @ (if cv = [] then []
               else '' Convergence: '' @ str_nat (outcomes_named ''ready'' cv) @ '' ready''
                    @ (if outcomes_named ''timeout'' cv \<noteq> 0 then '', '' @ str_nat (outcomes_named ''timeout'' cv) @ '' timed out'' else [])
                    @ (if outcomes_named ''failed'' cv \<noteq> 0 then '', '' @ str_nat (outcomes_named ''failed'' cv) @ '' failed'' else [])
                    @ ''.'')))"

text \<open>What the agent takes from outside: the client, the translator and the watch of its pod.\<close>

record 's deployer_pod =
  dp_world :: deploy_world
  dp_client :: "failure + 's intent_api"
  dp_translator :: translator
  dp_watch :: "watch_settings option"
  dp_sha :: "string \<Rightarrow> string"

definition envelope_of_payload :: "dict \<Rightarrow> dict \<Rightarrow> envelope" where
  "envelope_of_payload d c =
     \<lparr>env_intent = obj_of (dget d ''intent''),
      env_context = \<lparr>dc_correlation = str_or_empty (dget c ''correlationId''),
        dc_thread = str_or_empty (dget c ''threadId''), dc_principal = str_or_empty (dget c ''principal'')\<rparr>\<rparr>"

text \<open>What the node answers for a transaction's result.\<close>

definition answer_with :: "string \<Rightarrow> dict \<Rightarrow> deploy_state" where
  "answer_with t p = \<lparr>ds_tools = False, ds_text = Some t, ds_payload = p\<rparr>"

fun report_of :: "envelope \<Rightarrow> failure + dict \<Rightarrow> deploy_state" where
  "report_of e (Inr p) = answer_with (submit_summary e p) p"
| "report_of e (Inl (Named x)) =
     answer_with (redact_model_response (failure_summary x)) [(''failed'', JObj (error_report x))]"
| "report_of e (Inl (Other t)) =
     answer_with (''Deployment failed during transaction: '' @ redact_model_response t) (failed_report ''transaction'' t)"

definition agent_node ::
    "'s deployer_pod \<Rightarrow> dict \<Rightarrow> 's \<Rightarrow> (deploy_state \<times> deploy_audit list \<times> 's) option" where
  "agent_node D d s =
     (let bad = dget d ''preparsed_error''; ctx = dget d ''context'' in
      if truthy bad then
        Some (answer_with (redact_model_response (''Deployment failed request validation: ''
                @ (if has_key ''message'' (obj_of bad) then jstr (dget (obj_of bad) ''message'') else [])))
                [(''failed'', bad)], [], s)
      else if \<not> truthy ctx then
        Some (answer_with ''no deployment envelope''
                (failed_report ''request-validation'' ''request-validation failed: no deployment envelope''), [], s)
      else
        (let e = envelope_of_payload d (obj_of ctx) in
         map_option (\<lambda>(res, ev, s1). (report_of e res, ev, s1))
           (run_deployment_transaction (dp_world D) (dp_client D) (dp_translator D) (dp_watch D) e s)))"

definition phase_lead :: "string \<Rightarrow> string" where
  "phase_lead p =
     (case map_of [(''Deployed'', ''Deployed''), (''Failed'', ''Failed''), (''Converging'', ''Still converging''),
        (''NotFound'', ''Not found'')] p of Some t \<Rightarrow> t | None \<Rightarrow> ''Status unknown'')"

definition status_entry :: "dict \<Rightarrow> string" where
  "status_entry r =
     (let nm = jstr (dget r ''kind'') @ ''/'' @ jstr (dget r ''name'');
          ty = str_or_empty (dget r ''serviceType'');
          verdicts = tri_verdict ''Ready'' (dget r ''ready'') @ '' '' @ tri_verdict ''Degraded'' (dget r ''degraded'');
          detail = str_or_empty (jor (dget r ''message'') (dget r ''reason''));
          since = str_or_empty (dget r ''lastTransitionTime'')
      in nm @ '' '' @ (if ty \<noteq> [] then ''('' @ ty @ '') '' else []) @ verdicts
         @ (if detail \<noteq> [] then '' '' @ dquote @ detail @ dquote else [])
         @ (if since \<noteq> [] then '' since '' @ since else []))"

definition summary_of_status :: "dict \<Rightarrow> string" where
  "summary_of_status st =
     (let ph = or_text (dget st ''phase'') ''Unknown''; rs = arr_of (dget st ''resources''); lead = phase_lead ph @ ''.'' in
      if rs = [] then
        redact_model_response
          (lead @ (if ph = ''NotFound'' then '' No submitted resource carries this correlation id '' @ emdash @ '' nothing is on the cluster.''
                   else if truthy (dget st ''error'') then '' The cluster could not be read: '' @ jstr (dget st ''error'')
                   else []))
      else redact_model_response
             (lead @ '' '' @ join ''; '' (map (\<lambda>r. status_entry (obj_of r)) (filter is_obj rs)) @ ''.''))"

definition tools_node :: "'s deployer_pod \<Rightarrow> dict \<Rightarrow> 's \<Rightarrow> deploy_state \<times> 's" where
  "tools_node D d s =
     (let a = lower (str_or_empty (dget d ''action''));
          sid = str_or_empty (dget d ''serviceId''); cid = str_or_empty (dget d ''correlationId'');
          result = (\<lambda>t p. \<lparr>ds_tools = True, ds_text = Some t, ds_payload = p\<rparr>)
      in if a = ''status'' then
           (let (st, s1) = get_service_status (dp_client D) sid cid s
            in (result (summary_of_status st) [(''status'', JObj st)], s1))
         else if a = ''remove'' then
           (case remove_service cid True of
              Inr r \<Rightarrow>
                (result (redact_model_response (''Remove-service completed: deleted '' @ jstr (dget r ''deleted'') @ '' object(s).''))
                   [(''removed'', JObj r)], s)
            | Inl e \<Rightarrow> (result e [], s))
         else (result ''unknown tool action'' [], s))"

section \<open>The answer\<close>

definition marked_summary :: "string \<Rightarrow> string \<Rightarrow> dict \<Rightarrow> string" where
  "marked_summary marker summary p =
     strip summary @ nl @ ''<!-- '' @ marker @ '': '' @ canonical_json (JObj p) @ '' -->''"

definition deployer_message :: "deploy_state \<Rightarrow> a2a_obj" where
  "deployer_message st =
     Message [DataPart (ds_payload st),
       TextPart (marked_summary ''SUBMISSION_JSON''
         (case set_text (ds_text st) of Some t \<Rightarrow> t | None \<Rightarrow> ''Deployment result'') (ds_payload st))]"

definition deployer_ainvoke ::
    "'s deployer_pod \<Rightarrow> string \<Rightarrow> 's \<Rightarrow> (a2a_obj \<times> deploy_audit list \<times> 's) option" where
  "deployer_ainvoke D content s =
     (let st = ingest_node (dp_sha D) content in
      if ds_tools st
      then (let (st1, s1) = tools_node D (ds_payload st) s in Some (deployer_message st1, [], s1))
      else map_option (\<lambda>(st1, ev, s1). (deployer_message st1, ev, s1)) (agent_node D (ds_payload st) s))"

end
