(* ===== verification/Deployer.thy ===== *)
theory Deployer
  imports Deployer_Agent Deploy_Demo
begin

text \<open>
  The properties of the deployer agent: what it reports as submitted, what the supervisor reads of
  its answer, and what its status tool calls deployed.
\<close>

section \<open>Facts\<close>

definition wire_context :: "deploy_context \<Rightarrow> dict" where
  "wire_context c = [(''correlationId'', JStr (dc_correlation c)), (''threadId'', JStr (dc_thread c)),
     (''principal'', JStr (dc_principal c))]"

lemma ingest_envelope:
  "parse_deployment_envelope sha content = Inr (Some e) \<Longrightarrow>
   ingest_node sha content = \<lparr>ds_tools = False, ds_text = None,
     ds_payload = [(''intent'', JObj (env_intent e)), (''context'', JObj (wire_context (env_context e)))]\<rparr>"
  by (simp add: ingest_node_def wire_context_def)

lemma envelope_of_wire:
  "envelope_of_payload [(''intent'', JObj (env_intent e)), (''context'', JObj (wire_context (env_context e)))]
     (wire_context (env_context e)) = e"
  by (simp add: envelope_of_payload_def wire_context_def dget_def)

text \<open>The node that runs the transaction, on an envelope that was parsed.\<close>

lemma agent_node_envelope:
  assumes "parse_deployment_envelope (dp_sha D) content = Inr (Some e)"
  shows "agent_node D (ds_payload (ingest_node (dp_sha D) content)) s
    = map_option (\<lambda>(res, ev, s1). (report_of e res, ev, s1))
        (run_deployment_transaction (dp_world D) (dp_client D) (dp_translator D) (dp_watch D) e s)"
proof -
  let ?d = "[(''intent'', JObj (env_intent e)), (''context'', JObj (wire_context (env_context e)))]"
  have l: "dget ?d ''preparsed_error'' = JNull" "dget ?d ''context'' = JObj (wire_context (env_context e))"
    by (simp_all add: dget_def)
  have t: "truthy (JObj (wire_context (env_context e)))" by (simp add: wire_context_def)
  show ?thesis
    unfolding ingest_envelope [OF assms] deploy_state.select_convs agent_node_def Let_def l obj_of.simps envelope_of_wire
    using t by simp
qed

text \<open>Only a successful transaction puts a submission in the payload.\<close>

lemma report_of_submitted: "has_key ''submitted'' (ds_payload (report_of e res)) \<Longrightarrow> res = Inr (ds_payload (report_of e res))"
  by (cases "(e, res)" rule: report_of.cases) (auto simp: answer_with_def failed_report_def has_key_def)

lemma tools_node_submitted: "\<not> has_key ''submitted'' (ds_payload (fst (tools_node D d s)))"
  by (auto simp: tools_node_def Let_def has_key_def split: prod.split sum.split)

fun data_of :: "a2a_obj \<Rightarrow> dict" where
  "data_of (Message (DataPart d # ps)) = d"
| "data_of m = []"

lemma data_of_message [simp]: "data_of (deployer_message st) = ds_payload st"
  by (simp add: deployer_message_def)

lemma agent_node_not_submitted:
  assumes "parse_deployment_envelope (dp_sha D) content = Inl f"
    and "agent_node D (ds_payload (ingest_node (dp_sha D) content)) s = Some (st, ev, s')"
  shows "\<not> has_key ''submitted'' (ds_payload st)"
  using assms
  by (cases f) (auto simp: ingest_node_def agent_node_def Let_def dget_def answer_with_def failed_report_def has_key_def
      split: if_splits)

lemma parse_none_tools: "parse_deployment_envelope sha content = Inr None \<Longrightarrow> ds_tools (ingest_node sha content)"
  by (simp add: ingest_node_def Let_def)

lemma parse_error_agent: "parse_deployment_envelope sha content = Inl f \<Longrightarrow> \<not> ds_tools (ingest_node sha content)"
  by (simp add: ingest_node_def)

lemma extract_deployer_message:
  "extract_payload_and_text (Bare (deployer_message st)) marker worker
     = Inr (Some (ds_payload st), marked_summary ''SUBMISSION_JSON''
         (case set_text (ds_text st) of Some t \<Rightarrow> t | None \<Rightarrow> ''Deployment result'') (ds_payload st))"
  by (simp add: deployer_message_def extract_payload_and_text_def)

text \<open>A pod over the reference server, and a submission to it.\<close>

definition demo_pod :: "cluster deployer_pod" where
  "demo_pod = \<lparr>dp_world = demo_deploy_world, dp_client = Inr (kube_api [] (serve [])),
     dp_translator = demo_translator, dp_watch = None, dp_sha = (\<lambda>_. [])\<rparr>"

definition demo_submission_text :: string where
  "demo_submission_text = canonical_json (JObj [(''action'', JStr ''submit''), (''intent'', JObj demo_intent),
     (''context'', JObj (wire_context (env_context demo_envelope)))])"

fun submits :: "demo_outcome \<Rightarrow> bool" where
  "submits (Some (Inr p, ev, c)) = has_key ''submitted'' p"
| "submits r = False"

lemma demo_submits: "submits (demo_run [])"
  by code_simp

lemma demo_parsed: "parse_deployment_envelope (\<lambda>_. []) demo_submission_text = Inr (Some demo_envelope)"
  by code_simp

lemma demo_answer:
  obtains m ev c where "deployer_ainvoke demo_pod demo_submission_text (demo_cluster []) = Some (m, ev, c)"
    "has_key ''submitted'' (data_of m)"
proof -
  obtain p ev c where r: "demo_run [] = Some (Inr p, ev, c)" and p: "has_key ''submitted'' p"
    using demo_submits by (cases "demo_run []" rule: submits.cases) auto
  have e: "parse_deployment_envelope (dp_sha demo_pod) demo_submission_text = Inr (Some demo_envelope)"
    by (simp add: demo_pod_def demo_parsed)
  have "\<not> ds_tools (ingest_node (dp_sha demo_pod) demo_submission_text)" by (simp add: ingest_envelope [OF e])
  moreover have "agent_node demo_pod (ds_payload (ingest_node (dp_sha demo_pod) demo_submission_text)) (demo_cluster [])
      = Some (report_of demo_envelope (Inr p), ev, c)"
    unfolding agent_node_envelope [OF e] using r by (simp add: demo_pod_def demo_run_def)
  ultimately have "deployer_ainvoke demo_pod demo_submission_text (demo_cluster [])
      = Some (deployer_message (report_of demo_envelope (Inr p)), ev, c)"
    by (simp add: deployer_ainvoke_def)
  with p that show thesis by (simp add: answer_with_def)
qed

section \<open>The properties\<close>

text \<open>
  C28. What the deployer reports as submitted was applied: its answer carries a submission only for
  a message that parses as an envelope, and then the answer is the payload of a transaction that
  succeeded on that envelope, with that transaction's audit trail. A failed, malformed or tool
  request never carries one.
\<close>

theorem reported_submission_was_applied:
  assumes "deployer_ainvoke D content s = Some (m, ev, s')" and "has_key ''submitted'' (data_of m)"
  shows "\<exists>e. parse_deployment_envelope (dp_sha D) content = Inr (Some e)
    \<and> run_deployment_transaction (dp_world D) (dp_client D) (dp_translator D) (dp_watch D) e s
        = Some (Inr (data_of m), ev, s')"
proof (cases "parse_deployment_envelope (dp_sha D) content")
  case (Inl f)
  with assms(1) parse_error_agent [OF Inl] agent_node_not_submitted [OF Inl] have "\<not> has_key ''submitted'' (data_of m)"
    by (auto simp: deployer_ainvoke_def Let_def)
  with assms(2) show ?thesis by simp
next
  case (Inr o')
  show ?thesis
  proof (cases o')
    case None
    with Inr parse_none_tools have "ds_tools (ingest_node (dp_sha D) content)" by blast
    with assms tools_node_submitted [of D "ds_payload (ingest_node (dp_sha D) content)" s] show ?thesis
      by (auto simp: deployer_ainvoke_def Let_def split: prod.splits)
  next
    case (Some e)
    with Inr have p: "parse_deployment_envelope (dp_sha D) content = Inr (Some e)" by simp
    from assms(1) obtain res where
      "run_deployment_transaction (dp_world D) (dp_client D) (dp_translator D) (dp_watch D) e s = Some (res, ev, s')"
      "m = deployer_message (report_of e res)"
      unfolding deployer_ainvoke_def Let_def agent_node_envelope [OF p] by (auto simp: ingest_envelope [OF p])
    with p assms(2) report_of_submitted show ?thesis by fastforce
  qed
qed

theorem reported_submission_was_applied_witness:
  "\<exists>m ev c e. deployer_ainvoke demo_pod demo_submission_text (demo_cluster []) = Some (m, ev, c)
     \<and> run_deployment_transaction demo_deploy_world (Inr (kube_api [] (serve []))) demo_translator None e (demo_cluster [])
         = Some (Inr (data_of m), ev, c)"
proof -
  obtain m ev c where a: "deployer_ainvoke demo_pod demo_submission_text (demo_cluster []) = Some (m, ev, c)"
    "has_key ''submitted'' (data_of m)" by (rule demo_answer)
  from reported_submission_was_applied [OF a] a(1) show ?thesis by (auto simp: demo_pod_def)
qed

text \<open>
  C29. The supervisor reads of the deployer's answer exactly the payload the deployer put in it,
  whatever the summary says.
\<close>

theorem supervisor_reads_deployer_payload:
  assumes "deployer_ainvoke D content s = Some (m, ev, s')"
  shows "\<exists>t. extract_payload_and_text (Bare m) ''SUBMISSION_JSON'' ''deployer'' = Inr (Some (data_of m), t)"
proof -
  obtain st where "m = deployer_message st"
    using assms by (auto simp: deployer_ainvoke_def Let_def split: if_splits prod.splits)
  then show ?thesis by (simp add: extract_deployer_message)
qed

theorem supervisor_reads_deployer_payload_witness:
  "\<exists>m ev c t p. deployer_ainvoke demo_pod demo_submission_text (demo_cluster []) = Some (m, ev, c)
     \<and> extract_payload_and_text (Bare m) ''SUBMISSION_JSON'' ''deployer'' = Inr (Some p, t) \<and> has_key ''submitted'' p"
proof -
  obtain m ev c where a: "deployer_ainvoke demo_pod demo_submission_text (demo_cluster []) = Some (m, ev, c)"
    "has_key ''submitted'' (data_of m)" by (rule demo_answer)
  from supervisor_reads_deployer_payload [OF a(1)] a show ?thesis by blast
qed

text \<open>
  The status tool calls a service deployed exactly when the cluster could be read, has at least
  one object of the correlation id, and each of them has its last Ready condition true and no
  Degraded condition that is true at last; a cluster that cannot be read is Unknown with the error.
\<close>

theorem deployed_means_every_object_ready:
  "dget (fst (get_service_status build sid cid s)) ''phase'' = JStr ''Deployed'' \<longleftrightarrow>
     (\<exists>A obs s1. build = Inr A \<and> cid \<noteq> [] \<and> api_list A cid s = (Inr obs, s1) \<and> obs \<noteq> []
        \<and> list_all (\<lambda>ob. cd_status (condition_named ''Ready'' ob) = Some True
             \<and> cd_status (condition_named ''Degraded'' ob) \<noteq> Some True) obs)"
proof -
  have ph: "dget (status_report i c p rs err) ''phase'' = JStr ''Deployed'' \<longleftrightarrow> p = Deployed" for i c p rs err
    by (cases p) (simp_all add: status_report_def dget_def)
  have cs: "rs_ready (condition_summary ob) = condition_named ''Ready'' ob"
    "rs_degraded (condition_summary ob) = condition_named ''Degraded'' ob" for ob
    by (simp_all add: condition_summary_def Let_def split_def)
  have pf: "phase_from (map condition_summary obs) = Deployed \<longleftrightarrow> obs \<noteq> []
      \<and> (\<forall>ob \<in> set obs. cd_status (condition_named ''Ready'' ob) = Some True
           \<and> cd_status (condition_named ''Degraded'' ob) \<noteq> Some True)" for obs
    by (auto simp: phase_from_def cs list_ex_iff list_all_iff)
  show ?thesis
    unfolding get_service_status_def Let_def
    by (auto simp: ph pf list_all_iff split: sum.splits prod.splits)
qed

text \<open>
  The command \<open>remove correlation ...\<close>, which the agent documents, is read as the removal of a
  service named \<open>correlation\<close>: the pattern for service ids is tried first and matches the word.
\<close>

theorem remove_correlation_reads_as_service:
  "parse_action ''remove correlation 0123456789abcdef0123456789abcdef''
     = \<lparr>cm_kind = Act_remove, cm_service = Some ''correlation'', cm_correlation = None\<rparr>"
  by code_simp

end
