(* ===== verification/Kuid_Lease.thy ===== *)
theory Kuid_Lease
  imports Kuid
begin

text \<open>
  The Kubernetes leases kuid.py falls back to, the release of everything a correlation id holds,
  and the allocators the allocator agent uses.
\<close>

section \<open>Leases\<close>

definition LEASE_LABELS :: "(string \<times> string) list" where
  "LEASE_LABELS = [(''app.kubernetes.io/managed-by'', ''agentic-netops''),
     (''agentic-netops.io/allocation-backend'', ''lease'')]"

definition LEASE_ID :: string where "LEASE_ID = ''agentic-netops.io/allocated-id''"

definition label_text :: "char \<Rightarrow> bool" where
  "label_text c \<longleftrightarrow> is_alnum c \<or> c \<in> {CHR ''_'', CHR ''.'', CHR ''-''}"

definition label_value :: "string \<Rightarrow> string" where
  "label_value v =
     (let t = strip_chars ''-.'' (take_chars 63 (sub (plus (Chr (\<lambda>c. \<not> label_text c))) (\<lambda>m e. ''-'') v))
      in if t = [] then ''default'' else t)"

definition selector_text :: "(string \<times> string) list \<Rightarrow> string" where
  "selector_text ls = join '','' (map (\<lambda>(k, v). k @ ''='' @ v) ls)"

definition fallback_selector :: "string \<Rightarrow> string" where
  "fallback_selector index =
     selector_text (LEASE_LABELS @ [(''agentic-netops.io/allocation-pool'', label_value index)])"

definition fallback_lease_name :: "string \<Rightarrow> string \<Rightarrow> int \<Rightarrow> string" where
  "fallback_lease_name kind index v =
     lower (label_value (''agentic-netops-'' @ kind @ ''-'' @ index)) @ ''-'' @ str_int v"

definition fallback_lease_body :: "string \<Rightarrow> string \<Rightarrow> int \<Rightarrow> string \<Rightarrow> json" where
  "fallback_lease_body kind index v cid =
     JObj [(''apiVersion'', JStr ''coordination.k8s.io/v1''), (''kind'', JStr ''Lease''),
       (''metadata'', JObj [(''name'', JStr (fallback_lease_name kind index v)), (''namespace'', JStr KUID_NAMESPACE),
          (''labels'', JObj (map (\<lambda>(k, t). (k, JStr t)) LEASE_LABELS
             @ [(''agentic-netops.io/allocation-kind'', JStr (label_value kind)),
                (''agentic-netops.io/allocation-pool'', JStr (label_value index))])),
          (''annotations'', JObj [(CORRELATION_LABEL, JStr cid), (LEASE_ID, JStr (str_int v))])]),
       (''spec'', JObj [(''holderIdentity'', JStr (if cid = [] then ''agentic-netops'' else take_chars 63 cid)),
          (''leaseDurationSeconds'', JInt 315360000)])]"

text \<open>The annotations of a listed lease, and the ids in use; an id that is no number is skipped.\<close>

definition lease_annotations :: "json \<Rightarrow> kuid_error + dict" where
  "lease_annotations j =
     bind_res (as_dict j) (\<lambda>d. bind_res (dict_or_empty (dget d ''metadata'')) (\<lambda>m.
       as_dict (get_default m ''annotations'' (JObj []))))"

fun used_ids :: "json list \<Rightarrow> kuid_error + int list" where
  "used_ids [] = Inr []"
| "used_ids (j # js) =
     bind_res (lease_annotations j) (\<lambda>an.
       map_res (\<lambda>us. (case py_int (jstr (dget an LEASE_ID)) of Some n \<Rightarrow> n # us | None \<Rightarrow> us)) (used_ids js))"

definition listed :: "json \<Rightarrow> kuid_error + json list" where
  "listed j = bind_res (as_dict j) (\<lambda>d. items_or_raise (get_default d ''items'' (JArr [])))"

text \<open>The first free value whose lease could be created; \<open>Inr None\<close> when every one was taken.\<close>

fun try_values ::
    "'s kuid_world \<Rightarrow> kuid_config \<Rightarrow> string \<Rightarrow> string \<Rightarrow> string \<Rightarrow> int list \<Rightarrow> int list \<Rightarrow> ('s, int option) eff" where
  "try_values K C kind index cid us [] s = Some (Inr None, s)"
| "try_values K C kind index cid us (v # vs) s =
     (if v \<in> set us then try_values K C kind index cid us vs s
      else
        (case send K POST (lease_url C) [] (fallback_lease_body kind index v cid) s of
           None \<Rightarrow> None
         | Some (Inl e, s1) \<Rightarrow> Some (Inl e, s1)
         | Some (Inr r, s1) \<Rightarrow>
             if ok_status r then Some (Inr (Some v), s1)
             else if hr_status r = 409 then try_values K C kind index cid us vs s1
             else Some (Inl (classify_http_error (hr_status r) (hr_text r)), s1)))"

definition exhausted :: "string \<Rightarrow> string \<Rightarrow> int \<times> int \<Rightarrow> kuid_error" where
  "exhausted kind index rng =
     Exhaustion (''no available '' @ kind @ '' ids in '' @ index @ '' ('' @ str_int (fst rng) @ ''-''
       @ str_int (snd rng) @ '')'')"

fun lease_rounds ::
    "nat \<Rightarrow> 's kuid_world \<Rightarrow> kuid_config \<Rightarrow> string \<Rightarrow> string \<Rightarrow> int \<times> int \<Rightarrow> string \<Rightarrow> ('s, int) eff" where
  "lease_rounds 0 K C kind index rng cid s = Some (Inl (exhausted kind index rng), s)"
| "lease_rounds (Suc n) K C kind index rng cid s =
     bind_eff (send K GET (lease_url C) [(''labelSelector'', fallback_selector index)] JNull) (\<lambda>r.
     bind_eff (lift (bind_res (read_ok r) (\<lambda>j. bind_res (listed j) used_ids))) (\<lambda>us.
     bind_eff (try_values K C kind index cid us [fst rng..snd rng]) (\<lambda>v.
       case v of Some x \<Rightarrow> ret x | None \<Rightarrow> lease_rounds n K C kind index rng cid))) s"

definition allocate_fallback_lease ::
    "'s kuid_world \<Rightarrow> kuid_config \<Rightarrow> string \<Rightarrow> string \<Rightarrow> int \<times> int \<Rightarrow> string \<Rightarrow> ('s, int) eff" where
  "allocate_fallback_lease K C kind index rng cid = lease_rounds 4 K C kind index rng cid"

section \<open>Release\<close>

text \<open>
  Deleting listed objects by name: the count of the acknowledged deletes, and whether an exception
  ended the scan. \<open>pick\<close> reads the name to delete of an item, or none.
\<close>

fun delete_items ::
    "'s kuid_world \<Rightarrow> string \<Rightarrow> (json \<Rightarrow> kuid_error + json) \<Rightarrow> json list \<Rightarrow> 's \<Rightarrow> (nat \<times> bool) \<times> 's" where
  "delete_items K url pick [] s = ((0, False), s)"
| "delete_items K url pick (j # js) s =
     (case pick j of
        Inl e \<Rightarrow> ((0, True), s)
      | Inr nm \<Rightarrow>
          if \<not> truthy nm then delete_items K url pick js s
          else
            (case kw_http K \<lparr>hq_method = DELETE, hq_url = url @ ''/'' @ jstr nm, hq_params = [], hq_body = JNull\<rparr> s of
               (Inl x, s1) \<Rightarrow> ((0, True), s1)
             | (Inr r, s1) \<Rightarrow>
                 (let ((n, raised), s2) = delete_items K url pick js s1
                  in ((if ok_status r then Suc n else n, raised), s2))))"

text \<open>One scan: list by a selector, then delete; nothing is raised.\<close>

definition release_scan ::
    "'s kuid_world \<Rightarrow> string \<Rightarrow> string \<Rightarrow> (json \<Rightarrow> kuid_error + json) \<Rightarrow> 's \<Rightarrow> (nat \<times> bool) \<times> 's" where
  "release_scan K url sel pick s =
     (case kw_http K (get_request url [(''labelSelector'', sel)]) s of
        (Inl x, s1) \<Rightarrow> ((0, True), s1)
      | (Inr r, s1) \<Rightarrow>
          if \<not> ok_status r then ((0, False), s1)
          else (case bind_res (body_json r) listed of
                  Inl e \<Rightarrow> ((0, True), s1) | Inr js \<Rightarrow> delete_items K url pick js s1))"

definition claim_item_name :: "json \<Rightarrow> kuid_error + json" where
  "claim_item_name j =
     bind_res (as_dict j) (\<lambda>d. map_res (\<lambda>m. dget m ''name'') (as_dict (get_default d ''metadata'' (JObj []))))"

definition lease_item_name :: "string \<Rightarrow> json \<Rightarrow> kuid_error + json" where
  "lease_item_name cid j =
     bind_res (as_dict j) (\<lambda>d. bind_res (dict_or_empty (dget d ''metadata'')) (\<lambda>m.
     map_res (\<lambda>an. if dget an CORRELATION_LABEL \<noteq> JStr cid then JNull else dget m ''name'')
       (as_dict (get_default m ''annotations'' (JObj [])))))"

definition SERVED_CLAIMS :: "(string \<times> string) list" where
  "SERVED_CLAIMS = [(''id.kuid.dev'', ''claims''), (''ipam.be.kuid.dev'', ''ipclaims''),
     (''genid.be.kuid.dev'', ''genidclaims''), (''as.be.kuid.dev'', ''asclaims''),
     (''vlan.be.kuid.dev'', ''vlanclaims''), (''extcomm.be.kuid.dev'', ''extcommclaims'')]"

text \<open>An exception in the scan of the leases makes its count zero.\<close>

definition release_fallback_leases :: "'s kuid_world \<Rightarrow> kuid_config \<Rightarrow> string \<Rightarrow> 's \<Rightarrow> nat \<times> 's" where
  "release_fallback_leases K C cid s =
     (let ((n, raised), s1) = release_scan K (lease_url C) (selector_text LEASE_LABELS) (lease_item_name cid) s
      in (if raised then 0 else n, s1))"

fun release_claims ::
    "'s kuid_world \<Rightarrow> kuid_config \<Rightarrow> string \<Rightarrow> (string \<times> string) list \<Rightarrow> 's \<Rightarrow> nat \<times> 's" where
  "release_claims K C cid [] s = (0, s)"
| "release_claims K C cid ((grp, plural) # gs) s =
     (let ((n, raised), s1) = release_scan K (kuid_url C grp plural) (CORRELATION_LABEL @ ''='' @ cid) claim_item_name s;
          (k, s2) = release_claims K C cid gs s1
      in (n + k, s2))"

definition release_by_correlation :: "'s kuid_world \<Rightarrow> kuid_config \<Rightarrow> string \<Rightarrow> 's \<Rightarrow> nat \<times> 's" where
  "release_by_correlation K C cid s =
     (let (n, s1) = release_claims K C cid SERVED_CLAIMS s in
      if kc_fallback C = ''lease''
      then (let (k, s2) = release_fallback_leases K C cid s1 in (n + k, s2)) else (n, s1))"

section \<open>The allocators\<close>

definition with_lease_fallback ::
    "'s kuid_world \<Rightarrow> kuid_config \<Rightarrow> string \<Rightarrow> string \<Rightarrow> int \<times> int \<Rightarrow> string \<Rightarrow> ('s, int) eff \<Rightarrow> ('s, int) eff" where
  "with_lease_fallback K C what index rng cid alloc s =
     (case alloc s of
        Some (Inl (Api e), s1) \<Rightarrow>
          if kc_fallback C = ''lease'' then allocate_fallback_lease K C what index rng cid s1
          else Some (Inl (Api e), s1)
      | r \<Rightarrow> r)"

text \<open>\<open>claim["metadata"]["name"]\<close>, formatted into a URL.\<close>

definition created_name :: "json \<Rightarrow> kuid_error + string" where
  "created_name claim =
     (case claim of
        JObj d \<Rightarrow>
          (case dget d ''metadata'' of
             JObj m \<Rightarrow> if has_key ''name'' m then Inr (jstr (dget m ''name'')) else Inl (Uncaught ''KeyError: name'')
           | _ \<Rightarrow> Inl (Uncaught ''KeyError: metadata''))
      | _ \<Rightarrow> Inl (Uncaught ''TypeError: object is not subscriptable''))"

definition index_claim ::
    "'s kuid_world \<Rightarrow> kuid_config \<Rightarrow> string \<Rightarrow> string \<Rightarrow> string \<Rightarrow> string \<Rightarrow> string \<Rightarrow> string \<Rightarrow> ('s, int) eff" where
  "index_claim K C grp plural kind index cid what =
     bind_eff (create_claim K C grp plural kind (JObj [(''index'', JStr index)]) cid []) (\<lambda>c.
     bind_eff (lift (created_name c)) (\<lambda>nm.
     bind_eff (wait_for_claim K C grp plural nm) (\<lambda>j. lift (claim_id j what))))"

definition allocate_l2vni :: "'s kuid_world \<Rightarrow> kuid_config \<Rightarrow> string \<Rightarrow> ('s, int) eff" where
  "allocate_l2vni K C cid =
     with_lease_fallback K C ''l2vni'' (kc_l2vni_index C) (kc_l2vni C) cid
       (index_claim K C ''genid.be.kuid.dev'' ''genidclaims'' ''GENIDClaim'' (kc_l2vni_index C) cid ''l2vni'')"

definition allocate_l3vni :: "'s kuid_world \<Rightarrow> kuid_config \<Rightarrow> string \<Rightarrow> ('s, int) eff" where
  "allocate_l3vni K C cid =
     with_lease_fallback K C ''l3vni'' (kc_l3vni_index C) (kc_l3vni C) cid
       (index_claim K C ''genid.be.kuid.dev'' ''genidclaims'' ''GENIDClaim'' (kc_l3vni_index C) cid ''l3vni'')"

definition allocate_vlan :: "'s kuid_world \<Rightarrow> kuid_config \<Rightarrow> string \<Rightarrow> ('s, int) eff" where
  "allocate_vlan K C cid =
     with_lease_fallback K C ''vlan'' (kc_vlan_index C) (kc_vlan C) cid
       (index_claim K C ''vlan.be.kuid.dev'' ''vlanclaims'' ''VLANClaim'' (kc_vlan_index C) cid ''vlan'')"

text \<open>The route distinguisher and the route targets are the same text.\<close>

definition allocate_rd_rt :: "'s kuid_world \<Rightarrow> kuid_config \<Rightarrow> string \<Rightarrow> ('s, string) eff" where
  "allocate_rd_rt K C cid =
     bind_eff
       (with_lease_fallback K C ''rt'' (kc_extcomm_index C) (kc_extcomm C) cid
          (index_claim K C ''extcomm.be.kuid.dev'' ''extcommclaims'' ''EXTCOMMClaim'' (kc_extcomm_index C) cid ''rt''))
       (\<lambda>n. ret (kc_asn C @ '':'' @ str_int n))"

end
