(* ===== verification/Allocator.thy ===== *)
theory Allocator
  imports Kuid_Lease Worker
begin

text \<open>
  \<open>AllocatorAgent\<close> of src/agents/provisioning/allocator/agent.py: from a validated interpretation to a
  normalized intent whose identifiers were claimed, with the memo of earlier assignments.
\<close>

section \<open>The world of the agent\<close>

text \<open>The allocation client the agent holds.\<close>

record 's id_source =
  is_vlan :: "string \<Rightarrow> ('s, int) eff"
  is_l2vni :: "string \<Rightarrow> ('s, int) eff"
  is_l3vni :: "string \<Rightarrow> ('s, int) eff"
  is_rd_rt :: "string \<Rightarrow> ('s, string) eff"
  is_prefix :: "string \<Rightarrow> string \<Rightarrow> ('s, json) eff"

definition kuid_source :: "'s kuid_world \<Rightarrow> kuid_config \<Rightarrow> 's id_source" where
  "kuid_source K C =
     \<lparr>is_vlan = allocate_vlan K C, is_l2vni = allocate_l2vni K C, is_l3vni = allocate_l3vni K C,
      is_rd_rt = allocate_rd_rt K C, is_prefix = allocate_client_prefix K C\<rparr>"

text \<open>The readers of pydantic, the text of its errors, the spines of the environment, and the trace id.\<close>

record alloc_world =
  aw_lax :: lax
  aw_pyd_text :: "field_error list \<Rightarrow> string"
  aw_spines :: "string option"
  aw_trace :: string
  aw_sha :: "string \<Rightarrow> string"

definition raise_fields :: "alloc_world \<Rightarrow> 'a checked \<Rightarrow> kuid_error + 'a" where
  "raise_fields W r = (case r of Inl es \<Rightarrow> Inl (Uncaught (aw_pyd_text W es)) | Inr a \<Rightarrow> Inr a)"

section \<open>Endpoints\<close>

definition new_endpoint ::
    "alloc_world \<Rightarrow> string \<Rightarrow> string \<Rightarrow> int option \<Rightarrow> string option \<Rightarrow> json \<Rightarrow> kuid_error + intent_endpoint" where
  "new_endpoint W nd att vl vrf ps =
     raise_fields W (validate_ep (aw_lax W)
       [(''node'', JStr nd), (''attachment'', JStr att), (''vlan'', int_json vl), (''vrf'', str_json vrf), (''prefixes'', ps)])"

fun map_endpoints :: "(intent_endpoint \<Rightarrow> kuid_error + intent_endpoint) \<Rightarrow> intent_endpoint list \<Rightarrow> kuid_error + intent_endpoint list" where
  "map_endpoints f [] = Inr []"
| "map_endpoints f (e # es) = bind_res (f e) (\<lambda>x. map_res (Cons x) (map_endpoints f es))"

fun read_endpoints :: "alloc_world \<Rightarrow> endpoint_intent list \<Rightarrow> kuid_error + intent_endpoint list" where
  "read_endpoints W [] = Inr []"
| "read_endpoints W (e # es) =
     bind_res (new_endpoint W (site_or_node e) (attachment e) (vlan e) None JNull)
       (\<lambda>x. map_res (Cons x) (read_endpoints W es))"

definition deterministic_endpoints :: "intent_endpoint list \<Rightarrow> intent_endpoint list" where
  "deterministic_endpoints es = sort_key (\<lambda>e. (ep_node e, ep_attachment e)) es"

text \<open>The distinct vlans the operator named, in order.\<close>

definition declared_vlans :: "intent_endpoint list \<Rightarrow> int list" where
  "declared_vlans es = sort (remdups (filter (\<lambda>v. v \<noteq> 0) (concat (map (\<lambda>e. case ep_vlan e of Some v \<Rightarrow> [v] | None \<Rightarrow> []) es))))"

definition on_vlan :: "alloc_world \<Rightarrow> int option \<Rightarrow> intent_endpoint list \<Rightarrow> kuid_error + intent_endpoint list" where
  "on_vlan W v es = map_endpoints (\<lambda>e. new_endpoint W (ep_node e) (ep_attachment e) v None JNull) es"

definition too_many_vlans :: "string \<Rightarrow> int list \<Rightarrow> kuid_error" where
  "too_many_vlans what vs =
     Uncaught (what @ ''; the request names '' @ str_nat (length vs) @ '': '' @ join '', '' (map str_int vs))"

definition l2_endpoints ::
    "alloc_world \<Rightarrow> 's id_source \<Rightarrow> intent_endpoint list \<Rightarrow> string \<Rightarrow> string \<Rightarrow> ('s, intent_endpoint list) eff" where
  "l2_endpoints W A es cid service =
     (case declared_vlans es of
        [] \<Rightarrow> bind_eff (is_vlan A cid) (\<lambda>v. lift (on_vlan W (Some v) es))
      | [v] \<Rightarrow> lift (on_vlan W (Some v) es)
      | vs \<Rightarrow> throw (too_many_vlans (service @ '' is one bridge domain, so all endpoints share one vlan'') vs))"

definition srv6_endpoints :: "alloc_world \<Rightarrow> intent_endpoint list \<Rightarrow> kuid_error + intent_endpoint list" where
  "srv6_endpoints W es =
     (case declared_vlans es of
        [] \<Rightarrow> on_vlan W None es
      | [v] \<Rightarrow> on_vlan W (Some v) es
      | vs \<Rightarrow> Inl (too_many_vlans ''mac-vrf over srv6 is one bridge domain, so all endpoints share one vlan'' vs))"

section \<open>The gateway of a claimed prefix\<close>

text \<open>The address after the network's own; \<open>ipaddress\<close> raises past the last one.\<close>

definition next_address :: "int \<Rightarrow> int \<Rightarrow> kuid_error + string" where
  "next_address v n =
     (if n + 1 < 2 ^ width v then Inr (str_addr v (n + 1))
      else Inl (Uncaught ''AddressValueError: address out of range''))"

definition gateway_of :: "ip_net \<Rightarrow> kuid_error + json" where
  "gateway_of n = map_res (\<lambda>a. JStr (a @ ''/'' @ str_int (plen n))) (next_address (ver n) (net_addr n))"

definition int_network :: "int \<Rightarrow> ip_net option" where
  "int_network n =
     (if n < 0 then None
      else if n < 2 ^ 32 then Some \<lparr>ver = 4, net_addr = n, plen = 32\<rparr>
      else if n < 2 ^ 128 then Some \<lparr>ver = 6, net_addr = n, plen = 128\<rparr> else None)"

definition json_network :: "json \<Rightarrow> ip_net option" where
  "json_network j =
     (case j of JStr s \<Rightarrow> ip_network s | JInt n \<Rightarrow> int_network n | JBool b \<Rightarrow> int_network (if b then 1 else 0) | _ \<Rightarrow> None)"

definition gateway_address :: "json \<Rightarrow> kuid_error + json" where
  "gateway_address claimed = (case json_network claimed of None \<Rightarrow> Inr claimed | Some n \<Rightarrow> gateway_of n)"

section \<open>The filter\<close>

fun exclude_none :: "json \<Rightarrow> json" where
  "exclude_none (JObj d) = JObj (map (\<lambda>(k, j). (k, exclude_none j)) (filter (\<lambda>(k, j). j \<noteq> JNull) d))"
| "exclude_none (JArr xs) = JArr (map exclude_none xs)"
| "exclude_none j = j"

definition normalized_acl :: "alloc_world \<Rightarrow> interp \<Rightarrow> kuid_error + acl_model option" where
  "normalized_acl W i =
     (case i_acl i of
        None \<Rightarrow> Inr None
      | Some a \<Rightarrow>
          (let d = obj_of (exclude_none (dump_acl_intent a));
               d' = (if has_key ''default_action'' d
                     then dset ''defaultAction'' (dget d ''default_action'') (dpop ''default_action'' d) else d)
           in map_res Some (raise_fields W (validate_acl (aw_lax W) d'))))"

section \<open>The intent of each construct\<close>

text \<open>The fields every construct sets; the others have the defaults of the schema.\<close>

definition base_intent :: "interp \<Rightarrow> acl_model option \<Rightarrow> intent_endpoint list \<Rightarrow> normalized_intent" where
  "base_intent i a es =
     \<lparr>serviceId = service_id i, type_of = type_value (service_type i), tenant = i_tenant i, rdRt = None,
      l2vni = None, l3vni = None, addressFamilies = None, anycastGateway = None, transport = ''vxlan'',
      signalling = None, preferredSpine = None, endpoints = es, vpwsLimitedEquivalence = None,
      unsupported = None, acl = a\<rparr>"

definition new_intent :: "alloc_world \<Rightarrow> normalized_intent \<Rightarrow> kuid_error + normalized_intent" where
  "new_intent W n = raise_fields W (validate_intent (aw_lax W) (dump_intent n))"

definition families_of :: "interp \<Rightarrow> address_families" where
  "families_of i =
     (if ipv4_prefixes i \<noteq> [] \<or> ipv6_prefixes i \<noteq> []
      then \<lparr>ipv4Prefixes = ipv4_prefixes i, ipv6Prefixes = ipv6_prefixes i\<rparr>
      else \<lparr>ipv4Prefixes = [''10.0.0.0/24''], ipv6Prefixes = []\<rparr>)"

definition vrf_of :: "interp \<Rightarrow> intent_endpoint \<Rightarrow> string" where
  "vrf_of i e = (case set_text (ep_vrf e) of Some v \<Rightarrow> v | None \<Rightarrow> ''vrf-'' @ i_tenant i)"

definition signalling_or :: "interp \<Rightarrow> string \<Rightarrow> string" where
  "signalling_or i d = (case set_text (i_signalling i) of Some v \<Rightarrow> v | None \<Rightarrow> d)"

definition rd_rt_of :: "string \<Rightarrow> rd_rt" where
  "rd_rt_of rt = \<lparr>rd = rt, importRT = [rt], exportRT = [rt]\<rparr>"

fun gateway_endpoints ::
    "alloc_world \<Rightarrow> 's id_source \<Rightarrow> interp \<Rightarrow> string \<Rightarrow> intent_endpoint list \<Rightarrow> ('s, intent_endpoint list) eff" where
  "gateway_endpoints W A i cid [] s = Some (Inr [], s)"
| "gateway_endpoints W A i cid (e # es) s =
     bind_eff (is_prefix A cid (ep_node e @ ''-'' @ ep_attachment e)) (\<lambda>p.
     bind_eff (lift (bind_res (gateway_address p) (\<lambda>g.
         new_endpoint W (ep_node e) (ep_attachment e) None (Some (vrf_of i e)) (JArr [g])))) (\<lambda>x.
     bind_eff (gateway_endpoints W A i cid es) (\<lambda>xs. ret (x # xs)))) s"

definition srv6_intent ::
    "alloc_world \<Rightarrow> 's id_source \<Rightarrow> interp \<Rightarrow> acl_model option \<Rightarrow> intent_endpoint list \<Rightarrow> string \<Rightarrow> ('s, normalized_intent) eff" where
  "srv6_intent W A i a es cid =
     (case service_type i of
        MAC_VRF \<Rightarrow>
          if anycast_gateway i \<noteq> None
          then throw (Uncaught ''mac-vrf over srv6 is bridged: it carries no anycast gateway'')
          else lift (bind_res (srv6_endpoints W es) (\<lambda>xs.
                 new_intent W ((base_intent i a xs)\<lparr>transport := ''srv6'',
                   signalling := Some (signalling_or i ''evpn''), preferredSpine := preferred_spine i\<rparr>)))
      | IP_VRF \<Rightarrow>
          bind_eff (gateway_endpoints W A i cid es) (\<lambda>xs.
            lift (new_intent W ((base_intent i a xs)\<lparr>transport := ''srv6'',
              signalling := Some (signalling_or i ''vpn''), preferredSpine := preferred_spine i,
              addressFamilies := Some (families_of i)\<rparr>)))
      | t \<Rightarrow> throw (Uncaught (''transport srv6 applies to ip-vrf and mac-vrf only (got '' @ type_value t @ '')'')))"

definition gateway_model :: "gateway_intent \<Rightarrow> anycast_gateway" where
  "gateway_model g =
     \<lparr>gw_ipVrf = None, gatewayIPv4 = (case gi_ipv4 g of Some v \<Rightarrow> v | None \<Rightarrow> []),
      gatewayIPv6 = (case gi_ipv6 g of Some v \<Rightarrow> v | None \<Rightarrow> [])\<rparr>"

definition routed_gateway ::
    "'s id_source \<Rightarrow> interp \<Rightarrow> string \<Rightarrow> ('s, int option \<times> anycast_gateway option) eff" where
  "routed_gateway A i cid =
     (case anycast_gateway i of
        None \<Rightarrow> ret (None, None)
      | Some g \<Rightarrow> bind_eff (is_l3vni A cid) (\<lambda>n. ret (Some n, Some (gateway_model g))))"

definition vxlan_intent ::
    "alloc_world \<Rightarrow> 's id_source \<Rightarrow> interp \<Rightarrow> acl_model option \<Rightarrow> intent_endpoint list \<Rightarrow> string \<Rightarrow> ('s, normalized_intent) eff" where
  "vxlan_intent W A i a es cid =
     (case service_type i of
        VLAN \<Rightarrow> bind_eff (l2_endpoints W A es cid ''vlan'') (\<lambda>xs. lift (new_intent W (base_intent i a xs)))
      | MAC_VRF \<Rightarrow>
          bind_eff (l2_endpoints W A es cid ''mac-vrf'') (\<lambda>xs.
          bind_eff (is_l2vni A cid) (\<lambda>n.
          bind_eff (is_rd_rt A cid) (\<lambda>rt.
          bind_eff (routed_gateway A i cid) (\<lambda>(m, g).
            lift (new_intent W ((base_intent i a xs)\<lparr>rdRt := Some (rd_rt_of rt), l2vni := Some n, l3vni := m,
              anycastGateway := g\<rparr>))))))
      | IP_VRF \<Rightarrow>
          bind_eff (lift (map_endpoints (\<lambda>e. new_endpoint W (ep_node e) (ep_attachment e) None (Some (vrf_of i e)) JNull) es)) (\<lambda>xs.
          bind_eff (is_l3vni A cid) (\<lambda>m.
          bind_eff (is_rd_rt A cid) (\<lambda>rt.
            lift (new_intent W ((base_intent i a xs)\<lparr>rdRt := Some (rd_rt_of rt), l3vni := Some m,
              addressFamilies := Some (families_of i)\<rparr>)))))
      | ACL \<Rightarrow> lift (new_intent W (base_intent i a es)))"

definition checked_intent :: "alloc_world \<Rightarrow> normalized_intent \<Rightarrow> kuid_error + normalized_intent" where
  "checked_intent W n =
     (case validate_all_or_nothing (aw_spines W) False n of
        None \<Rightarrow> Inr n | Some causes \<Rightarrow> Inl (Uncaught (validation_error_text causes)))"

text \<open>\<open>fresh\<close> is \<open>uuid4().hex\<close>, for a request without a correlation id.\<close>

definition claim_key :: "alloc_world \<Rightarrow> ('s \<Rightarrow> string \<times> 's) \<Rightarrow> string \<Rightarrow> ('s, string) eff" where
  "claim_key W fresh cid s =
     (if cid \<noteq> [] then Some (Inr cid, s)
      else if aw_trace W \<noteq> [] then Some (Inr (aw_trace W), s)
      else (let (u, s1) = fresh s in Some (Inr u, s1)))"

definition build_intent ::
    "alloc_world \<Rightarrow> 's id_source \<Rightarrow> ('s \<Rightarrow> string \<times> 's) \<Rightarrow> interp \<Rightarrow> string \<Rightarrow> ('s, normalized_intent) eff" where
  "build_intent W A fresh i cid =
     bind_eff (lift (normalized_acl W i)) (\<lambda>a.
     bind_eff (lift (map_res deterministic_endpoints (read_endpoints W (i_endpoints i)))) (\<lambda>es.
     bind_eff (claim_key W fresh cid) (\<lambda>c.
     bind_eff (if i_transport i = Some ''srv6'' then srv6_intent W A i a es c else vxlan_intent W A i a es c)
       (\<lambda>n. lift (checked_intent W n)))))"

section \<open>The node and its answer\<close>

definition alloc_summary :: "normalized_intent \<Rightarrow> string" where
  "alloc_summary n =
     redact_model_response (''Allocation ready for '' @ type_of n @ '' service '' @ serviceId n
       @ '' (tenant '' @ tenant n @ '').'')"

text \<open>The interpretation of a request and its correlation id, when it reads.\<close>

definition read_request :: "alloc_world \<Rightarrow> string \<Rightarrow> (interp \<times> string) option" where
  "read_request W content =
     (case loads (unfence content) of
        Some (JObj m) \<Rightarrow>
          (case validate_interpretation (aw_lax W) (dpop ''correlationId'' m) of
             Inr i \<Rightarrow> Some (i, str_or_empty (dget m ''correlationId''))
           | Inl es \<Rightarrow> None)
      | _ \<Rightarrow> None)"

definition memo_key :: "alloc_world \<Rightarrow> interp \<Rightarrow> string" where
  "memo_key W i = aw_sha W (canonical_json (JObj (dump_interpretation i)))"

type_synonym memo = "string \<Rightarrow> string option"

text \<open>What the node leaves: the text, the payload (JSON, null for none), and the memo of the process.\<close>

definition alloc_node ::
    "alloc_world \<Rightarrow> 's id_source \<Rightarrow> ('s \<Rightarrow> string \<times> 's) \<Rightarrow> memo \<Rightarrow> string \<Rightarrow> ('s, string \<times> json \<times> memo) eff" where
  "alloc_node W A fresh mem content =
     (case read_request W content of
        None \<Rightarrow> ret (''invalid interpretation payload'', JNull, mem)
      | Some (i, cid) \<Rightarrow>
          (case mem (memo_key W i) of
             Some cached \<Rightarrow>
               lift (case loads cached of
                  Some (JObj d) \<Rightarrow>
                    (case validate_intent (aw_lax W) d of
                       Inr n \<Rightarrow> Inr (alloc_summary n, JObj d, mem) | Inl es \<Rightarrow> Inl (Uncaught (aw_pyd_text W es)))
                | _ \<Rightarrow> Inl (Uncaught ''invalid memo''))
           | None \<Rightarrow>
               bind_eff (build_intent W A fresh i cid) (\<lambda>n.
                 let canon = canonical_json (JObj (dump_intent n))
                 in ret (alloc_summary n, case loads canon of Some j \<Rightarrow> j | None \<Rightarrow> JNull,
                         mem(memo_key W i \<mapsto> canon)))))"

definition allocator_message :: "string \<Rightarrow> normalized_intent \<Rightarrow> a2a_obj" where
  "allocator_message summary n =
     Message [DataPart (dump_intent n),
       TextPart (strip summary @ nl @ ''<!-- DEPLOYMENT_JSON: '' @ canonical_json (JObj (dump_intent n)) @ '' -->'')]"

definition allocator_ainvoke ::
    "alloc_world \<Rightarrow> 's id_source \<Rightarrow> ('s \<Rightarrow> string \<times> 's) \<Rightarrow> memo \<Rightarrow> string \<Rightarrow> ('s, a2a_obj \<times> memo) eff" where
  "allocator_ainvoke W A fresh mem content =
     bind_eff (alloc_node W A fresh mem content) (\<lambda>(t, p, mem').
       (case validate_intent (aw_lax W) (obj_of p) of
          Inl es \<Rightarrow> throw (Uncaught (''allocator produced invalid normalized intent: '' @ aw_pyd_text W es))
        | Inr n \<Rightarrow> ret (allocator_message (if t = [] then ''Allocation result'' else t) n, mem')))"

end
