(* ===== verification/Kuid_Facts.thy ===== *)
theory Kuid_Facts
  imports Kuid_Lease
begin

text \<open>
  What the allocation client relies on, as two contracts: a clock that sleeping moves on
  (\<open>kuid_clock\<close>), under which every wait ends, and a store of leases that creates a lease only where
  there is none (\<open>lease_server\<close>), under which an allocated value is exclusive.
\<close>

lemma bind_eff_Some:
  "bind_eff m f s = Some (r, s') \<longleftrightarrow>
     (\<exists>e. m s = Some (Inl e, s') \<and> r = Inl e) \<or> (\<exists>a s1. m s = Some (Inr a, s1) \<and> f a s1 = Some (r, s'))"
  by (auto split: option.splits prod.splits sum.splits)

lemma bind_eff_not_None:
  "m s \<noteq> None \<Longrightarrow> (\<And>a s1. m s = Some (Inr a, s1) \<Longrightarrow> f a s1 \<noteq> None) \<Longrightarrow> bind_eff m f s \<noteq> None"
  by (auto split: option.split sum.split)

lemma eff_Some [simp]:
  "lift x s = Some (r, s') \<longleftrightarrow> x = r \<and> s' = s" "ret a s = Some (r, s') \<longleftrightarrow> r = Inr a \<and> s' = s"
  by (auto simp: lift_def ret_def)

lemma eff_not_None [simp]: "lift x s \<noteq> None" "ret a s \<noteq> None" "send K m u ps b s \<noteq> None"
  by (auto simp: lift_def ret_def send_def split: sum.split prod.split)

lemma send_Some:
  "send K m u ps b s = Some (r, s') \<longleftrightarrow>
     (case kw_http K \<lparr>hq_method = m, hq_url = u, hq_params = ps, hq_body = b\<rparr> s of
        (Inl x, s1) \<Rightarrow> r = Inl (Uncaught x) \<and> s' = s1
      | (Inr p, s1) \<Rightarrow> r = Inr p \<and> s' = s1)"
  by (auto simp: send_def split: sum.splits prod.splits)

section \<open>The clock\<close>

locale kuid_clock =
  fixes K :: "'s kuid_world" and time :: "'s \<Rightarrow> int"
  assumes now_reads: "kw_now K s = (t, s') \<Longrightarrow> t = time s \<and> time s \<le> time s'"
    and http_passes: "time s \<le> time (snd (kw_http K q s))"
    and sleep_passes: "time s + ms \<le> time (kw_sleep K ms s)"
begin

lemma send_passes: "send K m u ps b s = Some (r, s') \<Longrightarrow> time s \<le> time s'"
  using http_passes [of s "\<lparr>hq_method = m, hq_url = u, hq_params = ps, hq_body = b\<rparr>"]
  by (auto simp: send_Some split: prod.splits sum.splits)

lemma wait_loop_ends:
  "dl - time s \<le> WAIT_POLL * int n \<Longrightarrow> wait_loop (Suc n) K url nm dl lst s \<noteq> None"
proof (induction n arbitrary: s lst)
  case 0
  obtain t s1 where t: "kw_now K s = (t, s1)" by fastforce
  with now_reads [OF t] 0 show ?case by (simp add: WAIT_POLL_def)
next
  case (Suc n)
  obtain t s1 where t: "kw_now K s = (t, s1)" by fastforce
  show ?case
  proof (cases "t < dl")
    case False
    with t show ?thesis by simp
  next
    case True
    let ?step = "\<lambda>j b s2. if b then Some (Inr j, s2) else wait_loop (Suc n) K url nm dl j (kw_sleep K WAIT_POLL s2)"
    have "bind_eff (send K GET url [] JNull) (\<lambda>r. bind_eff (lift (read_ok r)) (\<lambda>j.
        bind_eff (lift (claim_final j)) (?step j))) s1 \<noteq> None"
    proof (intro bind_eff_not_None eff_not_None)
      fix r s2 j s3 b s4
      assume s2: "send K GET url [] JNull s1 = Some (Inr r, s2)"
        and s3: "lift (read_ok r) s2 = Some (Inr j, s3)" and s4: "lift (claim_final j) s3 = Some (Inr b, s4)"
      have "time s \<le> time s4" using now_reads [OF t] send_passes [OF s2] s3 s4 by simp
      with sleep_passes [of s4 WAIT_POLL] Suc.prems
      have "dl - time (kw_sleep K WAIT_POLL s4) \<le> WAIT_POLL * int n" by (simp add: algebra_simps)
      with Suc.IH show "?step j b s4 \<noteq> None" by simp
    qed
    with t True show ?thesis by (simp del: bind_eff.simps add: wait_loop.simps(2) [of "Suc n"])
  qed
qed

lemma wait_for_claim_ends: "wait_for_claim K C grp plural nm s \<noteq> None"
proof -
  obtain t s1 where t: "kw_now K s = (t, s1)" by fastforce
  have "wait_loop (Suc 41) K (kuid_url C grp plural @ ''/'' @ nm) nm (t + WAIT_TIMEOUT) JNull s1 \<noteq> None"
    using now_reads [OF t] by (intro wait_loop_ends) (simp add: WAIT_TIMEOUT_def WAIT_POLL_def)
  with t show ?thesis by (simp add: wait_for_claim_def wait_fuel_def del: wait_loop.simps)
qed

end

section \<open>Operations that end by themselves\<close>

lemma create_claim_ends: "create_claim K C grp plural kind spec cid nm s \<noteq> None"
  unfolding create_claim_def split_def Let_def by (intro bind_eff_not_None eff_not_None)

lemma try_values_ends: "try_values K C kind index cid us vs s \<noteq> None"
proof (induction vs arbitrary: s)
  case (Cons v vs)
  have "send K POST (lease_url C) [] (fallback_lease_body kind index v cid) s \<noteq> None" by simp
  with Cons show ?case by (auto split: option.split sum.split)
qed simp

lemma lease_rounds_ends: "lease_rounds n K C kind index rng cid s \<noteq> None"
proof (induction n arbitrary: s)
  case (Suc n)
  have step: "(case v of Some x \<Rightarrow> ret x | None \<Rightarrow> lease_rounds n K C kind index rng cid) t \<noteq> None" for v t
    using Suc by (cases v) simp_all
  show ?case
    unfolding lease_rounds.simps by (intro bind_eff_not_None eff_not_None try_values_ends step)
qed simp

context kuid_clock
begin

lemma index_claim_ends: "index_claim K C grp plural kind index cid what s \<noteq> None"
  unfolding index_claim_def by (intro bind_eff_not_None create_claim_ends wait_for_claim_ends eff_not_None)

lemma with_lease_fallback_ends:
  "alloc s \<noteq> None \<Longrightarrow> with_lease_fallback K C what index rng cid alloc s \<noteq> None"
  using lease_rounds_ends [of 4 K C what index rng cid]
  by (auto simp: with_lease_fallback_def allocate_fallback_lease_def split: option.splits sum.splits kuid_error.splits)

lemma allocators_end:
  "allocate_l2vni K C cid s \<noteq> None" "allocate_l3vni K C cid s \<noteq> None" "allocate_vlan K C cid s \<noteq> None"
  "allocate_rd_rt K C cid s \<noteq> None"
  unfolding allocate_l2vni_def allocate_l3vni_def allocate_vlan_def allocate_rd_rt_def
  by (intro bind_eff_not_None with_lease_fallback_ends index_claim_ends eff_not_None)+

lemma client_prefix_ends: "allocate_client_prefix K C cid att s \<noteq> None"
proof -
  have "(if hr_status r = 404 then bind_eff (ip_claim K C cid nm) (\<lambda>_. ret ())
         else if ok_status r then lift x else lift y) t \<noteq> None" for r nm x y t
  proof -
    have "bind_eff (ip_claim K C cid nm) (\<lambda>_. ret ()) t \<noteq> None"
      unfolding ip_claim_def by (intro bind_eff_not_None create_claim_ends eff_not_None)
    then show ?thesis by (simp del: bind_eff.simps)
  qed
  then show ?thesis unfolding allocate_client_prefix_def Let_def
    by (intro bind_eff_not_None wait_for_claim_ends eff_not_None) blast+
qed

end

section \<open>Exclusive leases\<close>

definition lease_name_of :: "dict \<Rightarrow> json" where
  "lease_name_of b = dget (obj_of (dget b ''metadata'')) ''name''"

definition lease_owner :: "dict \<Rightarrow> json" where
  "lease_owner b = dget (obj_of (dget (obj_of (dget b ''metadata'')) ''annotations'')) CORRELATION_LABEL"

locale lease_server =
  fixes K :: "'s kuid_world" and C :: kuid_config and leases :: "'s \<Rightarrow> string \<Rightarrow> dict option"
  assumes get_reads: "hq_method q = GET \<Longrightarrow> leases (snd (kw_http K q s)) = leases s"
    and post_writes: "kw_http K \<lparr>hq_method = POST, hq_url = lease_url C, hq_params = [], hq_body = JObj b\<rparr> s = (res, s') \<Longrightarrow>
      lease_name_of b = JStr nm \<Longrightarrow>
      leases s' = leases s \<and> (\<forall>r. res = Inr r \<longrightarrow> \<not> ok_status r)
      \<or> leases s nm = None \<and> (\<exists>ob. leases s' = (leases s)(nm \<mapsto> ob) \<and> lease_owner ob = lease_owner b)"
    and delete_writes: "kw_http K \<lparr>hq_method = DELETE, hq_url = lease_url C @ ''/'' @ nm, hq_params = [], hq_body = JNull\<rparr> s = (res, s') \<Longrightarrow>
      leases s' = leases s \<or> leases s' = (leases s)(nm := None)"
    and list_sound: "kw_http K (get_request (lease_url C) [(''labelSelector'', sel)]) s = (Inr r, s') \<Longrightarrow>
      ok_status r \<Longrightarrow> hr_json r = Inr j \<Longrightarrow> listed j = Inr js \<Longrightarrow> JObj d \<in> set js \<Longrightarrow>
      \<exists>nm ob. lease_name_of d = JStr nm \<and> leases s nm = Some ob \<and> lease_owner ob = lease_owner d"
    and claims_apart: "(grp, plural) \<in> set SERVED_CLAIMS \<Longrightarrow> prefix (kuid_url C grp plural) (hq_url q) \<Longrightarrow>
      leases (snd (kw_http K q s)) = leases s"
begin

lemma body_name: "fallback_lease_body kind index v cid = JObj b \<Longrightarrow> lease_name_of b = JStr (fallback_lease_name kind index v)"
  by (auto simp: fallback_lease_body_def lease_name_of_def dget_def)

lemma body_owner: "fallback_lease_body kind index v cid = JObj b \<Longrightarrow> lease_owner b = JStr cid"
  by (auto simp: fallback_lease_body_def lease_owner_def dget_def)

text \<open>One attempt to create a lease.\<close>

lemma create_lease:
  assumes "send K POST (lease_url C) [] (fallback_lease_body kind index v cid) s = Some (res, s')"
  shows "(\<forall>n. leases s n \<noteq> None \<longrightarrow> leases s' n = leases s n)
    \<and> (\<forall>r. res = Inr r \<longrightarrow> ok_status r \<longrightarrow>
        leases s (fallback_lease_name kind index v) = None
        \<and> (\<exists>ob. leases s' (fallback_lease_name kind index v) = Some ob \<and> lease_owner ob = JStr cid))"
proof -
  obtain b where b: "fallback_lease_body kind index v cid = JObj b" by (simp add: fallback_lease_body_def)
  obtain hr where h: "kw_http K \<lparr>hq_method = POST, hq_url = lease_url C, hq_params = [], hq_body = JObj b\<rparr> s = (hr, s')"
    and r: "\<And>r. res = Inr r \<Longrightarrow> hr = Inr r"
    using assms b by (auto simp: send_Some split: prod.splits sum.splits)
  from post_writes [OF h body_name [OF b]] r body_owner [OF b] show ?thesis by (auto split: if_splits)
qed

lemma try_values_exclusive:
  assumes "try_values K C kind index cid us vs s = Some (res, s')"
  shows "(\<forall>n. leases s n \<noteq> None \<longrightarrow> leases s' n = leases s n)
    \<and> (\<forall>v. res = Inr (Some v) \<longrightarrow> v \<in> set vs \<and> leases s (fallback_lease_name kind index v) = None
        \<and> (\<exists>ob. leases s' (fallback_lease_name kind index v) = Some ob \<and> lease_owner ob = JStr cid))"
  using assms
proof (induction vs arbitrary: s)
  case (Cons v vs)
  show ?case
  proof (cases "v \<in> set us")
    case True
    with Cons show ?thesis by auto
  next
    case False
    obtain r s1 where p: "send K POST (lease_url C) [] (fallback_lease_body kind index v cid) s = Some (r, s1)"
      by (cases "send K POST (lease_url C) [] (fallback_lease_body kind index v cid) s") auto
    note c = create_lease [OF p]
    show ?thesis
    proof (cases "\<exists>a. r = Inr a \<and> \<not> ok_status a \<and> hr_status a = 409")
      case True
      with Cons.prems p False have "try_values K C kind index cid us vs s1 = Some (res, s')" by auto
      from Cons.IH [OF this] c show ?thesis by (metis list.set_intros(2))
    next
      case other: False
      with Cons.prems p False have "s' = s1" "\<And>x. res = Inr (Some x) \<Longrightarrow> x = v \<and> (\<exists>a. r = Inr a \<and> ok_status a)"
        by (auto split: sum.splits if_splits)
      with c show ?thesis by auto
    qed
  qed
qed auto

lemma lease_rounds_exclusive:
  assumes "lease_rounds n K C kind index rng cid s = Some (res, s')"
  shows "(\<forall>n. leases s n \<noteq> None \<longrightarrow> leases s' n = leases s n)
    \<and> (\<forall>v. res = Inr v \<longrightarrow> fst rng \<le> v \<and> v \<le> snd rng \<and> leases s (fallback_lease_name kind index v) = None
        \<and> (\<exists>ob. leases s' (fallback_lease_name kind index v) = Some ob \<and> lease_owner ob = JStr cid))"
  using assms
proof (induction n arbitrary: s)
  case (Suc n)
  let ?q = "\<lparr>hq_method = GET, hq_url = lease_url C, hq_params = [(''labelSelector'', fallback_selector index)], hq_body = JNull\<rparr>"
  have list: "send K GET (lease_url C) [(''labelSelector'', fallback_selector index)] JNull s = Some (r, s1) \<Longrightarrow> leases s1 = leases s" for r s1
    using get_reads [of ?q s] by (auto simp: send_Some split: prod.splits sum.splits)
  from Suc.prems consider (failed) "leases s' = leases s" "\<forall>v. res \<noteq> Inr v"
    | (tried) us s1 r s2 where "leases s1 = leases s" "try_values K C kind index cid us [fst rng..snd rng] s1 = Some (r, s2)"
        "(\<exists>e. r = Inl e \<and> res = Inl e \<and> s' = s2) \<or> (\<exists>v. r = Inr (Some v) \<and> res = Inr v \<and> s' = s2)
         \<or> r = Inr None \<and> lease_rounds n K C kind index rng cid s2 = Some (res, s')"
    unfolding lease_rounds.simps bind_eff_Some
    by (elim disjE exE conjE) (use list in \<open>auto split: option.splits\<close>)
  then show ?case
  proof cases
    case failed
    then show ?thesis by simp
  next
    case (tried us s1 r s2)
    note t = try_values_exclusive [OF tried(2)]
    from tried(3) show ?thesis
    proof (elim disjE exE conjE)
      assume r: "r = Inr None" "lease_rounds n K C kind index rng cid s2 = Some (res, s')"
      from Suc.IH [OF r(2)] t tried(1) show ?thesis by metis
    qed (use t tried(1) in auto)
  qed
qed auto

text \<open>Requests about claims leave the leases alone.\<close>

lemma delete_items_apart:
  assumes g: "(grp, plural) \<in> set SERVED_CLAIMS"
  shows "leases (snd (delete_items K (kuid_url C grp plural) pick js s)) = leases s"
proof (induction js arbitrary: s)
  case (Cons j js)
  have d: "leases s1 = leases s" if "kw_http K \<lparr>hq_method = DELETE, hq_url = kuid_url C grp plural @ CHR ''/'' # nm,
      hq_params = [], hq_body = JNull\<rparr> s = (r, s1)" for nm r s1
    using claims_apart [OF g, of "\<lparr>hq_method = DELETE, hq_url = kuid_url C grp plural @ CHR ''/'' # nm,
      hq_params = [], hq_body = JNull\<rparr>" s] that by simp
  show ?case
  proof (cases "\<exists>nm. pick j = Inr nm \<and> truthy nm")
    case True
    then obtain nm r s1 where nm: "pick j = Inr nm" "truthy nm" and h: "kw_http K \<lparr>hq_method = DELETE,
        hq_url = kuid_url C grp plural @ CHR ''/'' # jstr nm, hq_params = [], hq_body = JNull\<rparr> s = (r, s1)"
      by (metis prod.exhaust)
    with Cons d [OF h] show ?thesis by (cases r) (simp_all add: split_def Let_def)
  next
    case False
    with Cons show ?thesis by (auto split: sum.split)
  qed
qed simp

lemma release_scan_apart:
  assumes g: "(grp, plural) \<in> set SERVED_CLAIMS"
  shows "leases (snd (release_scan K (kuid_url C grp plural) sel pick s)) = leases s"
proof -
  let ?q = "get_request (kuid_url C grp plural) [(''labelSelector'', sel)]"
  have "leases (snd (kw_http K ?q s)) = leases s" by (rule claims_apart [OF g]) (simp add: get_request_def)
  then show ?thesis
    using delete_items_apart [OF g] by (auto simp: release_scan_def split: prod.split sum.split)
qed

lemma release_claims_apart:
  "set gs \<subseteq> set SERVED_CLAIMS \<Longrightarrow> leases (snd (release_claims K C cid gs s)) = leases s"
proof (induction gs arbitrary: s)
  case (Cons g gs)
  obtain grp plural where g: "g = (grp, plural)" by fastforce
  with Cons.prems have "(grp, plural) \<in> set SERVED_CLAIMS" by simp
  from release_scan_apart [OF this] Cons show ?case
    by (simp add: g split_def Let_def)
qed simp

text \<open>The release of leases takes away leases of the correlation id only.\<close>

definition only_released :: "string \<Rightarrow> 's \<Rightarrow> 's \<Rightarrow> bool" where
  "only_released cid s s' \<longleftrightarrow>
     (\<forall>n. leases s' n \<noteq> leases s n \<longrightarrow>
        leases s' n = None \<and> (\<exists>ob. leases s n = Some ob \<and> lease_owner ob = JStr cid))"

lemma lease_item_name_owner:
  assumes "lease_item_name cid j = Inr nm" "truthy nm"
  shows "\<exists>d. j = JObj d \<and> lease_owner d = JStr cid \<and> nm = lease_name_of d"
proof -
  obtain d m an where d: "j = JObj d" and m: "dict_or_empty (dget d ''metadata'') = Inr m"
    and an: "as_dict (get_default m ''annotations'' (JObj [])) = Inr an"
    and nm: "nm = (if dget an CORRELATION_LABEL \<noteq> JStr cid then JNull else dget m ''name'')"
    using assms(1) by (cases j) (auto simp: lease_item_name_def as_dict_def)
  from nm assms(2) have o': "dget an CORRELATION_LABEL = JStr cid" "nm = dget m ''name''" by (auto split: if_splits)
  have mo: "obj_of (dget d ''metadata'') = m"
    using m assms(2) o'(2) by (cases "dget d ''metadata''") (auto simp: dict_or_empty_def as_dict_def dget_def split: if_splits)
  have "an \<noteq> []" using o'(1) by (auto simp: dget_def)
  then have "dget m ''annotations'' = JObj an"
    using an by (auto simp: get_default_def as_dict_def split: if_splits json.splits)
  with d mo o' show ?thesis by (simp add: lease_owner_def lease_name_of_def)
qed

lemma only_released_delete:
  assumes "only_released cid s0 s" "leases s1 = (leases s)(x := None)" "leases s0 x = Some ob" "lease_owner ob = JStr cid"
  shows "only_released cid s0 s1"
  unfolding only_released_def
proof (intro allI impI)
  fix n assume "leases s1 n \<noteq> leases s0 n"
  with assms show "leases s1 n = None \<and> (\<exists>ob. leases s0 n = Some ob \<and> lease_owner ob = JStr cid)"
    by (cases "n = x") (simp_all add: only_released_def)
qed

lemma only_released_same: "only_released cid s0 s \<Longrightarrow> leases s1 = leases s \<Longrightarrow> only_released cid s0 s1"
  by (simp add: only_released_def)

lemma delete_items_released:
  assumes "only_released cid s0 s"
    and "\<forall>d. JObj d \<in> set js \<longrightarrow> (\<exists>nm ob. lease_name_of d = JStr nm \<and> leases s0 nm = Some ob \<and> lease_owner ob = lease_owner d)"
  shows "only_released cid s0 (snd (delete_items K (lease_url C) (lease_item_name cid) js s))"
  using assms
proof (induction js arbitrary: s)
  case (Cons j js)
  have rest: "only_released cid s0 s1 \<Longrightarrow>
      only_released cid s0 (snd (delete_items K (lease_url C) (lease_item_name cid) js s1))" for s1
    using Cons.IH Cons.prems(2) by simp
  show ?case
  proof (cases "\<exists>nm. lease_item_name cid j = Inr nm \<and> truthy nm")
    case False
    then show ?thesis using rest [OF Cons.prems(1)] Cons.prems(1) by (auto split: sum.split)
  next
    case True
    then obtain nm where nm: "lease_item_name cid j = Inr nm" "truthy nm" by blast
    from lease_item_name_owner [OF nm] obtain d where d: "j = JObj d" "lease_owner d = JStr cid" "nm = lease_name_of d"
      by blast
    from Cons.prems(2) d(1) have "\<exists>x ob. lease_name_of d = JStr x \<and> leases s0 x = Some ob \<and> lease_owner ob = lease_owner d"
      by simp
    with d(2,3) obtain x ob where x: "nm = JStr x" "leases s0 x = Some ob" "lease_owner ob = JStr cid" by auto
    obtain r s1 where h: "kw_http K \<lparr>hq_method = DELETE, hq_url = lease_url C @ ''/'' @ x, hq_params = [], hq_body = JNull\<rparr> s = (r, s1)"
      by fastforce
    have s1: "only_released cid s0 s1"
      using delete_writes [OF h] only_released_delete [OF Cons.prems(1) _ x(2,3)]
        only_released_same [OF Cons.prems(1)] by blast
    have "snd (delete_items K (lease_url C) (lease_item_name cid) (j # js) s) \<in>
        {s1, snd (delete_items K (lease_url C) (lease_item_name cid) js s1)}"
      using nm x(1) h by (cases r) (simp_all add: split_def Let_def)
    with rest [OF s1] s1 show ?thesis by (elim insertE) simp_all
  qed
qed (simp add: only_released_def)

lemma release_leases_released:
  assumes "release_fallback_leases K C cid s = (k, s')"
  shows "only_released cid s s'"
proof -
  let ?q = "get_request (lease_url C) [(''labelSelector'', selector_text LEASE_LABELS)]"
  let ?scan = "release_scan K (lease_url C) (selector_text LEASE_LABELS) (lease_item_name cid) s"
  have s': "s' = snd ?scan" using assms by (simp add: release_fallback_leases_def split_def Let_def)
  obtain r s1 where h: "kw_http K ?q s = (r, s1)" by fastforce
  have keep: "leases s1 = leases s" using get_reads [of ?q s] h by (simp add: get_request_def)
  show ?thesis
  proof (cases "\<exists>p js. r = Inr p \<and> ok_status p \<and> bind_res (body_json p) listed = Inr js")
    case False
    with s' h have "s' = s1" by (auto simp: release_scan_def split: sum.splits if_splits)
    with keep show ?thesis by (simp add: only_released_def)
  next
    case True
    then obtain p js where p': "r = Inr p" "ok_status p" "bind_res (body_json p) listed = Inr js" by blast
    then obtain j where p: "r = Inr p" "ok_status p" "hr_json p = Inr j" "listed j = Inr js"
      by (cases "hr_json p") (auto simp: body_json_def)
    with s' h have d: "s' = snd (delete_items K (lease_url C) (lease_item_name cid) js s1)"
      by (simp add: release_scan_def body_json_def)
    show ?thesis unfolding d
    proof (rule delete_items_released)
      show "only_released cid s s1" by (simp add: only_released_def keep)
      show "\<forall>d. JObj d \<in> set js \<longrightarrow> (\<exists>nm ob. lease_name_of d = JStr nm \<and> leases s nm = Some ob \<and> lease_owner ob = lease_owner d)"
        using list_sound [OF h [unfolded p(1)] p(2-4)] by blast
    qed
  qed
qed

lemma release_released:
  assumes "release_by_correlation K C cid s = (k, s')"
  shows "only_released cid s s'"
proof -
  obtain n s1 where c: "release_claims K C cid SERVED_CLAIMS s = (n, s1)" by fastforce
  have l: "leases s1 = leases s" using release_claims_apart [of SERVED_CLAIMS cid s] c by simp
  show ?thesis
  proof (cases "kc_fallback C = ''lease''")
    case True
    obtain m s2 where r: "release_fallback_leases K C cid s1 = (m, s2)" by fastforce
    from release_leases_released [OF r] l assms c r True show ?thesis
      by (simp add: release_by_correlation_def only_released_def)
  next
    case False
    with assms c l show ?thesis by (simp add: release_by_correlation_def only_released_def)
  qed
qed

end

end
