(* ===== verification/Allocator_Facts.thy ===== *)
theory Allocator_Facts
  imports Allocator Kuid_Facts
begin

text \<open>
  What the allocator builds: a valid intent of the interpretation's construct, identity and
  endpoints, and which allocations each construct asks for.
\<close>

section \<open>The intent that is built\<close>

definition ep_place :: "intent_endpoint \<Rightarrow> string \<times> string" where
  "ep_place e = (ep_node e, ep_attachment e)"

lemma raise_fields_Inr [simp]: "raise_fields W r = Inr a \<longleftrightarrow> r = Inr a"
  by (cases r) (auto simp: raise_fields_def)

lemma new_endpoint_place: "new_endpoint W nd att vl vrf ps = Inr e \<Longrightarrow> ep_place e = (nd, att)"
  by (auto simp: new_endpoint_def validate_ep_def Let_def field_req_def nonempty_str_def guard_def located_def
      ep_place_def fail_def split: if_splits)

lemma map_endpoints_places:
  assumes "\<And>e x. f e = Inr x \<Longrightarrow> ep_place x = ep_place e" "map_endpoints f es = Inr xs"
  shows "map ep_place xs = map ep_place es"
  using assms(2) by (induction es arbitrary: xs) (auto dest: assms(1))

lemma read_endpoints_places:
  "read_endpoints W es = Inr xs \<Longrightarrow> map ep_place xs = map (\<lambda>e. (site_or_node e, attachment e)) es"
  by (induction es arbitrary: xs) (auto dest: new_endpoint_place)

lemma map_insort_key: "map f (insort_key f x xs) = insort (f x) (map f xs)"
  by (induction xs) auto

lemma map_sort_key: "map f (sort_key f xs) = sort (map f xs)"
  by (induction xs) (simp_all add: map_insort_key)

lemma on_vlan_places: "on_vlan W v es = Inr xs \<Longrightarrow> map ep_place xs = map ep_place es"
  unfolding on_vlan_def
  by (rule map_endpoints_places [rotated]) (auto dest: new_endpoint_place simp: ep_place_def)

lemma l2_endpoints_places:
  "l2_endpoints W A es cid what s = Some (Inr xs, s') \<Longrightarrow> map ep_place xs = map ep_place es"
  by (auto simp: l2_endpoints_def bind_eff_Some throw_def dest: on_vlan_places simp del: bind_eff.simps split: list.splits)

lemma gateway_endpoints_places:
  "gateway_endpoints W A i cid es s = Some (Inr xs, s') \<Longrightarrow> map ep_place xs = map ep_place es"
proof (induction es arbitrary: s xs)
  case (Cons e es)
  from Cons.prems obtain x ys t1 t2 g where x: "new_endpoint W (ep_node e) (ep_attachment e) None (Some (vrf_of i e)) (JArr [g]) = Inr x"
    and ys: "gateway_endpoints W A i cid es t1 = Some (Inr ys, t2)" and "xs = x # ys" "t2 = s'"
    unfolding gateway_endpoints.simps bind_eff_Some by auto
  with Cons.IH [of t1 ys] new_endpoint_place [OF x] show ?case by (simp add: ep_place_def)
qed simp

text \<open>A constructed intent is what was put in, when its endpoints and filter were validated.\<close>

lemma dump_intent_fields:
  assumes "validate_intent L (dump_intent n) = Inr m"
  shows "serviceId n \<noteq> []" "tenant n \<noteq> []" "\<forall>r. rdRt n = Some r \<longrightarrow> rd r \<noteq> []"
    "\<forall>v. l2vni n = Some v \<longrightarrow> 1 \<le> v" "\<forall>v. l3vni n = Some v \<longrightarrow> 1 \<le> v"
proof -
  from assms have f: "field_req nonempty_str ''serviceId'' (dump_intent n) = Inr (serviceId m)"
    "field_req nonempty_str ''tenant'' (dump_intent n) = Inr (tenant m)"
    "field_def (nullable (is_obj_then validate_rd_rt)) None ''rdRt'' (dump_intent n) = Inr (rdRt m)"
    "field_def (nullable (int_from L 1)) None ''l2vni'' (dump_intent n) = Inr (l2vni m)"
    "field_def (nullable (int_from L 1)) None ''l3vni'' (dump_intent n) = Inr (l3vni m)"
    by (simp_all add: validate_intent_iff)
  have l: "map_of (dump_intent n) ''serviceId'' = Some (JStr (serviceId n))"
    "map_of (dump_intent n) ''tenant'' = Some (JStr (tenant n))"
    "map_of (dump_intent n) ''rdRt'' = Some (opt_json dump_rd_rt (rdRt n))"
    "map_of (dump_intent n) ''l2vni'' = Some (int_json (l2vni n))"
    "map_of (dump_intent n) ''l3vni'' = Some (int_json (l3vni n))"
    by (simp_all add: dump_intent_def)
  note defs = field_req_def field_def_def l located_def nonempty_str_def guard_def fail_def nullable_def
  show "serviceId n \<noteq> []" using f(1) by (auto simp: defs)
  show "tenant n \<noteq> []" using f(2) by (auto simp: defs)
  show "\<forall>v. l2vni n = Some v \<longrightarrow> 1 \<le> v" using f(4) by (auto simp: defs int_from_def split: if_splits)
  show "\<forall>v. l3vni n = Some v \<longrightarrow> 1 \<le> v" using f(5) by (auto simp: defs int_from_def split: if_splits)
  show "\<forall>r. rdRt n = Some r \<longrightarrow> rd r \<noteq> []"
  proof (intro allI impI)
    fix r assume "rdRt n = Some r"
    with f(3) obtain x where "is_obj_then validate_rd_rt (dump_rd_rt r) = Inr x"
      by (auto simp: defs opt_json_def split: sum.splits)
    then have "field_req nonempty_str ''rd'' (obj_of (dump_rd_rt r)) = Inr (rd x)"
      by (simp add: dump_rd_rt_def validate_rd_rt_iff)
    then show "rd r \<noteq> []" by (auto simp: dump_rd_rt_def defs split: if_splits)
  qed
qed

lemma new_intent_Inr:
  assumes "new_intent W n = Inr m" "\<forall>e \<in> set (endpoints n). wf_ep e" "\<forall>a. acl n = Some a \<longrightarrow> wf_acl a"
  shows "m = n \<and> wf_intent n"
proof -
  have v: "validate_intent (aw_lax W) (dump_intent n) = Inr m" using assms(1) by (simp add: new_intent_def)
  from dump_intent_fields [OF v] assms(2,3) have w: "wf_intent n" by (auto simp: wf_intent_def)
  with validate_dump_intent [OF w, of "aw_lax W"] v show ?thesis by simp
qed

text \<open>The endpoints and the filter a construct is given were validated.\<close>

lemma new_endpoint_wf: "new_endpoint W nd att vl vrf ps = Inr e \<Longrightarrow> wf_ep e"
  by (auto simp: new_endpoint_def dest: validate_ep_wf)

lemma map_endpoints_wf:
  assumes "\<And>e x. f e = Inr x \<Longrightarrow> wf_ep x" "map_endpoints f es = Inr xs"
  shows "\<forall>e \<in> set xs. wf_ep e"
  using assms(2) by (induction es arbitrary: xs) (auto dest: assms(1))

lemma read_endpoints_wf: "read_endpoints W es = Inr xs \<Longrightarrow> \<forall>e \<in> set xs. wf_ep e"
  by (induction es arbitrary: xs) (auto dest: new_endpoint_wf)

lemma on_vlan_wf: "on_vlan W v es = Inr xs \<Longrightarrow> \<forall>e \<in> set xs. wf_ep e"
  unfolding on_vlan_def by (rule map_endpoints_wf [rotated]) (auto dest: new_endpoint_wf)

lemma l2_endpoints_wf: "l2_endpoints W A es cid what s = Some (Inr xs, s') \<Longrightarrow> \<forall>e \<in> set xs. wf_ep e"
  by (auto simp: l2_endpoints_def bind_eff_Some throw_def dest: on_vlan_wf simp del: bind_eff.simps split: list.splits)

lemma gateway_endpoints_wf: "gateway_endpoints W A i cid es s = Some (Inr xs, s') \<Longrightarrow> \<forall>e \<in> set xs. wf_ep e"
proof (induction es arbitrary: s xs)
  case (Cons e es)
  from Cons.prems obtain x ys t1 t2 g where x: "new_endpoint W (ep_node e) (ep_attachment e) None (Some (vrf_of i e)) (JArr [g]) = Inr x"
    and ys: "gateway_endpoints W A i cid es t1 = Some (Inr ys, t2)" and "xs = x # ys" "t2 = s'"
    unfolding gateway_endpoints.simps bind_eff_Some by auto
  with Cons.IH [of t1 ys] new_endpoint_wf [OF x] show ?case by simp
qed simp

lemma normalized_acl_wf: "normalized_acl W i = Inr a \<Longrightarrow> \<forall>x. a = Some x \<longrightarrow> wf_acl x"
  by (auto simp: normalized_acl_def Let_def dest: validate_acl_wf split: option.splits)

text \<open>What every construct builds.\<close>

definition built :: "interp \<Rightarrow> string \<Rightarrow> (string \<times> string) list \<Rightarrow> normalized_intent \<Rightarrow> bool" where
  "built i tr ps n \<longleftrightarrow>
     serviceId n = service_id i \<and> type_of n = type_value (service_type i) \<and> tenant n = i_tenant i
     \<and> transport n = tr \<and> map ep_place (endpoints n) = ps \<and> wf_intent n"

lemma new_intent_built:
  assumes "new_intent W n = Inr m" "\<forall>e \<in> set (endpoints n). wf_ep e" "\<forall>a. acl n = Some a \<longrightarrow> wf_acl a"
    and "serviceId n = service_id i" "type_of n = type_value (service_type i)" "tenant n = i_tenant i"
    and "transport n = tr" "map ep_place (endpoints n) = ps"
  shows "built i tr ps m"
  using new_intent_Inr [OF assms(1-3)] assms(4-8) by (simp add: built_def)

lemma srv6_intent_built:
  assumes "srv6_intent W A i a es cid s = Some (Inr n, s')" "\<forall>x. a = Some x \<longrightarrow> wf_acl x"
  shows "built i ''srv6'' (map ep_place es) n"
proof (cases "service_type i")
  case MAC_VRF
  with assms(1) obtain xs where e: "srv6_endpoints W es = Inr xs" and n: "new_intent W ((base_intent i a xs)
      \<lparr>transport := ''srv6'', signalling := Some (signalling_or i ''evpn''), preferredSpine := preferred_spine i\<rparr>) = Inr n"
    by (auto simp: srv6_intent_def throw_def split: if_splits)
  from e have "\<exists>v. on_vlan W v es = Inr xs" by (auto simp: srv6_endpoints_def split: list.splits)
  then have "\<forall>e \<in> set xs. wf_ep e" "map ep_place xs = map ep_place es"
    using on_vlan_wf on_vlan_places by blast+
  with assms(2) show ?thesis by (intro new_intent_built [OF n]) (simp_all add: base_intent_def)
next
  case IP_VRF
  with assms(1) obtain xs t where e: "gateway_endpoints W A i cid es s = Some (Inr xs, t)" and n: "new_intent W ((base_intent i a xs)
      \<lparr>transport := ''srv6'', signalling := Some (signalling_or i ''vpn''), preferredSpine := preferred_spine i,
       addressFamilies := Some (families_of i)\<rparr>) = Inr n"
    by (auto simp: srv6_intent_def bind_eff_Some simp del: bind_eff.simps)
  from gateway_endpoints_wf [OF e] gateway_endpoints_places [OF e] assms(2) show ?thesis
    by (intro new_intent_built [OF n]) (simp_all add: base_intent_def)
qed (use assms(1) in \<open>simp_all add: srv6_intent_def throw_def\<close>)

lemma vxlan_intent_built:
  assumes "vxlan_intent W A i a es cid s = Some (Inr n, s')" "\<forall>x. a = Some x \<longrightarrow> wf_acl x" "\<forall>e \<in> set es. wf_ep e"
  shows "built i ''vxlan'' (map ep_place es) n"
proof (cases "service_type i")
  case VLAN
  with assms(1) obtain xs t where e: "l2_endpoints W A es cid ''vlan'' s = Some (Inr xs, t)"
    and n: "new_intent W (base_intent i a xs) = Inr n"
    by (auto simp: vxlan_intent_def bind_eff_Some simp del: bind_eff.simps)
  from l2_endpoints_wf [OF e] l2_endpoints_places [OF e] assms(2) show ?thesis
    by (intro new_intent_built [OF n]) (simp_all add: base_intent_def)
next
  case MAC_VRF
  with assms(1) obtain xs t m rt l g where e: "l2_endpoints W A es cid ''mac-vrf'' s = Some (Inr xs, t)"
    and n: "new_intent W ((base_intent i a xs)\<lparr>rdRt := Some (rd_rt_of rt), l2vni := Some m, l3vni := l,
      anycastGateway := g\<rparr>) = Inr n"
    by (auto simp: vxlan_intent_def bind_eff_Some simp del: bind_eff.simps split: prod.splits)
  from l2_endpoints_wf [OF e] l2_endpoints_places [OF e] assms(2) show ?thesis
    by (intro new_intent_built [OF n]) (simp_all add: base_intent_def)
next
  case IP_VRF
  let ?f = "\<lambda>e. new_endpoint W (ep_node e) (ep_attachment e) None (Some (vrf_of i e)) JNull"
  from IP_VRF assms(1) obtain xs m rt where e: "map_endpoints ?f es = Inr xs"
    and n: "new_intent W ((base_intent i a xs)\<lparr>rdRt := Some (rd_rt_of rt), l3vni := Some m,
      addressFamilies := Some (families_of i)\<rparr>) = Inr n"
    by (auto simp: vxlan_intent_def bind_eff_Some simp del: bind_eff.simps)
  have "\<forall>e \<in> set xs. wf_ep e" by (rule map_endpoints_wf [OF _ e]) (rule new_endpoint_wf)
  moreover have "map ep_place xs = map ep_place es"
    by (rule map_endpoints_places [OF _ e]) (auto dest: new_endpoint_place simp: ep_place_def)
  ultimately show ?thesis using assms(2) by (intro new_intent_built [OF n]) (simp_all add: base_intent_def)
next
  case ACL
  with assms(1) have n: "new_intent W (base_intent i a es) = Inr n" by (simp add: vxlan_intent_def)
  with assms(2,3) show ?thesis by (intro new_intent_built [OF n]) (simp_all add: base_intent_def)
qed

lemma build_intent_built:
  assumes "build_intent W A fresh i cid s = Some (Inr n, s')"
  shows "built i (if i_transport i = Some ''srv6'' then ''srv6'' else ''vxlan'')
      (sort (map (\<lambda>e. (site_or_node e, attachment e)) (i_endpoints i))) n
    \<and> validate_all_or_nothing (aw_spines W) False n = None"
proof -
  from assms obtain a es0 c t t' where a: "normalized_acl W i = Inr a" and es0: "read_endpoints W (i_endpoints i) = Inr es0"
    and n: "(if i_transport i = Some ''srv6'' then srv6_intent W A i a (deterministic_endpoints es0) c
             else vxlan_intent W A i a (deterministic_endpoints es0) c) t = Some (Inr n, t')"
    and v: "validate_all_or_nothing (aw_spines W) False n = None"
    unfolding build_intent_def bind_eff_Some checked_intent_def by (auto split: option.splits)
  let ?es = "deterministic_endpoints es0"
  have "map ep_place ?es = sort (map ep_place es0)"
    unfolding deterministic_endpoints_def ep_place_def by (rule map_sort_key)
  then have p: "map ep_place ?es = sort (map (\<lambda>e. (site_or_node e, attachment e)) (i_endpoints i))"
    using read_endpoints_places [OF es0] by simp
  have w: "\<forall>e \<in> set ?es. wf_ep e" using read_endpoints_wf [OF es0] by (simp add: deterministic_endpoints_def)
  note wa = normalized_acl_wf [OF a]
  show ?thesis
  proof (cases "i_transport i = Some ''srv6''")
    case True
    with n have "srv6_intent W A i a ?es c t = Some (Inr n, t')" by simp
    from srv6_intent_built [OF this wa] True v p show ?thesis by simp
  next
    case False
    with n have "vxlan_intent W A i a ?es c t = Some (Inr n, t')" by simp
    from vxlan_intent_built [OF this wa w] False v p show ?thesis by simp
  qed
qed

end
