(* ===== verification/Kuid_World.thy ===== *)
theory Kuid_World
  imports Kuid_Facts Kube_Server
begin

text \<open>
  A world that keeps the contracts of the allocation client: an API server without the KUID groups
  that keeps leases, a clock every request and every sleep moves on, and a script of faults.
\<close>

record lease_world =
  lw_leases :: "(string \<times> dict) list"
  lw_script :: "fault list"
  lw_time :: int

definition lease_at :: "lease_world \<Rightarrow> string \<Rightarrow> dict option" where
  "lease_at c n = map_of (lw_leases c) n"

definition label_matches :: "string \<Rightarrow> dict \<Rightarrow> bool" where
  "label_matches sel ob \<longleftrightarrow>
     list_all (\<lambda>p. \<exists>(k, j) \<in> set (obj_of (dget (obj_of (dget ob ''metadata'')) ''labels'')). p = k @ ''='' @ jstr j)
       (split_on CHR '','' sel)"

definition lease_items :: "(string \<times> string) list \<Rightarrow> lease_world \<Rightarrow> json list" where
  "lease_items ps c =
     map (JObj \<circ> snd) (filter (\<lambda>(n, ob). lease_at c n = Some ob \<and> lease_name_of ob = JStr n
        \<and> list_all (\<lambda>(k, v). k = ''labelSelector'' \<longrightarrow> label_matches v ob) ps) (lw_leases c))"

definition lease_process :: "kuid_config \<Rightarrow> http_request \<Rightarrow> lease_world \<Rightarrow> http_response \<times> lease_world" where
  "lease_process C q c =
     (let u = hq_url q; absent = status_answer 404 ''the server could not find the requested resource'' in
      case hq_method q of
        GET \<Rightarrow> (if u = lease_url C then answer 200 [(''items'', JArr (lease_items (hq_params q) c))] else absent, c)
      | POST \<Rightarrow>
          if u \<noteq> lease_url C then (absent, c)
          else
            (case hq_body q of
               JObj b \<Rightarrow>
                 (case lease_name_of b of
                    JStr n \<Rightarrow>
                      if lease_at c n \<noteq> None then (status_answer 409 ''already exists'', c)
                      else (answer 201 b, c\<lparr>lw_leases := (n, b) # lw_leases c\<rparr>)
                  | _ \<Rightarrow> (status_answer 400 ''no name'', c))
             | _ \<Rightarrow> (status_answer 400 ''not an object'', c))
      | DELETE \<Rightarrow>
          (if list_ex (\<lambda>(n, ob). u = lease_url C @ ''/'' @ n) (lw_leases c)
           then (status_answer 200 ''Success'', c\<lparr>lw_leases := filter (\<lambda>(n, ob). u \<noteq> lease_url C @ ''/'' @ n) (lw_leases c)\<rparr>)
           else (absent, c))
      | PATCH \<Rightarrow> (status_answer 405 ''method not allowed'', c))"

definition lease_http :: "kuid_config \<Rightarrow> lease_world http" where
  "lease_http C q c =
     (let (f, fs) = (case lw_script c of [] \<Rightarrow> (Served, []) | f # fs \<Rightarrow> (f, fs));
          c0 = c\<lparr>lw_script := fs, lw_time := lw_time c + 10\<rparr>;
          (r, c1) = lease_process C q c0
      in case f of
           Served \<Rightarrow> (Inr r, c1)
         | Refused \<Rightarrow> (Inr (status_answer 503 ''unavailable''), c0)
         | Lost_In \<Rightarrow> (Inl ''connection refused'', c0)
         | Lost_Out \<Rightarrow> (Inl ''read timed out'', c1))"

definition lease_kuid :: "kuid_config \<Rightarrow> lease_world kuid_world" where
  "lease_kuid C =
     \<lparr>kw_http = lease_http C, kw_now = (\<lambda>c. (lw_time c, c)),
      kw_sleep = (\<lambda>ms c. c\<lparr>lw_time := lw_time c + ms\<rparr>), kw_uuid = (\<lambda>c. (''0123456789ab'', c))\<rparr>"

lemma lease_process_time: "lw_time (snd (lease_process C q c)) = lw_time c"
  by (auto simp: lease_process_def Let_def split: http_method.split json.split)

lemma lease_http_cases:
  assumes "lease_http C q c = (res, c')"
  obtains (served) c0 r where "lw_leases c0 = lw_leases c" "lw_time c0 = lw_time c + 10"
      "lease_process C q c0 = (r, c')" "\<And>p. res = Inr p \<Longrightarrow> p = r"
  | (refused) "lw_leases c' = lw_leases c" "lw_time c' = lw_time c + 10" "\<And>p. res = Inr p \<Longrightarrow> hr_status p = 503"
proof -
  obtain f fs where f: "(case lw_script c of [] \<Rightarrow> (Served, []) | f # fs \<Rightarrow> (f, fs)) = (f, fs)" by fastforce
  let ?c0 = "c\<lparr>lw_script := fs, lw_time := lw_time c + 10\<rparr>"
  obtain r c1 where p: "lease_process C q ?c0 = (r, c1)" by fastforce
  show thesis
  proof (cases "f = Served \<or> f = Lost_Out")
    case True
    with assms f p have "c' = c1" "\<And>x. res = Inr x \<Longrightarrow> x = r" by (auto simp: lease_http_def)
    with p served [of ?c0 r] show thesis by simp
  next
    case False
    with assms f p have "c' = ?c0" "\<And>x. res = Inr x \<Longrightarrow> hr_status x = 503" by (cases f; auto simp: lease_http_def)+
    with refused show thesis by simp
  qed
qed

interpretation ticking: kuid_clock "lease_kuid C" lw_time
proof unfold_locales
  show "t = lw_time s \<and> lw_time s \<le> lw_time s'" if "kw_now (lease_kuid C) s = (t, s')" for s t s'
    using that by (auto simp: lease_kuid_def)
  show "lw_time s \<le> lw_time (snd (kw_http (lease_kuid C) q s))" for s q
  proof (cases "lease_http C q s")
    case (Pair res s')
    then have "lw_time s \<le> lw_time s'"
    proof (cases rule: lease_http_cases)
      case (served c0 r)
      with lease_process_time [of C q c0] show ?thesis by simp
    qed simp
    with Pair show ?thesis by (simp add: lease_kuid_def)
  qed
  show "lw_time s + ms \<le> lw_time (kw_sleep (lease_kuid C) ms s)" for s ms
    by (simp add: lease_kuid_def)
qed

lemma lease_at_leases: "lw_leases c0 = lw_leases c \<Longrightarrow> lease_at c0 = lease_at c"
  by (rule ext) (simp add: lease_at_def)

lemma lease_process_post:
  assumes "lease_process C \<lparr>hq_method = POST, hq_url = lease_url C, hq_params = [], hq_body = JObj b\<rparr> c = (r, c')"
    and "lease_name_of b = JStr n"
  shows "c' = c \<and> \<not> ok_status r \<or> lease_at c n = None \<and> lease_at c' = (lease_at c)(n \<mapsto> b)"
  using assms by (auto simp: lease_process_def lease_at_def fun_eq_iff split: if_splits)

lemma lease_process_delete:
  assumes "lease_process C \<lparr>hq_method = DELETE, hq_url = lease_url C @ ''/'' @ n, hq_params = [], hq_body = JNull\<rparr> c = (r, c')"
  shows "c' = c \<or> lease_at c' = (lease_at c)(n := None)"
proof -
  have "map_of (filter (\<lambda>(m, ob). n \<noteq> m) xs) = (map_of xs)(n := None)" for xs :: "(string \<times> dict) list"
    by (induction xs) (auto simp: fun_eq_iff)
  with assms show ?thesis by (auto simp: lease_process_def lease_at_def fun_eq_iff split: if_splits)
qed

text \<open>The resources of a claim are under another path than the leases.\<close>

lemma claims_path:
  assumes "(grp, plural) \<in> set SERVED_CLAIMS" "prefix (kuid_url C grp plural) u"
  shows "\<not> prefix (lease_url C) u"
proof
  assume l: "prefix (lease_url C) u"
  let ?e = "rstrip_slash (kc_endpoint C)"
  obtain v where v: "u = ?e @ ''/apis/coordination'' @ v" using l by (auto simp: lease_url_def prefix_def)
  obtain w where "u = ?e @ ''/apis/'' @ grp @ w"
    using assms by (auto simp: kuid_url_def SERVED_CLAIMS_def prefix_def)
  with v have "''/apis/coordination'' @ v = ''/apis/'' @ grp @ w" by simp
  with assms(1) show False by (auto simp: SERVED_CLAIMS_def)
qed

lemma lease_process_apart:
  assumes "\<not> prefix (lease_url C) (hq_url q)"
  shows "snd (lease_process C q c) = c"
proof -
  have "hq_url q \<noteq> lease_url C" "hq_url q \<noteq> lease_url C @ ''/'' @ n" for n using assms by auto
  then show ?thesis
    by (cases "hq_method q") (auto simp: lease_process_def Let_def list_ex_iff)
qed

interpretation leased: lease_server "lease_kuid C" C lease_at
proof unfold_locales
  show "lease_at (snd (kw_http (lease_kuid C) q s)) = lease_at s" if "hq_method q = GET" for q s
  proof (cases "lease_http C q s")
    case (Pair res s')
    then have "lw_leases s' = lw_leases s"
      by (cases rule: lease_http_cases) (use that in \<open>auto simp: lease_process_def Let_def\<close>)
    with Pair lease_at_leases [of s' s] show ?thesis by (simp add: lease_kuid_def)
  qed
  show "lease_at s' = lease_at s \<and> (\<forall>r. res = Inr r \<longrightarrow> \<not> ok_status r)
      \<or> lease_at s nm = None \<and> (\<exists>ob. lease_at s' = (lease_at s)(nm \<mapsto> ob) \<and> lease_owner ob = lease_owner b)"
    if h: "kw_http (lease_kuid C) \<lparr>hq_method = POST, hq_url = lease_url C, hq_params = [], hq_body = JObj b\<rparr> s = (res, s')"
      and n: "lease_name_of b = JStr nm" for b s res s' nm
  proof -
    from h have "lease_http C \<lparr>hq_method = POST, hq_url = lease_url C, hq_params = [], hq_body = JObj b\<rparr> s = (res, s')"
      by (simp add: lease_kuid_def)
    then show ?thesis
    proof (cases rule: lease_http_cases)
      case (served c0 r)
      from lease_process_post [OF served(3) n] lease_at_leases [OF served(1)] served(4) show ?thesis by auto
    next
      case refused
      with lease_at_leases [OF refused(1)] show ?thesis by (auto simp: ok_status_def)
    qed
  qed
  show "lease_at s' = lease_at s \<or> lease_at s' = (lease_at s)(nm := None)"
    if h: "kw_http (lease_kuid C) \<lparr>hq_method = DELETE, hq_url = lease_url C @ ''/'' @ nm, hq_params = [], hq_body = JNull\<rparr> s = (res, s')"
    for nm s res s'
  proof -
    from h have "lease_http C \<lparr>hq_method = DELETE, hq_url = lease_url C @ ''/'' @ nm, hq_params = [], hq_body = JNull\<rparr> s = (res, s')"
      by (simp add: lease_kuid_def)
    then show ?thesis
    proof (cases rule: lease_http_cases)
      case (served c0 r)
      from lease_process_delete [OF served(3)] lease_at_leases [OF served(1)] show ?thesis by auto
    next
      case refused
      with lease_at_leases [OF refused(1)] show ?thesis by simp
    qed
  qed
  show "\<exists>nm ob. lease_name_of d = JStr nm \<and> lease_at s nm = Some ob \<and> lease_owner ob = lease_owner d"
    if h: "kw_http (lease_kuid C) (get_request (lease_url C) [(''labelSelector'', sel)]) s = (Inr r, s')"
      and ok: "ok_status r" and j: "hr_json r = Inr j" "listed j = Inr js" and d: "JObj d \<in> set js" for sel s r s' j js d
  proof -
    from h have "lease_http C (get_request (lease_url C) [(''labelSelector'', sel)]) s = (Inr r, s')"
      by (simp add: lease_kuid_def)
    then show ?thesis
    proof (cases rule: lease_http_cases)
      case (served c0 p)
      then have "r = answer 200 [(''items'', JArr (lease_items [(''labelSelector'', sel)] c0))]"
        by (auto simp: lease_process_def get_request_def)
      with j have "js = lease_items [(''labelSelector'', sel)] c0"
        by (auto simp: listed_def as_dict_def get_default_def has_key_def dget_def items_or_raise_def)
      with d obtain n where "lease_at c0 n = Some d" "lease_name_of d = JStr n" by (auto simp: lease_items_def)
      with lease_at_leases [OF served(1)] show ?thesis by auto
    next
      case refused
      with ok show ?thesis by (simp add: ok_status_def)
    qed
  qed
  show "lease_at (snd (kw_http (lease_kuid C) q s)) = lease_at s"
    if g: "(grp, plural) \<in> set SERVED_CLAIMS" "prefix (kuid_url C grp plural) (hq_url q)" for grp plural q s
  proof (cases "lease_http C q s")
    case (Pair res s')
    then have "lw_leases s' = lw_leases s"
    proof (cases rule: lease_http_cases)
      case (served c0 r)
      with lease_process_apart [OF claims_path [OF g], of c0] show ?thesis by simp
    qed simp
    with Pair lease_at_leases [of s' s] show ?thesis by (simp add: lease_kuid_def)
  qed
qed

end
