(* ===== verification/Allocation.thy ===== *)
theory Allocation
  imports Allocator_Facts Kuid_World Canonical Sup_Demo
begin

text \<open>
  The properties of the allocator: exclusive values, releases that touch only their own, allocations
  that return, the claim profile of each construct, and an answer the supervisor accepts. Each is
  applied to the reference world of \<open>Kuid_World\<close>.
\<close>

section \<open>The claim profile of a construct\<close>

datatype claim_kind = CK_vlan | CK_l2vni | CK_l3vni | CK_rt | CK_prefix

definition names_vlan :: "interp \<Rightarrow> bool" where
  "names_vlan i \<longleftrightarrow> (\<exists>e \<in> set (i_endpoints i). vlan e \<notin> {None, Some 0})"

text \<open>The table of contracts/kuid-claim-profiles.md, and of the comments of \<open>_build_intent\<close>.\<close>

definition claim_profile :: "interp \<Rightarrow> claim_kind set" where
  "claim_profile i =
     (if i_transport i = Some ''srv6'' then (if service_type i = IP_VRF then {CK_prefix} else {})
      else
        (case service_type i of
           VLAN \<Rightarrow> (if names_vlan i then {} else {CK_vlan})
         | MAC_VRF \<Rightarrow> {CK_l2vni, CK_rt} \<union> (if names_vlan i then {} else {CK_vlan})
             \<union> (if anycast_gateway i \<noteq> None then {CK_l3vni} else {})
         | IP_VRF \<Rightarrow> {CK_l3vni, CK_rt}
         | ACL \<Rightarrow> {}))"

text \<open>A source that raises outside the kinds it is restricted to.\<close>

definition only_kind :: "claim_kind set \<Rightarrow> claim_kind \<Rightarrow> ('s, 'a) eff \<Rightarrow> ('s, 'a) eff" where
  "only_kind S k m = (if k \<in> S then m else throw (Uncaught ''not in the profile''))"

definition restrict_source :: "claim_kind set \<Rightarrow> 's id_source \<Rightarrow> 's id_source" where
  "restrict_source S A =
     \<lparr>is_vlan = (\<lambda>c. only_kind S CK_vlan (is_vlan A c)), is_l2vni = (\<lambda>c. only_kind S CK_l2vni (is_l2vni A c)),
      is_l3vni = (\<lambda>c. only_kind S CK_l3vni (is_l3vni A c)), is_rd_rt = (\<lambda>c. only_kind S CK_rt (is_rd_rt A c)),
      is_prefix = (\<lambda>c a. only_kind S CK_prefix (is_prefix A c a))\<rparr>"

lemma restrict_source_in:
  "CK_vlan \<in> S \<Longrightarrow> is_vlan (restrict_source S A) = is_vlan A"
  "CK_l2vni \<in> S \<Longrightarrow> is_l2vni (restrict_source S A) = is_l2vni A"
  "CK_l3vni \<in> S \<Longrightarrow> is_l3vni (restrict_source S A) = is_l3vni A"
  "CK_rt \<in> S \<Longrightarrow> is_rd_rt (restrict_source S A) = is_rd_rt A"
  "CK_prefix \<in> S \<Longrightarrow> is_prefix (restrict_source S A) = is_prefix A"
  by (simp_all add: restrict_source_def only_kind_def)

lemma read_endpoints_vlans:
  "read_endpoints W es = Inr xs \<Longrightarrow> map ep_vlan xs = map vlan es"
proof (induction es arbitrary: xs)
  case (Cons e es)
  have "ep_vlan x = v" if "new_endpoint W nd att v vrf ps = Inr x" for nd att v vrf ps x
    using that
    by (cases v) (auto simp: new_endpoint_def validate_ep_iff field_def_def nullable_iff int_within_def guard_Inr
        located_Inr_iff)
  with Cons show ?case by auto
qed simp

lemma declared_vlans_Nil:
  assumes "read_endpoints W (i_endpoints i) = Inr es"
  shows "declared_vlans (deterministic_endpoints es) = [] \<longleftrightarrow> \<not> names_vlan i"
proof -
  have "ep_vlan ` set es = vlan ` set (i_endpoints i)"
    using arg_cong [OF read_endpoints_vlans [OF assms], of set] by simp
  then have "(\<exists>e \<in> set es. ep_vlan e \<notin> {None, Some 0}) \<longleftrightarrow> names_vlan i"
    unfolding names_vlan_def by (metis (no_types, lifting) imageE imageI)
  moreover have "set (declared_vlans (deterministic_endpoints es)) = {v. v \<noteq> 0 \<and> (\<exists>e \<in> set es. ep_vlan e = Some v)}"
  proof -
    have "set (case w of Some v \<Rightarrow> [v] | None \<Rightarrow> []) = {v. w = Some v}" for w :: "int option" by (cases w) auto
    then show ?thesis by (simp add: declared_vlans_def deterministic_endpoints_def) blast
  qed
  ultimately show ?thesis unfolding set_empty [symmetric] by (auto 4 3)
qed

lemma l2_endpoints_restrict:
  assumes "declared_vlans es = [] \<Longrightarrow> is_vlan B = is_vlan A"
  shows "l2_endpoints W B es cid what = l2_endpoints W A es cid what"
  using assms by (auto simp: l2_endpoints_def split: list.split)

lemma gateway_endpoints_restrict:
  assumes "is_prefix B = is_prefix A"
  shows "gateway_endpoints W B i cid es = gateway_endpoints W A i cid es"
proof (rule ext)
  fix s show "gateway_endpoints W B i cid es s = gateway_endpoints W A i cid es s"
  proof (induction es arbitrary: s)
    case (Cons e es)
    then have "gateway_endpoints W B i cid es = gateway_endpoints W A i cid es" by (rule ext)
    then show ?case by (simp only: gateway_endpoints.simps assms)
  qed simp
qed

lemma srv6_restrict:
  assumes "i_transport i = Some ''srv6''"
  shows "srv6_intent W (restrict_source (claim_profile i) A) i a es c = srv6_intent W A i a es c"
  using gateway_endpoints_restrict [of "restrict_source (claim_profile i) A" A W i c es] assms
  by (auto simp: srv6_intent_def claim_profile_def restrict_source_in split: service_type.split)

lemma vxlan_restrict:
  assumes "i_transport i \<noteq> Some ''srv6''" "declared_vlans es = [] \<longleftrightarrow> \<not> names_vlan i"
  shows "vxlan_intent W (restrict_source (claim_profile i) A) i a es c = vxlan_intent W A i a es c"
proof -
  let ?S = "claim_profile i" and ?B = "restrict_source (claim_profile i) A"
  have v: "l2_endpoints W ?B es c what = l2_endpoints W A es c what" if "service_type i \<in> {VLAN, MAC_VRF}" for what
    using that assms by (intro l2_endpoints_restrict restrict_source_in) (auto simp: claim_profile_def)
  have g: "routed_gateway ?B i c = routed_gateway A i c" if "service_type i = MAC_VRF"
    using that assms by (auto simp: routed_gateway_def claim_profile_def restrict_source_in split: option.split)
  have k: "service_type i = MAC_VRF \<Longrightarrow> {CK_l2vni, CK_rt} \<subseteq> ?S" "service_type i = IP_VRF \<Longrightarrow> {CK_l3vni, CK_rt} \<subseteq> ?S"
    using assms by (auto simp: claim_profile_def)
  show ?thesis
    by (cases "service_type i") (use k in \<open>simp_all add: vxlan_intent_def v g restrict_source_in\<close>)
qed

text \<open>
  C30. The allocator claims nothing outside the profile of the construct: with every other kind of
  claim made to raise, each request is answered as before. An access list claims nothing, a named
  vlan is not claimed, an L3 VNI only for a routed bridge or a routed service, and srv6 no VXLAN
  identifier at all.
\<close>

theorem claims_only_its_profile:
  "build_intent W (restrict_source (claim_profile i) A) fresh i cid = build_intent W A fresh i cid"
proof (cases "normalized_acl W i")
  case (Inr a)
  show ?thesis
  proof (cases "read_endpoints W (i_endpoints i)")
    case (Inr es)
    let ?es = "deterministic_endpoints es"
    have "(if i_transport i = Some ''srv6'' then srv6_intent W (restrict_source (claim_profile i) A) i a ?es c
        else vxlan_intent W (restrict_source (claim_profile i) A) i a ?es c)
      = (if i_transport i = Some ''srv6'' then srv6_intent W A i a ?es c else vxlan_intent W A i a ?es c)" for c
      using srv6_restrict vxlan_restrict [OF _ declared_vlans_Nil [OF Inr]] by auto
    then show ?thesis
      by (intro ext) (simp only: build_intent_def Inr \<open>normalized_acl W i = Inr a\<close> lift_def map_res.simps bind_eff.simps
          option.case sum.case prod.case)
  qed (simp add: build_intent_def lift_def fun_eq_iff Inr)
qed (simp add: build_intent_def lift_def fun_eq_iff)

section \<open>Exclusive values and releases\<close>

text \<open>
  C31. A value allocated from the leases is exclusive: it is in the range, its lease was free, it is
  now held by the correlation id, and no existing lease was overwritten; so while the lease stands, no
  later allocation of the pool gives the same value.
\<close>

theorem lease_allocation_exclusive:
  assumes "lease_server K C leases" "allocate_fallback_lease K C kind index rng cid s = Some (Inr v, s')"
  shows "fst rng \<le> v \<and> v \<le> snd rng
    \<and> leases s (fallback_lease_name kind index v) = None
    \<and> (\<exists>ob. leases s' (fallback_lease_name kind index v) = Some ob \<and> lease_owner ob = JStr cid)
    \<and> (\<forall>n. leases s n \<noteq> None \<longrightarrow> leases s' n = leases s n)
    \<and> (\<forall>t rng2 cid2 v2 t'. leases t (fallback_lease_name kind index v) \<noteq> None \<longrightarrow>
         allocate_fallback_lease K C kind index rng2 cid2 t = Some (Inr v2, t') \<longrightarrow> v2 \<noteq> v)"
proof -
  note e = lease_server.lease_rounds_exclusive [OF assms(1)]
  have "v2 \<noteq> v" if "leases t (fallback_lease_name kind index v) \<noteq> None"
    "allocate_fallback_lease K C kind index rng2 cid2 t = Some (Inr v2, t')" for t rng2 cid2 v2 t'
    using e [OF that(2) [unfolded allocate_fallback_lease_def]] that(1) by auto
  with e [OF assms(2) [unfolded allocate_fallback_lease_def]] show ?thesis by blast
qed

definition demo_config :: kuid_config where
  "demo_config = \<lparr>kc_endpoint = ''https://k'', kc_fallback = ''lease'', kc_l2vni_index = ''evpn-vni'',
     kc_l3vni_index = ''evpn-vni'', kc_vlan_index = ''fabric-vlan'', kc_extcomm_index = ''rt-index'',
     kc_l2vni = (10000, 20000), kc_l3vni = (10000, 14094), kc_vlan = (100, 101), kc_extcomm = (1, 65535), kc_asn = ''65000''\<rparr>"

definition demo_leases :: lease_world where
  "demo_leases = \<lparr>lw_leases = [], lw_script = [], lw_time = 0\<rparr>"

text \<open>The first allocation of a vlan on a server without the KUID groups, and its release.\<close>

definition demo_lease :: "lease_world" where
  "demo_lease = demo_leases\<lparr>lw_leases := [(''agentic-netops-vlan-fabric-vlan-100'',
     obj_of (fallback_lease_body ''vlan'' ''fabric-vlan'' 100 ''c1''))], lw_time := 20\<rparr>"

lemma demo_allocates:
  "allocate_fallback_lease (lease_kuid demo_config) demo_config ''vlan'' ''fabric-vlan'' (100, 101) ''c1'' demo_leases
     = Some (Inr 100, demo_lease)"
  by code_simp

lemma demo_releases:
  "release_by_correlation (lease_kuid demo_config) demo_config ''c1'' demo_lease
     = (1, demo_leases\<lparr>lw_time := 100\<rparr>)"
  by code_simp

lemma demo_server: "lease_server (lease_kuid demo_config) demo_config lease_at"
  by (rule leased.lease_server_axioms)

theorem lease_allocation_exclusive_witness:
  "lease_at demo_leases (fallback_lease_name ''vlan'' ''fabric-vlan'' 100) = None
   \<and> (\<exists>ob. lease_at demo_lease (fallback_lease_name ''vlan'' ''fabric-vlan'' 100) = Some ob \<and> lease_owner ob = JStr ''c1'')"
proof -
  note e = lease_allocation_exclusive [OF demo_server demo_allocates]
  show ?thesis using e by (elim conjE) (rule conjI)
qed

text \<open>
  C32. A release touches nothing else: of the leases only those of the correlation id are gone, and
  every other one is as it was, whatever of the listing and the deletes failed.
\<close>

theorem release_takes_only_own:
  assumes "lease_server K C leases" "release_by_correlation K C cid s = (k, s')" "leases s' n \<noteq> leases s n"
  shows "leases s' n = None \<and> (\<exists>ob. leases s n = Some ob \<and> lease_owner ob = JStr cid)"
  using lease_server.release_released [OF assms(1,2)] assms(1,3) by (simp add: lease_server.only_released_def)

theorem release_takes_only_own_witness:
  "lease_at demo_lease ''agentic-netops-vlan-fabric-vlan-100'' \<noteq> None
   \<and> lease_owner (the (lease_at demo_lease ''agentic-netops-vlan-fabric-vlan-100'')) = JStr ''c1''"
proof -
  have "lease_at (demo_leases\<lparr>lw_time := 100\<rparr>) ''agentic-netops-vlan-fabric-vlan-100''
      \<noteq> lease_at demo_lease ''agentic-netops-vlan-fabric-vlan-100''" by code_simp
  from release_takes_only_own [where leases = lease_at, OF demo_server demo_releases this] show ?thesis by auto
qed

section \<open>Allocations return\<close>

lemma bind_eff_ends:
  "m s \<noteq> None \<Longrightarrow> (\<And>a t. f a t \<noteq> None) \<Longrightarrow> bind_eff m f s \<noteq> None"
  by (rule bind_eff_not_None)

lemma throw_ends: "throw e s \<noteq> None"
  by (simp add: throw_def)

lemma build_intent_ends:
  assumes "\<And>c t. is_vlan A c t \<noteq> None" "\<And>c t. is_l2vni A c t \<noteq> None" "\<And>c t. is_l3vni A c t \<noteq> None"
    and "\<And>c t. is_rd_rt A c t \<noteq> None" "\<And>c a t. is_prefix A c a t \<noteq> None"
  shows "build_intent W A fresh i cid s \<noteq> None"
proof -
  note ends = bind_eff_ends eff_not_None(1,2) throw_ends assms
  have g: "gateway_endpoints W A i c es t \<noteq> None" for c es t
  proof (induction es arbitrary: t)
    case (Cons e es)
    show ?case unfolding gateway_endpoints.simps by (intro ends Cons)
  qed simp
  have l: "l2_endpoints W A es c what t \<noteq> None" for es c what t
    unfolding l2_endpoints_def by (cases "declared_vlans es" rule: remdups_adj.cases; simp only: list.case; intro ends)
  have r: "routed_gateway A i c t \<noteq> None" for c t
    unfolding routed_gateway_def by (cases "anycast_gateway i"; simp only: option.case; intro ends)
  have s6: "srv6_intent W A i a es c t \<noteq> None" for a es c t
    unfolding srv6_intent_def
    by (cases "service_type i"; cases "anycast_gateway i = None"; simp only: service_type.case if_True if_False not_not simp_thms; intro ends g)
  have vx: "vxlan_intent W A i a es c t \<noteq> None" for a es c t
    unfolding vxlan_intent_def split_def
    by (cases "service_type i"; simp only: service_type.case; intro ends l r)
  have k: "claim_key W fresh cid t \<noteq> None" for t
    by (simp add: claim_key_def split: prod.split)
  have "(if i_transport i = Some ''srv6'' then srv6_intent W A i a es c else vxlan_intent W A i a es c) t \<noteq> None" for a es c t
    using s6 vx by simp
  then show ?thesis unfolding build_intent_def by (intro ends k)
qed

text \<open>
  C33. Every allocation returns: with a clock that sleeping moves on, the allocator answers every
  message with an intent or an error, whatever the KUID server answers to its requests.
\<close>

theorem every_allocation_returns:
  assumes "kuid_clock K time"
  shows "allocator_ainvoke W (kuid_source K C) fresh mem content s \<noteq> None"
proof -
  have b: "build_intent W (kuid_source K C) fresh i cid t \<noteq> None" for i cid t
    using kuid_clock.allocators_end [OF assms] kuid_clock.client_prefix_ends [OF assms]
    by (intro build_intent_ends) (simp_all only: kuid_source_def id_source.simps not_False_eq_True)
  have n: "alloc_node W (kuid_source K C) fresh mem content t \<noteq> None" for t
  proof (cases "read_request W content")
    case (Some r)
    then show ?thesis
      by (cases r; cases "mem (memo_key W (fst r))")
        (simp_all only: alloc_node_def option.case prod.case fst_conv Let_def bind_eff_ends [OF b] eff_not_None not_False_eq_True)
  qed (simp add: alloc_node_def)
  show ?thesis
    unfolding allocator_ainvoke_def split_def
    by (intro bind_eff_ends n) (simp add: throw_def ret_def split: sum.split)
qed

definition demo_alloc :: alloc_world where
  "demo_alloc = \<lparr>aw_lax = demo_lax, aw_pyd_text = (\<lambda>_. ''invalid''), aw_spines = None, aw_trace = [], aw_sha = (\<lambda>s. s)\<rparr>"

theorem every_allocation_returns_witness:
  "allocator_ainvoke demo_alloc (kuid_source (lease_kuid demo_config) demo_config) (\<lambda>s. (''u'', s)) (\<lambda>_. None) ''{}'' demo_leases \<noteq> None"
  using every_allocation_returns [OF ticking.kuid_clock_axioms] .

section \<open>Client prefixes\<close>

text \<open>
  A client prefix is never taken from a claim that another correlation id holds: when one is
  returned, the claim of that name was absent, or it carried the same correlation id or none.
\<close>

theorem client_prefix_is_own:
  assumes "allocate_client_prefix K C cid att s = Some (Inr p, s')"
  shows "truthy p \<and> (\<exists>r s1. kw_http K (get_request (kuid_url C ''ipam.be.kuid.dev'' ''ipclaims'' @ ''/''
        @ claim_name CLIENT_V4_POOL cid [att]) []) s = (Inr r, s1)
    \<and> (hr_status r = 404 \<or> ok_status r \<and>
        (\<exists>j h. hr_json r = Inr j \<and> claim_holder j = Inr h \<and> (h = JNull \<or> h = JStr cid))))"
proof -
  let ?nm = "claim_name CLIENT_V4_POOL cid [att]"
  let ?url = "kuid_url C ''ipam.be.kuid.dev'' ''ipclaims'' @ ''/'' @ ?nm"
  let ?go = "\<lambda>r. if hr_status r = 404 then bind_eff (ip_claim K C cid ?nm) (\<lambda>_. ret ())
     else if ok_status r then lift (bind_res (body_json r) (\<lambda>j. bind_res (claim_holder j) (held_by_other cid ?nm)))
     else lift (Inl (classify_http_error (hr_status r) (hr_text r)))"
  from assms obtain r s1 s2 j s3 where g: "send K GET ?url [] JNull s = Some (Inr r, s1)"
    and go: "?go r s1 = Some (Inr (), s2)" and p: "claimed_prefix ?nm j = Inr p"
    unfolding allocate_client_prefix_def Let_def bind_eff_Some by auto
  from g have h: "kw_http K (get_request ?url []) s = (Inr r, s1)"
    by (auto simp: send_Some get_request_def split: prod.splits sum.splits)
  have t: "truthy p" using p by (auto simp: claimed_prefix_def split: if_splits)
  have "ok_status r \<and> (\<exists>j h. hr_json r = Inr j \<and> claim_holder j = Inr h \<and> (h = JNull \<or> h = JStr cid))"
    if "hr_status r \<noteq> 404"
  proof -
    from go that have ok: "ok_status r"
      and b: "bind_res (body_json r) (\<lambda>j. bind_res (claim_holder j) (held_by_other cid ?nm)) = Inr ()"
      by (auto split: if_splits)
    then show ?thesis
      by (cases "hr_json r") (auto simp: body_json_def held_by_other_def split: if_splits)
  qed
  with t h show ?thesis by blast
qed

text \<open>A server on which the claim is ready.\<close>

definition demo_claimed :: "nat kuid_world" where
  "demo_claimed = \<lparr>kw_http = (\<lambda>q s. (Inr (answer 200 [(''metadata'', JObj [(''labels'', JObj [(CORRELATION_LABEL, JStr ''c1'')])]),
       (''status'', JObj [(''prefix'', JStr ''192.168.3.0/24''), (''value'', JStr ''192.168.3.0/24'')])]), s)),
     kw_now = (\<lambda>s. (0, s)), kw_sleep = (\<lambda>ms s. s), kw_uuid = (\<lambda>s. (''u'', s))\<rparr>"

theorem client_prefix_is_own_witness:
  "truthy (JStr ''192.168.3.0/24'') \<and> allocate_client_prefix demo_claimed demo_config ''c1'' ''leaf1-ethernet1'' 0
     = Some (Inr (JStr ''192.168.3.0/24''), 0)"
proof -
  have "allocate_client_prefix demo_claimed demo_config ''c1'' ''leaf1-ethernet1'' 0 = Some (Inr (JStr ''192.168.3.0/24''), 0)"
    by code_simp
  with client_prefix_is_own [OF this] show ?thesis by blast
qed

text \<open>
  The gateway of a claimed IPv4 prefix lies in it: its address is the one after the network's
  own, and its text reads back as the claimed network.
\<close>

theorem gateway_in_prefix:
  assumes "ip_network p = Some n" "ver n = 4" "plen n < 32"
  shows "gateway_address (JStr p) = Inr (JStr (str_v4 (net_addr n + 1) @ ''/'' @ str_nat (nat (plen n))))
    \<and> ip_network (str_v4 (net_addr n + 1) @ ''/'' @ str_nat (nat (plen n))) = Some n"
proof -
  have w: "wf_net n" using ip_network_v4_wf [OF assms(1,2)] .
  let ?k = "32 - nat (plen n)"
  have r: "0 \<le> net_addr n" "net_addr n < 2 ^ 32" "net_addr n mod 2 ^ ?k = 0" "0 \<le> plen n"
    using w assms(2) by (simp_all add: wf_net_def)
  have two: "(2::int) \<le> 2 ^ ?k" using assms(3) power_increasing [of 1 ?k "2::int"] by simp
  have "(2::int) ^ ?k dvd 2 ^ 32" by (rule le_imp_power_dvd) simp
  then have "2 ^ ?k dvd 2 ^ 32 - net_addr n" using r(3) by (simp add: dvd_eq_mod_eq_0 [symmetric])
  with r(2) have "(2::int) ^ ?k \<le> 2 ^ 32 - net_addr n" by (intro zdvd_imp_le) simp_all
  with two have up: "net_addr n + 1 < 2 ^ 32" by linarith
  have "(net_addr n + 1) mod 2 ^ ?k = 1"
    using r(3) two by (metis add.commute add_0 mod_add_right_eq mod_pos_pos_trivial one_less_numeral_iff
        order_less_le_trans semiring_norm(76) zero_le_one add.right_neutral)
  then have m: "mask_addr 32 (plen n) (net_addr n + 1) = net_addr n" by (simp add: mask_addr_def)
  have "split_on CHR ''/'' (str_v4 (net_addr n + 1) @ ''/'' @ str_nat (nat (plen n)))
      = [str_v4 (net_addr n + 1), str_nat (nat (plen n))]"
    using str_nat_no [of "CHR ''/''"] by (simp add: split_on_append split_on_none str_v4_no_slash is_digit_def code_def)
  moreover have "parse_mask_v4 (str_nat (nat (plen n))) = Some (plen n)"
    using r(4) assms(3) by (simp add: parse_mask_v4_def parse_plen_str_nat)
  ultimately have "ip_network (str_v4 (net_addr n + 1) @ ''/'' @ str_nat (nat (plen n))) = Some (network_of 4 (net_addr n + 1) (plen n))"
    using r(1) up by (simp add: ip_network_def net_v4_def parse_v4_str_v4)
  moreover have "network_of 4 (net_addr n + 1) (plen n) = n" using assms(2) m by (simp add: network_of_def)
  moreover have "gateway_address (JStr p) = Inr (JStr (str_v4 (net_addr n + 1) @ ''/'' @ str_nat (nat (plen n))))"
    using assms up r(4) by (simp add: gateway_address_def json_network_def gateway_of_def next_address_def str_addr_def str_int_def)
  ultimately show ?thesis by simp
qed

theorem gateway_in_prefix_witness:
  "gateway_address (JStr ''192.168.3.0/24'') = Inr (JStr ''192.168.3.1/24'')"
proof -
  have n: "ip_network ''192.168.3.0/24'' = Some \<lparr>ver = 4, net_addr = 3232236288, plen = 24\<rparr>" by code_simp
  have t: "str_v4 3232236289 @ ''/'' @ str_nat 24 = ''192.168.3.1/24''" by code_simp
  from gateway_in_prefix [OF n] t show ?thesis by simp
qed

section \<open>What the supervisor gets\<close>

lemma built_canonical:
  assumes "build_intent W A fresh i cid s = Some (Inr n, s1)"
  shows "validate_intent (aw_lax W) (dump_intent n) = Inr n"
    "validate_intent (aw_lax W) (sorted_dict (dump_intent n)) = Inr n"
proof -
  from build_intent_built [OF assms] have w: "wf_intent n" and v: "validate_all_or_nothing (aw_spines W) False n = None"
    by (simp_all add: built_def)
  from v have "valid_intent (aw_spines W) n"
    by (auto simp: validate_all_or_nothing_def Let_def intent_causes_Nil split: if_splits)
  then have "claims_sorted n" by (intro no_claims_sorted) (auto simp: valid_intent_def)
  with w show "validate_intent (aw_lax W) (dump_intent n) = Inr n"
    "validate_intent (aw_lax W) (sorted_dict (dump_intent n)) = Inr n"
    by (auto intro: validate_dump_intent validate_sorted_intent)
qed

definition answer_of :: "normalized_intent \<Rightarrow> a2a_obj" where
  "answer_of n = allocator_message (if alloc_summary n = [] then ''Allocation result'' else alloc_summary n) n"

lemma fresh_allocation:
  assumes "read_request W content = Some (i, cid)" "mem (memo_key W i) = None"
    and b: "build_intent W A fresh i cid s = Some (Inr n, s1)" and t: "json_text (JObj (dump_intent n))"
  shows "allocator_ainvoke W A fresh mem content s
    = Some (Inr (answer_of n, mem(memo_key W i \<mapsto> canonical_json (JObj (dump_intent n)))), s1)"
proof -
  have "alloc_node W A fresh mem content s = Some (Inr (alloc_summary n, JObj (sorted_dict (dump_intent n)),
      mem(memo_key W i \<mapsto> canonical_json (JObj (dump_intent n)))), s1)"
    using assms loads_canonical_intent [OF t] by (simp add: alloc_node_def Let_def ret_def)
  with built_canonical(2) [OF b] show ?thesis by (simp add: allocator_ainvoke_def answer_of_def ret_def)
qed

lemma repeated_allocation:
  assumes "read_request W content = Some (i, cid)" "mem (memo_key W i) = Some (canonical_json (JObj (dump_intent n)))"
    and "validate_intent (aw_lax W) (sorted_dict (dump_intent n)) = Inr n" and t: "json_text (JObj (dump_intent n))"
  shows "allocator_ainvoke W A fresh mem content s = Some (Inr (answer_of n, mem), s)"
proof -
  have "alloc_node W A fresh mem content s = Some (Inr (alloc_summary n, JObj (sorted_dict (dump_intent n)), mem), s)"
    using assms loads_canonical_intent [OF t] by (simp add: alloc_node_def lift_def)
  with assms(3) show ?thesis by (simp add: allocator_ainvoke_def answer_of_def ret_def)
qed

lemma fresh_allocation_built:
  assumes "read_request W content = Some (i, cid)" "mem (memo_key W i) = None"
    and "allocator_ainvoke W A fresh mem content s = Some (Inr (m, mem'), s')"
    and "\<forall>n t. build_intent W A fresh i cid s = Some (Inr n, t) \<longrightarrow> json_text (JObj (dump_intent n))"
  obtains n where "build_intent W A fresh i cid s = Some (Inr n, s')" "json_text (JObj (dump_intent n))"
    "m = answer_of n" "mem' = mem(memo_key W i \<mapsto> canonical_json (JObj (dump_intent n)))"
proof -
  from assms(1-3) obtain n s1 where b: "build_intent W A fresh i cid s = Some (Inr n, s1)"
    by (auto simp: allocator_ainvoke_def alloc_node_def bind_eff_Some simp del: bind_eff.simps)
  then have t: "json_text (JObj (dump_intent n))" using assms(4) by blast
  from fresh_allocation [where mem = mem, OF assms(1,2) b t] assms(3) b t that show thesis by simp
qed

text \<open>
  C34. What the allocator answers the supervisor accepts: the payload it reads is the dump of the
  intent that was built, it validates as that intent, it is of the confirmed construct, and it names
  the service, the tenant, the transport and exactly the endpoints of the interpretation, in order.
  (The texts of the intent are Unicode texts, as every Python string is.)
\<close>

theorem supervisor_accepts_allocation:
  assumes "read_request W content = Some (i, cid)" "mem (memo_key W i) = None"
    and "allocator_ainvoke W A fresh mem content s = Some (Inr (m, mem'), s')"
    and "\<forall>n t. build_intent W A fresh i cid s = Some (Inr n, t) \<longrightarrow> json_text (JObj (dump_intent n))"
  shows "\<exists>n d t. extract_payload_and_text (Bare m) ''DEPLOYMENT_JSON'' ''allocator'' = Inr (Some d, t)
    \<and> validate_allocator_payload (aw_lax W) (aw_spines W) (Some d) i = Inr n
    \<and> serviceId n = service_id i \<and> type_of n = type_value (service_type i) \<and> tenant n = i_tenant i
    \<and> transport n = (if i_transport i = Some ''srv6'' then ''srv6'' else ''vxlan'')
    \<and> map ep_place (endpoints n) = sort (map (\<lambda>e. (site_or_node e, attachment e)) (i_endpoints i))"
proof -
  obtain n where b: "build_intent W A fresh i cid s = Some (Inr n, s')" and m: "m = answer_of n"
    by (rule fresh_allocation_built [where mem = mem, OF assms])
  from build_intent_built [OF b] have n: "built i (if i_transport i = Some ''srv6'' then ''srv6'' else ''vxlan'')
      (sort (map (\<lambda>e. (site_or_node e, attachment e)) (i_endpoints i))) n"
    and v: "validate_all_or_nothing (aw_spines W) False n = None" by auto
  have "\<exists>t. extract_payload_and_text (Bare m) ''DEPLOYMENT_JSON'' ''allocator'' = Inr (Some (dump_intent n), t)"
    by (simp add: m answer_of_def allocator_message_def extract_payload_and_text_def)
  moreover have "validate_allocator_payload (aw_lax W) (aw_spines W) (Some (dump_intent n)) i = Inr n"
    using built_canonical(1) [OF b] v n by (simp add: validate_allocator_payload_def built_def)
  ultimately show ?thesis using n unfolding built_def by blast
qed

definition demo_source :: "nat id_source" where
  "demo_source = \<lparr>is_vlan = (\<lambda>c. ret 130), is_l2vni = (\<lambda>c. ret 10001), is_l3vni = (\<lambda>c. ret 10002),
     is_rd_rt = (\<lambda>c. ret ''65000:7''), is_prefix = (\<lambda>c a. ret (JStr ''192.168.3.0/24''))\<rparr>"

definition demo_content :: string where
  "demo_content = canonical_json (JObj (demo_interpretation @ [(''correlationId'', JStr ''c1'')]))"

definition demo_built :: normalized_intent where
  "demo_built = \<lparr>serviceId = ''svc'', type_of = ''vlan'', tenant = ''acme'', rdRt = None, l2vni = None, l3vni = None,
     addressFamilies = None, anycastGateway = None, transport = ''vxlan'', signalling = None, preferredSpine = None,
     endpoints = [\<lparr>ep_node = ''leaf01'', ep_attachment = ''eth1'', ep_vlan = Some 130, ep_vrf = None, ep_prefixes = None\<rparr>],
     vpwsLimitedEquivalence = None, unsupported = None, acl = None\<rparr>"

lemma demo_request_reads:
  "(case read_request demo_alloc demo_content of Some (i, cid) \<Rightarrow> cid = ''c1'' \<and>
      build_intent demo_alloc demo_source (\<lambda>s. (''u'', s)) i cid 0 = Some (Inr demo_built, 0) | None \<Rightarrow> False)"
  by code_simp

lemma demo_built_text: "json_text (JObj (dump_intent demo_built))"
  by (rule ascii_json_text) code_simp

lemma demo_allocation:
  obtains i where "read_request demo_alloc demo_content = Some (i, ''c1'')"
    "build_intent demo_alloc demo_source (\<lambda>s. (''u'', s)) i ''c1'' 0 = Some (Inr demo_built, 0)"
  using demo_request_reads by (auto split: option.splits)

theorem supervisor_accepts_allocation_witness:
  "\<exists>i m mem' n d t. read_request demo_alloc demo_content = Some (i, ''c1'')
     \<and> allocator_ainvoke demo_alloc demo_source (\<lambda>s. (''u'', s)) (\<lambda>_. None) demo_content 0 = Some (Inr (m, mem'), 0)
     \<and> extract_payload_and_text (Bare m) ''DEPLOYMENT_JSON'' ''allocator'' = Inr (Some d, t)
     \<and> validate_allocator_payload demo_lax None (Some d) i = Inr n"
proof -
  obtain i where r: "read_request demo_alloc demo_content = Some (i, ''c1'')"
    and b: "build_intent demo_alloc demo_source (\<lambda>s. (''u'', s)) i ''c1'' 0 = Some (Inr demo_built, 0)"
    by (rule demo_allocation)
  have mem: "(\<lambda>_. None :: string option) (memo_key demo_alloc i) = None" by simp
  note a = fresh_allocation [where mem = "\<lambda>_. None", OF r mem b demo_built_text]
  have t: "\<forall>n t. build_intent demo_alloc demo_source (\<lambda>s. (''u'', s)) i ''c1'' 0 = Some (Inr n, t)
      \<longrightarrow> json_text (JObj (dump_intent n))"
    using b demo_built_text by simp
  from supervisor_accepts_allocation [where mem = "\<lambda>_. None", OF r mem a t] r a
  show ?thesis unfolding demo_alloc_def alloc_world.simps by blast
qed

text \<open>
  An allocation is claimed once: after an answer, the same interpretation gets the same message
  from the memo without a request to the cluster, under whatever correlation id it comes.
\<close>

theorem repeated_request_is_free:
  assumes "read_request W content = Some (i, cid)" "mem (memo_key W i) = None"
    and "allocator_ainvoke W A fresh mem content s = Some (Inr (m, mem'), s')"
    and "\<forall>n t. build_intent W A fresh i cid s = Some (Inr n, t) \<longrightarrow> json_text (JObj (dump_intent n))"
    and "read_request W content2 = Some (i, cid2)"
  shows "allocator_ainvoke W B fresh2 mem' content2 u = Some (Inr (m, mem'), u)"
proof -
  obtain n where b: "build_intent W A fresh i cid s = Some (Inr n, s')" and t: "json_text (JObj (dump_intent n))"
    and m: "m = answer_of n" and mm: "mem' = mem(memo_key W i \<mapsto> canonical_json (JObj (dump_intent n)))"
    by (rule fresh_allocation_built [where mem = mem, OF assms(1-4)])
  show ?thesis unfolding m by (rule repeated_allocation [OF assms(5) _ built_canonical(2) [OF b] t]) (simp add: mm)
qed

theorem repeated_request_is_free_witness:
  "\<exists>m mem'. allocator_ainvoke demo_alloc demo_source (\<lambda>s. (''u'', s)) (\<lambda>_. None) demo_content 0 = Some (Inr (m, mem'), 0)
     \<and> allocator_ainvoke demo_alloc demo_source (\<lambda>s. (''u'', s)) mem' demo_content 5 = Some (Inr (m, mem'), 5)"
proof -
  obtain i where r: "read_request demo_alloc demo_content = Some (i, ''c1'')"
    and b: "build_intent demo_alloc demo_source (\<lambda>s. (''u'', s)) i ''c1'' 0 = Some (Inr demo_built, 0)"
    by (rule demo_allocation)
  have mem: "(\<lambda>_. None :: string option) (memo_key demo_alloc i) = None" by simp
  note a = fresh_allocation [where mem = "\<lambda>_. None", OF r mem b demo_built_text]
  have t: "\<forall>n t. build_intent demo_alloc demo_source (\<lambda>s. (''u'', s)) i ''c1'' 0 = Some (Inr n, t)
      \<longrightarrow> json_text (JObj (dump_intent n))"
    using b demo_built_text by simp
  from repeated_request_is_free [where mem = "\<lambda>_. None", OF r mem a t r, of demo_source "\<lambda>s. (''u'', s)" 5] a
  show ?thesis by (intro exI conjI)
qed

text \<open>Claim names are cut at 63 characters, so two attachments of long node names can share one.\<close>

lemma truncated_claim_names_collide:
  "claim_name CLIENT_V4_POOL ''0123456789abcdef0123456789abcdef'' [''leaf-edge-01-ethernet1'']
   = claim_name CLIENT_V4_POOL ''0123456789abcdef0123456789abcdef'' [''leaf-edge-02-ethernet1'']"
  by code_simp

end
