(* ===== verification/Mapping.thy ===== *)
theory Mapping
  imports Mapper_Wire Sup_Demo
begin

text \<open>
  The properties of the mapping agent: when it answers at all, what a complete answer carries, how
  SRv6 requests are kept apart from the others, and that the supervisor reads from its reply the
  interpretation it made.
\<close>

section \<open>The answer\<close>

lemma ainvoke_Inl: "map_request (map_lax M) (plain_text t) = Inl es \<Longrightarrow> ainvoke M t = Inl (Endpoint_invalid es)"
  by (simp add: ainvoke_def map_node_def Let_def)

lemma empty_payload_invalid: "\<exists>es. validate_interpretation L [] = Inl es"
  by (simp add: validate_interpretation_def record_source_alias_def dget_def read_interp_def Let_def
      field_req_def fail_def located_def)

lemma ainvoke_invalid:
  assumes "map_request (map_lax M) (plain_text t) = Inr m" "good_id (gen_id M)"
    and "\<not> (rfc1123 (mp_tenant m) \<and> acl_given m)"
  shows "\<exists>es. ainvoke M t = Inl (Mapping_invalid es)"
proof -
  obtain es where "validate_interpretation (map_lax M) (map_payload M (plain_text t) m) = Inl es"
    using payload_validates(2) [OF map_request_ok [OF assms(1)] assms(2,3)] by blast
  moreover obtain fs where "validate_interpretation (map_lax M) [] = Inl fs" using empty_payload_invalid by blast
  ultimately show ?thesis by (simp add: ainvoke_def map_node_def Let_def assms(1))
qed

lemma ainvoke_valid:
  assumes "map_request (map_lax M) (plain_text t) = Inr m" "good_id (gen_id M)"
    and "rfc1123 (mp_tenant m) \<and> acl_given m"
  shows "wf_interp (interp_of M (plain_text t) m)"
    "ainvoke M t = Inr (answer_parts (text_or (human_summary (interp_of M (plain_text t) m)) ''Mapping result'')
       (interp_of M (plain_text t) m), interp_of M (plain_text t) m)"
proof -
  let ?i = "interp_of M (plain_text t) m"
  have v: "validate_interpretation (map_lax M) (map_payload M (plain_text t) m) = Inr ?i"
    by (rule payload_validates(1) [OF map_request_ok [OF assms(1)] assms(2,3)])
  then show w: "wf_interp ?i" by (rule validate_interpretation_wf)
  show "ainvoke M t = Inr (answer_parts (text_or (human_summary ?i) ''Mapping result'') ?i, ?i)"
    using v by (simp add: ainvoke_def map_node_def Let_def assms(1) validate_dump_interpretation [OF w])
qed

lemma ainvokeD:
  assumes "ainvoke M t = Inr (ps, i)" "good_id (gen_id M)"
  obtains m where "map_request (map_lax M) (plain_text t) = Inr m" "rfc1123 (mp_tenant m) \<and> acl_given m"
    "i = interp_of M (plain_text t) m" "wf_interp i"
    "ps = answer_parts (text_or (human_summary i) ''Mapping result'') i"
proof (cases "map_request (map_lax M) (plain_text t)")
  case (Inr m)
  show ?thesis
  proof (cases "rfc1123 (mp_tenant m) \<and> acl_given m")
    case True
    from ainvoke_valid [OF Inr assms(2) True] assms(1) True Inr that show ?thesis by simp
  next
    case False
    from ainvoke_invalid [OF Inr assms(2) False] assms(1) show ?thesis by auto
  qed
qed (use ainvoke_Inl assms(1) in fastforce)

text \<open>A mapped request, by the two branches of the node.\<close>

lemma map_request_srv6:
  assumes "map_request L low = Inr m" "detect_srv6 low"
  obtains q where "srv6_mapping L low = Inr q" "mp_unsupported m = detect_unsupported low @ mp_unsupported q"
    "mp_type m = mp_type q" "mp_tenant m = mp_tenant q" "mp_endpoints m = mp_endpoints q" "mp_v4 m = mp_v4 q"
    "mp_v6 m = mp_v6 q" "mp_transport m = mp_transport q" "mp_signalling m = mp_signalling q"
    "mp_missing m = mp_missing q" "mp_acl m = None" "mp_gateway m = None"
  using assms by (auto simp: map_request_def map_fields.defs)

lemma map_request_plain:
  assumes "map_request L low = Inr m" "\<not> detect_srv6 low"
  obtains eps t r te where "parse_endpoints L low = Inr eps" "construct_or_refused low = (t, r)"
    "m = (plain_service low t (te @ r) eps)\<lparr>mp_unsupported :=
       detect_unsupported low @ mp_unsupported (plain_service low t (te @ r) eps)\<rparr>"
  using assms by (auto simp: map_request_def plain_mapping_def Let_def split: prod.splits)

lemma plain_service_fields:
  fixes low t r eps
  defines "p \<equiv> plain_service low t r eps"
  shows "mp_type p = t" "mp_tenant p = fst (tenant_or_missing (detect_tenant low))"
    "mp_endpoints p = eps @ replicate (minimum_endpoints t - length eps) placeholder_endpoint"
    "mp_transport p = None" "mp_signalling p = None" "mp_preferred p = None" "mp_alternate p = None"
    "mp_missing p = snd (tenant_or_missing (detect_tenant low))
       @ (if length eps < minimum_endpoints t then [''endpoints''] else [])
       @ snd (filter_of t low) @ fst (snd (mapped_gateway t low))"
    "mp_unsupported p = r @ snd (snd (mapped_gateway t low))" "mp_acl p = fst (filter_of t low)"
  by (simp_all add: p_def plain_service_def Let_def split: prod.splits)

text \<open>The four branches of the SRv6 mapping.\<close>

lemma srv6_mapping_cases:
  fixes L low
  defines "T \<equiv> tenant_or_missing (detect_tenant low)"
  obtains
    "found SRV6_VXLAN_TERMS_RE low"
      "srv6_mapping L low = Inr (no_construct (fst T) None (snd T) [''srv6TransportConflict''])"
  | b where "\<not> found SRV6_VXLAN_TERMS_RE low" "detect_srv6_construct low = (None, Some b)"
      "srv6_mapping L low = Inr (no_construct (fst T) None (snd T) [b])"
  | k where "\<not> found SRV6_VXLAN_TERMS_RE low" "detect_srv6_construct low = (None, None)"
      "srv6_mapping L low = Inr (no_construct (fst T) (Some ''srv6'') (snd T @ [k]) [])"
  | st where "\<not> found SRV6_VXLAN_TERMS_RE low" "detect_srv6_construct low = (Some st, None)"
      "st = MAC_VRF \<or> st = IP_VRF" "\<not> found SRV6_ACL_RE low"
      "srv6_mapping L low = map_res (srv6_service low st (fst T) (snd T)) (parse_endpoints L low)"
proof (cases "found SRV6_VXLAN_TERMS_RE low")
  case True
  with that(1) show ?thesis by (simp add: srv6_mapping_def T_def case_prod_beta)
next
  case False
  consider b where "detect_srv6_construct low = (None, Some b)" | "detect_srv6_construct low = (None, None)"
    | st where "detect_srv6_construct low = (Some st, None)" "st = MAC_VRF \<or> st = IP_VRF" "\<not> found SRV6_ACL_RE low"
    by (cases "found SRV6_ACL_RE low"; cases "found SRV6_MAC_VRF_RE low"; cases "found VLAN_RE low";
        cases "found SRV6_IP_VRF_RE low \<or> list_ex (\<lambda>r. found r low) SRV6_IP_VRF_ALIAS_PATTERNS")
      (auto simp: detect_srv6_construct_def)
  then show ?thesis
    using that(2-4) False by cases (simp_all add: srv6_mapping_def T_def case_prod_beta)
qed

lemma srv6_service_fields:
  fixes low st tn ms eps
  defines "q \<equiv> srv6_service low st tn ms eps"
  shows "mp_type q = st" "mp_tenant q = tn" "mp_transport q = Some ''srv6''"
    "mp_signalling q = Some (if st = MAC_VRF \<or> found SRV6_EVPN_RE low then ''evpn'' else ''vpn'')"
    "mp_unsupported q = []" "map bare (mp_endpoints q) = map bare (if eps = [] then [placeholder_endpoint] else eps)"
  using attach_bare
  by (simp_all add: q_def srv6_service_def Let_def case_prod_beta)

section \<open>When the agent answers\<close>

text \<open>
  The three ways a request makes \<open>ainvoke\<close> raise: an endpoint with a vlan outside 1..4094, a
  tenant that is no label, and an access list whose stage or rules the text does not give.
\<close>

definition endpoints_raise :: "lax \<Rightarrow> string \<Rightarrow> bool" where
  "endpoints_raise L low \<longleftrightarrow> is_err (parse_endpoints L low)
     \<and> (\<not> detect_srv6 low \<or> \<not> found SRV6_VXLAN_TERMS_RE low \<and> fst (detect_srv6_construct low) \<noteq> None)"

definition tenant_no_label :: "string \<Rightarrow> bool" where
  "tenant_no_label low \<longleftrightarrow> (case detect_tenant low of None \<Rightarrow> False | Some n \<Rightarrow> n \<noteq> [] \<and> \<not> rfc1123 n)"

definition acl_not_readable :: "string \<Rightarrow> bool" where
  "acl_not_readable low \<longleftrightarrow> \<not> detect_srv6 low \<and> detect_service_type low = Some ACL \<and> fst (parse_acl low) = None"

lemma is_err_iff: "is_err r \<longleftrightarrow> (\<exists>e. r = Inl e)"
  by (cases r) auto

lemma is_err_map_res [simp]: "is_err (map_res f r) = is_err r"
  by (cases r) auto

lemma srv6_mapping_raises:
  "is_err (srv6_mapping L low) \<longleftrightarrow>
     is_err (parse_endpoints L low) \<and> \<not> found SRV6_VXLAN_TERMS_RE low \<and> fst (detect_srv6_construct low) \<noteq> None"
  by (rule srv6_mapping_cases [of low L]) simp_all

lemma map_request_raises: "is_err (map_request L low) \<longleftrightarrow> endpoints_raise L low"
proof -
  have "is_err (plain_mapping L low) = is_err (parse_endpoints L low)"
    by (simp add: plain_mapping_def case_prod_beta Let_def)
  then show ?thesis by (cases "detect_srv6 low") (auto simp: map_request_def endpoints_raise_def srv6_mapping_raises)
qed

lemma missing_is_label [simp]: "rfc1123 ''missing''"
  by (simp add: rfc1123_def label_char_def is_lower_def is_digit_def code_def)

lemma tenant_label:
  "rfc1123 (fst (tenant_or_missing (detect_tenant low))) \<longleftrightarrow> \<not> tenant_no_label low"
  by (auto simp: tenant_or_missing_def tenant_no_label_def split: option.splits)

lemma srv6_mapping_tenant:
  "srv6_mapping L low = Inr q \<Longrightarrow>
     mp_tenant q = fst (tenant_or_missing (detect_tenant low)) \<and> mp_type q \<noteq> ACL"
  by (rule srv6_mapping_cases [of low L]) (auto simp: no_construct_def srv6_service_fields)

lemma map_request_tenant:
  assumes "map_request L low = Inr m"
  shows "mp_tenant m = fst (tenant_or_missing (detect_tenant low))"
    "acl_given m \<longleftrightarrow> \<not> acl_not_readable low"
proof -
  show "mp_tenant m = fst (tenant_or_missing (detect_tenant low))"
    using assms srv6_mapping_tenant [of L low] plain_service_fields(2)
    by (auto simp: map_request_def plain_mapping_def map_fields.defs Let_def split: if_splits prod.splits)
  show "acl_given m \<longleftrightarrow> \<not> acl_not_readable low"
  proof (cases "detect_srv6 low")
    case True
    then show ?thesis using assms srv6_mapping_tenant [of L low]
      by (auto simp: map_request_def map_fields.defs acl_given_def acl_not_readable_def)
  next
    case False
    obtain eps t r te where t: "construct_or_refused low = (t, r)"
      and m: "m = (plain_service low t (te @ r) eps)\<lparr>mp_unsupported :=
        detect_unsupported low @ mp_unsupported (plain_service low t (te @ r) eps)\<rparr>"
      by (rule map_request_plain [OF assms False])
    have "t = ACL \<longleftrightarrow> detect_service_type low = Some ACL"
      using t by (auto simp: construct_or_refused_def split: option.splits)
    moreover have "t = ACL \<Longrightarrow> filter_of t low = parse_acl low" by (simp add: filter_of_def)
    ultimately show ?thesis using False
      by (auto simp: m acl_given_def acl_not_readable_def plain_service_fields)
  qed
qed

text \<open>
  C35. The mapping agent answers every request except in exactly three cases, in which it raises:
  an endpoint it reads has a vlan outside 1..4094, the tenant named is not an RFC 1123 label, or
  the request is for an access list of which the stage or the rules cannot be read (the questions
  \<open>acl.stage\<close> and \<open>acl.rules\<close> it prepares for that case are never sent, because the schema
  requires the filter even of an interpretation with missing fields).
\<close>

theorem mapper_raises_exactly:
  assumes "good_id (gen_id M)"
  shows "is_err (ainvoke M t) \<longleftrightarrow>
    endpoints_raise (map_lax M) (plain_text t) \<or> tenant_no_label (plain_text t) \<or> acl_not_readable (plain_text t)"
proof (cases "map_request (map_lax M) (plain_text t)")
  case (Inl es)
  then show ?thesis using ainvoke_Inl [OF Inl] map_request_raises [of "map_lax M" "plain_text t"] by simp
next
  case (Inr m)
  have "\<not> endpoints_raise (map_lax M) (plain_text t)"
    using map_request_raises [of "map_lax M" "plain_text t"] Inr by simp
  moreover have "is_err (ainvoke M t) \<longleftrightarrow> \<not> (rfc1123 (mp_tenant m) \<and> acl_given m)"
    using ainvoke_valid(2) [OF Inr assms] ainvoke_invalid [OF Inr assms] by (auto simp: is_err_iff)
  ultimately show ?thesis by (simp add: map_request_tenant [OF Inr] tenant_label)
qed

definition demo_mapper :: mapper_env where
  "demo_mapper = \<lparr>gen_id = ''0123456789abcde'', bw_hints = catalogue_bw_hints, map_lax = demo_lax,
     exc_text = (\<lambda>_. ''invalid'')\<rparr>"

lemma demo_id [simp]: "good_id (gen_id demo_mapper)"
  by code_simp

theorem mapper_raises_exactly_witness:
  "is_err (ainvoke demo_mapper ''acl on leaf01 eth1 tenant acme permit tcp 443'')"
proof -
  have "acl_not_readable (plain_text ''acl on leaf01 eth1 tenant acme permit tcp 443'')" by code_simp
  then show ?thesis
    using mapper_raises_exactly [of demo_mapper "''acl on leaf01 eth1 tenant acme permit tcp 443''"] by simp
qed

section \<open>SRv6\<close>

definition distinct_nodes :: "endpoint_intent list \<Rightarrow> nat" where
  "distinct_nodes eps = length (remdups (map (\<lambda>e. lower (site_or_node e)) eps))"

text \<open>What the operator phrasings promise of a mapped SRv6 request.\<close>

definition srv6_service_spec :: "string \<Rightarrow> interp \<Rightarrow> bool" where
  "srv6_service_spec low i \<longleftrightarrow>
     i_transport i = Some ''srv6''
     \<and> (case service_type i of
          MAC_VRF \<Rightarrow> i_signalling i = Some ''evpn'' \<and> found VLAN_RE low
        | IP_VRF \<Rightarrow> i_signalling i = Some (if found SRV6_EVPN_RE low then ''evpn'' else ''vpn'')
            \<and> ipv4_prefixes i @ ipv6_prefixes i \<noteq> []
        | _ \<Rightarrow> False)
     \<and> 2 \<le> distinct_nodes (i_endpoints i) \<and> 2 \<le> length (i_endpoints i)
     \<and> i_acl i = None \<and> anycast_gateway i = None
     \<and> \<not> found SRV6_VXLAN_TERMS_RE low \<and> \<not> found SRV6_ACL_RE low"

lemma distinct_nodes_bare: "map bare es = map bare fs \<Longrightarrow> distinct_nodes es = distinct_nodes fs \<and> length es = length fs"
proof -
  assume b: "map bare es = map bare fs"
  have "map (\<lambda>e. lower (site_or_node e)) es = map (\<lambda>(n, a, v). lower n) (map bare es)" for es
    by (simp add: bare_def)
  with b show ?thesis by (metis distinct_nodes_def length_map)
qed

lemma srv6_service_complete:
  assumes "mp_missing (srv6_service low st tn ms eps) = []" "st = MAC_VRF \<or> st = IP_VRF"
  defines "q \<equiv> srv6_service low st tn ms eps"
  shows "ms = [] \<and> 2 \<le> length eps \<and> 2 \<le> distinct_nodes eps \<and> map bare (mp_endpoints q) = map bare eps
    \<and> (st = MAC_VRF \<longrightarrow> found VLAN_RE low) \<and> (st = IP_VRF \<longrightarrow> mp_v4 q @ mp_v6 q \<noteq> [])"
proof -
  have sort_Nil: "sort_key srv6_order xs = [] \<longleftrightarrow> xs = []" for xs
    using length_sort [of srv6_order xs] by (metis length_0_conv)
  from assms(1) have m: "ms = []" "\<not> (length eps < 2 \<or> distinct_nodes eps < 2)"
    "st = MAC_VRF \<Longrightarrow> found VLAN_RE low" "st = IP_VRF \<Longrightarrow> mp_v4 q @ mp_v6 q \<noteq> []"
    by (auto simp: q_def srv6_service_def Let_def case_prod_beta sort_Nil distinct_nodes_def split: if_splits)
  then have "eps \<noteq> []" by auto
  with m srv6_service_fields(6) [of low st tn ms eps] show ?thesis by (auto simp: q_def)
qed

lemma complete_interp: "is_complete (interp_of M low m) \<longleftrightarrow> mp_missing m = [] \<and> mp_unsupported m = []"
  by (auto simp: is_complete_def interp_of_def)

lemma srv6_complete_cases:
  assumes "map_request L low = Inr m" "detect_srv6 low" "mp_missing m = []" "mp_unsupported m = []"
  obtains st eps q where "parse_endpoints L low = Inr eps" "st = MAC_VRF \<or> st = IP_VRF"
    "\<not> found SRV6_VXLAN_TERMS_RE low" "\<not> found SRV6_ACL_RE low" "snd (tenant_or_missing (detect_tenant low)) = []"
    "2 \<le> length eps" "2 \<le> distinct_nodes eps" "map bare (mp_endpoints m) = map bare eps"
    "st = MAC_VRF \<longrightarrow> found VLAN_RE low" "st = IP_VRF \<longrightarrow> mp_v4 m @ mp_v6 m \<noteq> []" "mp_type m = st"
    "mp_transport m = Some ''srv6''"
    "mp_signalling m = Some (if st = MAC_VRF \<or> found SRV6_EVPN_RE low then ''evpn'' else ''vpn'')"
proof -
  obtain q where q: "srv6_mapping L low = Inr q" "mp_unsupported m = detect_unsupported low @ mp_unsupported q"
    "mp_type m = mp_type q" "mp_endpoints m = mp_endpoints q" "mp_v4 m = mp_v4 q"
    "mp_v6 m = mp_v6 q" "mp_transport m = mp_transport q" "mp_signalling m = mp_signalling q"
    "mp_missing m = mp_missing q"
    by (rule map_request_srv6 [OF assms(1,2)])
  show ?thesis
  proof (rule srv6_mapping_cases [of low L])
    fix st assume st: "\<not> found SRV6_VXLAN_TERMS_RE low" "st = MAC_VRF \<or> st = IP_VRF" "\<not> found SRV6_ACL_RE low"
      "srv6_mapping L low = map_res (srv6_service low st (fst (tenant_or_missing (detect_tenant low)))
         (snd (tenant_or_missing (detect_tenant low)))) (parse_endpoints L low)"
    then obtain eps where e: "parse_endpoints L low = Inr eps"
      "q = srv6_service low st (fst (tenant_or_missing (detect_tenant low))) (snd (tenant_or_missing (detect_tenant low))) eps"
      using trans [OF st(4) [symmetric] q(1)] by (auto simp only: map_res_Inr_iff)
    have "mp_missing q = []" using assms(3) q by simp
    note done_facts = srv6_service_complete [OF this [unfolded e(2)] st(2), folded e(2)]
    have f: "mp_type q = st" "mp_transport q = Some ''srv6''"
      "mp_signalling q = Some (if st = MAC_VRF \<or> found SRV6_EVPN_RE low then ''evpn'' else ''vpn'')"
      unfolding e(2) by (simp_all add: srv6_service_fields)
    show ?thesis
      by (rule that [OF e(1) st(2) st(1) st(3)]) (use done_facts q(3-8) f in \<open>blast | simp\<close>)+
  qed (use q assms(3,4) in \<open>auto simp: no_construct_def\<close>)
qed

text \<open>
  C36. SRv6 decides the transport and nothing else does. A request that names SRv6 is mapped to a
  complete interpretation only as an SRv6 \<open>mac-vrf\<close> or \<open>ip-vrf\<close> on two distinct nodes, with its
  vlan or its prefixes given, and with no VXLAN term and no access list in the text; a request that
  does not name SRv6 carries no transport, signalling or spine at all.
\<close>

theorem srv6_requests_stay_srv6:
  assumes "ainvoke M t = Inr (ps, i)" "good_id (gen_id M)"
  shows "if detect_srv6 (plain_text t) then is_complete i \<longrightarrow> srv6_service_spec (plain_text t) i
    else i_transport i = None \<and> i_signalling i = None \<and> preferred_spine i = None \<and> alternate_spine i = None"
proof -
  let ?low = "plain_text t"
  obtain m where m: "map_request (map_lax M) ?low = Inr m" and i: "i = interp_of M ?low m"
    by (rule ainvokeD [OF assms])
  show ?thesis
  proof (cases "detect_srv6 ?low")
    case True
    have "srv6_service_spec ?low i" if c: "is_complete i"
    proof -
      have c': "mp_missing m = []" "mp_unsupported m = []" using c by (auto simp: i complete_interp)
      have g: "mp_acl m = None" "mp_gateway m = None" by (rule map_request_srv6 [OF m True]; assumption)+
      show ?thesis
        by (rule srv6_complete_cases [OF m True c'])
          (auto simp: srv6_service_spec_def i interp_of_def acl_value_def gateway_value_def g
            dest: distinct_nodes_bare)
    qed
    with True show ?thesis by simp
  next
    case False
    then show ?thesis
      by (rule map_request_plain [OF m]) (simp add: False i interp_of_def plain_service_fields)
  qed
qed

text \<open>A request mapped completely.\<close>

definition demo_srv6 :: string where
  "demo_srv6 = ''srv6 mac-vrf across a b and c d vlan 5 tenant x''"

lemma demo_plain: "plain_text demo_srv6 = demo_srv6" "detect_srv6 demo_srv6"
  by code_simp+

lemma demo_srv6_mapped:
  "case map_request demo_lax demo_srv6 of
     Inr m \<Rightarrow> rfc1123 (mp_tenant m) \<and> acl_given m \<and> mp_missing m = [] \<and> mp_unsupported m = [] | _ \<Rightarrow> False"
  by code_simp

lemma demo_mapping_answer:
  assumes "plain_text t = demo_srv6"
  shows "\<exists>ps i. ainvoke demo_mapper t = Inr (ps, i) \<and> is_complete i"
proof -
  have L: "map_lax demo_mapper = demo_lax" by (simp add: demo_mapper_def)
  obtain m where m: "map_request demo_lax demo_srv6 = Inr m" "rfc1123 (mp_tenant m) \<and> acl_given m"
    "mp_missing m = []" "mp_unsupported m = []"
    using demo_srv6_mapped by (auto split: sum.splits)
  have r: "map_request (map_lax demo_mapper) (plain_text t) = Inr m" by (simp only: assms L m(1))
  from ainvoke_valid(2) [OF r demo_id m(2)] m(3,4) show ?thesis by (auto simp: complete_interp)
qed

theorem srv6_requests_stay_srv6_witness:
  "\<exists>ps i. ainvoke demo_mapper demo_srv6 = Inr (ps, i) \<and> srv6_service_spec demo_srv6 i"
proof -
  obtain ps i where a: "ainvoke demo_mapper demo_srv6 = Inr (ps, i)" "is_complete i"
    using demo_mapping_answer [OF demo_plain(1)] by blast
  with srv6_requests_stay_srv6 [OF a(1) demo_id] show ?thesis by (simp add: demo_plain)
qed

section \<open>Nothing is made up\<close>

lemma tenant_given: "snd (tenant_or_missing x) = [] \<Longrightarrow> x = Some (fst (tenant_or_missing x))"
  by (auto simp: tenant_or_missing_def split: option.splits if_splits)

text \<open>
  C37. A complete answer is read off the request: its tenant is the one the text names, its
  endpoints are the ones parsed from it (one token each for node and port, as many as the construct
  needs), and unless the request names SRv6 its construct is the one detected in the text. Nothing
  of it is a default or a placeholder.
\<close>

theorem complete_answers_are_grounded:
  assumes "ainvoke M t = Inr (ps, i)" "good_id (gen_id M)" "is_complete i"
  shows "detect_tenant (plain_text t) = Some (i_tenant i)
    \<and> (\<exists>eps. parse_endpoints (map_lax M) (plain_text t) = Inr eps \<and> map bare (i_endpoints i) = map bare eps)
    \<and> list_all ep_parsed (i_endpoints i) \<and> minimum_endpoints (service_type i) \<le> length (i_endpoints i)
    \<and> (detect_srv6 (plain_text t) \<or> detect_service_type (plain_text t) = Some (service_type i))"
proof -
  let ?low = "plain_text t"
  obtain m where m: "map_request (map_lax M) ?low = Inr m" and i: "i = interp_of M ?low m"
    by (rule ainvokeD [OF assms(1,2)])
  have c: "mp_missing m = []" "mp_unsupported m = []" using assms(3) by (auto simp: i complete_interp)
  have eps: "list_all ep_parsed (mp_endpoints m)" using map_request_ok [OF m] by (simp add: mapped_ok_def)
  note tn = map_request_tenant(1) [OF m]
  show ?thesis
  proof (cases "detect_srv6 ?low")
    case True
    obtain st es where s: "parse_endpoints (map_lax M) ?low = Inr es" "snd (tenant_or_missing (detect_tenant ?low)) = []"
      "2 \<le> length es" "map bare (mp_endpoints m) = map bare es" "mp_type m = st"
      by (rule srv6_complete_cases [OF m True c])
    have "length (mp_endpoints m) = length es" using arg_cong [OF s(4), of length] by simp
    then have "minimum_endpoints (mp_type m) \<le> length (mp_endpoints m)"
      using s(3) by (simp add: minimum_endpoints_def)
    with True s eps tenant_given [OF s(2)] tn show ?thesis by (simp add: i interp_of_def)
  next
    case False
    obtain es st r te where p: "parse_endpoints (map_lax M) ?low = Inr es" "construct_or_refused ?low = (st, r)"
      "m = (plain_service ?low st (te @ r) es)\<lparr>mp_unsupported :=
         detect_unsupported ?low @ mp_unsupported (plain_service ?low st (te @ r) es)\<rparr>"
      by (rule map_request_plain [OF m False])
    have q: "snd (tenant_or_missing (detect_tenant ?low)) = []" "minimum_endpoints st \<le> length es" "r = []"
      using c by (auto simp: p(3) plain_service_fields split: if_splits)
    have "detect_service_type ?low = Some st"
      using p(2) q(3) by (auto simp: construct_or_refused_def split: option.splits)
    moreover have "mp_type m = st" "mp_endpoints m = es" using q(2) by (simp_all add: p(3) plain_service_fields)
    ultimately show ?thesis
      using eps tenant_given [OF q(1)] tn q(2) p(1) by (simp add: i interp_of_def)
  qed
qed

theorem complete_answers_are_grounded_witness:
  "\<exists>ps i. ainvoke demo_mapper demo_srv6 = Inr (ps, i) \<and> detect_tenant demo_srv6 = Some (i_tenant i)"
proof -
  obtain ps i where a: "ainvoke demo_mapper demo_srv6 = Inr (ps, i)" "is_complete i"
    using demo_mapping_answer [OF demo_plain(1)] by blast
  with complete_answers_are_grounded [OF a(1) demo_id a(2)] show ?thesis by (simp add: demo_plain)
qed

section \<open>The supervisor reads the answer\<close>








section \<open>Readings the tables do not intend\<close>

text \<open>
  The bandwidth keywords of the catalogue are single letters, so the number of a vlan before a word
  that begins with one of them is read as a bandwidth; the pattern of the \<open>mac-vrf\<close> construct has no
  word boundary before \<open>evpn\<close>, so the unsupported type PBB-EVPN is mapped to a \<open>mac-vrf\<close> before it
  is looked for; and a vlan outside the range of the schema is an exception of the endpoint.
\<close>

lemma bandwidth_read_from_vlan: "bandwidth_hint catalogue_bw_hints ''vlan 130 members'' = Some ''130m''"
  by code_simp

lemma pbb_evpn_is_mac_vrf:
  "detect_unsupported_service_type ''pbb-evpn'' = Some ''PBB-EVPN''"
  "construct_or_refused ''pbb-evpn'' = (MAC_VRF, [])"
  by code_simp+

lemma vlan_out_of_range_raises: "is_err (parse_endpoints demo_lax ''vlan 5000 on leaf01 eth1'')"
  by code_simp

end
