(* ===== verification/Worker_Server.thy ===== *)
theory Worker_Server
  imports Http_Api
begin

text \<open>
  The registration of a worker with the message gateway and its readiness,
  src/agents/provisioning/allocator/server.py (the servers of the mapper and the deployer are the same
  but for their names), and the supervisor's readiness over the workers. What starting the session of
  the transport library gives is a parameter.
\<close>

section \<open>The registration\<close>

record server_state =
  registration_ok :: bool
  registration_status :: string

definition server_start :: server_state where
  "server_start = \<lparr>registration_ok = False, registration_status = ''starting''\<rparr>"

definition AUTH_FAILURE_MARKERS :: "string list" where
  "AUTH_FAILURE_MARKERS = [''unauthenticated'', ''unauthorized'', ''auth'', ''401'', ''403'', ''permission denied'',
     ''certificate'', ''tls'', ''password'']"

definition classify_transport_error :: "string \<Rightarrow> string" where
  "classify_transport_error exc =
     (if list_ex (\<lambda>marker. contains marker (lower exc)) AUTH_FAILURE_MARKERS then ''auth'' else ''error'')"

text \<open>
  The session starts, or the library raises \<open>AuthError\<close> or another exception, the latter with
  whether the session had been created.
\<close>

datatype session_start = Started | Refused_credentials string | Start_failed string bool

datatype server_error = Transport_not_slim | Auth_error string | Transport_error string

datatype server_step = Stop_all_sessions

definition server_require_slim :: "string \<Rightarrow> server_error + unit" where
  "server_require_slim tp = (if tp \<noteq> ''SLIM'' then Inl Transport_not_slim else Inr ())"

definition run_transport :: "string \<Rightarrow> string \<Rightarrow> session_start \<Rightarrow> server_state \<Rightarrow>
    (server_error + unit) \<times> server_step list \<times> server_state" where
  "run_transport tp worker start s =
     (case server_require_slim tp of
        Inl e \<Rightarrow> (Inl e, [], s)
      | Inr _ \<Rightarrow>
          (case start of
             Started \<Rightarrow> (Inr (), [], s\<lparr>registration_ok := True, registration_status := ''registered''\<rparr>)
           | Refused_credentials x \<Rightarrow> (Inl (Auth_error x), [], s\<lparr>registration_status := ''auth''\<rparr>)
           | Start_failed x created \<Rightarrow>
               (let kind = classify_transport_error x in
                (Inl (if kind = ''auth'' then Auth_error (''SLIM gateway rejected '' @ worker @ '': '' @ x) else Transport_error x),
                 if created then [Stop_all_sessions] else [],
                 s\<lparr>registration_status := kind\<rparr>))))"

section \<open>The probe\<close>

definition probe_detail :: "string \<Rightarrow> string" where
  "probe_detail st =
     (case map_of
        [(''auth'', ''transport authentication failed (T149): the gateway refused this worker'' @ squote @ ''s credentials''),
         (''timeout'', ''timeout registering with the SLIM gateway''),
         (''error'', ''transport registration failed''),
         (''starting'', ''transport registration has not completed yet'')] st of
        Some d \<Rightarrow> d | None \<Rightarrow> ''transport registration failed'')"

definition liveness_probe :: "string \<Rightarrow> string \<Rightarrow> string \<Rightarrow> server_state \<Rightarrow> int \<times> dict" where
  "liveness_probe worker tp endpoint s =
     (if registration_ok s then
        (200, [(''status'', JStr ''alive''), (''worker'', JStr worker), (''registration'', JStr (registration_status s)),
               (''transport'', JStr tp), (''endpoint'', JStr endpoint)])
      else
        (503, [(''status'', JStr (registration_status s)), (''worker'', JStr worker),
               (''error'', JStr (probe_detail (registration_status s)))]))"

section \<open>The states of a server\<close>

text \<open>A server runs its transport once, after its start.\<close>

inductive server_reaches :: "string \<Rightarrow> string \<Rightarrow> server_state \<Rightarrow> bool" for tp worker where
  starting: "server_reaches tp worker server_start"
| transport_run: "run_transport tp worker start server_start = (r, steps, s) \<Longrightarrow> server_reaches tp worker s"

lemma server_reaches_run: "server_reaches tp worker (snd (snd (run_transport tp worker start server_start)))"
proof -
  obtain r steps s where r: "run_transport tp worker start server_start = (r, steps, s)" by (rule prod_cases3)
  from server_reaches.transport_run [OF r] show ?thesis by (simp add: r)
qed

lemma run_transport_cases:
  "run_transport tp worker start server_start = (r, steps, s) \<Longrightarrow>
     s = server_start \<or> tp = ''SLIM'' \<and> (r = Inr () \<and> registration_ok s \<and> registration_status s = ''registered''
       \<or> (\<exists>e. r = Inl e) \<and> \<not> registration_ok s \<and> registration_status s \<in> {''auth'', ''error''})"
  by (auto simp: run_transport_def server_require_slim_def server_start_def Let_def classify_transport_error_def
      split: sum.splits session_start.splits if_splits)

text \<open>The status is never a timeout, although the probe has a text for one.\<close>

lemma server_status:
  "server_reaches tp worker s \<Longrightarrow>
     registration_status s \<in> {''starting'', ''registered'', ''auth'', ''error''}
     \<and> (registration_ok s \<longleftrightarrow> registration_status s = ''registered'') \<and> (registration_ok s \<longrightarrow> tp = ''SLIM'')"
proof (induction rule: server_reaches.induct)
  case (transport_run start r steps s)
  from run_transport_cases [OF this] show ?case by (auto simp: server_start_def)
qed (simp add: server_start_def)

text \<open>A gateway that cannot be reached is an authentication failure when its address or its text says tls.\<close>

lemma timeout_read_as_auth: "classify_transport_error ''TLS handshake timeout'' = ''auth''"
  by code_simp

section \<open>The readiness of the tier\<close>

text \<open>What the supervisor's request to the probe of a worker gives: nothing when it is not reachable.\<close>

definition probe_answers :: "(string \<Rightarrow> (string \<times> server_state) option) \<Rightarrow> string \<Rightarrow> string \<Rightarrow> string \<Rightarrow> int option" where
  "probe_answers at_url tp endpoint url =
     (case at_url url of None \<Rightarrow> None | Some (worker, s) \<Rightarrow> Some (fst (liveness_probe worker tp endpoint s)))"

lemma dget_reported:
  "distinct (map fst xs) \<Longrightarrow> (w, e) \<in> set xs \<Longrightarrow>
     dget (map (\<lambda>(w, v). (w, JStr v)) (map (\<lambda>(w, e). (w, f e)) xs)) w = JStr (f e)"
proof (induction xs)
  case (Cons x xs)
  obtain u g where x: "x = (u, g)" by fastforce
  have "w = u \<Longrightarrow> e = g" using Cons.prems by (force simp: x)
  with Cons show ?case by (auto simp: dget_def x)
qed simp

definition registered_at :: "(string \<Rightarrow> (string \<times> server_state) option) \<Rightarrow> string \<Rightarrow> bool" where
  "registered_at at_url url \<longleftrightarrow> (\<exists>worker s. at_url url = Some (worker, s) \<and> registration_status s = ''registered'')"

text \<open>
  C39. The tier is ready exactly when every worker is registered. The supervisor's readiness answers
  200 if at the probe of each configured worker there is a server that has registered over SLIM, and
  503 otherwise, and the body says ok of exactly the registered ones.
\<close>

theorem ready_means_all_registered:
  assumes "distinct (map fst workers)"
    "\<forall>url worker s. at_url url = Some (worker, s) \<longrightarrow> server_reaches tp worker s"
    "connectivity_health tp endpoint workers (probe_answers at_url tp endpoint) = (st, body)"
  shows "(st = 200 \<longleftrightarrow> (\<forall>(w, e) \<in> set workers. registered_at at_url (e @ ''/v1/health'') \<and> tp = ''SLIM''))
     \<and> st \<in> {200, 503}
     \<and> (\<forall>(w, e) \<in> set workers. \<exists>d. dget body ''workers'' = JObj d
          \<and> (dget d w = JStr ''ok'' \<longleftrightarrow> registered_at at_url (e @ ''/v1/health'')))"
proof -
  let ?p = "\<lambda>e. probe_text (probe_answers at_url tp endpoint (e @ ''/v1/health''))"
  have st: "registration_ok s \<longleftrightarrow> registration_status s = ''registered''" "registration_ok s \<Longrightarrow> tp = ''SLIM''"
    if "at_url url = Some (worker, s)" for url worker s
    using server_status [of tp worker s] assms(2) that by blast+
  have ok: "?p e = ''ok'' \<longleftrightarrow> registered_at at_url (e @ ''/v1/health'')"
    and slim: "registered_at at_url url \<Longrightarrow> tp = ''SLIM''" for e url
    using st
    by (auto simp: registered_at_def probe_answers_def liveness_probe_def probe_text_def split: option.splits)
  have "list_all (\<lambda>(w, v). v = ''ok'') (map (\<lambda>(w, e). (w, ?p e)) workers)
      \<longleftrightarrow> (\<forall>(w, e) \<in> set workers. registered_at at_url (e @ ''/v1/health'') \<and> tp = ''SLIM'')"
    using ok slim by (fastforce simp: list_all_iff)
  moreover have "dget body ''workers'' = JObj (map (\<lambda>(w, v). (w, JStr v)) (map (\<lambda>(w, e). (w, ?p e)) workers))"
    using assms(3) by (auto simp: connectivity_health_def Let_def dget_def)
  ultimately show ?thesis
    using assms(3) dget_reported [OF assms(1), of _ _ ?p] ok
    by (auto simp: connectivity_health_def Let_def split: if_splits)
qed

definition demo_workers :: "(string \<times> string) list" where
  "demo_workers = [(''mapper'', ''a''), (''deployer'', ''b'')]"

definition demo_servers :: "string \<Rightarrow> (string \<times> server_state) option" where
  "demo_servers url =
     (if url = ''a/v1/health'' then Some (''mapper'', snd (snd (run_transport ''SLIM'' ''mapper'' Started server_start)))
      else if url = ''b/v1/health'' then Some (''deployer'', snd (snd (run_transport ''SLIM'' ''deployer'' (Start_failed ''401'' True) server_start)))
      else None)"

theorem ready_means_all_registered_witness:
  "\<exists>body. connectivity_health ''SLIM'' ''e'' demo_workers (probe_answers demo_servers ''SLIM'' ''e'') = (503, body)"
proof -
  have d: "distinct (map fst demo_workers)" by (simp add: demo_workers_def)
  have r: "\<forall>url worker s. demo_servers url = Some (worker, s) \<longrightarrow> server_reaches ''SLIM'' worker s"
    by (auto simp: demo_servers_def server_reaches_run split: if_splits)
  have "classify_transport_error ''401'' = ''auth''" by code_simp
  then have n: "\<not> registered_at demo_servers ''b/v1/health''"
    by (simp add: registered_at_def demo_servers_def run_transport_def server_require_slim_def Let_def)
  obtain st body where h: "connectivity_health ''SLIM'' ''e'' demo_workers (probe_answers demo_servers ''SLIM'' ''e'') = (st, body)"
    by fastforce
  from ready_means_all_registered [OF d r h] n have "st = 503" by (auto simp: demo_workers_def)
  with h show ?thesis by blast
qed

end
