(* ===== verification/Model_Provider.thy ===== *)
theory Model_Provider
  imports Json
begin

text \<open>
  The model provider behind the \<open>oauth2/\<close> prefix, src/agents/common/litellm_oauth2_openai_provider.py:
  the cached client-credentials token, the request, and the two readers of a streamed answer, the
  synchronous one over lines and the asynchronous one over chunks of text. The HTTP calls are
  parameters over a state; a streamed body is the lines or the decoded chunks the HTTP library gives.
  Times are milliseconds.
\<close>

section \<open>The token\<close>

record token_cache =
  cached_token :: json
  token_expiry :: int

type_synonym 's fetch = "'s \<Rightarrow> (string + json) \<times> 's"

text \<open>\<open>int(token_data.get("expires_in", 3300))\<close>; no value where it raises.\<close>

definition expires_in :: "dict \<Rightarrow> int option" where
  "expires_in d =
     (case map_of d ''expires_in'' of
        None \<Rightarrow> Some 3300
      | Some (JInt i) \<Rightarrow> Some i
      | Some (JBool b) \<Rightarrow> Some (of_bool b)
      | Some (JStr t) \<Rightarrow> py_int t
      | Some _ \<Rightarrow> None)"

definition token_of :: "int \<Rightarrow> json \<Rightarrow> string + json \<times> token_cache" where
  "token_of now j =
     (case j of
        JObj d \<Rightarrow>
          (case map_of d ''access_token'' of
             None \<Rightarrow> Inl ''KeyError''
           | Some t \<Rightarrow>
               (case expires_in d of
                  None \<Rightarrow> Inl ''ValueError''
                | Some x \<Rightarrow> Inr (t, \<lparr>cached_token = t, token_expiry = now + 1000 * max 30 (x - 30)\<rparr>)))
      | _ \<Rightarrow> Inl ''TypeError'')"

definition get_token :: "int \<Rightarrow> 's fetch \<Rightarrow> token_cache \<Rightarrow> 's \<Rightarrow> (string + json) \<times> token_cache \<times> 's" where
  "get_token now fetch c s =
     (if truthy (cached_token c) \<and> now < token_expiry c then (Inr (cached_token c), c, s)
      else
        (case fetch s of
           (Inl e, s1) \<Rightarrow> (Inl e, c, s1)
         | (Inr j, s1) \<Rightarrow>
             (case token_of now j of
                Inl e \<Rightarrow> (Inl e, c, s1)
              | Inr (t, c1) \<Rightarrow> (Inr t, c1, s1))))"

section \<open>The request\<close>

text \<open>The application key is an attribute only when the constructor is given one.\<close>

definition provider_appkey :: "string option \<Rightarrow> string option" where
  "provider_appkey appkey = (case appkey of Some k \<Rightarrow> if k \<noteq> [] then Some k else None | None \<Rightarrow> None)"

definition payload_value :: "string \<Rightarrow> json \<Rightarrow> json" where
  "payload_value k v = (if k = ''tool_choice'' \<and> v = JStr ''any'' then JStr ''auto'' else v)"

definition request_payload :: "bool \<Rightarrow> string option \<Rightarrow> json \<Rightarrow> bool \<Rightarrow> dict \<Rightarrow> string + dict" where
  "request_payload drop_null attr msgs streamed kwargs =
     (case attr of
        None \<Rightarrow> Inl ''AttributeError''
      | Some k \<Rightarrow>
          Inr (fold (\<lambda>(key, v) d. if drop_null \<and> payload_value key v = JNull then d else dset key (payload_value key v) d)
                 kwargs
                 [(''messages'', msgs), (''stream'', JBool streamed),
                  (''user'', JStr (dumps (JObj [(''appkey'', JStr k)])))]))"

record model_response =
  mr_model :: string
  mr_created :: json
  mr_id :: json
  mr_choices :: json
  mr_usage :: json

definition response_of :: "string \<Rightarrow> dict \<Rightarrow> model_response" where
  "response_of m d =
     \<lparr>mr_model = m, mr_created = dget d ''created'', mr_id = dget d ''id'',
      mr_choices = (case map_of d ''choices'' of Some v \<Rightarrow> v | None \<Rightarrow> JArr []),
      mr_usage = (case map_of d ''usage'' of Some v \<Rightarrow> v | None \<Rightarrow> JObj [])\<rparr>"

text \<open>An answer in one piece; \<open>post\<close> is given the token and the payload.\<close>

definition complete_with :: "bool \<Rightarrow> int \<Rightarrow> 's fetch \<Rightarrow> (json \<Rightarrow> dict \<Rightarrow> 's fetch) \<Rightarrow> string option \<Rightarrow> string \<Rightarrow>
    json \<Rightarrow> dict \<Rightarrow> token_cache \<Rightarrow> 's \<Rightarrow> (string + model_response) \<times> token_cache \<times> 's" where
  "complete_with drop_null now fetch post attr m msgs kwargs c s =
     (case get_token now fetch c s of
        (Inl e, c1, s1) \<Rightarrow> (Inl e, c1, s1)
      | (Inr tok, c1, s1) \<Rightarrow>
          (case request_payload drop_null attr msgs False kwargs of
             Inl e \<Rightarrow> (Inl e, c1, s1)
           | Inr p \<Rightarrow>
               (case post tok p s1 of
                  (Inl e, s2) \<Rightarrow> (Inl e, c1, s2)
                | (Inr (JObj d), s2) \<Rightarrow> (Inr (response_of m d), c1, s2)
                | (Inr _, s2) \<Rightarrow> (Inl ''AttributeError'', c1, s2))))"

definition completion where "completion = complete_with False"

definition acompletion where "acompletion = complete_with True"

section \<open>Streamed answers\<close>

definition NO_GENERATIONS :: string where
  "NO_GENERATIONS = ''No generations found in stream (only metadata/usage, no text).''"

definition stream_end :: "bool \<Rightarrow> string + unit" where
  "stream_end yielded_text = (if yielded_text then Inr () else Inl NO_GENERATIONS)"

text \<open>\<open>(first.get(k) or {}).get("content")\<close>.\<close>

definition content_of :: "dict \<Rightarrow> string \<Rightarrow> string + json" where
  "content_of d k =
     (if truthy (dget d k) then (case dget d k of JObj e \<Rightarrow> Inr (dget e ''content'') | _ \<Rightarrow> Inl ''AttributeError'')
      else Inr JNull)"

text \<open>What the data of a line is: passed over, an exception, or a response with whether it has text.\<close>

datatype event_read = Passed | Failed_read string | Generated model_response bool

definition read_choice :: "string \<Rightarrow> dict \<Rightarrow> dict \<Rightarrow> event_read" where
  "read_choice m e f =
     (case (content_of f ''delta'', content_of f ''message'') of
        (Inl x, _) \<Rightarrow> Failed_read x
      | (Inr _, Inl x) \<Rightarrow> Failed_read x
      | (Inr delta, Inr msg) \<Rightarrow> Generated (response_of m e) (truthy delta \<or> truthy msg))"

definition read_event :: "string \<Rightarrow> string \<Rightarrow> event_read" where
  "read_event m data_str =
     (case loads data_str of
        None \<Rightarrow> Passed
      | Some (JObj e) \<Rightarrow>
          (if \<not> truthy (dget e ''choices'') then Passed
           else (case dget e ''choices'' of
                   JArr (JObj f # fs) \<Rightarrow> read_choice m e f
                 | JArr fs \<Rightarrow> Failed_read ''AttributeError''
                 | JStr t \<Rightarrow> Failed_read ''AttributeError''
                 | JObj d \<Rightarrow> Failed_read ''KeyError''
                 | _ \<Rightarrow> Failed_read ''TypeError''))
      | Some _ \<Rightarrow> Failed_read ''AttributeError'')"

definition skipped :: "string \<Rightarrow> bool" where
  "skipped l \<longleftrightarrow> l = [] \<or> starts_with '':'' l"

text \<open>The synchronous reader, over the lines of the body; \<open>yielded_text\<close> is set by every line that is not skipped.\<close>

fun stream_lines :: "string \<Rightarrow> string list \<Rightarrow> bool \<Rightarrow> model_response list \<times> (string + unit)" where
  "stream_lines m [] yielded_text = ([], stream_end yielded_text)"
| "stream_lines m (l # ls) yielded_text =
     (if skipped l then stream_lines m ls yielded_text
      else
        (let data_str = (if starts_with ''data:'' l then strip (drop (length ''data:'') l) else strip l) in
         if data_str = ''[DONE]'' then ([], stream_end True)
         else (case read_event m data_str of
                 Passed \<Rightarrow> stream_lines m ls True
               | Failed_read x \<Rightarrow> ([], Inl x)
               | Generated r t \<Rightarrow> (case stream_lines m ls True of (rs, f) \<Rightarrow> (r # rs, f)))))"

text \<open>The asynchronous reader: the complete lines of the buffer, then the rest of the buffer with the next chunk.\<close>

datatype line_flow = More bool | Over "string + unit"

fun astream_lines :: "string \<Rightarrow> string list \<Rightarrow> bool \<Rightarrow> model_response list \<times> line_flow" where
  "astream_lines m [] yielded_text = ([], More yielded_text)"
| "astream_lines m (l0 # ls) yielded_text =
     (let l = strip l0 in
      if skipped l then astream_lines m ls yielded_text
      else
        (let data_str = (if starts_with ''data:'' l then strip (drop (length ''data:'') l) else l) in
         if data_str = ''[DONE]'' then ([], Over (stream_end yielded_text))
         else (case read_event m data_str of
                 Passed \<Rightarrow> astream_lines m ls yielded_text
               | Failed_read x \<Rightarrow> ([], Over (Inl x))
               | Generated r t \<Rightarrow> (case astream_lines m ls (yielded_text \<or> t) of (rs, f) \<Rightarrow> (r # rs, f)))))"

definition newline :: char where "newline = CHR 0x0A"

fun astream :: "string \<Rightarrow> string list \<Rightarrow> string \<Rightarrow> bool \<Rightarrow> model_response list \<times> (string + unit)" where
  "astream m [] buffer yielded_text = ([], stream_end yielded_text)"
| "astream m (c # cs) buffer yielded_text =
     (let parts = split_on newline (buffer @ c) in
      case astream_lines m (butlast parts) yielded_text of
        (rs, Over r) \<Rightarrow> (rs, r)
      | (rs, More y) \<Rightarrow> (case astream m cs (last parts) y of (rs', r) \<Rightarrow> (rs @ rs', r)))"

section \<open>Facts\<close>

text \<open>Lines read in two goes.\<close>

lemma astream_lines_append:
  "astream_lines m (xs @ ys) y =
     (case astream_lines m xs y of
        (rs, Over r) \<Rightarrow> (rs, Over r)
      | (rs, More y1) \<Rightarrow> (case astream_lines m ys y1 of (rs', f) \<Rightarrow> (rs @ rs', f)))"
proof (induction xs arbitrary: y)
  case (Cons x xs)
  then show ?case
    by (auto simp: Let_def split: event_read.split prod.split line_flow.split)
qed (simp split: prod.split)

text \<open>What is left after the last newline has none.\<close>

lemma split_on_resume:
  "split_on d (s @ t) = butlast (split_on d s) @ split_on d (last (split_on d s) @ t)"
proof (induction s)
  case (Cons c s)
  show ?case
  proof (cases "c = d")
    case True
    with Cons show ?thesis by simp
  next
    case False
    obtain w ws where w: "split_on d s = w # ws" by (cases "split_on d s") auto
    from Cons w False show ?thesis by (cases ws) (auto split: list.split)
  qed
qed simp

definition settled :: "model_response list \<times> line_flow \<Rightarrow> model_response list \<times> (string + unit)" where
  "settled p = (fst p, case snd p of More y \<Rightarrow> stream_end y | Over r \<Rightarrow> r)"

text \<open>However the body is cut into chunks, the reader sees its complete lines.\<close>

lemma astream_whole:
  "newline \<notin> set buffer \<Longrightarrow>
     astream m cs buffer y = settled (astream_lines m (butlast (split_on newline (buffer @ concat cs))) y)"
proof (induction cs arbitrary: buffer y)
  case Nil
  then have "\<And>d. d \<notin> set buffer \<Longrightarrow> split_on d buffer = [buffer]"
    by (induction buffer) auto
  with Nil show ?case by (simp add: settled_def)
next
  case (Cons c cs)
  let ?p = "split_on newline (buffer @ c)"
  have "last ?p \<in> set ?p" by simp
  then have n: "newline \<notin> set (last ?p)" by (rule split_on_no_sep)
  have b: "butlast (split_on newline (buffer @ c @ concat cs))
      = butlast ?p @ butlast (split_on newline (last ?p @ concat cs))"
    using split_on_resume [of newline "buffer @ c" "concat cs"] by (simp add: butlast_append)
  obtain rs f where f: "astream_lines m (butlast ?p) y = (rs, f)" by fastforce
  show ?case
    using Cons.IH [OF n]
    by (cases f) (simp_all add: b f astream_lines_append Let_def settled_def split: prod.split)
qed

lemma astream_lines_cuts: "concat cs = concat ds \<Longrightarrow> astream m cs [] y = astream m ds [] y"
  by (simp add: astream_whole)



text \<open>The synchronous reader takes any line for text.\<close>

lemma stream_without_text:
  "stream_lines m [''data: {}''] False = ([], Inr ())"
  "snd (astream m [''data: {}'' @ [newline]] [] False) = Inl NO_GENERATIONS"
proof -
  have "read_event m ''{}'' = Passed" by code_simp
  moreover have "strip (drop (length ''data:'') ''data: {}'') = ''{}''" "strip ''data: {}'' = ''data: {}''"
    "starts_with ''data:'' ''data: {}''" "\<not> skipped ''data: {}''"
    "butlast (split_on newline (''data: {}'' @ [newline])) = [''data: {}'']"
    "last (split_on newline (''data: {}'' @ [newline])) = []"
    by code_simp+
  ultimately show "stream_lines m [''data: {}''] False = ([], Inr ())"
    "snd (astream m [''data: {}'' @ [newline]] [] False) = Inl NO_GENERATIONS"
    by (simp_all add: stream_end_def Let_def)
qed

text \<open>Without an application key every request raises before it is sent.\<close>

lemma no_appkey_raises:
  "provider_appkey (Some []) = None" "request_payload drop_null None msgs streamed kwargs = Inl ''AttributeError''"
  by (simp_all add: provider_appkey_def request_payload_def)

text \<open>A cached token is used until half a minute before its end, or for half a minute.\<close>

definition granted :: "int \<Rightarrow> int \<Rightarrow> json \<Rightarrow> token_cache \<Rightarrow> bool" where
  "granted t0 x tok c \<longleftrightarrow> cached_token c = tok \<and> token_expiry c = t0 + 1000 * max 30 (x - 30)"

lemma get_token_granted:
  assumes "get_token now fetch c s = (Inr tok, c1, s1)" "truthy (cached_token c) \<longrightarrow> granted t0 x (cached_token c) c"
  shows "(tok = cached_token c \<and> now < t0 + 1000 * max 30 (x - 30)) \<or> (\<exists>x'. granted now x' tok c1)"
  using assms
  by (auto simp: get_token_def token_of_def granted_def split: if_splits prod.splits sum.splits json.splits option.splits)

section \<open>The two readers\<close>




end
