(* ===== verification/Model_Budget.thy ===== *)
theory Model_Budget
  imports Sup_State
begin

text \<open>
  The token budget of a conversation, src/agents/common/llm.py: the ledger of tokens by thread, the
  guard before a model call and the accounting after it. What the model answers, with the token
  counts its usage names, is a parameter; the tracing attributes and the metrics are left out.
\<close>

type_synonym ledger = "string \<Rightarrow> int option"

text \<open>A call of the model raises, or answers with the prompt and completion tokens its usage names.\<close>

datatype 'a model_answer = Model_raised string | Model_answered 'a int int

definition get_token_count :: "string option \<Rightarrow> ledger \<Rightarrow> int" where
  "get_token_count tid L =
     (case set_text tid of None \<Rightarrow> 0 | Some t \<Rightarrow> (case L t of Some n \<Rightarrow> n | None \<Rightarrow> 0))"

definition add_tokens :: "int \<Rightarrow> int \<Rightarrow> string option \<Rightarrow> ledger \<Rightarrow> ledger" where
  "add_tokens budget n tid L =
     (if budget \<le> 0 then L
      else (case set_text tid of None \<Rightarrow> L | Some t \<Rightarrow> L(t \<mapsto> get_token_count tid L + max 0 n)))"

definition reset_token_budget :: "string option \<Rightarrow> ledger \<Rightarrow> ledger" where
  "reset_token_budget tid L = (case set_text tid of None \<Rightarrow> L | Some t \<Rightarrow> L(t \<mapsto> 0))"

definition BUDGET_EXCEEDED :: string where
  "BUDGET_EXCEEDED = ''token-budget-exceeded: bounded exit''"

text \<open>The ledger after a refusal, or none.\<close>

definition maybe_refuse_on_budget :: "int \<Rightarrow> string option \<Rightarrow> ledger \<Rightarrow> ledger option" where
  "maybe_refuse_on_budget budget tid L =
     (if budget \<le> 0 then None
      else if budget < get_token_count tid L then Some (reset_token_budget tid L) else None)"

definition guarded_call :: "int \<Rightarrow> string option \<Rightarrow> 'a model_answer \<Rightarrow> ledger \<Rightarrow> (string + 'a) \<times> ledger" where
  "guarded_call budget tid ans L =
     (case maybe_refuse_on_budget budget tid L of
        Some L1 \<Rightarrow> (Inl BUDGET_EXCEEDED, L1)
      | None \<Rightarrow>
          (case ans of
             Model_raised x \<Rightarrow> (Inl x, L)
           | Model_answered r i out \<Rightarrow> (Inr r, add_tokens budget (i + out) tid L)))"

text \<open>The calls of a process, each on the thread set before it.\<close>

fun guarded_calls :: "int \<Rightarrow> (string option \<times> 'a model_answer) list \<Rightarrow> ledger \<Rightarrow> (string + 'a) list \<times> ledger" where
  "guarded_calls budget [] L = ([], L)"
| "guarded_calls budget ((tid, ans) # xs) L =
     (case guarded_call budget tid ans L of
        (r, L1) \<Rightarrow> (case guarded_calls budget xs L1 of (rs, L2) \<Rightarrow> (r # rs, L2)))"

section \<open>Facts\<close>

fun tokens_of :: "'a model_answer \<Rightarrow> int" where
  "tokens_of (Model_raised x) = 0"
| "tokens_of (Model_answered r i out) = max 0 (i + out)"

lemma count_upd [simp]:
  "get_token_count (Some t) (L(u \<mapsto> n)) = (if t = u \<and> t \<noteq> [] then n else get_token_count (Some t) L)"
  by (simp add: get_token_count_def set_text_def)

lemma set_text_SomeD: "set_text tid = Some t \<Longrightarrow> tid = Some t \<and> t \<noteq> []"
  by (cases tid) (auto simp: set_text_def split: if_splits)

lemma guarded_call_other:
  "guarded_call budget tid ans L = (r, L1) \<Longrightarrow> tid \<noteq> Some t \<Longrightarrow> get_token_count (Some t) L1 = get_token_count (Some t) L"
  by (auto simp: guarded_call_def maybe_refuse_on_budget_def reset_token_budget_def add_tokens_def
      dest!: set_text_SomeD split: if_splits option.splits model_answer.splits)

lemma guarded_call_own:
  assumes "guarded_call budget (Some t) ans L = (r, L1)" "0 < budget" "t \<noteq> []"
  shows "get_token_count (Some t) L1
    = (if budget < get_token_count (Some t) L then 0 else get_token_count (Some t) L + tokens_of ans)"
  using assms
  by (auto simp: guarded_call_def maybe_refuse_on_budget_def reset_token_budget_def add_tokens_def set_text_def
      split: if_splits model_answer.splits)

text \<open>The tokens of the calls on a thread, from a count on, begun again after each refusal.\<close>

fun spent :: "int \<Rightarrow> string \<Rightarrow> (string option \<times> 'a model_answer) list \<Rightarrow> int \<Rightarrow> int" where
  "spent budget t [] n = n"
| "spent budget t ((tid, ans) # xs) n =
     (if tid \<noteq> Some t then spent budget t xs n
      else if budget < n then spent budget t xs 0 else spent budget t xs (n + tokens_of ans))"

lemma guarded_calls_spent:
  "0 < budget \<Longrightarrow> t \<noteq> [] \<Longrightarrow> guarded_calls budget xs L = (rs, L1) \<Longrightarrow>
     get_token_count (Some t) L1 = spent budget t xs (get_token_count (Some t) L)"
proof (induction xs arbitrary: L rs)
  case (Cons x xs)
  obtain tid ans where x: "x = (tid, ans)" by fastforce
  obtain r L2 where c: "guarded_call budget tid ans L = (r, L2)" by fastforce
  with Cons.prems(3) obtain rs' where "guarded_calls budget xs L2 = (rs', L1)" by (auto simp: x split: prod.splits)
  from Cons.IH [OF Cons.prems(1,2) this] show ?case
    using guarded_call_other [OF c, of t] guarded_call_own [of budget t ans L r L2] c Cons.prems(1,2)
    by (cases "tid = Some t") (auto simp: x)
qed simp

lemma spent_bounded:
  assumes "\<forall>(tid, ans) \<in> set xs. tokens_of ans \<le> M" "n \<le> budget + M" "0 \<le> budget" "0 \<le> M"
  shows "spent budget t xs n \<le> budget + M"
  using assms
proof (induction xs arbitrary: n)
  case (Cons x xs)
  then show ?case by (cases x) auto
qed simp

section \<open>The budget\<close>

text \<open>
  The budget bounds a conversation and no other. Under a positive budget no call on another
  thread changes the count of a thread, and whatever the interleaving of the calls, the tokens
  counted for a thread since its last refusal exceed the budget by at most one call.
\<close>

theorem budget_bounds_thread:
  assumes "0 < budget" "t \<noteq> []" "0 \<le> M" "\<forall>(tid, ans) \<in> set xs. tokens_of ans \<le> M"
    "guarded_calls budget xs (\<lambda>_. None) = (rs, L)"
  shows "get_token_count (Some t) L \<le> budget + M
     \<and> get_token_count (Some t) L = get_token_count (Some t) (snd (guarded_calls budget (filter (\<lambda>(tid, ans). tid = Some t) xs) (\<lambda>_. None)))"
proof -
  let ?ys = "filter (\<lambda>(tid, ans). tid = Some t) xs"
  have "spent budget t ?ys n = spent budget t xs n" for n
    by (induction xs arbitrary: n) auto
  moreover have "get_token_count (Some t) L = spent budget t xs 0"
    using guarded_calls_spent [OF assms(1,2,5)] assms(2) by (simp add: get_token_count_def set_text_def)
  moreover have "get_token_count (Some t) (snd (guarded_calls budget ?ys (\<lambda>_. None))) = spent budget t ?ys 0"
    using guarded_calls_spent [OF assms(1,2), of ?ys "\<lambda>_. None"] assms(2)
    by (cases "guarded_calls budget ?ys (\<lambda>_. None)") (simp add: get_token_count_def set_text_def)
  ultimately show ?thesis using spent_bounded [OF assms(4), of 0 budget t] assms(1,3) by simp
qed

theorem budget_bounds_thread_witness:
  "get_token_count (Some ''a'') (snd (guarded_calls 10 [(Some ''a'', Model_answered () 4 3), (Some ''b'', Model_answered () 9 9),
     (Some ''a'', Model_answered () 5 1)] (\<lambda>_. None))) \<le> 28"
proof -
  let ?xs = "[(Some ''a'', Model_answered () 4 3), (Some ''b'', Model_answered () 9 9), (Some ''a'', Model_answered () 5 1)]"
  obtain rs L where g: "guarded_calls 10 ?xs (\<lambda>_. None) = (rs, L)" by fastforce
  have "\<forall>(tid, ans) \<in> set ?xs. tokens_of ans \<le> 18" by simp
  from budget_bounds_thread [OF _ _ _ this g, of "''a''"] g show ?thesis by simp
qed

text \<open>The refusal clears the count, so the call after it is made again.\<close>

lemma refused_once:
  assumes "0 < budget" "t \<noteq> []" "budget < get_token_count (Some t) L"
  shows "fst (guarded_calls budget [(Some t, ans), (Some t, Model_answered r i out)] L) = [Inl BUDGET_EXCEEDED, Inr r]"
  using assms
  by (simp add: guarded_call_def maybe_refuse_on_budget_def reset_token_budget_def set_text_def get_token_count_def)

end
