(* ===== verification/Spec2Isabelle.thy ===== *)
theory Spec2Isabelle
  imports Supervisor Service Contracts Transactions Deployer Allocation Mapping Worker_Server Model_Provider Model_Budget
begin

text \<open>
  Verification of the intent tier of agentic-netops, the agents under src/agents that turn an
  operator's sentence into Kubernetes objects.

  \<^bold>\<open>The program.\<close> A provisioning supervisor (supervisors/provisioning) keeps one state per
  conversation thread and runs it through a graph of nodes: it screens and classifies the request,
  asks the mapper for an interpretation, the allocator for a normalized intent, asks the operator
  to confirm each, and hands the approved intent to the deployer. The deployer
  (provisioning/deployer) runs the deployment transaction: it validates the request, translates it,
  stamps the manifests, checks access-list bindings, dry-runs the bundle, applies it in order,
  rolls it back by label when an apply fails, watches convergence and records the outcome; it also
  answers status and removal commands. The allocator (provisioning/allocator) builds the normalized
  intent of an interpretation from identifiers it claims of the cluster, as KUID claims or as
  Kubernetes leases, and remembers the intents it built. The mapper (provisioning/mapper) reads the
  interpretation off the request with tables of patterns. The supervisor is served over HTTP: a request
  gets the correlation id of its thread and a stream of chunks over the updates of the graph; its workers
  are called over a transport with retries; and the decisions of the tier are emitted as audit records,
  to a sink and as Kubernetes events. The schemas, the redaction and the safety patterns (common,
  graph.py) are shared by all of them.

  \<^bold>\<open>Theories and code.\<close>
  \<^item> Base, Regex, Net: Python strings, dicts and JSON values, the fragment of \<open>re\<close> the patterns
    use, \<open>json.loads\<close> and \<open>json.dumps\<close> with theory Json, and the \<open>ipaddress\<close> parsing the schemas rely on; Net_V6: the
    round trip of IPv6 networks through their compressed text.
  \<^item> Safety_Layer: the direct-device and unsupported-feature patterns, the construct counter, the
    operator commands and the confirmation vocabulary of graph.py.
  \<^item> Intent, Schema, Intent_Json: common/schemas/normalized_intent.py, its models, the ordered causes
    of \<open>validate_all_or_nothing\<close>, and validation and dump as JSON. Interp: common/schemas/interpretation.py.
  \<^item> Redaction: common/redaction.py. Capability: supervisors/provisioning/capability.py.
  \<^item> Worker: the reading of the workers' replies and the data fences (graph.py, prompts/system.py).
  \<^item> Sup_State, Sup_Nodes, Sup_Deploy, Sup_Graph: \<open>GraphState\<close> is the record \<open>gstate\<close>; each node of
    \<open>ProvisioningGraph\<close> is a function to an outcome and the events it causes (model calls, worker
    calls, audit records); \<open>turn\<close> is \<open>PromptRequest\<close> to END. Sup_Facts has the invariant of the
    confirmation points and the facts per node, Sup_Demo the concrete runs.
  \<^item> Manifest, Transaction, Watch, Deploy_Run, Kube: provisioning/deployer/submit.py and watch.py. The
    client protocol \<open>IntentAPI\<close> is the record \<open>intent_api\<close> over a state of any type; \<open>kube_api\<close> is
    \<open>KubernetesIntentClient\<close> over an HTTP transport.
  \<^item> Deploy_Facts, Kube_Store, Kube_Server, Deployment, Watch_Facts, Preflight: the contract of the
    client (locale \<open>intent_store\<close>), that the code's client meets it over any API server that keeps
    the laws of \<open>kube_server\<close> (a sublocale), a server with a script of faults that keeps them (an
    interpretation), and what the rollback, the apply, the watch and the pre-flight do.
  \<^item> Deployer_Tools, Deployer_Agent: provisioning/deployer/tools/deployer_tools.py and
    provisioning/deployer/agent.py; \<open>deployer_ainvoke\<close> is \<open>DeployerAgent.ainvoke\<close> over the transaction.
  \<^item> Kuid, Kuid_Lease: provisioning/allocator/kuid.py. An operation maps the state of the world to a
    result or an exception (\<open>eff\<close>); the world is the transport, the clock and fresh UUIDs. Kuid_Facts
    has the contracts of the clock (locale \<open>kuid_clock\<close>) and of a server of leases (locale
    \<open>lease_server\<close>), Kuid_World a server with faults that keeps both (interpretations).
  \<^item> Allocator, Allocator_Facts: provisioning/allocator/agent.py; \<open>allocator_ainvoke\<close> is
    \<open>AllocatorAgent.ainvoke\<close>, with the memo of the process as an argument and a result.
  \<^item> Mapper_Text, Mapper_Srv6, Mapper: provisioning/mapper/agent.py, from the pattern tables to
    \<open>map_node\<close> and \<open>ainvoke\<close>. Mapper_Facts and Mapper_Payload show when the payload validates and as
    what, Mapper_Wire that the fence of the supervisor is stripped and that the marker reads back.
  \<^item> Http_Api: supervisors/provisioning/main.py. \<open>stream_chunks\<close> is \<open>stream_generator\<close> over the list of
    updates the graph yields and the exception it may end in; \<open>request_of\<close> is the seed of a turn.
    Transport: supervisors/provisioning/graph/tools.py and the cards; \<open>send_text\<close> is \<open>_send\<close> over what each
    attempt gives. Credentials: the identities of the three HTTP clients. Audit_Log: common/audit.py and
    common/schemas/audit.py; \<open>emit_audit_event\<close> maps the state of the process, the sink and the world.
  \<^item> Worker_Server: provisioning/allocator/server.py, the registration of a worker and its probe. Model_Provider:
    common/litellm_oauth2_openai_provider.py, the token, the request and the two readers of a streamed
    answer. Model_Budget: the token budget by thread of common/llm.py.
  \<^item> Audit_Facts, Http_Facts, Dialogue: the effect of an emission and the correlation of a run; the steps
    of a run and the updates they yield (\<open>update_of\<close>), what the stream keeps of them, what the deployer
    is sent; the three turns of a conversation and a concrete one.
  \<^item> Json_Facts, Canonical: the JSON of a value reads back as the value with its keys sorted, and the
    schemas do not see the order of keys, so the canonical dump of an intent reads back as the intent.

  \<^bold>\<open>Properties.\<close> Supervisor (C1 to C8): nothing is submitted or removed without its confirmations,
  the thread stays consistent, every turn ends, the refusals. Service (C9 to C16): a confirmed
  conversation reaches the deployer, the allocation shown is the one submitted, one correlation id per
  thread, what the stream tells, the audit records and the names of their events, the bound of a worker
  call. Contracts (C17 to C19): the validator against the declarative contract, round trips of the
  schemas. Transactions (C20 to C27): what a deployment leaves on the cluster on each outcome, the owned
  bundle, the pre-flight, termination, the watch and the audit trail. Deployer (C28 and C29): what it
  reports was done, the supervisor reads it. Allocation (C30 to C34): the claim profile, exclusive
  values, releases, termination and an answer the supervisor accepts. Mapping (C35 to C38): when the
  mapper answers, SRv6 requests, complete answers, and that the supervisor acts on exactly the
  interpretation the mapper made. C39: the readiness of the tier is the registration of its workers;
  C40: the two readers of a streamed answer agree.
  Further theorems without a number stand beside them: the SRv6 gate, exhausted threads, canonical
  prefixes, redaction, the capability, the status verdict, client prefixes and gateways, the memo, the
  token budget, and the behaviours that differ from the documentation.

  \<^bold>\<open>Bounds.\<close> The graph runs on the recursion limit of the code as fuel; C4 shows it is never reached. The watch
  runs on fuel \<open>ws_fuel\<close>; C25 shows that \<open>enough_fuel\<close>, a round per 50 ms of the timeout plus two,
  is enough. The wait for a claim runs on \<open>wait_fuel\<close>, 42 rounds of half a second for its twenty seconds;
  C33 shows that it is enough. Time is whole milliseconds.

  \<^bold>\<open>Parameters.\<close> The language model, one attempt of a worker call, the updates LangGraph
  yields (any that merge to the states of the run), the HTTP transport, the environment and the mounted files, the clock, SHA-256, the
  Go translator, the mapper's identifier generator, pydantic's lax coercion of scalars and the texts of its errors, and the error text
  of the JSON parser are arguments of the definitions that use them.

  \<^bold>\<open>Not modelled.\<close> Logging, metrics and tracing, the HTTP and A2A wiring of the workers
  (calls of the a2a and starlette libraries), the wrapping of the LLM client, the checkpointer (a thread's state is what the last turn left), and the test and
  evaluation code of the repository.
\<close>

end
